(* ===== verification/Prelude.thy ===== *)
theory Prelude
  imports Main "HOL-Library.AList"
begin

text \<open>
  Shared vocabulary of the development: Python strings and the few library calls the program makes
  on them, dictionaries in insertion order, the part of the \<^verbatim>\<open>re\<close> module the program uses, and
  the combinators for code that reads and writes a state and may raise.

  A Python \<^verbatim>\<open>str\<close> is represented by its UTF-8 encoding, a list of byte-sized characters.  Then
  \<^verbatim>\<open>s.encode()\<close> is the identity, \<^verbatim>\<open>len(s)\<close> counts the bytes that are not continuation
  bytes, and a character outside ASCII that the source writes in a message is its byte sequence.
  \<^verbatim>\<open>str.lower\<close> and \<^verbatim>\<open>str.strip\<close> are modelled on ASCII, which is all the program's own
  vocabulary uses.
\<close>

section \<open>Strings\<close>

abbreviation newline :: string where
  "newline \<equiv> [CHR 0x0A]"

definition em_dash :: string where
  "em_dash = [CHR 0xE2, CHR 0x80, CHR 0x94]"

definition replacement_char :: string where
  "replacement_char = [CHR 0xEF, CHR 0xBF, CHR 0xBD]"

abbreviation byte :: "char \<Rightarrow> nat" where
  "byte c \<equiv> of_char c"

definition lower_char :: "char \<Rightarrow> char" where
  "lower_char c = (if 65 \<le> byte c \<and> byte c \<le> 90 then char_of (byte c + 32) else c)"

definition lower :: "string \<Rightarrow> string" where
  "lower s = map lower_char s"

definition is_space :: "char \<Rightarrow> bool" where
  "is_space c \<longleftrightarrow> (9 \<le> byte c \<and> byte c \<le> 13) \<or> (28 \<le> byte c \<and> byte c \<le> 32)"

definition lstrip :: "string \<Rightarrow> string" where
  "lstrip s = dropWhile is_space s"

definition strip :: "string \<Rightarrow> string" where
  "strip s = rev (lstrip (rev (lstrip s)))"

definition starts_with :: "string \<Rightarrow> string \<Rightarrow> bool" where
  "starts_with p s \<longleftrightarrow> take (length p) s = p"

fun str_in :: "string \<Rightarrow> string \<Rightarrow> bool" where
  "str_in n [] = (n = [])"
| "str_in n (c # s) = (starts_with n (c # s) \<or> str_in n s)"

fun join :: "string \<Rightarrow> string list \<Rightarrow> string" where
  "join sep [] = []"
| "join sep [x] = x"
| "join sep (x # y # zs) = x @ sep @ join sep (y # zs)"

fun split_ws_aux :: "string \<Rightarrow> string \<Rightarrow> string list" where
  "split_ws_aux acc [] = (if acc = [] then [] else [rev acc])"
| "split_ws_aux acc (c # s) =
     (if is_space c then (if acc = [] then split_ws_aux [] s else rev acc # split_ws_aux [] s)
      else split_ws_aux (c # acc) s)"

definition split_ws :: "string \<Rightarrow> string list" where
  "split_ws s = split_ws_aux [] s"

fun show_nat :: "nat \<Rightarrow> string" where
  "show_nat n = (if n < 10 then [char_of (48 + n)]
                 else show_nat (n div 10) @ [char_of (48 + n mod 10)])"

declare show_nat.simps [simp del]

definition show_int :: "int \<Rightarrow> string" where
  "show_int i = (if i < 0 then ''-'' @ show_nat (nat (- i)) else show_nat (nat i))"

definition hex_digit :: "nat \<Rightarrow> char" where
  "hex_digit d = (if d < 10 then char_of (48 + d) else char_of (87 + d))"

definition quoted :: "string \<Rightarrow> string" where
  "quoted s = [CHR 0x27] @ s @ [CHR 0x27]"

text \<open>\<^verbatim>\<open>repr(s)\<close>, and of a list of strings.\<close>

definition repr_char :: "char \<Rightarrow> char \<Rightarrow> string" where
  "repr_char q c =
     (if c = q \<or> c = CHR 0x5C then [CHR 0x5C, c]
      else if byte c = 10 then [CHR 0x5C, CHR ''n'']
      else if byte c = 13 then [CHR 0x5C, CHR ''r'']
      else if byte c = 9 then [CHR 0x5C, CHR ''t'']
      else if byte c < 32 \<or> byte c = 127 then
        [CHR 0x5C, CHR ''x'', hex_digit (byte c div 16), hex_digit (byte c mod 16)]
      else [c])"

definition py_repr :: "string \<Rightarrow> string" where
  "py_repr s =
     (let q = (if CHR 0x27 \<in> set s \<and> CHR 0x22 \<notin> set s then CHR 0x22 else CHR 0x27)
      in [q] @ concat (map (repr_char q) s) @ [q])"

definition show_list :: "string list \<Rightarrow> string" where
  "show_list xs = ''['' @ join '', '' (map py_repr xs) @ '']''"

text \<open>\<^verbatim>\<open>x or default\<close> on strings and on optional strings (both None and "" are falsy).\<close>

definition str_or :: "string \<Rightarrow> string \<Rightarrow> string" where
  "str_or s d = (if s = [] then d else s)"

definition ostr_or :: "string option \<Rightarrow> string \<Rightarrow> string" where
  "ostr_or x d = (case x of None \<Rightarrow> d | Some s \<Rightarrow> str_or s d)"

definition truthy :: "string option \<Rightarrow> bool" where
  "truthy x \<longleftrightarrow> (case x of None \<Rightarrow> False | Some s \<Rightarrow> s \<noteq> [])"

definition ostr_show :: "string option \<Rightarrow> string" where
  "ostr_show x = (case x of None \<Rightarrow> ''None'' | Some s \<Rightarrow> s)"

subsection \<open>Code points\<close>

definition is_cont :: "char \<Rightarrow> bool" where
  "is_cont c \<longleftrightarrow> 128 \<le> byte c \<and> byte c < 192"

definition py_len :: "string \<Rightarrow> nat" where
  "py_len s = length (filter (\<lambda>c. \<not> is_cont c) s)"

fun py_take :: "nat \<Rightarrow> string \<Rightarrow> string" where
  "py_take n [] = []"
| "py_take n (c # s) =
     (if is_cont c then c # py_take n s
      else if n = 0 then [] else c # py_take (n - 1) s)"

lemma py_len_le_length: "py_len s \<le> length s"
  by (simp add: py_len_def)

lemma py_len_append [simp]: "py_len (a @ b) = py_len a + py_len b"
  by (simp add: py_len_def)

lemma py_len_py_take: "py_len (py_take n s) \<le> n"
  by (induction n s rule: py_take.induct) (auto simp: py_len_def)

lemma py_take_all: "py_len s \<le> n \<Longrightarrow> py_take n s = s"
  by (induction n s rule: py_take.induct) (auto simp: py_len_def split: if_splits)

subsection \<open>Lemmas on strings\<close>

lemma length_lower [simp]: "length (lower s) = length s"
  by (simp add: lower_def)

lemma lower_append [simp]: "lower (a @ b) = lower a @ lower b"
  by (simp add: lower_def)

lemma lower_char_idem [simp]: "lower_char (lower_char c) = lower_char c"
  by (auto simp: lower_char_def)

lemma lower_idem [simp]: "lower (lower s) = lower s"
  by (simp add: lower_def)

lemma starts_with_append: "starts_with p (p @ s)"
  by (simp add: starts_with_def)

lemma starts_with_iff: "starts_with p s \<longleftrightarrow> (\<exists>r. s = p @ r)"
  by (metis append_take_drop_id starts_with_append starts_with_def)

lemma str_in_iff: "str_in n s \<longleftrightarrow> (\<exists>a b. s = a @ n @ b)"
proof (induction n s rule: str_in.induct)
  case (1 n)
  then show ?case by auto
next
  case (2 n c s)
  show ?case
  proof
    assume "str_in n (c # s)"
    then consider "starts_with n (c # s)" | "str_in n s" by auto
    then show "\<exists>a b. c # s = a @ n @ b"
    proof cases
      case 1
      then obtain r where "c # s = n @ r" by (auto simp: starts_with_iff)
      then have "c # s = [] @ n @ r" by simp
      then show ?thesis by blast
    next
      case 2
      then obtain a b where "s = a @ n @ b" using "2.IH" by blast
      then have "c # s = (c # a) @ n @ b" by simp
      then show ?thesis by blast
    qed
  next
    assume "\<exists>a b. c # s = a @ n @ b"
    then obtain a b where ab: "c # s = a @ n @ b" by blast
    show "str_in n (c # s)"
    proof (cases a)
      case Nil
      with ab have "starts_with n (c # s)" by (auto simp: starts_with_iff)
      then show ?thesis by simp
    next
      case (Cons d a')
      with ab have "s = a' @ n @ b" by simp
      with "2.IH" show ?thesis by auto
    qed
  qed
qed

lemma str_in_appendI1 [intro]: "str_in n a \<Longrightarrow> str_in n (a @ b)"
  by (metis append.assoc str_in_iff)

lemma str_in_appendI2 [intro]: "str_in n b \<Longrightarrow> str_in n (a @ b)"
  by (auto simp: str_in_iff) (metis append.assoc)

lemma str_in_refl [simp]: "str_in n n"
  unfolding str_in_iff by (rule exI [of _ "[]"], rule exI [of _ "[]"]) simp

lemma join_Cons: "join sep (x # xs) = x @ (if xs = [] then [] else sep @ join sep xs)"
  by (cases xs) auto

lemma str_in_join: "x \<in> set xs \<Longrightarrow> str_in n x \<Longrightarrow> str_in n (join sep xs)"
  by (induction xs) (auto simp: join_Cons)

lemma map_lower_join: "lower (join sep xs) = join (lower sep) (map lower xs)"
  by (induction xs) (auto simp: join_Cons lower_def)

lemma show_nat_nonempty [simp]: "show_nat n \<noteq> []"
  by (subst show_nat.simps) simp

section \<open>Decoding bytes\<close>

text \<open>
  \<^verbatim>\<open>b.decode(errors="replace")\<close>: every maximal ill-formed prefix of a character becomes one
  U+FFFD.  \<open>utf8_chunk\<close> gives the length of the first character or ill-formed prefix, and whether
  it is a complete character.
\<close>

definition utf8_need :: "nat \<Rightarrow> nat" where
  "utf8_need b = (if b < 128 then 0 else if 194 \<le> b \<and> b < 224 then 1
     else if 224 \<le> b \<and> b < 240 then 2 else if 240 \<le> b \<and> b < 245 then 3 else 4)"

definition utf8_second :: "nat \<Rightarrow> nat \<Rightarrow> bool" where
  "utf8_second b c \<longleftrightarrow>
     (if b = 224 then 160 \<le> c \<and> c < 192 else if b = 237 then 128 \<le> c \<and> c < 160
      else if b = 240 then 144 \<le> c \<and> c < 192 else if b = 244 then 128 \<le> c \<and> c < 144
      else 128 \<le> c \<and> c < 192)"

fun cont_run :: "nat \<Rightarrow> string \<Rightarrow> nat" where
  "cont_run 0 s = 0"
| "cont_run (Suc k) [] = 0"
| "cont_run (Suc k) (c # s) = (if is_cont c then Suc (cont_run k s) else 0)"

definition utf8_tail :: "nat \<Rightarrow> string \<Rightarrow> nat" where
  "utf8_tail b s = (case s of [] \<Rightarrow> 0 | c # t \<Rightarrow>
     if utf8_second b (byte c) then Suc (cont_run (utf8_need b - 1) t) else 0)"

fun utf8_chunk :: "string \<Rightarrow> nat \<times> bool" where
  "utf8_chunk [] = (0, True)"
| "utf8_chunk (c # s) =
     (let k = utf8_need (byte c) in
      if k = 0 then (1, True) else if k = 4 then (1, False)
      else let t = utf8_tail (byte c) s in (Suc t, t = k))"

lemma cont_run_le: "cont_run k s \<le> k"
  by (induction k s rule: cont_run.induct) auto

lemma utf8_chunk_pos: "0 < fst (utf8_chunk (c # s))"
  by (simp add: Let_def)

lemma utf8_chunk_fst_pos: "(n, ok) = utf8_chunk (c # s) \<Longrightarrow> 0 < n"
  using utf8_chunk_pos [of c s] by (metis fst_conv)

function decode_replace :: "string \<Rightarrow> string" where
  "decode_replace [] = []"
| "decode_replace (c # s) =
     (case utf8_chunk (c # s) of (n, ok) \<Rightarrow>
       (if ok then take n (c # s) else replacement_char) @ decode_replace (drop n (c # s)))"
  by pat_completeness auto
termination
  by (relation "measure length") (auto simp del: utf8_chunk.simps dest: utf8_chunk_fst_pos)

declare decode_replace.simps(2) [simp del]

function utf8_valid :: "string \<Rightarrow> bool" where
  "utf8_valid [] = True"
| "utf8_valid (c # s) =
     (case utf8_chunk (c # s) of (n, ok) \<Rightarrow>
       ok \<and> n \<le> length (c # s) \<and> utf8_valid (drop n (c # s)))"
  by pat_completeness auto
termination
  by (relation "measure length") (auto simp del: utf8_chunk.simps dest: utf8_chunk_fst_pos)

declare utf8_valid.simps(2) [simp del]

lemma decode_replace_valid: "utf8_valid s \<Longrightarrow> decode_replace s = s"
proof (induction s rule: utf8_valid.induct)
  case 1
  show ?case by simp
next
  case (2 c s)
  obtain n ok where ch: "utf8_chunk (c # s) = (n, ok)" by (cases "utf8_chunk (c # s)")
  with "2.prems" have ok: "ok" and v: "utf8_valid (drop n (c # s))"
    by (auto simp: utf8_valid.simps(2))
  have "decode_replace (drop n (c # s)) = drop n (c # s)"
    using "2.IH" [OF ch [symmetric] v] .
  then show ?case using ch ok by (simp add: decode_replace.simps(2))
qed

end
