(* ===== verification/Regex.thy ===== *)
theory Regex
  imports Prelude
begin

text \<open>
  The regular expressions of the program, as Python's \<^verbatim>\<open>re\<close> module matches them.
  \<open>rx_match r s\<close> lists the remainders of \<open>s\<close> after each way of matching \<open>r\<close> at its start, in
  the order the backtracking matcher tries them, so the head is the match Python reports.
  \<open>REnd\<close> is \<^verbatim>\<open>$\<close> without the MULTILINE flag: it matches at the end and also just before a
  final newline.
\<close>

datatype rx =
    RLit string
  | RCls "char \<Rightarrow> bool"
  | RMany nat "nat option" "char \<Rightarrow> bool"
  | RSeq rx rx
  | RAlt rx rx
  | ROpt rx
  | REnd

text \<open>The remainders after taking between \<open>lo\<close> and \<open>hi\<close> characters, longest first.\<close>

definition greedy_run :: "nat \<Rightarrow> nat \<Rightarrow> string \<Rightarrow> string list" where
  "greedy_run lo hi s = map (\<lambda>k. drop k s) (rev [lo..<Suc hi])"

primrec rx_match :: "rx \<Rightarrow> string \<Rightarrow> string list" where
  "rx_match (RLit l) s = (if starts_with l s then [drop (length l) s] else [])"
| "rx_match (RCls P) s = (case s of [] \<Rightarrow> [] | c # t \<Rightarrow> if P c then [t] else [])"
| "rx_match (RMany lo hi P) s =
     (let n = length (takeWhile P s);
          m = (case hi of None \<Rightarrow> n | Some h \<Rightarrow> min n h)
      in greedy_run lo m s)"
| "rx_match (RSeq a b) s = concat (map (rx_match b) (rx_match a s))"
| "rx_match (RAlt a b) s = rx_match a s @ rx_match b s"
| "rx_match (ROpt a) s = rx_match a s @ [s]"
| "rx_match REnd s = (if s = [] \<or> s = newline then [s] else [])"

text \<open>\<^verbatim>\<open>pattern.match(s)\<close>: anchored at the start only.\<close>

definition re_match :: "rx \<Rightarrow> string \<Rightarrow> bool" where
  "re_match r s \<longleftrightarrow> rx_match r s \<noteq> []"

text \<open>\<^verbatim>\<open>pattern.search(s)\<close>: the leftmost start, as (start suffix, remainder).\<close>

fun re_search :: "rx \<Rightarrow> string \<Rightarrow> (string \<times> string) option" where
  "re_search r [] = (case rx_match r [] of [] \<Rightarrow> None | t # _ \<Rightarrow> Some ([], t))"
| "re_search r (c # s) =
     (case rx_match r (c # s) of t # _ \<Rightarrow> Some (c # s, t) | [] \<Rightarrow> re_search r s)"

definition re_found :: "rx \<Rightarrow> string \<Rightarrow> bool" where
  "re_found r s \<longleftrightarrow> re_search r s \<noteq> None"

text \<open>An alternation of literals, and the same with IGNORECASE on the lowered text.\<close>

fun lits :: "string list \<Rightarrow> rx" where
  "lits [] = RCls (\<lambda>_. False)"
| "lits [l] = RLit l"
| "lits (l # m # ls) = RAlt (RLit l) (lits (m # ls))"

section \<open>Lemmas\<close>

lemma rx_match_RLit_nonempty: "rx_match (RLit l) s \<noteq> [] \<longleftrightarrow> starts_with l s"
  by simp

lemma rx_match_RAlt_nonempty:
  "rx_match (RAlt a b) s \<noteq> [] \<longleftrightarrow> rx_match a s \<noteq> [] \<or> rx_match b s \<noteq> []"
  by simp

lemma greedy_run_nonempty: "greedy_run lo hi s \<noteq> [] \<longleftrightarrow> lo \<le> hi"
  by (auto simp: greedy_run_def)

lemma set_greedy_run: "t \<in> set (greedy_run lo hi s) \<longleftrightarrow> (\<exists>k. lo \<le> k \<and> k \<le> hi \<and> t = drop k s)"
  by (auto simp: greedy_run_def)

lemma re_found_iff: "re_found r s \<longleftrightarrow> (\<exists>a b. s = a @ b \<and> rx_match r b \<noteq> [])"
proof (induction r s rule: re_search.induct)
  case (1 r)
  show ?case by (auto simp: re_found_def split: list.splits)
next
  case (2 r c s)
  show ?case
  proof (cases "rx_match r (c # s)")
    case Nil
    with 2 have eq: "re_found r (c # s) = (\<exists>a b. s = a @ b \<and> rx_match r b \<noteq> [])"
      by (simp add: re_found_def)
    have "(\<exists>a b. c # s = a @ b \<and> rx_match r b \<noteq> []) = (\<exists>a b. s = a @ b \<and> rx_match r b \<noteq> [])"
      using Nil by (auto simp: Cons_eq_append_conv)
    with eq show ?thesis by simp
  next
    case (Cons t ts)
    then have "c # s = [] @ (c # s) \<and> rx_match r (c # s) \<noteq> []" by simp
    then have "\<exists>a b. c # s = a @ b \<and> rx_match r b \<noteq> []" by blast
    moreover have "re_found r (c # s)" using Cons by (simp add: re_found_def)
    ultimately show ?thesis by simp
  qed
qed

lemma re_found_RLit: "re_found (RLit l) s \<longleftrightarrow> str_in l s"
  by (auto simp: re_found_iff str_in_iff starts_with_iff)

lemma re_found_RAlt: "re_found (RAlt a b) s \<longleftrightarrow> re_found a s \<or> re_found b s"
  unfolding re_found_iff by auto

lemma re_found_lits: "re_found (lits ls) s \<longleftrightarrow> (\<exists>l \<in> set ls. str_in l s)"
proof (induction ls rule: lits.induct)
  case 1
  then show ?case by (auto simp: re_found_iff split: list.splits)
qed (auto simp: re_found_RLit re_found_RAlt)

lemma re_search_suffix: "re_search r s = Some (b, t) \<Longrightarrow> \<exists>a. s = a @ b"
proof (induction r s rule: re_search.induct)
  case (1 r)
  then show ?case by (auto split: list.splits)
next
  case (2 r c s)
  show ?case
  proof (cases "rx_match r (c # s)")
    case Nil
    with 2 obtain a where "s = a @ b" by auto
    then have "c # s = (c # a) @ b" by simp
    then show ?thesis by blast
  next
    case (Cons u us)
    with 2 have "c # s = [] @ b" by auto
    then show ?thesis by blast
  qed
qed

text \<open>
  The shape \<^verbatim>\<open>^[C][D]{0,n}$\<close> shared by the package, version and executable name patterns.
\<close>

definition rx_name :: "(char \<Rightarrow> bool) \<Rightarrow> (char \<Rightarrow> bool) \<Rightarrow> nat \<Rightarrow> rx" where
  "rx_name C D n = RSeq (RCls C) (RSeq (RMany 0 (Some n) D) REnd)"

lemma takeWhile_le: "(\<forall>c \<in> set t. D c) \<Longrightarrow> length t \<le> length (takeWhile D (t @ e))"
  by (induction t) auto

lemma rx_name_iff:
  "re_match (rx_name C D n) s \<longleftrightarrow>
     (\<exists>c t. (s = c # t \<or> s = c # t @ newline) \<and> C c \<and> (\<forall>d \<in> set t. D d) \<and> length t \<le> n)"
  (is "?L \<longleftrightarrow> ?R")
proof
  assume ?L
  then obtain c u where s: "s = c # u" and C: "C c"
    by (auto simp: re_match_def rx_name_def split: list.splits if_splits)
  with \<open>?L\<close> obtain r where r: "r \<in> set (greedy_run 0 (min (length (takeWhile D u)) n) u)"
    and e: "r = [] \<or> r = newline"
    by (auto simp: re_match_def rx_name_def Let_def split: if_splits)
  from r obtain k where k: "k \<le> length (takeWhile D u)" "k \<le> n" "r = drop k u"
    by (auto simp: set_greedy_run)
  have "take k u = take k (takeWhile D u)"
    using k(1) by (metis takeWhile_eq_take take_take min.absorb1)
  then have D: "\<forall>d \<in> set (take k u). D d"
    by (metis in_set_takeD set_takeWhileD)
  have "s = c # take k u @ r" using s k(3) by simp
  with e C D k(2) show ?R
    by (intro exI [of _ c] exI [of _ "take k u"]) auto
next
  assume ?R
  then obtain c t e where s: "s = c # t @ e" and e: "e = [] \<or> e = newline" and C: "C c"
    and D: "\<forall>d \<in> set t. D d" and n: "length t \<le> n" by (metis append_Nil2)
  have "length t \<le> length (takeWhile D (t @ e))" using D by (rule takeWhile_le)
  then have "e \<in> set (greedy_run 0 (min (length (takeWhile D (t @ e))) n) (t @ e))"
    using n by (auto simp: set_greedy_run intro!: exI [of _ "length t"])
  then show ?L using s e C
    by (auto simp: re_match_def rx_name_def Let_def simp del: drop_append)
qed

end
