(* ===== verification/Effects.thy ===== *)
theory Effects
  imports Complex_Main "HOL-Library.AList" Prelude
begin

text \<open>
  Programs that read and write a state and may raise: a computation takes the state and returns
  either an exception or a value, with the state at that point.  The state survives an exception,
  as it does in the source.  \<open>keeps\<close> states that a computation relates its initial to its final
  state however it ends; the locale \<open>step_rel\<close> is the contract of such a relation, and its lemmas
  are the rules by which every handler of the development is shown to keep an invariant.
\<close>

section \<open>Combinators\<close>

definition ret :: "'a \<Rightarrow> 'w \<Rightarrow> ('e + 'a) \<times> 'w" where
  "ret x w = (Inr x, w)"

definition raise :: "'e \<Rightarrow> 'w \<Rightarrow> ('e + 'a) \<times> 'w" where
  "raise e w = (Inl e, w)"

definition bnd ::
    "('w \<Rightarrow> ('e + 'a) \<times> 'w) \<Rightarrow> ('a \<Rightarrow> 'w \<Rightarrow> ('e + 'b) \<times> 'w) \<Rightarrow> 'w \<Rightarrow> ('e + 'b) \<times> 'w" where
  "bnd m f w = (case m w of (Inl e, w') \<Rightarrow> (Inl e, w') | (Inr x, w') \<Rightarrow> f x w')"

definition sq ::
    "('w \<Rightarrow> ('e + unit) \<times> 'w) \<Rightarrow> ('w \<Rightarrow> ('e + 'b) \<times> 'w) \<Rightarrow> 'w \<Rightarrow> ('e + 'b) \<times> 'w" where
  "sq m k = bnd m (\<lambda>_. k)"

definition gets :: "('w \<Rightarrow> 'a) \<Rightarrow> 'w \<Rightarrow> ('e + 'a) \<times> 'w" where
  "gets f w = (Inr (f w), w)"

definition modify :: "('w \<Rightarrow> 'w) \<Rightarrow> 'w \<Rightarrow> ('e + unit) \<times> 'w" where
  "modify f w = (Inr (), f w)"

definition try_except ::
    "('w \<Rightarrow> ('e + 'a) \<times> 'w) \<Rightarrow> ('e \<Rightarrow> 'w \<Rightarrow> ('e + 'a) \<times> 'w) \<Rightarrow> 'w \<Rightarrow> ('e + 'a) \<times> 'w" where
  "try_except m h w = (case m w of (Inl e, w') \<Rightarrow> h e w' | (Inr x, w') \<Rightarrow> (Inr x, w'))"

definition liftS :: "'e + 'a \<Rightarrow> 'w \<Rightarrow> ('e + 'a) \<times> 'w" where
  "liftS r w = (r, w)"

fun for_each :: "('a \<Rightarrow> 'w \<Rightarrow> ('e + unit) \<times> 'w) \<Rightarrow> 'a list \<Rightarrow> 'w \<Rightarrow> ('e + unit) \<times> 'w" where
  "for_each f [] = ret ()"
| "for_each f (x # xs) = sq (f x) (for_each f xs)"

named_theorems prog "evaluation of computations"

lemma bnd_ret [simp, prog]: "bnd (ret x) f w = f x w"
  by (simp add: bnd_def ret_def)

lemma bnd_raise [simp, prog]: "bnd (raise e) f w = (Inl e, w)"
  by (simp add: bnd_def raise_def)

lemma bnd_gets [simp, prog]: "bnd (gets g) f w = f (g w) w"
  by (simp add: bnd_def gets_def)

lemma bnd_modify [simp, prog]: "bnd (modify g) f w = f () (g w)"
  by (simp add: bnd_def modify_def)

lemma bnd_liftS [simp, prog]:
  "bnd (liftS r) f w = (case r of Inl e \<Rightarrow> (Inl e, w) | Inr x \<Rightarrow> f x w)"
  by (simp add: bnd_def liftS_def split: sum.splits)

lemma sq_modify [simp, prog]: "sq (modify g) k w = k (g w)"
  by (simp add: sq_def)

lemma sq_ret [simp, prog]: "sq (ret ()) k w = k w"
  by (simp add: sq_def)

lemma sq_raise [simp, prog]: "sq (raise e) k w = (Inl e, w)"
  by (simp add: sq_def)

lemma bnd_bnd: "bnd (bnd m f) g w = bnd m (\<lambda>x. bnd (f x) g) w"
  by (simp add: bnd_def split: prod.splits sum.splits)

lemma bnd_sq: "bnd (sq m k) g w = sq m (bnd k g) w"
  by (simp add: sq_def bnd_bnd)

lemma sq_sq: "sq (sq m k) l w = sq m (sq k l) w"
  by (simp add: sq_def bnd_bnd)

lemma sq_bnd: "sq (bnd m f) k w = bnd m (\<lambda>x. sq (f x) k) w"
  by (simp add: sq_def bnd_bnd)

lemma bnd_if: "bnd (if b then m else n) f w = (if b then bnd m f w else bnd n f w)"
  by simp

lemma bnd_eq: "m w = (r, w') \<Longrightarrow> bnd m f w = (case r of Inl e \<Rightarrow> (Inl e, w') | Inr x \<Rightarrow> f x w')"
  by (simp add: bnd_def split: sum.splits)

lemma sq_eq: "m w = (r, w') \<Longrightarrow> sq m k w = (case r of Inl e \<Rightarrow> (Inl e, w') | Inr x \<Rightarrow> k w')"
  by (simp add: sq_def bnd_eq)

section \<open>Relations kept by computations\<close>

definition keeps :: "('w \<Rightarrow> 'w \<Rightarrow> bool) \<Rightarrow> ('w \<Rightarrow> ('e + 'a) \<times> 'w) \<Rightarrow> bool" where
  "keeps R m \<longleftrightarrow> (\<forall>w. R w (snd (m w)))"

lemma keepsD: "keeps R m \<Longrightarrow> m w = (r, w') \<Longrightarrow> R w w'"
  by (metis keeps_def snd_conv)

lemma keepsD': "keeps R m \<Longrightarrow> R w (snd (m w))"
  by (simp add: keeps_def)

locale step_rel =
  fixes R :: "'w \<Rightarrow> 'w \<Rightarrow> bool"
  assumes R_refl: "R w w"
    and R_trans: "R a b \<Longrightarrow> R b c \<Longrightarrow> R a c"
begin

lemma keeps_ret: "keeps R (ret x)"
  by (simp add: keeps_def ret_def R_refl)

lemma keeps_raise: "keeps R (raise e)"
  by (simp add: keeps_def raise_def R_refl)

lemma keeps_gets: "keeps R (gets f)"
  by (simp add: keeps_def gets_def R_refl)

lemma keeps_liftS: "keeps R (liftS r)"
  by (simp add: keeps_def liftS_def R_refl)

lemma keeps_modify: "(\<And>w. R w (f w)) \<Longrightarrow> keeps R (modify f)"
  by (simp add: keeps_def modify_def)

lemma keeps_bnd:
  assumes "keeps R m" and "\<And>x. keeps R (f x)"
  shows "keeps R (bnd m f)"
  unfolding keeps_def
proof
  fix w
  obtain r w' where m: "m w = (r, w')" by (cases "m w")
  have "R w w'" using assms(1) m by (rule keepsD)
  then show "R w (snd (bnd m f w))"
    using assms(2) m by (cases r) (auto simp: bnd_eq keeps_def intro: R_trans)
qed

lemma keeps_sq: "keeps R m \<Longrightarrow> keeps R k \<Longrightarrow> keeps R (sq m k)"
  unfolding sq_def by (rule keeps_bnd)

lemma keeps_try:
  assumes "keeps R m" and "\<And>e. keeps R (h e)"
  shows "keeps R (try_except m h)"
  unfolding keeps_def
proof
  fix w
  obtain r w' where m: "m w = (r, w')" by (cases "m w")
  have "R w w'" using assms(1) m by (rule keepsD)
  then show "R w (snd (try_except m h w))"
    using assms(2) m by (cases r) (auto simp: try_except_def keeps_def intro: R_trans)
qed

lemma keeps_if: "(b \<Longrightarrow> keeps R m) \<Longrightarrow> (\<not> b \<Longrightarrow> keeps R n) \<Longrightarrow> keeps R (if b then m else n)"
  by simp

lemma keeps_option:
  "(x = None \<Longrightarrow> keeps R m) \<Longrightarrow> (\<And>y. x = Some y \<Longrightarrow> keeps R (f y)) \<Longrightarrow>
   keeps R (case x of None \<Rightarrow> m | Some y \<Rightarrow> f y)"
  by (cases x) auto

lemma keeps_sum:
  "(\<And>e. x = Inl e \<Longrightarrow> keeps R (g e)) \<Longrightarrow> (\<And>y. x = Inr y \<Longrightarrow> keeps R (f y)) \<Longrightarrow>
   keeps R (case x of Inl e \<Rightarrow> g e | Inr y \<Rightarrow> f y)"
  by (cases x) auto

lemma keeps_prod: "(\<And>a b. x = (a, b) \<Longrightarrow> keeps R (f a b)) \<Longrightarrow> keeps R (case x of (a, b) \<Rightarrow> f a b)"
  by (cases x) auto

lemma keeps_for_each: "(\<And>x. x \<in> set xs \<Longrightarrow> keeps R (f x)) \<Longrightarrow> keeps R (for_each f xs)"
  by (induction xs) (auto intro: keeps_ret keeps_sq)

lemmas keeps_intros =
  keeps_ret keeps_raise keeps_gets keeps_liftS keeps_bnd keeps_sq keeps_try keeps_if keeps_option
  keeps_sum keeps_prod keeps_for_each

end

section \<open>Dictionaries\<close>

text \<open>
  A Python dict is an association list in insertion order: \<open>AList.update\<close> overwrites in place or
  appends, \<open>AList.delete\<close> removes, \<open>map_of\<close> looks up.  The locale states the laws of a keyed store
  that the registries of the program share.
\<close>

abbreviation dset :: "'k \<Rightarrow> 'v \<Rightarrow> ('k \<times> 'v) list \<Rightarrow> ('k \<times> 'v) list" where
  "dset k v d \<equiv> AList.update k v d"

abbreviation ddel :: "'k \<Rightarrow> ('k \<times> 'v) list \<Rightarrow> ('k \<times> 'v) list" where
  "ddel k d \<equiv> AList.delete k d"

definition dvalues :: "('k \<times> 'v) list \<Rightarrow> 'v list" where
  "dvalues d = map snd d"

locale keyed_store =
  fixes lookup :: "'s \<Rightarrow> 'k \<Rightarrow> 'v option"
    and put :: "'k \<Rightarrow> 'v \<Rightarrow> 's \<Rightarrow> 's"
    and size_of :: "'s \<Rightarrow> nat"
    and wf :: "'s \<Rightarrow> bool"
  assumes lookup_put: "lookup (put k v s) k' = (if k' = k then Some v else lookup s k')"
    and wf_put: "wf s \<Longrightarrow> wf (put k v s)"
    and size_put: "wf s \<Longrightarrow>
      size_of (put k v s) = (if lookup s k = None then Suc (size_of s) else size_of s)"
begin

definition puts :: "('k \<times> 'v) list \<Rightarrow> 's \<Rightarrow> 's" where
  "puts kvs s = fold (\<lambda>(k, v). put k v) kvs s"

lemma wf_puts: "wf s \<Longrightarrow> wf (puts kvs s)"
  unfolding puts_def by (induction kvs arbitrary: s) (auto simp: wf_put)

lemma put_same: "lookup (put k v s) k = Some v"
  by (simp add: lookup_put)

lemma put_other: "k' \<noteq> k \<Longrightarrow> lookup (put k v s) k' = lookup s k'"
  by (simp add: lookup_put)

lemma lookup_puts_notin: "k \<notin> fst ` set kvs \<Longrightarrow> lookup (puts kvs s) k = lookup s k"
  unfolding puts_def by (induction kvs arbitrary: s) (auto simp: lookup_put)

lemma lookup_puts_stays: "lookup s k \<noteq> None \<Longrightarrow> lookup (puts kvs s) k \<noteq> None"
  unfolding puts_def by (induction kvs arbitrary: s) (auto simp: lookup_put)

lemma size_put_le: "wf s \<Longrightarrow> size_of s \<le> size_of (put k v s)"
  by (simp add: size_put)

lemma size_puts_fresh:
  "wf s \<Longrightarrow> distinct (map fst kvs) \<Longrightarrow> (\<forall>k \<in> fst ` set kvs. lookup s k = None) \<Longrightarrow>
   size_of (puts kvs s) = size_of s + length kvs"
proof (induction kvs arbitrary: s)
  case Nil
  then show ?case by (simp add: puts_def)
next
  case (Cons kv kvs)
  obtain k v where kv: "kv = (k, v)" by (cases kv)
  have "\<forall>k' \<in> fst ` set kvs. lookup (put k v s) k' = None"
    using Cons.prems kv by (auto simp: lookup_put)
  then have "size_of (puts kvs (put k v s)) = size_of (put k v s) + length kvs"
    using Cons.prems kv by (intro Cons.IH) (auto simp: wf_put)
  then show ?case using Cons.prems kv by (simp add: puts_def size_put)
qed

end

definition wf_dict :: "('k \<times> 'v) list \<Rightarrow> bool" where
  "wf_dict d \<longleftrightarrow> distinct (map fst d)"

lemma length_update: "length (dset k v d) = (if map_of d k = None then Suc (length d) else length d)"
  by (induction d) auto

lemma wf_dict_update: "wf_dict d \<Longrightarrow> wf_dict (dset k v d)"
  by (simp add: wf_dict_def AList.distinct_update)

lemma wf_dict_delete: "wf_dict d \<Longrightarrow> wf_dict (ddel k d)"
  by (simp add: wf_dict_def AList.distinct_delete)

lemma wf_dict_Nil [simp]: "wf_dict []"
  by (simp add: wf_dict_def)

interpretation dict: keyed_store "map_of" "AList.update" "length" "wf_dict"
  by unfold_locales (auto simp: AList.update_conv' wf_dict_update length_update)

lemma map_of_values: "map_of d k = Some v \<Longrightarrow> v \<in> set (dvalues d)"
  by (force simp: dvalues_def dest: map_of_SomeD)

lemma values_update_subset: "set (dvalues (dset k v d)) \<subseteq> insert v (set (dvalues d))"
  by (induction d) (auto simp: dvalues_def)

lemma map_of_delete: "map_of (ddel k d) k' = (if k' = k then None else map_of d k')"
  by (simp add: AList.delete_conv')

lemma map_of_update: "map_of (dset k v d) k' = (if k' = k then Some v else map_of d k')"
  by (simp add: AList.update_conv')

section \<open>Plain data\<close>

text \<open>The JSON-like values of event payloads, reports and decision arguments.\<close>

datatype pyval =
    PNone
  | PBool bool
  | PInt int
  | PFloat rat
  | PStr string
  | PList "pyval list"
  | PDict "(string \<times> pyval) list"

definition p_ostr :: "string option \<Rightarrow> pyval" where
  "p_ostr x = (case x of None \<Rightarrow> PNone | Some s \<Rightarrow> PStr s)"

definition p_oint :: "int option \<Rightarrow> pyval" where
  "p_oint x = (case x of None \<Rightarrow> PNone | Some i \<Rightarrow> PInt i)"

definition p_strs :: "string list \<Rightarrow> pyval" where
  "p_strs xs = PList (map PStr xs)"

text \<open>\<^verbatim>\<open>bool(v)\<close>.\<close>

fun p_truthy :: "pyval \<Rightarrow> bool" where
  "p_truthy PNone = False"
| "p_truthy (PBool b) = b"
| "p_truthy (PInt i) = (i \<noteq> 0)"
| "p_truthy (PFloat r) = (r \<noteq> 0)"
| "p_truthy (PStr s) = (s \<noteq> [])"
| "p_truthy (PList xs) = (xs \<noteq> [])"
| "p_truthy (PDict d) = (d \<noteq> [])"

end
