(* ===== verification/Errors.thy ===== *)
theory Errors
  imports Effects
begin

text \<open>
  The exceptions of the services: one datatype of error codes per package, the base class of each
  package as a constructor carrying its code and message, and the subclasses as abbreviations that
  fix the code, as the \<^verbatim>\<open>errors.py\<close> files do.  Exceptions of one package reach the code of
  another, so all of them are values of one type \<open>exn\<close>.
\<close>

section \<open>Terminal engine errors\<close>

datatype terminal_error_code =
    TE_UNSUPPORTED_PLATFORM | TE_INVALID_REQUEST | TE_INVALID_WORKING_DIRECTORY
  | TE_SESSION_NOT_FOUND | TE_SESSION_EXPIRED | TE_SESSION_NOT_READY
  | TE_AUTHORIZATION_REJECTED | TE_PROCESS_CREATION_FAILED | TE_PERMISSION_DENIED
  | TE_TIMEOUT | TE_TERMINATION_FAILED | TE_OUTPUT_LIMIT_EXCEEDED

section \<open>Tool registry errors\<close>

datatype tool_registry_error_code =
    TR_TOOL_NOT_FOUND | TR_DUPLICATE_TOOL | TR_INVALID_CANDIDATE | TR_VERIFICATION_FAILED
  | TR_SOURCE_UNTRUSTED | TR_CAPABILITY_PROHIBITED | TR_INVALID_TRUST_TRANSITION

fun tool_error_value :: "tool_registry_error_code \<Rightarrow> string" where
  "tool_error_value TR_TOOL_NOT_FOUND = ''tool_not_found''"
| "tool_error_value TR_DUPLICATE_TOOL = ''duplicate_tool''"
| "tool_error_value TR_INVALID_CANDIDATE = ''invalid_candidate''"
| "tool_error_value TR_VERIFICATION_FAILED = ''verification_failed''"
| "tool_error_value TR_SOURCE_UNTRUSTED = ''source_untrusted''"
| "tool_error_value TR_CAPABILITY_PROHIBITED = ''capability_prohibited''"
| "tool_error_value TR_INVALID_TRUST_TRANSITION = ''invalid_trust_transition''"

section \<open>Installation errors\<close>

datatype installation_error_code =
    IE_TOOL_NOT_APPROVED | IE_UNSUPPORTED_PLATFORM | IE_PACKAGE_MANAGER_UNAVAILABLE
  | IE_DEPENDENCY_UNRESOLVED | IE_POLICY_DENIED | IE_APPROVAL_REQUIRED
  | IE_INSTALLATION_NOT_FOUND | IE_INVALID_STATE_TRANSITION | IE_RETRY_LIMIT_EXCEEDED
  | IE_VERIFICATION_FAILED

section \<open>Termux connector errors\<close>

datatype termux_error_code =
    TX_DEVICE_NOT_REGISTERED | TX_PAIRING_REQUIRED | TX_PAIRING_CODE_INVALID
  | TX_PAIRING_CODE_EXPIRED | TX_AUTHENTICATION_FAILED | TX_AUTHORIZATION_DENIED
  | TX_DEVICE_OFFLINE | TX_CONNECTOR_UNAVAILABLE | TX_TERMUX_UNAVAILABLE
  | TX_PERMISSION_UNAVAILABLE | TX_CAPABILITY_UNAVAILABLE | TX_TIMEOUT | TX_CANCELLED
  | TX_MALFORMED_REQUEST | TX_CONNECTION_LOST | TX_REVOKED_DEVICE

section \<open>Agent orchestrator errors\<close>

datatype agent_error_code =
    AE_TASK_NOT_FOUND | AE_INVALID_STATE_TRANSITION | AE_APPROVAL_REQUIRED
  | AE_NOT_WAITING_FOR_APPROVAL | AE_BUDGET_EXCEEDED | AE_AUTHORIZATION_REQUIRED
  | AE_OUT_OF_SCOPE | AE_INVALID_DECISION | AE_CONCURRENT_TASK_LIMIT | AE_CANCELLED

section \<open>Provider errors\<close>

datatype ai_provider_error_code =
    AI_MISSING_API_KEY | AI_INVALID_API_KEY | AI_CONFIGURATION_ERROR | AI_UNAVAILABLE
  | AI_TIMEOUT | AI_RATE_LIMITED | AI_NETWORK_ERROR | AI_INVALID_RESPONSE | AI_UNKNOWN

definition RETRYABLE_ERROR_CODES :: "ai_provider_error_code list" where
  "RETRYABLE_ERROR_CODES = [AI_UNAVAILABLE, AI_TIMEOUT, AI_NETWORK_ERROR, AI_RATE_LIMITED]"

definition retryable :: "ai_provider_error_code \<Rightarrow> bool" where
  "retryable code \<longleftrightarrow> code \<in> set RETRYABLE_ERROR_CODES"

section \<open>Chat errors\<close>

datatype chat_error_code =
    CP_EMPTY_MESSAGE | CP_INVALID_INPUT | CP_REQUEST_FAILED | CP_TIMEOUT | CP_INVALID_TASK
  | CP_UNEXPECTED_RESPONSE

section \<open>Exceptions\<close>

datatype exn =
    TerminalEngineError terminal_error_code string
  | ExecutionNotApprovedError string
  | ToolRegistryError tool_registry_error_code string
  | InstallationError installation_error_code string
  | TermuxConnectorError termux_error_code string
  | AgentOrchestratorError agent_error_code string
  | ActionFailure string string
  | AgentReasoningError string
  | AIProviderError ai_provider_error_code string
  | ChatPipelineError chat_error_code string
  | MemoryRejectedError string
  | RefusedError string
  | ValueError string
  | OSError string
  | KeyError string
  | AttributeError string
  | TypeError string
  | OverflowError string
  | ConnectionClosed string
  | SystemExit string
  | DatabaseError string
  | HTTPException nat string string
  | CancelledError

text \<open>\<^verbatim>\<open>str(exc)\<close>.\<close>

fun exn_str :: "exn \<Rightarrow> string" where
  "exn_str (TerminalEngineError _ m) = m"
| "exn_str (ExecutionNotApprovedError m) = m"
| "exn_str (ToolRegistryError _ m) = m"
| "exn_str (InstallationError _ m) = m"
| "exn_str (TermuxConnectorError _ m) = m"
| "exn_str (AgentOrchestratorError _ m) = m"
| "exn_str (ActionFailure _ m) = m"
| "exn_str (AgentReasoningError m) = m"
| "exn_str (AIProviderError _ m) = m"
| "exn_str (ChatPipelineError _ m) = m"
| "exn_str (MemoryRejectedError m) = m"
| "exn_str (RefusedError m) = m"
| "exn_str (ValueError m) = m"
| "exn_str (OSError m) = m"
| "exn_str (KeyError m) = quoted m"
| "exn_str (AttributeError m) = m"
| "exn_str (TypeError m) = m"
| "exn_str (OverflowError m) = m"
| "exn_str (ConnectionClosed m) = m"
| "exn_str (DatabaseError m) = m"
| "exn_str (SystemExit m) = m"
| "exn_str (HTTPException status code m) = show_nat status @ '': {'' @ quoted ''code'' @ '': '' @
     py_repr code @ '', '' @ quoted ''message'' @ '': '' @ py_repr m @ ''}''"
| "exn_str CancelledError = []"

abbreviation UnsupportedPlatformError :: "string \<Rightarrow> exn" where
  "UnsupportedPlatformError m \<equiv> TerminalEngineError TE_UNSUPPORTED_PLATFORM m"

abbreviation InvalidRequestError :: "string \<Rightarrow> exn" where
  "InvalidRequestError m \<equiv> TerminalEngineError TE_INVALID_REQUEST m"

abbreviation InvalidWorkingDirectoryError :: "string \<Rightarrow> exn" where
  "InvalidWorkingDirectoryError m \<equiv> TerminalEngineError TE_INVALID_WORKING_DIRECTORY m"

abbreviation SessionNotFoundError :: "string \<Rightarrow> exn" where
  "SessionNotFoundError m \<equiv> TerminalEngineError TE_SESSION_NOT_FOUND m"

abbreviation SessionExpiredError :: "string \<Rightarrow> exn" where
  "SessionExpiredError m \<equiv> TerminalEngineError TE_SESSION_EXPIRED m"

abbreviation ToolNotFoundError :: "string \<Rightarrow> exn" where
  "ToolNotFoundError m \<equiv> ToolRegistryError TR_TOOL_NOT_FOUND m"

abbreviation DuplicateToolError :: "string \<Rightarrow> exn" where
  "DuplicateToolError m \<equiv> ToolRegistryError TR_DUPLICATE_TOOL m"

abbreviation ToolNotApprovedError :: "string \<Rightarrow> exn" where
  "ToolNotApprovedError m \<equiv> InstallationError IE_TOOL_NOT_APPROVED m"

abbreviation UnsupportedPlatformForToolError :: "string \<Rightarrow> exn" where
  "UnsupportedPlatformForToolError m \<equiv> InstallationError IE_UNSUPPORTED_PLATFORM m"

abbreviation PackageManagerUnavailableError :: "string \<Rightarrow> exn" where
  "PackageManagerUnavailableError m \<equiv> InstallationError IE_PACKAGE_MANAGER_UNAVAILABLE m"

abbreviation ApprovalRequiredError :: "string \<Rightarrow> exn" where
  "ApprovalRequiredError m \<equiv> InstallationError IE_APPROVAL_REQUIRED m"

abbreviation InstallationNotFoundError :: "string \<Rightarrow> exn" where
  "InstallationNotFoundError m \<equiv> InstallationError IE_INSTALLATION_NOT_FOUND m"

abbreviation InstallationInvalidStateError :: "string \<Rightarrow> exn" where
  "InstallationInvalidStateError m \<equiv> InstallationError IE_INVALID_STATE_TRANSITION m"

abbreviation PairingCodeInvalidError :: "string \<Rightarrow> exn" where
  "PairingCodeInvalidError m \<equiv> TermuxConnectorError TX_PAIRING_CODE_INVALID m"

abbreviation PairingCodeExpiredError :: "string \<Rightarrow> exn" where
  "PairingCodeExpiredError m \<equiv> TermuxConnectorError TX_PAIRING_CODE_EXPIRED m"

abbreviation AuthenticationFailedError :: "string \<Rightarrow> exn" where
  "AuthenticationFailedError m \<equiv> TermuxConnectorError TX_AUTHENTICATION_FAILED m"

abbreviation DeviceNotRegisteredError :: "string \<Rightarrow> exn" where
  "DeviceNotRegisteredError m \<equiv> TermuxConnectorError TX_DEVICE_NOT_REGISTERED m"

abbreviation DeviceOfflineError :: "string \<Rightarrow> exn" where
  "DeviceOfflineError m \<equiv> TermuxConnectorError TX_DEVICE_OFFLINE m"

abbreviation RevokedDeviceError :: "string \<Rightarrow> exn" where
  "RevokedDeviceError m \<equiv> TermuxConnectorError TX_REVOKED_DEVICE m"

abbreviation MalformedMessageError :: "string \<Rightarrow> exn" where
  "MalformedMessageError m \<equiv> TermuxConnectorError TX_MALFORMED_REQUEST m"

abbreviation TaskNotFoundError :: "string \<Rightarrow> exn" where
  "TaskNotFoundError m \<equiv> AgentOrchestratorError AE_TASK_NOT_FOUND m"

abbreviation InvalidStateTransitionError :: "string \<Rightarrow> exn" where
  "InvalidStateTransitionError m \<equiv> AgentOrchestratorError AE_INVALID_STATE_TRANSITION m"

abbreviation NotWaitingForApprovalError :: "string \<Rightarrow> exn" where
  "NotWaitingForApprovalError m \<equiv> AgentOrchestratorError AE_NOT_WAITING_FOR_APPROVAL m"

abbreviation BudgetExceededError :: "string \<Rightarrow> exn" where
  "BudgetExceededError m \<equiv> AgentOrchestratorError AE_BUDGET_EXCEEDED m"

abbreviation OutOfScopeError :: "string \<Rightarrow> exn" where
  "OutOfScopeError m \<equiv> AgentOrchestratorError AE_OUT_OF_SCOPE m"

abbreviation ConcurrentTaskLimitError :: "string \<Rightarrow> exn" where
  "ConcurrentTaskLimitError m \<equiv> AgentOrchestratorError AE_CONCURRENT_TASK_LIMIT m"

end
