(* ===== verification/Runtime.thy ===== *)
theory Runtime
  imports Errors
begin

text \<open>
  What every component reads from the Python runtime, and the audit trail they all write
  (\<^verbatim>\<open>services/terminal/audit.py\<close>).  \<^verbatim>\<open>datetime.now(UTC)\<close> is a sequence of clock readings in
  microseconds, \<^verbatim>\<open>uuid4()\<close> a sequence of drawn identifiers; each call consumes one.  Both
  sequences are arbitrary: a theorem that needs a clock that does not go back, or identifiers that
  are never drawn twice, says so.
\<close>

type_synonym uuid = nat
type_synonym time = int

record runtime =
  rt_clock :: "nat \<Rightarrow> time"
  rt_ticks :: nat
  rt_uuid :: "nat \<Rightarrow> uuid"
  rt_uuids :: nat

type_synonym ('w, 'a) prog = "'w \<Rightarrow> (exn + 'a) \<times> 'w"

definition now :: "('m runtime_scheme, time) prog" where
  "now w = (Inr (rt_clock w (rt_ticks w)), w\<lparr>rt_ticks := Suc (rt_ticks w)\<rparr>)"

definition uuid4 :: "('m runtime_scheme, uuid) prog" where
  "uuid4 w = (Inr (rt_uuid w (rt_uuids w)), w\<lparr>rt_uuids := Suc (rt_uuids w)\<rparr>)"

lemma bnd_now [simp, prog]:
  "bnd now f w = f (rt_clock w (rt_ticks w)) (w\<lparr>rt_ticks := Suc (rt_ticks w)\<rparr>)"
  by (simp add: bnd_def now_def)

lemma bnd_uuid4 [simp, prog]:
  "bnd uuid4 f w = f (rt_uuid w (rt_uuids w)) (w\<lparr>rt_uuids := Suc (rt_uuids w)\<rparr>)"
  by (simp add: bnd_def uuid4_def)

definition seconds :: "int \<Rightarrow> time" where
  "seconds n = n * 1000000"

text \<open>\<^verbatim>\<open>str(uuid)\<close>: 32 hexadecimal digits with dashes.\<close>

fun hex_digits :: "nat \<Rightarrow> nat \<Rightarrow> string" where
  "hex_digits 0 n = []"
| "hex_digits (Suc k) n = hex_digits k (n div 16) @ [hex_digit (n mod 16)]"

definition uuid_str :: "uuid \<Rightarrow> string" where
  "uuid_str u = (let h = hex_digits 32 u in
     take 8 h @ ''-'' @ take 4 (drop 8 h) @ ''-'' @ take 4 (drop 12 h) @ ''-'' @
     take 4 (drop 16 h) @ ''-'' @ drop 20 h)"

section \<open>Weakest preconditions\<close>

text \<open>\<open>wp m Q w\<close>: run from \<open>w\<close>, the computation ends, with a result or an exception, in \<open>Q\<close>.\<close>

definition wp :: "('w \<Rightarrow> ('e + 'a) \<times> 'w) \<Rightarrow> ('e + 'a \<Rightarrow> 'w \<Rightarrow> bool) \<Rightarrow> 'w \<Rightarrow> bool" where
  "wp m Q w \<longleftrightarrow> Q (fst (m w)) (snd (m w))"

definition on_value :: "('e + 'b \<Rightarrow> 'w \<Rightarrow> bool) \<Rightarrow> ('a \<Rightarrow> 'w \<Rightarrow> bool) \<Rightarrow> 'e + 'a \<Rightarrow> 'w \<Rightarrow> bool" where
  "on_value Q k r w = (case r of Inl e \<Rightarrow> Q (Inl e) w | Inr x \<Rightarrow> k x w)"

lemma on_value_simps [simp]:
  "on_value Q k (Inl e) w = Q (Inl e) w" "on_value Q k (Inr x) w = k x w"
  by (auto simp: on_value_def)

named_theorems wps "weakest preconditions of the combinators"

lemma wp_ret [wps]: "wp (ret x) Q w = Q (Inr x) w"
  by (simp add: wp_def ret_def)

lemma wp_raise [wps]: "wp (raise e) Q w = Q (Inl e) w"
  by (simp add: wp_def raise_def)

lemma wp_gets [wps]: "wp (gets f) Q w = Q (Inr (f w)) w"
  by (simp add: wp_def gets_def)

lemma wp_modify [wps]: "wp (modify f) Q w = Q (Inr ()) (f w)"
  by (simp add: wp_def modify_def)

lemma wp_liftS [wps]: "wp (liftS r) Q w = Q r w"
  by (simp add: wp_def liftS_def)

lemma wp_bnd [wps]: "wp (bnd m f) Q w = wp m (on_value Q (\<lambda>x. wp (f x) Q)) w"
  by (simp add: wp_def bnd_def on_value_def split: prod.splits sum.splits)

lemma wp_sq [wps]: "wp (sq m k) Q w = wp m (on_value Q (\<lambda>_. wp k Q)) w"
  by (simp add: sq_def wp_bnd)

lemma wp_now [wps]: "wp now Q w = Q (Inr (rt_clock w (rt_ticks w))) (w\<lparr>rt_ticks := Suc (rt_ticks w)\<rparr>)"
  by (simp add: wp_def now_def)

lemma wp_uuid4 [wps]: "wp uuid4 Q w = Q (Inr (rt_uuid w (rt_uuids w))) (w\<lparr>rt_uuids := Suc (rt_uuids w)\<rparr>)"
  by (simp add: wp_def uuid4_def)

lemma wp_mono: "wp m P w \<Longrightarrow> (\<And>r w'. P r w' \<Longrightarrow> Q r w') \<Longrightarrow> wp m Q w"
  by (simp add: wp_def)

lemma wpD: "wp m Q w \<Longrightarrow> m w = (x, w') \<Longrightarrow> Q x w'"
  by (simp add: wp_def)

lemma wp_try [wps]:
  "wp (try_except m h) Q w =
     wp m (\<lambda>r w'. case r of Inl e \<Rightarrow> wp (h e) Q w' | Inr x \<Rightarrow> Q (Inr x) w') w"
  by (simp add: wp_def try_except_def split: prod.splits sum.splits)

section \<open>The audit trail\<close>

definition SESSION_CREATED :: string where "SESSION_CREATED = ''terminal.session.created''"
definition SESSION_CLOSED :: string where "SESSION_CLOSED = ''terminal.session.closed''"
definition SESSION_EXPIRED :: string where "SESSION_EXPIRED = ''terminal.session.expired''"
definition COMMAND_REQUESTED :: string where "COMMAND_REQUESTED = ''terminal.command.requested''"
definition COMMAND_APPROVED :: string where "COMMAND_APPROVED = ''terminal.command.approved''"
definition COMMAND_REJECTED :: string where "COMMAND_REJECTED = ''terminal.command.rejected''"
definition COMMAND_STARTED :: string where "COMMAND_STARTED = ''terminal.command.started''"
definition COMMAND_COMPLETED :: string where "COMMAND_COMPLETED = ''terminal.command.completed''"
definition COMMAND_FAILED :: string where "COMMAND_FAILED = ''terminal.command.failed''"
definition COMMAND_TIMEOUT :: string where "COMMAND_TIMEOUT = ''terminal.command.timeout''"
definition COMMAND_CANCELLED :: string where "COMMAND_CANCELLED = ''terminal.command.cancelled''"

lemmas audit_names =
  SESSION_CREATED_def SESSION_CLOSED_def SESSION_EXPIRED_def COMMAND_REQUESTED_def
  COMMAND_APPROVED_def COMMAND_REJECTED_def COMMAND_STARTED_def COMMAND_COMPLETED_def
  COMMAND_FAILED_def COMMAND_TIMEOUT_def COMMAND_CANCELLED_def

record audit_event =
  ev_type :: string
  ev_session_id :: "string option"
  ev_command_id :: "string option"
  ev_task_id :: "string option"
  ev_timestamp :: time
  ev_data :: "(string \<times> pyval) list"

text \<open>The sink: the events emitted so far.  A default sink writes them to a log.\<close>

record audit_w = runtime +
  audit_log :: "audit_event list"

definition audit_emit ::
    "string \<Rightarrow> string option \<Rightarrow> string option \<Rightarrow> string option \<Rightarrow> (string \<times> pyval) list \<Rightarrow>
     ('m audit_w_scheme, unit) prog" where
  "audit_emit t sid cid tid d =
     bnd now (\<lambda>ts. modify (\<lambda>w. w\<lparr>audit_log := audit_log w @
       [\<lparr>ev_type = t, ev_session_id = sid, ev_command_id = cid, ev_task_id = tid,
         ev_timestamp = ts, ev_data = d\<rparr>]\<rparr>))"

lemma sq_audit_emit [simp, prog]:
  "sq (audit_emit t sid cid tid d) k w =
     k (w\<lparr>rt_ticks := Suc (rt_ticks w), audit_log := audit_log w @
       [\<lparr>ev_type = t, ev_session_id = sid, ev_command_id = cid, ev_task_id = tid,
         ev_timestamp = rt_clock w (rt_ticks w), ev_data = d\<rparr>]\<rparr>)"
  by (simp add: audit_emit_def sq_bnd)

lemma audit_emit_run [simp, prog]:
  "audit_emit t sid cid tid d w =
     (Inr (), w\<lparr>rt_ticks := Suc (rt_ticks w), audit_log := audit_log w @
       [\<lparr>ev_type = t, ev_session_id = sid, ev_command_id = cid, ev_task_id = tid,
         ev_timestamp = rt_clock w (rt_ticks w), ev_data = d\<rparr>]\<rparr>)"
  by (simp add: audit_emit_def modify_def)

text \<open>The types of the events, in order.\<close>

definition audit_types :: "'m audit_w_scheme \<Rightarrow> string list" where
  "audit_types w = map ev_type (audit_log w)"

lemma wp_audit_emit [wps]:
  "wp (audit_emit t sid cid tid d) Q w =
     Q (Inr ()) (w\<lparr>rt_ticks := Suc (rt_ticks w), audit_log := audit_log w @
       [\<lparr>ev_type = t, ev_session_id = sid, ev_command_id = cid, ev_task_id = tid,
         ev_timestamp = rt_clock w (rt_ticks w), ev_data = d\<rparr>]\<rparr>)"
  by (simp add: wp_def)

definition LOG_CONTENT_PREVIEW_CHARS :: nat where
  "LOG_CONTENT_PREVIEW_CHARS = 200"

definition truncate_for_log :: "string option \<Rightarrow> string option" where
  "truncate_for_log text = (case text of None \<Rightarrow> None | Some t \<Rightarrow>
     if py_len t \<le> LOG_CONTENT_PREVIEW_CHARS then Some t
     else Some (py_take LOG_CONTENT_PREVIEW_CHARS t @ ''... ['' @
            show_nat (py_len t - LOG_CONTENT_PREVIEW_CHARS) @ '' more characters omitted]''))"

end
