(* ===== verification/Policy.thy ===== *)
theory Policy
  imports Runtime
begin

text \<open>
  \<^verbatim>\<open>services/policy/engine.py\<close>: the gate between a proposed action and its execution.
  \<open>policy_evaluate\<close> takes the time at which \<^verbatim>\<open>is_authorized_now\<close> reads the clock.
\<close>

datatype policy_verdict = ALLOW | DENY | REQUIRE_APPROVAL

datatype risk_tier = Risk_LOW | Risk_MEDIUM | Risk_HIGH | Risk_CRITICAL

fun verdict_value :: "policy_verdict \<Rightarrow> string" where
  "verdict_value ALLOW = ''ALLOW''"
| "verdict_value DENY = ''DENY''"
| "verdict_value REQUIRE_APPROVAL = ''REQUIRE_APPROVAL''"

fun risk_value :: "risk_tier \<Rightarrow> string" where
  "risk_value Risk_LOW = ''low''"
| "risk_value Risk_MEDIUM = ''medium''"
| "risk_value Risk_HIGH = ''high''"
| "risk_value Risk_CRITICAL = ''critical''"

record target_scope =
  ts_id :: uuid
  ts_is_active :: bool
  ts_expires_at :: "time option"

definition is_authorized_now :: "time \<Rightarrow> target_scope \<Rightarrow> bool" where
  "is_authorized_now t ts =
     (if \<not> ts_is_active ts then False
      else (case ts_expires_at ts of None \<Rightarrow> True | Some e \<Rightarrow> if e \<le> t then False else True))"

record action_request =
  ar_action_id :: uuid
  ar_action_type :: string
  ar_risk_tier :: risk_tier
  ar_target :: target_scope

record policy_decision =
  pd_verdict :: policy_verdict
  pd_reasons :: "string list"
  pd_requires_approval :: bool

definition REGISTERED_ACTION_TYPES :: "string list" where
  "REGISTERED_ACTION_TYPES =
     [''diagnostics.echo_test'', ''tool_install.package_manager_install'',
      ''tool_install.package_manager_verify'']"

definition policy_evaluate :: "time \<Rightarrow> action_request \<Rightarrow> policy_decision" where
  "policy_evaluate t r =
     (if \<not> is_authorized_now t (ar_target r) then
        \<lparr>pd_verdict = DENY, pd_reasons = [''Target has no active, non-expired authorization.''],
         pd_requires_approval = False\<rparr>
      else if ar_action_type r \<notin> set REGISTERED_ACTION_TYPES then
        \<lparr>pd_verdict = DENY,
         pd_reasons = [''Action type '' @ quoted (ar_action_type r) @
           '' is not in the reviewed action registry.''],
         pd_requires_approval = False\<rparr>
      else if ar_risk_tier r \<in> {Risk_MEDIUM, Risk_HIGH, Risk_CRITICAL} then
        \<lparr>pd_verdict = REQUIRE_APPROVAL,
         pd_reasons = [''Risk tier '' @ quoted (risk_value (ar_risk_tier r)) @
           '' requires explicit human approval.''],
         pd_requires_approval = True\<rparr>
      else
        \<lparr>pd_verdict = ALLOW,
         pd_reasons = [''Target authorized and action type registered at low risk.''],
         pd_requires_approval = False\<rparr>)"

section \<open>What the gate decides\<close>

lemma is_authorized_now_iff:
  "is_authorized_now t ts \<longleftrightarrow>
     ts_is_active ts \<and> (\<forall>e. ts_expires_at ts = Some e \<longrightarrow> t < e)"
  by (auto simp: is_authorized_now_def split: option.splits)

text \<open>Authorization only ever lapses: at an earlier time the same record authorizes.\<close>

lemma is_authorized_antimono: "t \<le> u \<Longrightarrow> is_authorized_now u ts \<Longrightarrow> is_authorized_now t ts"
  by (auto simp: is_authorized_now_iff)

lemma policy_allow_iff:
  "pd_verdict (policy_evaluate t r) = ALLOW \<longleftrightarrow>
     is_authorized_now t (ar_target r) \<and> ar_action_type r \<in> set REGISTERED_ACTION_TYPES \<and>
     ar_risk_tier r = Risk_LOW"
  by (cases "ar_risk_tier r") (auto simp: policy_evaluate_def)

lemma policy_deny_iff:
  "pd_verdict (policy_evaluate t r) = DENY \<longleftrightarrow>
     \<not> is_authorized_now t (ar_target r) \<or> ar_action_type r \<notin> set REGISTERED_ACTION_TYPES"
  by (auto simp: policy_evaluate_def)

lemma policy_approval_iff:
  "pd_verdict (policy_evaluate t r) = REQUIRE_APPROVAL \<longleftrightarrow>
     is_authorized_now t (ar_target r) \<and> ar_action_type r \<in> set REGISTERED_ACTION_TYPES \<and>
     ar_risk_tier r \<noteq> Risk_LOW"
  by (cases "ar_risk_tier r") (auto simp: policy_evaluate_def)

lemma policy_reasons_nonempty: "pd_reasons (policy_evaluate t r) \<noteq> []"
  by (simp add: policy_evaluate_def)

text \<open>
  C33.  The verdict of the policy engine: an action is let through only for a target whose
  authorization is active and not expired, for a reviewed action type, and without approval only at
  low risk.
\<close>

theorem policy_gate:
  "(pd_verdict (policy_evaluate t r) \<noteq> DENY) =
     (ts_is_active (ar_target r) \<and> (case ts_expires_at (ar_target r) of None \<Rightarrow> True | Some e \<Rightarrow> t < e) \<and>
      ar_action_type r \<in> set REGISTERED_ACTION_TYPES) \<and>
   (pd_verdict (policy_evaluate t r) = ALLOW) =
     (pd_verdict (policy_evaluate t r) \<noteq> DENY \<and> ar_risk_tier r = Risk_LOW) \<and>
   pd_requires_approval (policy_evaluate t r) =
     (pd_verdict (policy_evaluate t r) = REQUIRE_APPROVAL)"
  by (cases "ar_risk_tier r")
     (auto simp: policy_evaluate_def is_authorized_now_def split: option.splits)

end
