(* ===== verification/Templates.thy ===== *)
theory Templates
  imports Regex Policy
begin

text \<open>
  \<^verbatim>\<open>services/terminal/command_templates.py\<close>: the only place an argument vector is produced.
  \<^verbatim>\<open>sys.executable\<close> is the parameter \<open>py\<close>.
\<close>

definition is_alnum :: "char \<Rightarrow> bool" where
  "is_alnum c \<longleftrightarrow> (48 \<le> byte c \<and> byte c \<le> 57) \<or> (65 \<le> byte c \<and> byte c \<le> 90) \<or>
     (97 \<le> byte c \<and> byte c \<le> 122)"

definition is_name_char :: "char \<Rightarrow> bool" where
  "is_name_char c \<longleftrightarrow> is_alnum c \<or> c \<in> set ''._+-''"

definition PACKAGE_NAME_PATTERN :: rx where
  "PACKAGE_NAME_PATTERN = rx_name is_alnum is_name_char 127"

definition VERSION_PATTERN :: rx where
  "VERSION_PATTERN = rx_name is_alnum is_name_char 63"

definition EXECUTABLE_NAME_PATTERN :: rx where
  "EXECUTABLE_NAME_PATTERN = rx_name is_alnum is_name_char 127"

definition INSTALL_ACTION_TYPE :: string where
  "INSTALL_ACTION_TYPE = ''tool_install.package_manager_install''"

definition VERIFY_ACTION_TYPE :: string where
  "VERIFY_ACTION_TYPE = ''tool_install.package_manager_verify''"

definition validate_token :: "rx \<Rightarrow> string \<Rightarrow> string \<Rightarrow> exn + string" where
  "validate_token pattern value label =
     (if \<not> re_match pattern value then
        Inl (InvalidRequestError (''Invalid '' @ label @ '' for installation: '' @ py_repr value))
      else Inr value)"

definition with_version :: "string \<Rightarrow> string \<Rightarrow> string option \<Rightarrow> string" where
  "with_version name sep ver = (case ver of None \<Rightarrow> name | Some v \<Rightarrow> name @ sep @ v)"

definition install_argv :: "string \<Rightarrow> string \<Rightarrow> string \<Rightarrow> string option \<Rightarrow> exn + string list" where
  "install_argv py pm name ver =
     (if pm = ''winget'' then
        Inr ([''winget'', ''install'', ''--id'', name, ''--exact'', ''--silent'',
              ''--accept-package-agreements'', ''--accept-source-agreements''] @
             (case ver of None \<Rightarrow> [] | Some v \<Rightarrow> [''--version'', v]))
      else if pm = ''apt'' then Inr [''apt-get'', ''install'', ''-y'', with_version name ''='' ver]
      else if pm = ''dnf'' then Inr [''dnf'', ''install'', ''-y'', with_version name ''-'' ver]
      else if pm = ''pacman'' then Inr [''pacman'', ''-S'', ''--noconfirm'', name]
      else if pm = ''brew'' then Inr [''brew'', ''install'', with_version name ''@'' ver]
      else if pm = ''pip'' then
        Inr [py, ''-m'', ''pip'', ''install'', with_version name ''=='' ver]
      else if pm = ''termux_pkg'' then Inr [''pkg'', ''install'', ''-y'', name]
      else Inl (InvalidRequestError (''Unsupported package manager '' @ quoted pm @ ''.'')))"

definition build_install_command ::
    "string \<Rightarrow> string \<Rightarrow> string \<Rightarrow> string option \<Rightarrow> exn + string list" where
  "build_install_command py pm package_name version =
     (case validate_token PACKAGE_NAME_PATTERN package_name ''package name'' of
        Inl e \<Rightarrow> Inl e
      | Inr name \<Rightarrow>
          (if truthy version then
             (case validate_token VERSION_PATTERN (the version) ''version'' of
                Inl e \<Rightarrow> Inl e
              | Inr v \<Rightarrow> install_argv py pm name (Some v))
           else install_argv py pm name None))"

definition build_verification_command ::
    "string \<Rightarrow> string \<Rightarrow> string \<Rightarrow> string option \<Rightarrow> exn + string list" where
  "build_verification_command py pm package_name entrypoint =
     (if truthy entrypoint then
        (case validate_token EXECUTABLE_NAME_PATTERN (the entrypoint) ''entrypoint'' of
           Inl e \<Rightarrow> Inl e
         | Inr exe \<Rightarrow> Inr [exe, ''--version''])
      else
        (case validate_token PACKAGE_NAME_PATTERN package_name ''package name'' of
           Inl e \<Rightarrow> Inl e
         | Inr name \<Rightarrow>
             if pm = ''pip'' then Inr [py, ''-m'', ''pip'', ''show'', name]
             else if pm = ''brew'' then Inr [''brew'', ''list'', ''--versions'', name]
             else if pm = ''winget'' then Inr [''winget'', ''list'', ''--id'', name]
             else if pm = ''apt'' then Inr [''dpkg-query'', ''-W'', ''-f=${Version}'', name]
             else if pm = ''dnf'' then Inr [''rpm'', ''-q'', name]
             else if pm = ''pacman'' then Inr [''pacman'', ''-Q'', name]
             else if pm = ''termux_pkg'' then Inr [''pkg'', ''list-installed'', name]
             else Inl (InvalidRequestError (''Unsupported package manager '' @ quoted pm @ ''.''))))"

definition diagnostics_echo_test :: "string \<Rightarrow> string list" where
  "diagnostics_echo_test py = [py, ''-c'', ''print('' @ quoted ''cyberai-terminal-engine-ok'' @ '')'']"

definition COMMAND_TEMPLATES :: "(string \<times> (string \<Rightarrow> string list)) list" where
  "COMMAND_TEMPLATES = [(''diagnostics.echo_test'', diagnostics_echo_test)]"

definition ACTION_RISK_TIERS :: "(string \<times> risk_tier) list" where
  "ACTION_RISK_TIERS =
     [(''diagnostics.echo_test'', Risk_LOW), (INSTALL_ACTION_TYPE, Risk_MEDIUM),
      (VERIFY_ACTION_TYPE, Risk_LOW)]"

definition resolve_command :: "string \<Rightarrow> string \<Rightarrow> string list option" where
  "resolve_command py action_type =
     (case map_of COMMAND_TEMPLATES action_type of None \<Rightarrow> None | Some template \<Rightarrow> Some (template py))"

section \<open>What reaches an argument vector\<close>

text \<open>A name the patterns accept, apart from the newline that \<^verbatim>\<open>$\<close> lets through.\<close>

definition safe_token :: "nat \<Rightarrow> string \<Rightarrow> bool" where
  "safe_token n s \<longleftrightarrow> s \<noteq> [] \<and> is_alnum (hd s) \<and> (\<forall>c \<in> set s. is_name_char c) \<and> length s \<le> n"

lemma alnum_name: "is_alnum c \<Longrightarrow> is_name_char c"
  by (simp add: is_name_char_def)

lemma name_pattern_iff:
  "re_match (rx_name is_alnum is_name_char n) s \<longleftrightarrow>
     (\<exists>t. safe_token (Suc n) t \<and> (s = t \<or> s = t @ newline))"
proof -
  have "safe_token (Suc n) t \<longleftrightarrow> (\<exists>c u. t = c # u \<and> is_alnum c \<and> (\<forall>d \<in> set u. is_name_char d) \<and> length u \<le> n)"
    for t
    by (cases t) (auto simp: safe_token_def alnum_name)
  then show ?thesis by (auto simp: rx_name_iff) blast+
qed

lemma validate_token_Inr:
  "validate_token p v l = Inr x \<longleftrightarrow> x = v \<and> re_match p v"
  by (auto simp: validate_token_def)

lemma package_pattern_iff:
  "re_match PACKAGE_NAME_PATTERN s \<longleftrightarrow> (\<exists>t. safe_token 128 t \<and> (s = t \<or> s = t @ newline))"
  by (simp add: PACKAGE_NAME_PATTERN_def name_pattern_iff)

lemma version_pattern_iff:
  "re_match VERSION_PATTERN s \<longleftrightarrow> (\<exists>t. safe_token 64 t \<and> (s = t \<or> s = t @ newline))"
  by (simp add: VERSION_PATTERN_def name_pattern_iff)

lemma executable_pattern_iff:
  "re_match EXECUTABLE_NAME_PATTERN s \<longleftrightarrow> (\<exists>t. safe_token 128 t \<and> (s = t \<or> s = t @ newline))"
  by (simp add: EXECUTABLE_NAME_PATTERN_def name_pattern_iff)

lemma name_char_not_ctl: "is_name_char c \<Longrightarrow> c \<noteq> CHR 0x0A"
  by (auto simp: is_name_char_def is_alnum_def)

definition package_managers :: "string list" where
  "package_managers =
     [''winget'', ''apt'', ''dnf'', ''pacman'', ''brew'', ''pip'', ''termux_pkg'']"

lemma install_argv_ok: "(\<exists>argv. install_argv py pm name ver = Inr argv) \<longleftrightarrow> pm \<in> set package_managers"
  by (auto simp: install_argv_def package_managers_def)

text \<open>The words an install command takes from the template rather than from its arguments.\<close>

definition install_words :: "string \<Rightarrow> string list" where
  "install_words py = [py, ''winget'', ''install'', ''--id'', ''--exact'', ''--silent'',
     ''--accept-package-agreements'', ''--accept-source-agreements'', ''--version'', ''apt-get'',
     ''-y'', ''dnf'', ''pacman'', ''-S'', ''--noconfirm'', ''brew'', ''-m'', ''pip'', ''pkg'']"

definition is_argument :: "string \<Rightarrow> bool" where
  "is_argument s \<longleftrightarrow> s \<noteq> [] \<and> is_alnum (hd s) \<and>
     (\<forall>c \<in> set s. is_name_char c \<or> c \<in> set ''=@'' \<or> c = CHR 0x0A)"

lemma is_argument_token: "safe_token n t \<Longrightarrow> s = t \<or> s = t @ newline \<Longrightarrow> is_argument s"
  by (auto simp: is_argument_def safe_token_def)

lemma is_argument_join:
  "is_argument a \<Longrightarrow> is_argument b \<Longrightarrow> (\<forall>c \<in> set sep. is_name_char c \<or> c \<in> set ''=@'') \<Longrightarrow>
   is_argument (a @ sep @ b)"
  by (cases a) (auto simp: is_argument_def)

lemma is_argument_with_version:
  assumes "is_argument name" and "\<And>v. ver = Some v \<Longrightarrow> is_argument v"
    and "sep \<in> {''='', ''-'', ''@'', ''==''}"
  shows "is_argument (with_version name sep ver)"
  using assms
  by (cases ver) (auto simp: with_version_def is_name_char_def intro!: is_argument_join)

lemma install_argv_words:
  assumes "install_argv py pm name ver = Inr argv"
    and "is_argument name" and "\<And>v. ver = Some v \<Longrightarrow> is_argument v"
    and "a \<in> set argv"
  shows "a \<in> set (install_words py) \<or> is_argument a"
  using assms
  by (auto simp: install_argv_def install_words_def is_argument_with_version
      split: if_splits option.splits)

lemma build_install_command_Inr:
  "build_install_command py pm name version = Inr argv \<longleftrightarrow>
     re_match PACKAGE_NAME_PATTERN name \<and>
     (truthy version \<longrightarrow> re_match VERSION_PATTERN (the version)) \<and>
     install_argv py pm name (if truthy version then version else None) = Inr argv"
  by (auto simp: build_install_command_def validate_token_def truthy_def split: option.splits sum.splits)

text \<open>
  C23.  No install command carries an argument the template did not fix unless it begins with a letter
  or digit and holds only name characters, the separators between a name and a version, and
  possibly the final newline: an argument can be neither an option nor a shell word with
  metacharacters.
\<close>

theorem install_command_arguments:
  assumes "build_install_command py pm name version = Inr argv" and "a \<in> set argv"
  shows "a \<in> set (install_words py) \<or> is_argument a"
proof -
  have "is_argument name"
    using assms(1) by (auto simp: build_install_command_Inr package_pattern_iff intro: is_argument_token)
  moreover have "is_argument v" if "(if truthy version then version else None) = Some v" for v
    using assms(1) that
    by (auto simp: build_install_command_Inr version_pattern_iff intro: is_argument_token split: if_splits)
  moreover have "install_argv py pm name (if truthy version then version else None) = Inr argv"
    using assms(1) by (simp add: build_install_command_Inr)
  ultimately show ?thesis using assms(2) install_argv_words by blast
qed

lemma nmap_command:
  "build_install_command ''python'' ''apt'' ''nmap'' (Some ''7.94'') =
     Inr [''apt-get'', ''install'', ''-y'', ''nmap=7.94'']"
  by code_simp

theorem install_command_arguments_witness:
  "''nmap=7.94'' \<in> set (install_words ''python'') \<or> is_argument ''nmap=7.94''"
  by (rule install_command_arguments [OF nmap_command]) simp

text \<open>
  The patterns end in \<^verbatim>\<open>$\<close>, not \<^verbatim>\<open>\Z\<close>: the install template accepts a package name
  exactly when it is a name of at most 128 name characters beginning with a letter or digit, or
  such a name followed by one newline, which then reaches the argument vector.
\<close>

theorem install_command_accepts:
  "((\<exists>argv. build_install_command py pm name None = Inr argv) =
      (pm \<in> set package_managers \<and>
       (\<exists>t. safe_token 128 t \<and> (name = t \<or> name = t @ newline)))) \<and>
   build_install_command py ''apt'' (''nmap'' @ newline) None =
     Inr [''apt-get'', ''install'', ''-y'', ''nmap'' @ newline]"
proof -
  have "safe_token 128 ''nmap''"
    by (simp add: safe_token_def is_name_char_def is_alnum_def)
  then have "re_match PACKAGE_NAME_PATTERN (''nmap'' @ newline)"
    by (auto simp: package_pattern_iff)
  then show ?thesis
    by (auto simp: build_install_command_Inr install_argv_ok truthy_def package_pattern_iff
        install_argv_def with_version_def simp flip: install_argv_ok [of py pm name None])
qed

lemma resolve_command_Some:
  "resolve_command py t = Some argv \<longleftrightarrow>
     t = ''diagnostics.echo_test'' \<and> argv = diagnostics_echo_test py"
  by (auto simp: resolve_command_def COMMAND_TEMPLATES_def)

end
