(* ===== verification/Terminal.thy ===== *)
theory Terminal
  imports Templates
begin

text \<open>
  The data of the terminal engine and the checks that run before a process exists:
  \<^verbatim>\<open>services/terminal/platform_types.py\<close>, \<open>platform_select.py\<close>, \<open>config.py\<close>, \<open>models.py\<close>,
  \<open>validation.py\<close>, \<open>adapters/base.py\<close> and \<open>controller.py\<close>.  The operating system is the record
  \<open>os_env\<close>: what \<^verbatim>\<open>platform\<close>, \<^verbatim>\<open>os.environ\<close>, \<^verbatim>\<open>shutil.which\<close>, \<^verbatim>\<open>os.path\<close> and \<^verbatim>\<open>sys\<close>
  answer.
\<close>

section \<open>Platforms\<close>

datatype platform_identifier =
    P_WINDOWS | P_LINUX | P_MACOS | P_ANDROID_TERMUX | P_UNKNOWN

fun platform_value :: "platform_identifier \<Rightarrow> string" where
  "platform_value P_WINDOWS = ''WINDOWS''"
| "platform_value P_LINUX = ''LINUX''"
| "platform_value P_MACOS = ''MACOS''"
| "platform_value P_ANDROID_TERMUX = ''ANDROID_TERMUX''"
| "platform_value P_UNKNOWN = ''UNKNOWN''"

record os_env =
  os_system :: string
  os_environ :: "(string \<times> string) list"
  os_which :: "string \<Rightarrow> string option"
  os_isfile :: "string \<Rightarrow> bool"
  os_realpath :: "string \<Rightarrow> string"
  os_proc_version :: "string option"
  os_machine :: string
  os_python :: string
  os_python_version :: string
  os_name :: string
  os_has_setsid :: bool
  os_has_killpg :: bool

definition is_termux :: "os_env \<Rightarrow> bool" where
  "is_termux e \<longleftrightarrow> str_in ''com.termux''
     (case map_of (os_environ e) ''PREFIX'' of None \<Rightarrow> [] | Some v \<Rightarrow> v)"

definition is_wsl :: "os_env \<Rightarrow> bool" where
  "is_wsl e =
     (if os_system e \<noteq> ''Linux'' then False
      else if map_of (os_environ e) ''WSL_DISTRO_NAME'' \<noteq> None \<or>
              map_of (os_environ e) ''WSL_INTEROP'' \<noteq> None then True
      else (case os_proc_version e of None \<Rightarrow> False | Some v \<Rightarrow> str_in ''microsoft'' (lower v)))"

definition detect_platform :: "os_env \<Rightarrow> platform_identifier" where
  "detect_platform e =
     (if is_termux e then P_ANDROID_TERMUX
      else if os_system e = ''Linux'' then P_LINUX
      else if os_system e = ''Darwin'' then P_MACOS
      else if os_system e = ''Windows'' then P_WINDOWS
      else P_UNKNOWN)"

definition ADAPTER_NAME_BY_PLATFORM :: "(platform_identifier \<times> string) list" where
  "ADAPTER_NAME_BY_PLATFORM =
     [(P_WINDOWS, ''windows''), (P_LINUX, ''linux''), (P_MACOS, ''macos''),
      (P_ANDROID_TERMUX, ''termux'')]"

definition PLATFORM_BY_ADAPTER_NAME :: "(string \<times> platform_identifier) list" where
  "PLATFORM_BY_ADAPTER_NAME = map (\<lambda>(i, n). (n, i)) ADAPTER_NAME_BY_PLATFORM"

definition platform_for_adapter_name :: "string \<Rightarrow> platform_identifier" where
  "platform_for_adapter_name n =
     (case map_of PLATFORM_BY_ADAPTER_NAME n of None \<Rightarrow> P_UNKNOWN | Some p \<Rightarrow> p)"

text \<open>The adapters \<open>select_adapter\<close> constructs; an adapter is named by its class.\<close>

datatype adapter = WindowsTerminalAdapter | LinuxTerminalAdapter | MacOSTerminalAdapter | TermuxAdapter

fun adapter_name :: "adapter \<Rightarrow> string" where
  "adapter_name WindowsTerminalAdapter = ''windows''"
| "adapter_name LinuxTerminalAdapter = ''linux''"
| "adapter_name MacOSTerminalAdapter = ''macos''"
| "adapter_name TermuxAdapter = ''termux''"

definition select_adapter :: "os_env \<Rightarrow> exn + adapter" where
  "select_adapter e =
     (case detect_platform e of
        P_ANDROID_TERMUX \<Rightarrow> Inr TermuxAdapter
      | P_LINUX \<Rightarrow> Inr LinuxTerminalAdapter
      | P_MACOS \<Rightarrow> Inr MacOSTerminalAdapter
      | P_WINDOWS \<Rightarrow> Inr WindowsTerminalAdapter
      | P_UNKNOWN \<Rightarrow> Inl (UnsupportedPlatformError
          (''Unsupported platform: <PlatformIdentifier.UNKNOWN: '' @ quoted ''UNKNOWN'' @ ''>'')))"

section \<open>Commands and results\<close>

record command_spec =
  cs_argv :: "string list"
  cs_timeout_seconds :: int
  cs_working_dir :: "string option"
  cs_env_overrides :: "(string \<times> string) list"
  cs_env_allowlist :: "string list option"
  cs_max_stdout_bytes :: "int option"
  cs_max_stderr_bytes :: "int option"

datatype execution_status =
  Ex_PENDING | Ex_RUNNING | Ex_SUCCEEDED | Ex_FAILED | Ex_RECOVERING | Ex_CANCELLED

record execution_result =
  er_adapter :: string
  er_status :: execution_status
  er_exit_code :: "int option"
  er_stdout :: "string option"
  er_stderr :: "string option"
  er_stdout_truncated :: bool
  er_stderr_truncated :: bool
  er_timed_out :: bool
  er_started_at :: time
  er_finished_at :: "time option"

section \<open>Sessions, requests, results\<close>

datatype session_status =
    Sess_CREATED | Sess_READY | Sess_RUNNING | Sess_STOPPING | Sess_STOPPED | Sess_FAILED
  | Sess_EXPIRED

fun session_status_value :: "session_status \<Rightarrow> string" where
  "session_status_value Sess_CREATED = ''CREATED''"
| "session_status_value Sess_READY = ''READY''"
| "session_status_value Sess_RUNNING = ''RUNNING''"
| "session_status_value Sess_STOPPING = ''STOPPING''"
| "session_status_value Sess_STOPPED = ''STOPPED''"
| "session_status_value Sess_FAILED = ''FAILED''"
| "session_status_value Sess_EXPIRED = ''EXPIRED''"

datatype command_status =
  Cmd_QUEUED | Cmd_RUNNING | Cmd_COMPLETED | Cmd_FAILED | Cmd_TIMEOUT | Cmd_CANCELLED | Cmd_REJECTED

fun command_status_value :: "command_status \<Rightarrow> string" where
  "command_status_value Cmd_QUEUED = ''QUEUED''"
| "command_status_value Cmd_RUNNING = ''RUNNING''"
| "command_status_value Cmd_COMPLETED = ''COMPLETED''"
| "command_status_value Cmd_FAILED = ''FAILED''"
| "command_status_value Cmd_TIMEOUT = ''TIMEOUT''"
| "command_status_value Cmd_CANCELLED = ''CANCELLED''"
| "command_status_value Cmd_REJECTED = ''REJECTED''"

record session =
  se_id :: uuid
  se_platform :: platform_identifier
  se_created_at :: time
  se_status :: session_status
  se_working_directory :: "string option"
  se_task_id :: "string option"
  se_authorization_context :: "policy_decision option"
  se_last_activity_at :: time

definition session_touch :: "time \<Rightarrow> session \<Rightarrow> session" where
  "session_touch t s = s\<lparr>se_last_activity_at := t\<rparr>"

definition session_is_expired :: "int \<Rightarrow> time \<Rightarrow> session \<Rightarrow> bool" where
  "session_is_expired ttl_seconds t s \<longleftrightarrow> t - se_last_activity_at s > seconds ttl_seconds"

record command_request =
  rq_session_id :: uuid
  rq_command :: "string list"
  rq_authorization_context :: policy_decision
  rq_task_id :: "string option"
  rq_id :: uuid
  rq_working_directory :: "string option"
  rq_environment :: "(string \<times> string) list"
  rq_timeout_seconds :: "int option"
  rq_approved_by_user :: bool

record command_result =
  cr_command_id :: uuid
  cr_session_id :: uuid
  cr_status :: command_status
  cr_platform :: platform_identifier
  cr_started_at :: time
  cr_exit_code :: "int option"
  cr_stdout :: "string option"
  cr_stderr :: "string option"
  cr_stdout_truncated :: bool
  cr_stderr_truncated :: bool
  cr_completed_at :: "time option"
  cr_error_message :: "string option"

text \<open>\<^verbatim>\<open>duration_seconds\<close>, in microseconds.\<close>

definition cr_duration :: "command_result \<Rightarrow> time option" where
  "cr_duration r = (case cr_completed_at r of None \<Rightarrow> None | Some c \<Rightarrow> Some (c - cr_started_at r))"

section \<open>Validation\<close>

definition DEFAULT_ENV_ALLOWLIST :: "string list" where
  "DEFAULT_ENV_ALLOWLIST =
     [''PATH'', ''HOME'', ''LANG'', ''LC_ALL'', ''TZ'', ''TMPDIR'', ''TEMP'', ''TMP'']"

definition MAX_COMMAND_ARGS :: nat where "MAX_COMMAND_ARGS = 64"

definition MAX_ARG_LENGTH :: nat where "MAX_ARG_LENGTH = 4096"

text \<open>
  The pattern is matched with IGNORECASE, here on the lowered key against lowered literals;
  \<^verbatim>\<open>[_-]?\<close> is an optional class.
\<close>

definition rx_opt_sep :: rx where
  "rx_opt_sep = ROpt (RCls (\<lambda>c. c \<in> set ''_-''))"

definition SECRET_KEY_PATTERN :: rx where
  "SECRET_KEY_PATTERN =
     RAlt (lits [''secret'', ''token'', ''password'', ''passwd''])
       (RAlt (RSeq (RLit ''api'') (RSeq rx_opt_sep (RLit ''key'')))
         (RAlt (RSeq (RLit ''private'') (RSeq rx_opt_sep (RLit ''key'')))
           (RAlt (RLit ''credential'') (RSeq (RLit ''_key'') REnd))))"

definition secret_key :: "string \<Rightarrow> bool" where
  "secret_key k \<longleftrightarrow> re_found SECRET_KEY_PATTERN (lower k)"

definition filter_environment :: "(string \<times> string) list \<Rightarrow> (string \<times> string) list" where
  "filter_environment overrides = filter (\<lambda>(key, _). \<not> secret_key key) overrides"

text \<open>\<^verbatim>\<open>os.path.isabs\<close> and \<^verbatim>\<open>os.path.join\<close> on POSIX.\<close>

definition path_isabs :: "string \<Rightarrow> bool" where
  "path_isabs p \<longleftrightarrow> starts_with ''/'' p"

definition path_join :: "string \<Rightarrow> string \<Rightarrow> string" where
  "path_join a b =
     (if path_isabs b then b
      else if a = [] \<or> last a = CHR ''/'' then a @ b
      else a @ ''/'' @ b)"

definition validate_working_directory ::
    "(string \<Rightarrow> string) \<Rightarrow> string option \<Rightarrow> string \<Rightarrow> exn + string" where
  "validate_working_directory realpath path workspace_root =
     (let root = realpath workspace_root in
      case path of
        None \<Rightarrow> Inr root
      | Some p \<Rightarrow>
          if p = [] \<or> p = ''.'' then Inr root
          else
            let candidate = (if path_isabs p then p else path_join root p);
                resolved = realpath candidate
            in if resolved \<noteq> root \<and> \<not> starts_with (root @ ''/'') resolved
               then Inl (InvalidWorkingDirectoryError
                      ''The requested working directory is outside the allowed workspace.'')
               else Inr resolved)"

definition validate_argv :: "string list \<Rightarrow> exn + unit" where
  "validate_argv argv =
     (if length argv = 0 then
        Inl (InvalidRequestError ''Command must be a non-empty list of arguments.'')
      else if length argv > MAX_COMMAND_ARGS then
        Inl (InvalidRequestError (''Command has too many arguments (limit is '' @
               show_nat MAX_COMMAND_ARGS @ '').''))
      else if \<exists>arg \<in> set argv. py_len arg > MAX_ARG_LENGTH then
        Inl (InvalidRequestError (''A command argument exceeds the maximum length ('' @
               show_nat MAX_ARG_LENGTH @ '').''))
      else Inr ())"

section \<open>Configuration\<close>

record terminal_config =
  tc_workspace_root :: string
  tc_default_timeout_seconds :: int
  tc_max_timeout_seconds :: int
  tc_max_stdout_bytes :: int
  tc_max_stderr_bytes :: int
  tc_session_ttl_seconds :: int
  tc_max_concurrent_sessions :: nat
  tc_env_allowlist :: "string list"
  tc_windows_powershell_path :: "string option"
  tc_linux_shell_path :: "string option"
  tc_macos_shell_path :: "string option"

definition default_terminal_config :: "string \<Rightarrow> terminal_config" where
  "default_terminal_config tmp =
     \<lparr>tc_workspace_root = tmp, tc_default_timeout_seconds = 30, tc_max_timeout_seconds = 120,
      tc_max_stdout_bytes = 1000000, tc_max_stderr_bytes = 1000000, tc_session_ttl_seconds = 900,
      tc_max_concurrent_sessions = 20, tc_env_allowlist = DEFAULT_ENV_ALLOWLIST,
      tc_windows_powershell_path = None, tc_linux_shell_path = None, tc_macos_shell_path = None\<rparr>"

definition clamp_timeout :: "terminal_config \<Rightarrow> int option \<Rightarrow> int" where
  "clamp_timeout c requested =
     (case requested of None \<Rightarrow> tc_default_timeout_seconds c
      | Some r \<Rightarrow> max 1 (min r (tc_max_timeout_seconds c)))"

section \<open>Approved executions\<close>

record approved_execution =
  ae_action_id :: uuid
  ae_command :: command_spec

definition from_policy_decision ::
    "uuid \<Rightarrow> command_spec \<Rightarrow> policy_decision \<Rightarrow> bool \<Rightarrow> exn + approved_execution" where
  "from_policy_decision action_id command decision approved_by_user =
     (if pd_verdict decision = ALLOW then Inr \<lparr>ae_action_id = action_id, ae_command = command\<rparr>
      else if pd_verdict decision = REQUIRE_APPROVAL \<and> approved_by_user
        then Inr \<lparr>ae_action_id = action_id, ae_command = command\<rparr>
      else Inl (ExecutionNotApprovedError (''Action '' @ uuid_str action_id @
             '' is not approved for execution (verdict=<PolicyVerdict.'' @
             verdict_value (pd_verdict decision) @ '': '' @
             quoted (verdict_value (pd_verdict decision)) @ ''>).'')))"

definition approves :: "policy_decision \<Rightarrow> bool \<Rightarrow> bool" where
  "approves d approved_by_user \<longleftrightarrow>
     pd_verdict d = ALLOW \<or> (pd_verdict d = REQUIRE_APPROVAL \<and> approved_by_user)"

lemma from_policy_decision_Inr:
  "from_policy_decision i c d u = Inr a \<longleftrightarrow> approves d u \<and> a = \<lparr>ae_action_id = i, ae_command = c\<rparr>"
  by (auto simp: from_policy_decision_def approves_def)

lemma from_policy_decision_Inl:
  "(\<exists>e. from_policy_decision i c d u = Inl e) \<longleftrightarrow> \<not> approves d u"
  by (auto simp: from_policy_decision_def approves_def)

section \<open>What validation guarantees\<close>

lemma validate_argv_Inr:
  "validate_argv argv = Inr () \<longleftrightarrow>
     argv \<noteq> [] \<and> length argv \<le> 64 \<and> (\<forall>a \<in> set argv. py_len a \<le> 4096)"
  by (force simp: validate_argv_def MAX_COMMAND_ARGS_def MAX_ARG_LENGTH_def)

lemma validate_argv_Inl:
  "validate_argv argv = Inl e \<Longrightarrow> \<exists>m. e = InvalidRequestError m"
  by (auto simp: validate_argv_def split: if_splits)

lemma validate_working_directory_Inl:
  "validate_working_directory rp p r = Inl e \<Longrightarrow>
     e = InvalidWorkingDirectoryError ''The requested working directory is outside the allowed workspace.''"
  by (auto simp: validate_working_directory_def Let_def split: option.splits if_splits)

lemma working_directory_within:
  "validate_working_directory realpath path wroot = Inr d \<Longrightarrow>
     d = realpath wroot \<or> (\<exists>rest. d = realpath wroot @ ''/'' @ rest)"
  by (auto simp: validate_working_directory_def Let_def starts_with_iff split: option.splits if_splits)

text \<open>
  Working-directory confinement: the directory a command runs in is the resolved workspace root
  or lies strictly below it on a path-component boundary, whatever the symbolic links, and a request
  that resolves elsewhere is refused.
\<close>

theorem working_directory_confined:
  "(\<forall>d. validate_working_directory realpath path wroot = Inr d \<longrightarrow>
      d = realpath wroot \<or> (\<exists>rest. d = realpath wroot @ ''/'' @ rest)) \<and>
   ((\<exists>e. validate_working_directory realpath path wroot = Inl e) =
      (\<exists>p. path = Some p \<and> p \<noteq> [] \<and> p \<noteq> ''.'' \<and>
         (let r = realpath (if path_isabs p then p else path_join (realpath wroot) p)
          in r \<noteq> realpath wroot \<and> \<not> starts_with (realpath wroot @ ''/'') r)))"
  by (auto simp: validate_working_directory_def Let_def starts_with_iff split: option.splits if_splits)

theorem working_directory_confined_witness:
  "(\<exists>rest. ''/work/a'' = ''/work'' @ ''/'' @ rest) \<or> ''/work/a'' = ''/work''"
proof -
  have "validate_working_directory id (Some ''a'') ''/work'' = Inr ''/work/a''"
    by (simp add: validate_working_directory_def path_isabs_def path_join_def starts_with_def)
  then show ?thesis
    using working_directory_confined [of id "Some ''a''" "''/work''"] by auto
qed

lemma secret_key_iff:
  "secret_key k \<longleftrightarrow>
     (\<exists>w \<in> {''secret'', ''token'', ''password'', ''passwd'', ''credential'', ''apikey'', ''api_key'',
            ''api-key'', ''privatekey'', ''private_key'', ''private-key''}. str_in w (lower k)) \<or>
     (\<exists>a. lower k = a @ ''_key'' \<or> lower k = a @ ''_key'' @ newline)"
proof -
  have sep: "re_found (RSeq (RLit p) (RSeq rx_opt_sep (RLit ''key''))) s \<longleftrightarrow>
      str_in (p @ ''key'') s \<or> str_in (p @ ''_key'') s \<or> str_in (p @ ''-key'') s" for p s
  proof -
    have "rx_match (RSeq (RLit p) (RSeq rx_opt_sep (RLit ''key''))) b \<noteq> [] \<longleftrightarrow>
        starts_with (p @ ''key'') b \<or> starts_with (p @ ''_key'') b \<or> starts_with (p @ ''-key'') b" for b
      by (auto simp: rx_opt_sep_def starts_with_iff split: list.splits if_splits)
    then show ?thesis
      unfolding re_found_iff str_in_iff starts_with_iff by (auto; blast)
  qed
  have fin: "re_found (RSeq (RLit ''_key'') REnd) s \<longleftrightarrow>
      (\<exists>a. s = a @ ''_key'' \<or> s = a @ ''_key'' @ newline)" for s
  proof -
    have "rx_match (RSeq (RLit ''_key'') REnd) b \<noteq> [] \<longleftrightarrow> b = ''_key'' \<or> b = ''_key'' @ newline" for b
      by (auto simp: starts_with_iff split: if_splits)
    then show ?thesis unfolding re_found_iff by blast
  qed
  show ?thesis
    unfolding secret_key_def SECRET_KEY_PATTERN_def re_found_RAlt re_found_lits sep fin
    by (auto simp: re_found_RLit)
qed

text \<open>
  The environment a caller can add: no override survives whose name contains, in any case, one
  of the secret words or ends in \<^verbatim>\<open>_KEY\<close>, and every other override is passed on unchanged and in
  order.
\<close>

theorem filtered_environment:
  "set (filter_environment env) =
     {(k, v). (k, v) \<in> set env \<and>
        \<not> (\<exists>w \<in> {''secret'', ''token'', ''password'', ''passwd'', ''credential'', ''apikey'',
                ''api_key'', ''api-key'', ''privatekey'', ''private_key'', ''private-key''}.
              str_in w (lower k)) \<and>
        \<not> (\<exists>a. lower k = a @ ''_key'' \<or> lower k = a @ ''_key'' @ newline)} \<and>
   filter_environment (env @ env') = filter_environment env @ filter_environment env'"
  by (simp add: filter_environment_def secret_key_iff case_prod_beta set_eq_iff split_beta)

lemma clamp_timeout_bounds:
  "1 \<le> tc_default_timeout_seconds c \<Longrightarrow> tc_default_timeout_seconds c \<le> tc_max_timeout_seconds c \<Longrightarrow>
   1 \<le> clamp_timeout c r \<and> clamp_timeout c r \<le> tc_max_timeout_seconds c"
  by (auto simp: clamp_timeout_def split: option.splits)

end
