(* ===== verification/Process.thy ===== *)
theory Process
  imports Terminal
begin

text \<open>
  Running a command as a local process: \<^verbatim>\<open>services/terminal/adapters/local_process.py\<close> and the
  adapters that extend it (\<^verbatim>\<open>linux.py\<close>, \<^verbatim>\<open>macos.py\<close>, \<^verbatim>\<open>windows.py\<close>, \<^verbatim>\<open>termux.py\<close>).  What the
  operating system does with a process is an oracle: whether it starts, the chunks its pipes
  deliver before the end, how the run ends (exit, timeout, cancellation of the awaiting task), and
  how the process reacts to signals.  The world keeps the trace of the calls of
  \<^verbatim>\<open>create_subprocess_exec\<close> and of the signals sent.
\<close>

section \<open>Sinks with a cap\<close>

text \<open>
  The contract the output collectors of the program share: a sink absorbs chunks and never keeps
  more than its bound.  An exact sink keeps precisely the first bytes of the stream.
\<close>

locale bounded_sink =
  fixes feed :: "string \<Rightarrow> 's \<Rightarrow> 's"
    and kept :: "'s \<Rightarrow> string"
    and bound :: nat
    and ok :: "'s \<Rightarrow> bool"
  assumes ok_feed: "ok s \<Longrightarrow> ok (feed c s)"
    and ok_bound: "ok s \<Longrightarrow> length (kept s) \<le> bound"
begin

lemma ok_fold: "ok s \<Longrightarrow> ok (fold feed cs s)"
  by (induction cs arbitrary: s) (auto simp: ok_feed)

lemma fold_bound: "ok s \<Longrightarrow> length (kept (fold feed cs s)) \<le> bound"
  by (rule ok_bound [OF ok_fold])

end

locale exact_sink = bounded_sink +
  assumes kept_feed: "ok s \<Longrightarrow> kept (feed c s) = kept s @ take (bound - length (kept s)) c"
begin

lemma kept_fold:
  "ok s \<Longrightarrow> kept (fold feed cs s) = kept s @ take (bound - length (kept s)) (concat cs)"
proof (induction cs arbitrary: s)
  case Nil
  then show ?case by simp
next
  case (Cons c cs)
  have "kept (fold feed cs (feed c s)) =
      kept (feed c s) @ take (bound - length (kept (feed c s))) (concat cs)"
    using Cons.prems by (intro Cons.IH ok_feed)
  then show ?case using Cons.prems by (simp add: kept_feed min_def)
qed

lemma kept_all: "ok s \<Longrightarrow> kept s = [] \<Longrightarrow> kept (fold feed cs s) = take bound (concat cs)"
  by (simp add: kept_fold)

end

section \<open>Reading a pipe\<close>

record capped_reader =
  rd_max_bytes :: "int option"
  rd_chunks :: "string list"
  rd_total :: int
  rd_exceeded :: bool

definition new_reader :: "int option \<Rightarrow> capped_reader" where
  "new_reader max_bytes =
     \<lparr>rd_max_bytes = max_bytes, rd_chunks = [], rd_total = 0, rd_exceeded = False\<rparr>"

text \<open>One iteration of the loop of \<open>read_all\<close>, on a chunk that is not empty.\<close>

definition read_chunk :: "string \<Rightarrow> capped_reader \<Rightarrow> capped_reader" where
  "read_chunk chunk r =
     (case rd_max_bytes r of
        None \<Rightarrow> r\<lparr>rd_chunks := rd_chunks r @ [chunk], rd_total := rd_total r + int (length chunk)\<rparr>
      | Some max_bytes \<Rightarrow>
          let remaining = max_bytes - rd_total r in
          if remaining \<le> 0 then r\<lparr>rd_exceeded := True\<rparr>
          else if int (length chunk) > remaining then
            r\<lparr>rd_chunks := rd_chunks r @ [take (nat remaining) chunk],
              rd_total := rd_total r + remaining, rd_exceeded := True\<rparr>
          else r\<lparr>rd_chunks := rd_chunks r @ [chunk],
                 rd_total := rd_total r + int (length chunk)\<rparr>)"

text \<open>\<open>read_all\<close> returns at the first empty chunk; a stream that is cut off by a timeout ends too.\<close>

fun read_all :: "string list \<Rightarrow> capped_reader \<Rightarrow> capped_reader" where
  "read_all [] r = r"
| "read_all (chunk # cs) r = (if chunk = [] then r else read_all cs (read_chunk chunk r))"

definition reader_bytes :: "capped_reader \<Rightarrow> string" where
  "reader_bytes r = concat (rd_chunks r)"

definition reader_text :: "capped_reader \<Rightarrow> string" where
  "reader_text r = decode_replace (reader_bytes r)"

definition reader_ok :: "capped_reader \<Rightarrow> bool" where
  "reader_ok r \<longleftrightarrow> rd_total r = int (length (reader_bytes r))"

lemma reader_ok_new [simp]: "reader_ok (new_reader m)" "reader_bytes (new_reader m) = []"
    "rd_exceeded (new_reader m) = False" "rd_max_bytes (new_reader m) = m"
  by (auto simp: reader_ok_def new_reader_def reader_bytes_def)

lemma read_chunk_max [simp]: "rd_max_bytes (read_chunk c r) = rd_max_bytes r"
  by (auto simp: read_chunk_def Let_def split: option.splits)

lemma read_chunk_ok: "reader_ok r \<Longrightarrow> reader_ok (read_chunk c r)"
  by (auto simp: read_chunk_def reader_ok_def reader_bytes_def Let_def split: option.splits)

lemma read_chunk_uncapped:
  "rd_max_bytes r = None \<Longrightarrow> reader_bytes (read_chunk c r) = reader_bytes r @ c \<and>
     rd_exceeded (read_chunk c r) = rd_exceeded r"
  by (simp add: read_chunk_def reader_bytes_def)

lemma read_chunk_capped:
  assumes "reader_ok r" and "rd_max_bytes r = Some (int k)" and "length (reader_bytes r) \<le> k"
  shows "reader_bytes (read_chunk c r) = reader_bytes r @ take (k - length (reader_bytes r)) c"
    and "c \<noteq> [] \<Longrightarrow> rd_exceeded (read_chunk c r) =
           (rd_exceeded r \<or> length (reader_bytes r) + length c > k)"
proof -
  have t: "rd_total r = int (length (concat (rd_chunks r)))"
    using assms(1) by (simp add: reader_ok_def reader_bytes_def)
  show "reader_bytes (read_chunk c r) = reader_bytes r @ take (k - length (reader_bytes r)) c"
    using assms(2,3) t by (auto simp: read_chunk_def reader_bytes_def Let_def nat_diff_distrib)
  show "c \<noteq> [] \<Longrightarrow> rd_exceeded (read_chunk c r) =
           (rd_exceeded r \<or> length (reader_bytes r) + length c > k)"
    using assms(2,3) t by (auto simp: read_chunk_def reader_bytes_def Let_def)
qed

text \<open>A reader with a cap is an exact sink, and flags a stream that is longer than the cap.\<close>

definition reader_within :: "nat \<Rightarrow> capped_reader \<Rightarrow> bool" where
  "reader_within k r \<longleftrightarrow>
     reader_ok r \<and> rd_max_bytes r = Some (int k) \<and> length (reader_bytes r) \<le> k"

interpretation pipe: exact_sink read_chunk reader_bytes k "reader_within k" for k
proof
  fix c and s :: capped_reader
  assume ok: "reader_within k s"
  have kept: "reader_bytes (read_chunk c s) = reader_bytes s @ take (k - length (reader_bytes s)) c"
    using ok by (simp add: reader_within_def read_chunk_capped(1))
  then show "reader_bytes (read_chunk c s) = reader_bytes s @ take (k - length (reader_bytes s)) c" .
  show "reader_within k (read_chunk c s)"
    using ok kept by (auto simp: reader_within_def read_chunk_ok)
qed (simp add: reader_within_def)

lemma reader_within_new: "reader_within k (new_reader (Some (int k)))"
  by (simp add: reader_within_def)

lemma read_all_fold:
  "\<forall>c \<in> set cs. c \<noteq> [] \<Longrightarrow> read_all cs r = fold read_chunk cs r"
  by (induction cs arbitrary: r) auto

lemma exceeded_arith:
  fixes n m k l :: nat
  assumes "n \<le> k" and "0 < l \<or> e" and "e \<Longrightarrow> l = 0"
  shows "(x \<or> k < n + m) \<or> k < min k (n + m) + l \<and> \<not> e \<longleftrightarrow> x \<or> k < n + (m + l)"
  using assms by (cases e) (auto simp: min_def)

lemma fold_exceeded:
  "reader_within k r \<Longrightarrow> \<forall>c \<in> set cs. c \<noteq> [] \<Longrightarrow>
     rd_exceeded (fold read_chunk cs r) \<longleftrightarrow>
       rd_exceeded r \<or> length (reader_bytes r) + length (concat cs) > k \<and> cs \<noteq> []"
proof (induction cs arbitrary: r)
  case Nil
  then show ?case by simp
next
  case (Cons c cs)
  have w: "reader_within k (read_chunk c r)"
    using Cons.prems(1) by (rule pipe.ok_feed)
  have e: "rd_exceeded (read_chunk c r) = (rd_exceeded r \<or> length (reader_bytes r) + length c > k)"
    and kb: "reader_bytes (read_chunk c r) = reader_bytes r @ take (k - length (reader_bytes r)) c"
    using Cons.prems by (auto simp: reader_within_def read_chunk_capped)
  have len: "length (reader_bytes (read_chunk c r)) = min k (length (reader_bytes r) + length c)"
    and le: "length (reader_bytes r) \<le> k"
    using Cons.prems(1) kb by (auto simp: reader_within_def)
  have pos: "0 < length (concat cs) \<or> cs = []" using Cons.prems(2) by (cases cs) auto
  have "rd_exceeded (fold read_chunk (c # cs) r) \<longleftrightarrow>
      (rd_exceeded r \<or> length (reader_bytes r) + length c > k) \<or>
      min k (length (reader_bytes r) + length c) + length (concat cs) > k \<and> cs \<noteq> []"
    using Cons.IH [OF w] Cons.prems(2) unfolding e len by simp
  also have "\<dots> \<longleftrightarrow> rd_exceeded r \<or> length (reader_bytes r) + (length c + length (concat cs)) > k"
    using le pos by (intro exceeded_arith) auto
  finally show ?case by simp
qed

text \<open>
  C19.  Output collection: reading a pipe to its end under a cap of \<open>k\<close> bytes keeps exactly the first
  \<open>k\<close> bytes the process wrote, flags truncation exactly when it wrote more, and without a cap keeps
  everything.
\<close>

theorem output_capped:
  assumes "\<forall>c \<in> set cs. c \<noteq> []"
  shows "reader_bytes (read_all cs (new_reader (Some (int k)))) = take k (concat cs) \<and>
    rd_exceeded (read_all cs (new_reader (Some (int k)))) = (length (concat cs) > k) \<and>
    reader_bytes (read_all cs (new_reader None)) = concat cs"
proof (intro conjI)
  show "reader_bytes (read_all cs (new_reader (Some (int k)))) = take k (concat cs)"
    using assms by (simp add: read_all_fold pipe.kept_all reader_within_new)
  show "rd_exceeded (read_all cs (new_reader (Some (int k)))) = (length (concat cs) > k)"
    using fold_exceeded [OF reader_within_new assms] assms by (auto simp: read_all_fold)
  have "rd_max_bytes r = None \<Longrightarrow> reader_bytes (fold read_chunk cs r) = reader_bytes r @ concat cs" for r
    by (induction cs arbitrary: r) (auto simp: read_chunk_uncapped)
  then show "reader_bytes (read_all cs (new_reader None)) = concat cs"
    using assms by (simp add: read_all_fold)
qed

theorem output_capped_witness:
  "reader_bytes (read_all [''ab'', ''cd''] (new_reader (Some (int 3)))) = ''abc'' \<and>
   rd_exceeded (read_all [''ab'', ''cd''] (new_reader (Some (int 3))))"
  using output_capped [of "[''ab'', ''cd'']" 3] by (simp add: eval_nat_numeral)

section \<open>Processes\<close>

text \<open>
  How signalling the group of a child goes: \<^verbatim>\<open>killpg\<close> raises, or the child, which leads the group, exits
  within the grace after \<^verbatim>\<open>SIGTERM\<close>, or it exits only on \<^verbatim>\<open>SIGKILL\<close>, or that second signal raises.  The
  code waits for the child alone; of the other members of the group it learns nothing.
\<close>

datatype group_answer = Grp_Gone | Leader_Exits_On_TERM | Leader_Exits_On_KILL | Grp_KILL_Fails

datatype proc_end = End_Exit int | End_Timeout | End_Cancelled

record proc =
  px_pid :: nat
  px_stdout :: "string list"
  px_stderr :: "string list"
  px_end :: proc_end
  px_reaped :: bool
  px_group :: group_answer
  px_reaped_late :: bool

datatype spawn_outcome =
    Spawned proc
  | SpawnFileNotFound string
  | SpawnPermission string
  | SpawnRaises exn

record spawn_call =
  sc_argv :: "string list"
  sc_cwd :: "string option"
  sc_env :: "(string \<times> string) list"
  sc_start_new_session :: bool

datatype os_signal =
    Group_SIGTERM nat
  | Group_SIGKILL nat
  | Taskkill nat
  | Kill nat

record os_w = audit_w +
  os :: os_env
  os_spawn :: "nat \<Rightarrow> spawn_call \<Rightarrow> spawn_outcome"
  os_calls :: "spawn_call list"
  os_signals :: "os_signal list"

definition create_subprocess_exec :: "spawn_call \<Rightarrow> ('m os_w_scheme, spawn_outcome) prog" where
  "create_subprocess_exec c w =
     (Inr (os_spawn w (length (os_calls w)) c), w\<lparr>os_calls := os_calls w @ [c]\<rparr>)"

lemma bnd_create_subprocess_exec [simp, prog]:
  "bnd (create_subprocess_exec c) f w =
     f (os_spawn w (length (os_calls w)) c) (w\<lparr>os_calls := os_calls w @ [c]\<rparr>)"
  by (simp add: bnd_def create_subprocess_exec_def)

definition send_signals :: "os_signal list \<Rightarrow> ('m os_w_scheme, unit) prog" where
  "send_signals sigs = modify (\<lambda>w. w\<lparr>os_signals := os_signals w @ sigs\<rparr>)"

section \<open>The environment of a process\<close>

definition filtered_env :: "os_env \<Rightarrow> command_spec \<Rightarrow> (string \<times> string) list" where
  "filtered_env e command =
     AList.updates (map fst (cs_env_overrides command)) (map snd (cs_env_overrides command))
       (case cs_env_allowlist command of
          None \<Rightarrow> os_environ e
        | Some allow \<Rightarrow> fold (\<lambda>key base. case map_of (os_environ e) key of
              None \<Rightarrow> base | Some v \<Rightarrow> dset key v base) allow [])"

lemma allowed_env:
  "map_of (fold (\<lambda>key base. case map_of env key of None \<Rightarrow> base | Some v \<Rightarrow> dset key v base) allow b) k =
     (if k \<in> set allow \<and> map_of env k \<noteq> None then map_of env k else map_of b k)"
  by (induction allow arbitrary: b) (auto simp: map_of_update split: option.splits)

lemma map_of_filtered_env:
  "map_of (filtered_env e command) k =
     (case map_of (rev (cs_env_overrides command)) k of
        Some v \<Rightarrow> Some v
      | None \<Rightarrow>
          (case cs_env_allowlist command of
             None \<Rightarrow> map_of (os_environ e) k
           | Some allow \<Rightarrow> if k \<in> set allow then map_of (os_environ e) k else None))"
proof -
  have up: "map_of (AList.updates (map fst kvs) (map snd kvs) d) k =
      (case map_of (rev kvs) k of Some v \<Rightarrow> Some v | None \<Rightarrow> map_of d k)" for kvs and d :: "(string \<times> string) list"
    by (induction kvs arbitrary: d) (auto simp: map_of_update map_add_def split: option.splits)
  show ?thesis
    unfolding filtered_env_def up by (auto simp: allowed_env split: option.splits)
qed

section \<open>Killing a process\<close>

definition base_terminate :: "bool \<Rightarrow> nat \<Rightarrow> os_signal list" where
  "base_terminate reaped pid = (if reaped then [] else [Kill pid])"

definition group_terminate :: "os_env \<Rightarrow> proc \<Rightarrow> os_signal list" where
  "group_terminate e px =
     (if os_has_killpg e \<and> os_has_setsid e \<and> \<not> px_reaped px then
        (case px_group px of
           Grp_Gone \<Rightarrow> base_terminate (px_reaped_late px) (px_pid px)
         | Leader_Exits_On_TERM \<Rightarrow> [Group_SIGTERM (px_pid px)]
         | Leader_Exits_On_KILL \<Rightarrow> [Group_SIGTERM (px_pid px), Group_SIGKILL (px_pid px)]
         | Grp_KILL_Fails \<Rightarrow> Group_SIGTERM (px_pid px) # base_terminate (px_reaped_late px) (px_pid px))
      else base_terminate (px_reaped px) (px_pid px))"

definition windows_terminate :: "os_env \<Rightarrow> proc \<Rightarrow> os_signal list" where
  "windows_terminate e px =
     (if os_name e = ''nt'' \<and> \<not> px_reaped px
      then Taskkill (px_pid px) # base_terminate (px_reaped_late px) (px_pid px)
      else base_terminate (px_reaped px) (px_pid px))"

fun terminate_signals :: "adapter \<Rightarrow> os_env \<Rightarrow> proc \<Rightarrow> os_signal list" where
  "terminate_signals LinuxTerminalAdapter e px = group_terminate e px"
| "terminate_signals MacOSTerminalAdapter e px = group_terminate e px"
| "terminate_signals WindowsTerminalAdapter e px = windows_terminate e px"
| "terminate_signals TermuxAdapter e px = base_terminate (px_reaped px) (px_pid px)"

fun start_new_session :: "adapter \<Rightarrow> os_env \<Rightarrow> bool" where
  "start_new_session LinuxTerminalAdapter e = os_has_setsid e"
| "start_new_session MacOSTerminalAdapter e = os_has_setsid e"
| "start_new_session WindowsTerminalAdapter e = False"
| "start_new_session TermuxAdapter e = False"







section \<open>Running a command\<close>

datatype spawn_result =
    SR_Failed execution_result
  | SR_Running time proc

definition failed_to_start :: "adapter \<Rightarrow> string \<Rightarrow> time \<Rightarrow> time \<Rightarrow> execution_result" where
  "failed_to_start a stderr started finished =
     \<lparr>er_adapter = adapter_name a, er_status = Ex_FAILED, er_exit_code = None, er_stdout = None,
      er_stderr = Some stderr, er_stdout_truncated = False, er_stderr_truncated = False,
      er_timed_out = False, er_started_at = started, er_finished_at = Some finished\<rparr>"

definition call_of :: "adapter \<Rightarrow> os_env \<Rightarrow> command_spec \<Rightarrow> spawn_call" where
  "call_of a e command =
     \<lparr>sc_argv = cs_argv command, sc_cwd = cs_working_dir command, sc_env = filtered_env e command,
      sc_start_new_session = start_new_session a e\<rparr>"

text \<open>\<open>LocalProcessAdapter.run\<close>, cut where it starts to wait for the process.\<close>

definition local_spawn :: "adapter \<Rightarrow> command_spec \<Rightarrow> ('m os_w_scheme, spawn_result) prog" where
  "local_spawn a command =
     bnd now (\<lambda>started_at.
     bnd (gets os) (\<lambda>e.
     bnd (create_subprocess_exec (call_of a e command)) (\<lambda>answer.
     case answer of
       SpawnFileNotFound exc \<Rightarrow>
         bnd now (\<lambda>t. ret (SR_Failed (failed_to_start a (''Executable not found: '' @ exc) started_at t)))
     | SpawnPermission exc \<Rightarrow>
         bnd now (\<lambda>t. ret (SR_Failed (failed_to_start a (''Permission denied: '' @ exc) started_at t)))
     | SpawnRaises exc \<Rightarrow> raise exc
     | Spawned px \<Rightarrow> ret (SR_Running started_at px))))"

definition stdout_reader :: "command_spec \<Rightarrow> proc \<Rightarrow> capped_reader" where
  "stdout_reader command px = read_all (px_stdout px) (new_reader (cs_max_stdout_bytes command))"

definition stderr_reader :: "command_spec \<Rightarrow> proc \<Rightarrow> capped_reader" where
  "stderr_reader command px = read_all (px_stderr px) (new_reader (cs_max_stderr_bytes command))"

definition local_finish ::
    "adapter \<Rightarrow> command_spec \<Rightarrow> time \<Rightarrow> proc \<Rightarrow> ('m os_w_scheme, execution_result) prog" where
  "local_finish a command started_at px =
     (let out = stdout_reader command px;
          err = stderr_reader command px;
          result = (\<lambda>status code timed_out t.
            \<lparr>er_adapter = adapter_name a, er_status = status, er_exit_code = code,
             er_stdout = Some (reader_text out), er_stderr = Some (reader_text err),
             er_stdout_truncated = rd_exceeded out, er_stderr_truncated = rd_exceeded err,
             er_timed_out = timed_out, er_started_at = started_at, er_finished_at = Some t\<rparr>);
          terminate = bnd (gets os) (\<lambda>e. send_signals (terminate_signals a e px))
      in case px_end px of
           End_Timeout \<Rightarrow> sq terminate (bnd now (\<lambda>t. ret (result Ex_FAILED None True t)))
         | End_Cancelled \<Rightarrow> sq terminate (raise CancelledError)
         | End_Exit code \<Rightarrow>
             sq (if rd_exceeded out \<or> rd_exceeded err then terminate else ret ())
             (bnd now (\<lambda>t. ret (result (if code = 0 then Ex_SUCCEEDED else Ex_FAILED) (Some code) False t))))"

section \<open>The events of an adapter\<close>

record run_context =
  rc_session_id :: "string option"
  rc_command_id :: "string option"
  rc_task_id :: "string option"

definition adapter_emit ::
    "bool \<Rightarrow> string \<Rightarrow> run_context \<Rightarrow> (string \<times> pyval) list \<Rightarrow> ('m audit_w_scheme, unit) prog" where
  "adapter_emit audit event_type ctx data =
     (if audit then audit_emit event_type (rc_session_id ctx) (rc_command_id ctx) (rc_task_id ctx) data
      else ret ())"

fun event_prefix :: "adapter \<Rightarrow> string option" where
  "event_prefix LinuxTerminalAdapter = Some ''linux''"
| "event_prefix MacOSTerminalAdapter = Some ''macos''"
| "event_prefix WindowsTerminalAdapter = Some ''windows''"
| "event_prefix TermuxAdapter = None"

text \<open>
  The three adapters wrap \<open>run\<close> in the same code with their own event names; the Termux adapter
  inherits it as it is.
\<close>

definition emit_started :: "adapter \<Rightarrow> bool \<Rightarrow> run_context \<Rightarrow> ('m audit_w_scheme, unit) prog" where
  "emit_started a audit ctx = (case event_prefix a of None \<Rightarrow> ret ()
     | Some p \<Rightarrow> adapter_emit audit (p @ ''.command.started'') ctx [])"

definition on_cancelled ::
    "adapter \<Rightarrow> bool \<Rightarrow> run_context \<Rightarrow> exn \<Rightarrow> ('m audit_w_scheme, 'a) prog" where
  "on_cancelled a audit ctx exc = (case event_prefix a of None \<Rightarrow> raise exc
     | Some p \<Rightarrow> if exc = CancelledError
         then sq (adapter_emit audit (p @ ''.command.cancelled'') ctx []) (raise exc)
         else raise exc)"

definition emit_result ::
    "adapter \<Rightarrow> bool \<Rightarrow> run_context \<Rightarrow> execution_result \<Rightarrow> ('m audit_w_scheme, execution_result) prog" where
  "emit_result a audit ctx result = (case event_prefix a of None \<Rightarrow> ret result
     | Some p \<Rightarrow>
         sq (if er_timed_out result then
               adapter_emit audit (p @ ''.command.timeout'') ctx [(''exit_code'', p_oint (er_exit_code result))]
             else if er_status result = Ex_SUCCEEDED then
               adapter_emit audit (p @ ''.command.completed'') ctx
                 [(''exit_code'', p_oint (er_exit_code result)),
                  (''stdout_preview'', p_ostr (truncate_for_log (er_stdout result)))]
             else
               adapter_emit audit (p @ ''.command.failed'') ctx
                 [(''exit_code'', p_oint (er_exit_code result)),
                  (''stderr_preview'', p_ostr (truncate_for_log (er_stderr result)))])
         (ret result))"

definition adapter_start ::
    "adapter \<Rightarrow> command_spec \<Rightarrow> bool \<Rightarrow> run_context \<Rightarrow> ('m os_w_scheme, spawn_result) prog" where
  "adapter_start a command audit ctx =
     sq (emit_started a audit ctx) (try_except (local_spawn a command) (on_cancelled a audit ctx))"

definition adapter_finish ::
    "adapter \<Rightarrow> command_spec \<Rightarrow> bool \<Rightarrow> run_context \<Rightarrow> spawn_result \<Rightarrow>
     ('m os_w_scheme, execution_result) prog" where
  "adapter_finish a command audit ctx s =
     bnd (case s of
            SR_Failed r \<Rightarrow> ret r
          | SR_Running t px \<Rightarrow> try_except (local_finish a command t px) (on_cancelled a audit ctx))
       (emit_result a audit ctx)"

definition adapter_run ::
    "adapter \<Rightarrow> command_spec \<Rightarrow> bool \<Rightarrow> run_context \<Rightarrow> ('m os_w_scheme, execution_result) prog" where
  "adapter_run a command audit ctx =
     bnd (adapter_start a command audit ctx) (adapter_finish a command audit ctx)"

section \<open>Shells\<close>

fun first_which :: "os_env \<Rightarrow> string list \<Rightarrow> string option" where
  "first_which e [] = None"
| "first_which e (c # cs) =
     (case os_which e c of
        Some p \<Rightarrow> if p = [] then first_which e cs else Some p
      | None \<Rightarrow> first_which e cs)"

definition resolve_preferred :: "os_env \<Rightarrow> string \<Rightarrow> string option" where
  "resolve_preferred e p =
     (if truthy (os_which e p) then os_which e p else if os_isfile e p then Some p else None)"

definition resolve_posix_shell :: "string list \<Rightarrow> os_env \<Rightarrow> string option \<Rightarrow> string option" where
  "resolve_posix_shell candidates e preferred_path =
     (if truthy preferred_path then resolve_preferred e (the preferred_path)
      else case map_of (os_environ e) ''SHELL'' of
        None \<Rightarrow> first_which e candidates
      | Some sh \<Rightarrow>
          if sh \<noteq> [] \<and> (truthy (os_which e sh) \<or> os_isfile e sh) then Some sh
          else first_which e candidates)"

definition resolve_linux_shell :: "os_env \<Rightarrow> string option \<Rightarrow> string option" where
  "resolve_linux_shell = resolve_posix_shell [''bash'', ''sh'']"

definition resolve_macos_shell :: "os_env \<Rightarrow> string option \<Rightarrow> string option" where
  "resolve_macos_shell = resolve_posix_shell [''zsh'', ''bash'', ''sh'']"

definition resolve_powershell_executable :: "os_env \<Rightarrow> string option \<Rightarrow> string option" where
  "resolve_powershell_executable e preferred_path =
     (if truthy preferred_path then resolve_preferred e (the preferred_path)
      else first_which e [''pwsh'', ''powershell.exe'', ''powershell''])"

definition build_powershell_command :: "string \<Rightarrow> string \<Rightarrow> string list" where
  "build_powershell_command script powershell_path =
     [powershell_path, ''-NoLogo'', ''-NoProfile'', ''-NonInteractive'', ''-ExecutionPolicy'',
      ''Bypass'', ''-Command'', script]"

record capabilities =
  cap_platform :: string
  cap_shell :: string
  cap_shell_available :: bool
  cap_supports_streaming :: bool
  cap_supports_cancellation :: bool
  cap_supports_timeout :: bool

definition capabilities_with :: "string \<Rightarrow> string \<Rightarrow> bool \<Rightarrow> capabilities" where
  "capabilities_with p shell available =
     \<lparr>cap_platform = p, cap_shell = shell, cap_shell_available = available,
      cap_supports_streaming = True, cap_supports_cancellation = True, cap_supports_timeout = True\<rparr>"

fun get_capabilities :: "adapter \<Rightarrow> terminal_config \<Rightarrow> os_env \<Rightarrow> capabilities option" where
  "get_capabilities LinuxTerminalAdapter c e =
     (let p = resolve_linux_shell e (tc_linux_shell_path c)
      in Some (capabilities_with ''LINUX'' (ostr_or p ''UNAVAILABLE'') (p \<noteq> None)))"
| "get_capabilities MacOSTerminalAdapter c e =
     (let p = resolve_macos_shell e (tc_macos_shell_path c)
      in Some (capabilities_with ''MACOS'' (ostr_or p ''UNAVAILABLE'') (p \<noteq> None)))"
| "get_capabilities WindowsTerminalAdapter c e =
     (let p = resolve_powershell_executable e (tc_windows_powershell_path c)
      in Some (capabilities_with ''WINDOWS'' (if truthy p then ''POWERSHELL'' else ''UNAVAILABLE'') (p \<noteq> None)))"
| "get_capabilities TermuxAdapter c e = None"

section \<open>What a run does\<close>

lemma try_except_eq:
  "m w = (r, w') \<Longrightarrow> try_except m h w = (case r of Inl e \<Rightarrow> h e w' | Inr x \<Rightarrow> (Inr x, w'))"
  by (simp add: try_except_def split: sum.splits)

lemma adapter_emit_calls [simp]:
  "os_calls (snd (adapter_emit b t ctx d w)) = os_calls w"
  "os_signals (snd (adapter_emit b t ctx d w)) = os_signals w"
  "fst (adapter_emit b t ctx d w) = Inr ()"
  "os (snd (adapter_emit b t ctx d w)) = os w"
  "os_spawn (snd (adapter_emit b t ctx d w)) = os_spawn w"
  by (auto simp: adapter_emit_def ret_def)

lemma emit_started_run [simp]:
  "fst (emit_started a b ctx w) = Inr ()"
  "os_calls (snd (emit_started a b ctx w)) = os_calls w"
  "os_signals (snd (emit_started a b ctx w)) = os_signals w"
  "os (snd (emit_started a b ctx w)) = os w"
  "os_spawn (snd (emit_started a b ctx w)) = os_spawn w"
  by (auto simp: emit_started_def ret_def split: option.splits)

lemma on_cancelled_run [simp]:
  "fst (on_cancelled a b ctx e w) = Inl e"
  "os_calls (snd (on_cancelled a b ctx e w)) = os_calls w"
  "os_signals (snd (on_cancelled a b ctx e w)) = os_signals w"
  by (auto simp: on_cancelled_def ret_def raise_def adapter_emit_def split: option.splits)

lemma emit_result_run [simp]:
  "fst (emit_result a b ctx r w) = Inr r"
  "os_calls (snd (emit_result a b ctx r w)) = os_calls w"
  "os_signals (snd (emit_result a b ctx r w)) = os_signals w"
  by (auto simp: emit_result_def adapter_emit_def ret_def split: option.splits)

lemma local_spawn_calls [simp]:
  "os_calls (snd (local_spawn a c w)) = os_calls w @ [call_of a (os w) c]"
  "os_signals (snd (local_spawn a c w)) = os_signals w"
  by (auto simp: local_spawn_def ret_def raise_def split: spawn_outcome.splits)

lemma try_on_cancelled [simp]:
  "os_calls (snd (try_except m (on_cancelled a b ctx) w)) = os_calls (snd (m w))"
  "os_signals (snd (try_except m (on_cancelled a b ctx) w)) = os_signals (snd (m w))"
  "fst (try_except m (on_cancelled a b ctx) w) = fst (m w)"
  by (auto simp: try_except_def split: prod.splits sum.splits)

lemma sq_Inr: "fst (m w) = Inr () \<Longrightarrow> sq m k w = k (snd (m w))"
  by (cases "m w") (auto simp: sq_def bnd_def)

lemma adapter_start_calls:
  "os_calls (snd (adapter_start a c b ctx w)) = os_calls w @ [call_of a (os w) c]"
  "os_signals (snd (adapter_start a c b ctx w)) = os_signals w"
  by (simp_all add: adapter_start_def sq_Inr)

lemma adapter_start_result:
  "fst (adapter_start a c b ctx w) = Inr (SR_Running t px) \<Longrightarrow>
     os_spawn w (length (os_calls w)) (call_of a (os w) c) = Spawned px"
  by (auto simp: adapter_start_def sq_Inr local_spawn_def ret_def raise_def split: spawn_outcome.splits)

lemma local_finish_calls [simp]:
  "os_calls (snd (local_finish a c t px w)) = os_calls w"
  by (auto simp: local_finish_def Let_def send_signals_def ret_def raise_def sq_bnd split: proc_end.splits)

lemma adapter_finish_calls [simp]:
  "os_calls (snd (adapter_finish a c b ctx s w)) = os_calls w"
proof (cases s)
  case (SR_Failed r)
  then show ?thesis by (simp add: adapter_finish_def)
next
  case (SR_Running t px)
  obtain r w' where lf: "try_except (local_finish a c t px) (on_cancelled a b ctx) w = (r, w')"
    by (cases "try_except (local_finish a c t px) (on_cancelled a b ctx) w")
  then have "os_calls w' = os_calls w"
    using try_on_cancelled(1) [of "local_finish a c t px" a b ctx w] by simp
  then show ?thesis
    using SR_Running lf by (cases r) (auto simp: adapter_finish_def bnd_eq)
qed

lemma adapter_run_calls:
  "os_calls (snd (adapter_run a c b ctx w)) = os_calls w @ [call_of a (os w) c]"
proof -
  obtain r w' where st: "adapter_start a c b ctx w = (r, w')" by (cases "adapter_start a c b ctx w")
  then have "os_calls w' = os_calls w @ [call_of a (os w) c]"
    using adapter_start_calls(1) [of a c b ctx w] by simp
  then show ?thesis using st by (cases r) (auto simp: adapter_run_def bnd_eq)
qed

text \<open>What the result of a finished process is, as the process's own answers determine it.\<close>

definition run_outcome ::
    "adapter \<Rightarrow> command_spec \<Rightarrow> proc \<Rightarrow> exn + execution_result \<Rightarrow> bool" where
  "run_outcome a c px r \<longleftrightarrow>
     (case r of
        Inl e \<Rightarrow> e = CancelledError \<and> px_end px = End_Cancelled
      | Inr res \<Rightarrow>
          px_end px \<noteq> End_Cancelled \<and>
          er_timed_out res = (px_end px = End_Timeout) \<and>
          er_status res = (if px_end px = End_Exit 0 then Ex_SUCCEEDED else Ex_FAILED) \<and>
          er_exit_code res = (case px_end px of End_Exit n \<Rightarrow> Some n | _ \<Rightarrow> None) \<and>
          er_stdout res = Some (reader_text (stdout_reader c px)) \<and>
          er_stderr res = Some (reader_text (stderr_reader c px)) \<and>
          er_stdout_truncated res = rd_exceeded (stdout_reader c px) \<and>
          er_stderr_truncated res = rd_exceeded (stderr_reader c px) \<and>
          er_adapter res = adapter_name a \<and> er_finished_at res \<noteq> None)"

definition signals_of :: "adapter \<Rightarrow> os_env \<Rightarrow> command_spec \<Rightarrow> proc \<Rightarrow> os_signal list" where
  "signals_of a e c px =
     (if px_end px = End_Timeout \<or> px_end px = End_Cancelled \<or>
         rd_exceeded (stdout_reader c px) \<or> rd_exceeded (stderr_reader c px)
      then terminate_signals a e px else [])"

lemma local_finish_outcome:
  "run_outcome a c px (fst (local_finish a c t px w))"
  "os_signals (snd (local_finish a c t px w)) = os_signals w @ signals_of a (os w) c px"
  by (cases "px_end px"; simp add: local_finish_def run_outcome_def signals_of_def Let_def
      send_signals_def ret_def raise_def sq_bnd)+

lemma adapter_finish_outcome:
  "run_outcome a c px (fst (adapter_finish a c b ctx (SR_Running t px) w))"
  "os_signals (snd (adapter_finish a c b ctx (SR_Running t px) w)) =
     os_signals w @ signals_of a (os w) c px"
proof -
  obtain r w' where lf: "try_except (local_finish a c t px) (on_cancelled a b ctx) w = (r, w')"
    by (cases "try_except (local_finish a c t px) (on_cancelled a b ctx) w")
  have r: "run_outcome a c px r" "os_signals w' = os_signals w @ signals_of a (os w) c px"
    using try_on_cancelled(2,3) [of "local_finish a c t px" a b ctx w] lf
    by (metis fst_conv local_finish_outcome(1), metis snd_conv local_finish_outcome(2))
  show "run_outcome a c px (fst (adapter_finish a c b ctx (SR_Running t px) w))"
    using lf r by (cases r) (auto simp: adapter_finish_def bnd_eq)
  show "os_signals (snd (adapter_finish a c b ctx (SR_Running t px) w)) =
     os_signals w @ signals_of a (os w) c px"
    using lf r by (cases r) (auto simp: adapter_finish_def bnd_eq)
qed

lemma adapter_start_Spawned:
  assumes "os_spawn w (length (os_calls w)) (call_of a (os w) c) = Spawned px"
  shows "\<exists>t w'. adapter_start a c b ctx w = (Inr (SR_Running t px), w') \<and> os w' = os w \<and>
     os_calls w' = os_calls w @ [call_of a (os w) c] \<and> os_signals w' = os_signals w"
  using assms by (simp add: adapter_start_def sq_Inr local_spawn_def try_except_def ret_def)

lemma adapter_run_outcome_w:
  assumes "os_spawn w (length (os_calls w)) (call_of a (os w) c) = Spawned px"
  shows "run_outcome a c px (fst (adapter_run a c b ctx w)) \<and>
     os_calls (snd (adapter_run a c b ctx w)) = os_calls w @ [call_of a (os w) c] \<and>
     os_signals (snd (adapter_run a c b ctx w)) = os_signals w @ signals_of a (os w) c px"
proof -
  obtain t w' where st: "adapter_start a c b ctx w = (Inr (SR_Running t px), w')" "os w' = os w"
      "os_signals w' = os_signals w"
    using adapter_start_Spawned [OF assms, of b ctx] by blast
  then have run: "adapter_run a c b ctx w = adapter_finish a c b ctx (SR_Running t px) w'"
    by (simp add: adapter_run_def bnd_eq)
  have "run_outcome a c px (fst (adapter_run a c b ctx w))"
    unfolding run by (rule adapter_finish_outcome(1))
  moreover have "os_signals (snd (adapter_run a c b ctx w)) = os_signals w @ signals_of a (os w) c px"
    unfolding run adapter_finish_outcome(2) by (simp add: st(2,3))
  ultimately show ?thesis by (simp add: adapter_run_calls)
qed

text \<open>
  C35.  One run of a command, on every adapter: exactly one process is created, with the argv, the
  directory and the environment of the command; the result reports success exactly when the process
  exited with code 0, a timeout exactly when it was cut off, the output up to the caps; and the
  process is terminated exactly on a timeout, a cancellation or an exceeded cap.
\<close>

theorem adapter_run_outcome:
  assumes "os_spawn w (length (os_calls w)) (call_of a (os w) c) = Spawned px"
  shows "run_outcome a c px (fst (adapter_run a c b ctx w)) \<and>
     os_calls (snd (adapter_run a c b ctx w)) = os_calls w @ [call_of a (os w) c] \<and>
     os_signals (snd (adapter_run a c b ctx w)) = os_signals w @ signals_of a (os w) c px"
  by (rule adapter_run_outcome_w [OF assms])

text \<open>A run touches nothing of a larger world but the trace and the audit log.\<close>

definition os_frame :: "'m os_w_scheme \<Rightarrow> 'm os_w_scheme \<Rightarrow> bool" where
  "os_frame w w' \<longleftrightarrow> os_w.more w' = os_w.more w \<and> os w' = os w \<and> os_spawn w' = os_spawn w"

interpretation osf: step_rel os_frame
  by unfold_locales (auto simp: os_frame_def)

lemma os_frame_prims:
  "keeps os_frame now" "keeps os_frame (create_subprocess_exec c)" "keeps os_frame (send_signals sigs)"
  "keeps os_frame (audit_emit t sid cid tid d)" "keeps os_frame (adapter_emit b t ctx d)"
  by (auto simp: keeps_def os_frame_def now_def create_subprocess_exec_def send_signals_def
      modify_def adapter_emit_def ret_def)

lemmas os_frame_intros = osf.keeps_intros os_frame_prims

lemma on_cancelled_frame: "keeps os_frame (on_cancelled a b ctx e)"
  unfolding on_cancelled_def by (intro os_frame_intros)

lemma keeps_spawn_outcome:
  "(\<And>m. keeps R (f m)) \<Longrightarrow> (\<And>m. keeps R (g m)) \<Longrightarrow> (\<And>e. keeps R (h e)) \<Longrightarrow> (\<And>px. keeps R (k px)) \<Longrightarrow>
   keeps R (case s of SpawnFileNotFound m \<Rightarrow> f m | SpawnPermission m \<Rightarrow> g m | SpawnRaises e \<Rightarrow> h e
     | Spawned px \<Rightarrow> k px)"
  by (cases s) auto

lemma adapter_start_frame: "keeps os_frame (adapter_start a c b ctx)"
  unfolding adapter_start_def emit_started_def local_spawn_def
  by (intro os_frame_intros on_cancelled_frame keeps_spawn_outcome)

lemma local_finish_frame: "keeps os_frame (local_finish a c t px)"
  by (cases "px_end px") (auto simp: local_finish_def Let_def intro!: os_frame_intros)

lemma adapter_finish_frame: "keeps os_frame (adapter_finish a c b ctx s)"
  by (cases s) (auto simp: adapter_finish_def emit_result_def
      intro!: os_frame_intros local_finish_frame on_cancelled_frame)

lemma adapter_run_frame: "keeps os_frame (adapter_run a c b ctx)"
  unfolding adapter_run_def by (intro os_frame_intros adapter_start_frame adapter_finish_frame)

text \<open>A Linux host on which every command prints three bytes and exits with 0.\<close>

definition sample_os :: os_env where
  "sample_os =
     \<lparr>os_system = ''Linux'', os_environ = [(''PATH'', ''/bin''), (''DB_PASSWORD'', ''x'')],
      os_which = (\<lambda>n. if n = ''apt-get'' \<or> n = ''nmap'' then Some (''/usr/bin/'' @ n) else None),
      os_isfile = (\<lambda>_. False), os_realpath = id, os_proc_version = None, os_machine = ''x86_64'',
      os_python = ''/usr/bin/python3'', os_python_version = ''3.12.0'', os_name = ''posix'',
      os_has_setsid = True, os_has_killpg = True\<rparr>"

definition sample_proc :: proc where
  "sample_proc = \<lparr>px_pid = 7, px_stdout = [''abc''], px_stderr = [], px_end = End_Exit 0,
     px_reaped = True, px_group = Grp_Gone, px_reaped_late = True\<rparr>"

definition sample_os_w :: os_w where
  "sample_os_w = \<lparr>rt_clock = (\<lambda>n. int n), rt_ticks = 0, rt_uuid = (\<lambda>n. n), rt_uuids = 0,
     audit_log = [], os = sample_os, os_spawn = (\<lambda>_ _. Spawned sample_proc), os_calls = [],
     os_signals = []\<rparr>"

definition sample_spec :: command_spec where
  "sample_spec = \<lparr>cs_argv = [''uname''], cs_timeout_seconds = 30, cs_working_dir = Some ''/work'',
     cs_env_overrides = [], cs_env_allowlist = Some [''PATH''], cs_max_stdout_bytes = Some 2,
     cs_max_stderr_bytes = Some 2\<rparr>"



theorem adapter_run_outcome_witness:
  "run_outcome LinuxTerminalAdapter sample_spec sample_proc
     (fst (adapter_run LinuxTerminalAdapter sample_spec True \<lparr>rc_session_id = None,
        rc_command_id = None, rc_task_id = None\<rparr> sample_os_w)) \<and>
   signals_of LinuxTerminalAdapter sample_os sample_spec sample_proc = []"
proof -
  have "os_spawn sample_os_w (length (os_calls sample_os_w))
      (call_of LinuxTerminalAdapter (os sample_os_w) sample_spec) = Spawned sample_proc"
    by (simp add: sample_os_w_def)
  moreover have "signals_of LinuxTerminalAdapter sample_os sample_spec sample_proc = []"
    by (simp add: signals_of_def sample_proc_def stdout_reader_def stderr_reader_def sample_spec_def
        new_reader_def read_chunk_def group_terminate_def base_terminate_def)
  ultimately show ?thesis using adapter_run_outcome by blast
qed

end
