(* ===== verification/Sessions.thy ===== *)
theory Sessions
  imports Process
begin

text \<open>
  \<^verbatim>\<open>services/terminal/session_manager.py\<close>.  The sessions are a dict from identifier to a mutable
  object; a caller that holds a session writes through it, which here is an update of the dict at
  the session's identifier.
\<close>

record sess_w = os_w +
  tm_config :: terminal_config
  tm_sessions :: "(uuid \<times> session) list"

definition set_session :: "uuid \<Rightarrow> session \<Rightarrow> ('m sess_w_scheme, unit) prog" where
  "set_session sid s = modify (\<lambda>w. w\<lparr>tm_sessions := dset sid s (tm_sessions w)\<rparr>)"

definition upd_session :: "uuid \<Rightarrow> (session \<Rightarrow> session) \<Rightarrow> ('m sess_w_scheme, unit) prog" where
  "upd_session sid f = modify (\<lambda>w. w\<lparr>tm_sessions :=
     (case map_of (tm_sessions w) sid of None \<Rightarrow> tm_sessions w
      | Some s \<Rightarrow> dset sid (f s) (tm_sessions w))\<rparr>)"

definition session_emit :: "string \<Rightarrow> session \<Rightarrow> ('m audit_w_scheme, unit) prog" where
  "session_emit t s = audit_emit t (Some (uuid_str (se_id s))) None (se_task_id s)
     [(''status'', PStr (session_status_value (se_status s))),
      (''platform'', PStr (platform_value (se_platform s)))]"

definition live_status :: "session_status \<Rightarrow> bool" where
  "live_status st \<longleftrightarrow> st = Sess_READY \<or> st = Sess_RUNNING"

definition reap_one :: "time \<Rightarrow> uuid \<Rightarrow> ('m sess_w_scheme, unit) prog" where
  "reap_one t sid =
     bnd (gets (\<lambda>w. map_of (tm_sessions w) sid)) (\<lambda>found.
     bnd (gets tm_config) (\<lambda>c.
     case found of None \<Rightarrow> ret ()
     | Some s \<Rightarrow>
         if live_status (se_status s) \<and> session_is_expired (tc_session_ttl_seconds c) t s then
           sq (upd_session sid (\<lambda>s. s\<lparr>se_status := Sess_EXPIRED\<rparr>))
              (session_emit SESSION_EXPIRED (s\<lparr>se_status := Sess_EXPIRED\<rparr>))
         else ret ()))"

definition reap_expired :: "('m sess_w_scheme, unit) prog" where
  "reap_expired =
     bnd now (\<lambda>t.
     bnd (gets (\<lambda>w. map fst (tm_sessions w))) (\<lambda>sids.
     for_each (reap_one t) sids))"

definition sm_create_session ::
    "platform_identifier \<Rightarrow> string option \<Rightarrow> string option \<Rightarrow> ('m sess_w_scheme, session) prog" where
  "sm_create_session platform task_id working_directory =
     sq reap_expired
     (bnd (gets tm_config) (\<lambda>c.
      bnd (gets (\<lambda>w. length (tm_sessions w))) (\<lambda>n.
      if n \<ge> tc_max_concurrent_sessions c then
        raise (InvalidRequestError (''Maximum concurrent terminal sessions reached ('' @
          show_nat (tc_max_concurrent_sessions c) @ '').''))
      else
        bnd uuid4 (\<lambda>sid.
        bnd now (\<lambda>created_at.
        bnd now (\<lambda>last_activity_at.
        let session = \<lparr>se_id = sid, se_platform = platform, se_created_at = created_at,
              se_status = Sess_READY,
              se_working_directory = Some (ostr_or working_directory (tc_workspace_root c)),
              se_task_id = task_id, se_authorization_context = None,
              se_last_activity_at = last_activity_at\<rparr>
        in sq (set_session sid session)
           (sq (session_emit SESSION_CREATED session) (ret session))))))))"

definition get_session :: "uuid \<Rightarrow> ('m sess_w_scheme, session) prog" where
  "get_session sid =
     bnd (gets (\<lambda>w. map_of (tm_sessions w) sid)) (\<lambda>found.
     bnd (gets tm_config) (\<lambda>c.
     case found of
       None \<Rightarrow> raise (SessionNotFoundError (''Session '' @ uuid_str sid @ '' does not exist.''))
     | Some s \<Rightarrow>
         if se_status s \<in> {Sess_STOPPED, Sess_FAILED, Sess_EXPIRED} then ret s
         else bnd now (\<lambda>t.
           if session_is_expired (tc_session_ttl_seconds c) t s then
             let s' = s\<lparr>se_status := Sess_EXPIRED\<rparr> in
             sq (upd_session sid (\<lambda>s. s\<lparr>se_status := Sess_EXPIRED\<rparr>))
               (sq (session_emit SESSION_EXPIRED s') (ret s'))
           else ret s)))"

definition require_active_session :: "uuid \<Rightarrow> ('m sess_w_scheme, session) prog" where
  "require_active_session sid =
     bnd (get_session sid) (\<lambda>s.
     if se_status s = Sess_EXPIRED then
       raise (SessionExpiredError (''Session '' @ uuid_str sid @ '' has expired from inactivity.''))
     else if \<not> live_status (se_status s) then
       raise (SessionExpiredError (''Session '' @ uuid_str sid @ '' is not active (status='' @
         session_status_value (se_status s) @ '').''))
     else ret s)"

definition sm_close_session :: "uuid \<Rightarrow> ('m sess_w_scheme, session) prog" where
  "sm_close_session sid =
     bnd (get_session sid) (\<lambda>s.
     bnd now (\<lambda>t.
     let stop = (\<lambda>s. s\<lparr>se_status := Sess_STOPPED, se_last_activity_at := t\<rparr>); s' = stop s in
     sq (upd_session sid stop) (sq (session_emit SESSION_CLOSED s') (ret s'))))"

section \<open>The life of a session\<close>

text \<open>Once stopped, failed or expired, a session stays out of service.\<close>

definition ended_status :: "session_status \<Rightarrow> bool" where
  "ended_status st \<longleftrightarrow> st \<in> {Sess_STOPPED, Sess_FAILED, Sess_EXPIRED}"

lemma ended_not_live: "ended_status st \<Longrightarrow> \<not> live_status st"
  by (auto simp: ended_status_def live_status_def)

text \<open>
  The relation between the sessions before and after an operation of the manager: no session
  disappears, none is moved to another key, and one that has ended never comes back.
\<close>

definition sess_le :: "(uuid \<times> session) list \<Rightarrow> (uuid \<times> session) list \<Rightarrow> bool" where
  "sess_le d d' \<longleftrightarrow>
     length d \<le> length d' \<and>
     (\<forall>sid s. map_of d sid = Some s \<longrightarrow>
        (\<exists>s'. map_of d' sid = Some s' \<and> (ended_status (se_status s) \<longrightarrow> ended_status (se_status s'))))"

definition env_kept :: "'m sess_w_scheme \<Rightarrow> 'm sess_w_scheme \<Rightarrow> bool" where
  "env_kept w w' \<longleftrightarrow> os_calls w' = os_calls w \<and> os w' = os w \<and> os_spawn w' = os_spawn w \<and>
     tm_config w' = tm_config w \<and> rt_uuid w' = rt_uuid w \<and> rt_uuids w' = rt_uuids w"

definition sess_kept :: "'m sess_w_scheme \<Rightarrow> 'm sess_w_scheme \<Rightarrow> bool" where
  "sess_kept w w' \<longleftrightarrow> sess_le (tm_sessions w) (tm_sessions w') \<and> env_kept w w' \<and>
     map fst (tm_sessions w') = map fst (tm_sessions w) \<and> sess_w.more w' = sess_w.more w"

interpretation ek: step_rel env_kept
  by unfold_locales (auto simp: env_kept_def)

interpretation sk: step_rel sess_kept
  by unfold_locales (fastforce simp: sess_kept_def sess_le_def env_kept_def)+

lemma sess_le_refl: "sess_le d d"
  by (simp add: sess_le_def)

lemma sess_le_set:
  "(\<And>s. map_of d sid = Some s \<Longrightarrow> ended_status (se_status s) \<Longrightarrow> ended_status (se_status s')) \<Longrightarrow>
     sess_le d (dset sid s' d)"
  by (auto simp: sess_le_def length_update map_of_update)

lemma keeps_now: "keeps sess_kept now"
  by (simp add: keeps_def now_def sess_kept_def sess_le_refl env_kept_def)

lemma keeps_audit_emit: "keeps sess_kept (audit_emit t sid cid tid d)"
  by (simp add: keeps_def sess_kept_def sess_le_refl env_kept_def)

lemma keeps_session_emit: "keeps sess_kept (session_emit t s)"
  unfolding session_emit_def by (rule keeps_audit_emit)

lemma update_keys_present: "map_of d k = Some v \<Longrightarrow> map fst (dset k v' d) = map fst d"
  by (induction d) (auto split: if_splits)

lemma keeps_upd_session:
  "(\<And>s. ended_status (se_status s) \<Longrightarrow> ended_status (se_status (f s))) \<Longrightarrow>
     keeps sess_kept (upd_session sid f)"
  by (auto simp: keeps_def upd_session_def modify_def sess_kept_def env_kept_def sess_le_refl
      update_keys_present split: option.splits intro!: sess_le_set)

lemma sess_kept_keys:
  assumes "sess_kept w w'"
  shows "length (tm_sessions w') = length (tm_sessions w)"
    and "map_of (tm_sessions w') sid = None \<longleftrightarrow> map_of (tm_sessions w) sid = None"
proof -
  have k: "map fst (tm_sessions w') = map fst (tm_sessions w)"
    using assms by (simp add: sess_kept_def)
  then show "length (tm_sessions w') = length (tm_sessions w)" by (metis length_map)
  show "map_of (tm_sessions w') sid = None \<longleftrightarrow> map_of (tm_sessions w) sid = None"
    unfolding map_of_eq_None_iff using k by (metis list.set_map)
qed

lemmas sess_keeps = sk.keeps_intros keeps_now keeps_session_emit keeps_upd_session

lemma ended_simps [simp]: "ended_status Sess_EXPIRED" "ended_status Sess_STOPPED" "ended_status Sess_FAILED"
    "\<not> ended_status Sess_READY" "\<not> ended_status Sess_RUNNING"
  by (auto simp: ended_status_def)

lemma reap_one_kept: "keeps sess_kept (reap_one t sid)"
  unfolding reap_one_def by (intro sess_keeps) auto

lemma reap_expired_kept: "keeps sess_kept reap_expired"
  unfolding reap_expired_def by (intro sess_keeps reap_one_kept)

lemma get_session_kept: "keeps sess_kept (get_session sid)"
  unfolding get_session_def Let_def by (intro sess_keeps) auto

lemma require_active_kept: "keeps sess_kept (require_active_session sid)"
  unfolding require_active_session_def by (intro sess_keeps get_session_kept)

lemma close_session_kept: "keeps sess_kept (sm_close_session sid)"
  unfolding sm_close_session_def Let_def by (intro sess_keeps get_session_kept) auto

section \<open>Which requests find a session\<close>

definition usable :: "'m sess_w_scheme \<Rightarrow> uuid \<Rightarrow> session \<Rightarrow> bool" where
  "usable w sid s \<longleftrightarrow> map_of (tm_sessions w) sid = Some s \<and> live_status (se_status s) \<and>
     \<not> session_is_expired (tc_session_ttl_seconds (tm_config w)) (rt_clock w (rt_ticks w)) s"

lemma live_not_ended: "live_status st \<Longrightarrow> st \<notin> {Sess_STOPPED, Sess_FAILED, Sess_EXPIRED}"
  by (auto simp: live_status_def)

lemma require_active_usable:
  "usable w sid s \<Longrightarrow> require_active_session sid w = (Inr s, w\<lparr>rt_ticks := Suc (rt_ticks w)\<rparr>)"
  using live_not_ended [of "se_status s"]
  by (auto simp: usable_def require_active_session_def get_session_def bnd_bnd ret_def)

lemma require_active_Inr:
  assumes "require_active_session sid w = (Inr s, w')"
  shows "usable w sid s \<and> w' = w\<lparr>rt_ticks := Suc (rt_ticks w)\<rparr>"
proof -
  obtain r w1 where g: "get_session sid w = (r, w1)" by (cases "get_session sid w")
  with assms obtain s1 where r: "r = Inr s1" and st: "live_status (se_status s1)" and eq: "s = s1" "w' = w1"
    by (auto simp: require_active_session_def bnd_eq ret_def raise_def split: sum.splits if_splits)
  have "map_of (tm_sessions w) sid = Some s1 \<and>
      \<not> session_is_expired (tc_session_ttl_seconds (tm_config w)) (rt_clock w (rt_ticks w)) s1 \<and>
      w1 = w\<lparr>rt_ticks := Suc (rt_ticks w)\<rparr>"
    using g r st by (auto simp: get_session_def ret_def raise_def upd_session_def Let_def session_emit_def
        live_status_def split: option.splits if_splits)
  then show ?thesis using st eq by (simp add: usable_def)
qed

lemma require_active_Inl_kept:
  "require_active_session sid w = (Inl e, w') \<Longrightarrow> sess_kept w w'"
  by (rule keepsD [OF require_active_kept])

lemma not_usable:
  assumes "\<nexists>s. usable w sid s"
  shows "\<exists>e w'. require_active_session sid w = (Inl e, w') \<and> sess_kept w w'"
proof -
  obtain r w' where ra: "require_active_session sid w = (r, w')" by (cases "require_active_session sid w")
  then have "sess_kept w w'" by (rule keepsD [OF require_active_kept])
  then show ?thesis using ra assms require_active_Inr [of sid w] by (cases r) auto
qed

section \<open>Capacity\<close>

lemma reap_expired_Inr: "\<exists>w'. reap_expired w = (Inr (), w')"
proof -
  have one: "\<exists>w'. reap_one t sid w = (Inr (), w')" for t sid and w :: "'a sess_w_scheme"
    by (auto simp: reap_one_def ret_def upd_session_def session_emit_def split: option.splits)
  have "\<exists>w'. for_each (reap_one t) sids w = (Inr (), w')" for t sids and w :: "'a sess_w_scheme"
  proof (induction sids arbitrary: w)
    case Nil
    then show ?case by (simp add: ret_def)
  next
    case (Cons sid sids)
    obtain w1 where "reap_one t sid w = (Inr (), w1)" using one by blast
    then show ?case using Cons.IH [of w1] by (simp add: sq_eq)
  qed
  then show ?thesis by (simp add: reap_expired_def)
qed

lemma create_full:
  assumes "tc_max_concurrent_sessions (tm_config w) \<le> length (tm_sessions w)"
  shows "\<exists>m w'. sm_create_session p t d w = (Inl (InvalidRequestError m), w') \<and> sess_kept w w'"
proof -
  obtain w1 where r: "reap_expired w = (Inr (), w1)" using reap_expired_Inr by blast
  then have "sess_kept w w1" by (rule keepsD [OF reap_expired_kept])
  then show ?thesis
    using assms r sess_kept_keys(1) [of w w1]
    by (simp add: sm_create_session_def sq_eq raise_def sess_kept_def env_kept_def)
qed

lemma create_room:
  assumes "length (tm_sessions w) < tc_max_concurrent_sessions (tm_config w)"
    and "map_of (tm_sessions w) (rt_uuid w (rt_uuids w)) = None"
  shows "\<exists>s w'. sm_create_session p t d w = (Inr s, w') \<and> se_status s = Sess_READY \<and>
     se_id s = rt_uuid w (rt_uuids w) \<and> map_of (tm_sessions w') (se_id s) = Some s \<and>
     sess_le (tm_sessions w) (tm_sessions w') \<and>
     length (tm_sessions w') = Suc (length (tm_sessions w)) \<and> os_calls w' = os_calls w \<and>
     os w' = os w \<and> tm_config w' = tm_config w \<and> sess_w.more w' = sess_w.more w"
proof -
  obtain w1 where r: "reap_expired w = (Inr (), w1)" using reap_expired_Inr by blast
  then have k: "sess_kept w w1" by (rule keepsD [OF reap_expired_kept])
  have e: "tm_config w1 = tm_config w" "os_calls w1 = os_calls w" "os w1 = os w"
      "os_spawn w1 = os_spawn w" "rt_uuid w1 = rt_uuid w" "rt_uuids w1 = rt_uuids w"
      "sess_w.more w1 = sess_w.more w" "sess_le (tm_sessions w) (tm_sessions w1)"
    using k by (auto simp: sess_kept_def env_kept_def)
  have fresh: "map_of (tm_sessions w1) (rt_uuid w (rt_uuids w)) = None"
    using assms(2) sess_kept_keys(2) [OF k] by blast
  then have "sess_le (tm_sessions w) (dset (rt_uuid w (rt_uuids w)) s (tm_sessions w1))" for s
    using e(8) sess_le_set [of "tm_sessions w1"] by (fastforce simp: sess_le_def length_update map_of_update)
  then show ?thesis
    using assms(1) r e fresh sess_kept_keys(1) [OF k]
    by (simp add: sm_create_session_def sq_eq Let_def set_session_def session_emit_def ret_def
        map_of_update length_update)
qed

end
