(* ===== verification/Engine.thy ===== *)
theory Engine
  imports Sessions
begin

text \<open>
  \<^verbatim>\<open>services/terminal/engine.py\<close>.  \<open>execute\<close> is cut where the source awaits the adapter's
  task: \<open>execute_begin\<close> runs up to the await and \<open>execute_finish\<close> from it.  Composed they are
  \<open>execute\<close>; taken apart they are the steps of the interleavings of several commands on one event
  loop, the relation \<open>engine_step\<close>.
\<close>

record engine_task =
  tk_request :: command_request
  tk_adapter :: adapter
  tk_started_at :: time
  tk_spec :: command_spec
  tk_spawned :: "spawn_result option"
  tk_cancelled :: bool

record term_w = sess_w +
  tm_adapter :: "adapter option"
  tm_running :: "(uuid \<times> engine_task) list"
  tm_last_result :: "(uuid \<times> command_result) list"

definition platform_of :: "adapter \<Rightarrow> platform_identifier" where
  "platform_of a = platform_for_adapter_name (adapter_name a)"

definition adapter_of :: "'m term_w_scheme \<Rightarrow> exn + adapter" where
  "adapter_of w = (case tm_adapter w of Some a \<Rightarrow> Inr a | None \<Rightarrow> select_adapter (os w))"

definition resolve_adapter :: "('m term_w_scheme, adapter) prog" where
  "resolve_adapter w = (adapter_of w, w)"

definition get_last_result :: "uuid \<Rightarrow> 'm term_w_scheme \<Rightarrow> command_result option" where
  "get_last_result sid w = map_of (tm_last_result w) sid"

section \<open>Sessions\<close>

definition platform_session_event :: "platform_identifier \<Rightarrow> string option" where
  "platform_session_event p = map_of
     [(P_WINDOWS, ''windows.session.created''), (P_LINUX, ''linux.session.created''),
      (P_MACOS, ''macos.session.created'')] p"

definition create_session ::
    "string option \<Rightarrow> string option \<Rightarrow> ('m term_w_scheme, session) prog" where
  "create_session task_id working_directory =
     bnd resolve_adapter (\<lambda>a.
     bnd (sm_create_session (platform_of a) task_id working_directory) (\<lambda>s.
     case platform_session_event (platform_of a) of
       None \<Rightarrow> ret s
     | Some event \<Rightarrow> sq (audit_emit event (Some (uuid_str (se_id s))) None task_id []) (ret s)))"

definition close_session :: "uuid \<Rightarrow> ('m term_w_scheme, session) prog" where
  "close_session sid = sm_close_session sid"

definition get_status :: "uuid \<Rightarrow> ('m term_w_scheme, session) prog" where
  "get_status sid = get_session sid"

definition describe_adapter :: "('m term_w_scheme, platform_identifier \<times> string option) prog" where
  "describe_adapter =
     bnd resolve_adapter (\<lambda>a.
     gets (\<lambda>w. (platform_of a, map_option cap_shell (get_capabilities a (tm_config w) (os w)))))"

section \<open>Execution\<close>

definition engine_emit ::
    "string \<Rightarrow> command_request \<Rightarrow> (string \<times> pyval) list \<Rightarrow> ('m audit_w_scheme, unit) prog" where
  "engine_emit t rq d =
     audit_emit t (Some (uuid_str (rq_session_id rq))) (Some (uuid_str (rq_id rq))) (rq_task_id rq) d"

definition rejected_result ::
    "command_request \<Rightarrow> time \<Rightarrow> string \<Rightarrow> ('m term_w_scheme, command_result) prog" where
  "rejected_result rq started_at reason =
     bnd resolve_adapter (\<lambda>a.
     bnd now (\<lambda>t. ret
       \<lparr>cr_command_id = rq_id rq, cr_session_id = rq_session_id rq, cr_status = Cmd_REJECTED,
        cr_platform = platform_of a, cr_started_at = started_at, cr_exit_code = None,
        cr_stdout = None, cr_stderr = None, cr_stdout_truncated = False,
        cr_stderr_truncated = False, cr_completed_at = Some t, cr_error_message = Some reason\<rparr>))"

text \<open>The sanitized command, from the request alone.\<close>

definition prepare :: "terminal_config \<Rightarrow> os_env \<Rightarrow> command_request \<Rightarrow> exn + command_spec" where
  "prepare c e rq =
     (case validate_argv (rq_command rq) of
        Inl exc \<Rightarrow> Inl exc
      | Inr _ \<Rightarrow>
          (case validate_working_directory (os_realpath e) (rq_working_directory rq) (tc_workspace_root c) of
             Inl exc \<Rightarrow> Inl exc
           | Inr working_dir \<Rightarrow> Inr
               \<lparr>cs_argv = rq_command rq,
                cs_timeout_seconds = clamp_timeout c (rq_timeout_seconds rq),
                cs_working_dir = Some working_dir,
                cs_env_overrides = filter_environment (rq_environment rq),
                cs_env_allowlist = Some (tc_env_allowlist c),
                cs_max_stdout_bytes = Some (tc_max_stdout_bytes c),
                cs_max_stderr_bytes = Some (tc_max_stderr_bytes c)\<rparr>))"

datatype begun =
    Rejected command_result
  | Launched engine_task

definition launch :: "command_request \<Rightarrow> time \<Rightarrow> command_spec \<Rightarrow> ('m term_w_scheme, begun) prog" where
  "launch rq started_at spec =
     sq (engine_emit COMMAND_APPROVED rq [])
     (bnd resolve_adapter (\<lambda>a.
      sq (upd_session (rq_session_id rq) (\<lambda>s. s\<lparr>se_status := Sess_RUNNING\<rparr>))
      (let task = \<lparr>tk_request = rq, tk_adapter = a, tk_started_at = started_at, tk_spec = spec,
             tk_spawned = None, tk_cancelled = False\<rparr>
       in sq (modify (\<lambda>w. w\<lparr>tm_running := dset (rq_id rq) task (tm_running w)\<rparr>))
          (sq (engine_emit COMMAND_STARTED rq []) (ret (Launched task))))))"

definition execute_begin :: "command_request \<Rightarrow> ('m term_w_scheme, begun) prog" where
  "execute_begin rq =
     bnd (require_active_session (rq_session_id rq)) (\<lambda>_.
     bnd now (\<lambda>touched.
     sq (upd_session (rq_session_id rq) (session_touch touched))
     (sq (engine_emit COMMAND_REQUESTED rq [(''argv_length'', PInt (int (length (rq_command rq))))])
     (bnd now (\<lambda>started_at.
     bnd (gets tm_config) (\<lambda>c.
     bnd (gets os) (\<lambda>e.
     case prepare c e rq of
       Inl (TerminalEngineError code m) \<Rightarrow>
         bnd (rejected_result rq started_at m) (\<lambda>r. ret (Rejected r))
     | Inl exc \<Rightarrow> raise exc
     | Inr spec \<Rightarrow>
         (case from_policy_decision (rq_id rq) spec (rq_authorization_context rq)
                 (rq_approved_by_user rq) of
            Inl exc \<Rightarrow>
              sq (engine_emit COMMAND_REJECTED rq [(''reason'', PStr (exn_str exc))])
              (bnd (rejected_result rq started_at (exn_str exc)) (\<lambda>r. ret (Rejected r)))
          | Inr approved \<Rightarrow> launch rq started_at (ae_command approved)))))))))"

definition cleanup :: "command_request \<Rightarrow> ('m term_w_scheme, unit) prog" where
  "cleanup rq =
     sq (modify (\<lambda>w. w\<lparr>tm_running := ddel (rq_id rq) (tm_running w)\<rparr>))
     (bnd now (\<lambda>t. upd_session (rq_session_id rq) (\<lambda>s.
        let s' = session_touch t s
        in if se_status s' = Sess_RUNNING then s'\<lparr>se_status := Sess_READY\<rparr> else s')))"

definition finalize_result ::
    "command_request \<Rightarrow> adapter \<Rightarrow> time \<Rightarrow> execution_result \<Rightarrow> ('m term_w_scheme, command_result) prog" where
  "finalize_result rq a started_at result =
     bnd (case er_finished_at result of Some t \<Rightarrow> ret t | None \<Rightarrow> now) (\<lambda>completed_at.
     let status = (if er_timed_out result then Cmd_TIMEOUT
                   else if er_status result = Ex_SUCCEEDED then Cmd_COMPLETED else Cmd_FAILED);
         event_type = (case map_of [(Cmd_COMPLETED, COMMAND_COMPLETED), (Cmd_TIMEOUT, COMMAND_TIMEOUT)] status of
                         Some t \<Rightarrow> t | None \<Rightarrow> COMMAND_FAILED)
     in sq (engine_emit event_type rq
          [(''exit_code'', p_oint (er_exit_code result)),
           (''stdout_preview'', p_ostr (truncate_for_log (er_stdout result))),
           (''stderr_preview'', p_ostr (truncate_for_log (er_stderr result))),
           (''stdout_truncated'', PBool (er_stdout_truncated result)),
           (''stderr_truncated'', PBool (er_stderr_truncated result))])
        (ret \<lparr>cr_command_id = rq_id rq, cr_session_id = rq_session_id rq, cr_status = status,
           cr_platform = platform_of a, cr_started_at = started_at,
           cr_exit_code = er_exit_code result, cr_stdout = er_stdout result,
           cr_stderr = er_stderr result, cr_stdout_truncated = er_stdout_truncated result,
           cr_stderr_truncated = er_stderr_truncated result, cr_completed_at = Some completed_at,
           cr_error_message = None\<rparr>))"

definition cancelled_result ::
    "engine_task \<Rightarrow> ('m term_w_scheme, command_result) prog" where
  "cancelled_result t =
     sq (engine_emit COMMAND_CANCELLED (tk_request t) [])
     (bnd now (\<lambda>completed. ret
       \<lparr>cr_command_id = rq_id (tk_request t), cr_session_id = rq_session_id (tk_request t),
        cr_status = Cmd_CANCELLED, cr_platform = platform_of (tk_adapter t),
        cr_started_at = tk_started_at t, cr_exit_code = None, cr_stdout = None, cr_stderr = None,
        cr_stdout_truncated = False, cr_stderr_truncated = False, cr_completed_at = Some completed,
        cr_error_message = Some ''Execution was cancelled.''\<rparr>))"

definition execute_finish ::
    "engine_task \<Rightarrow> exn + execution_result \<Rightarrow> ('m term_w_scheme, command_result) prog" where
  "execute_finish t outcome =
     (case outcome of
        Inl exc \<Rightarrow>
          if exc = CancelledError then
            bnd (cancelled_result t) (\<lambda>r. sq (cleanup (tk_request t)) (ret r))
          else sq (cleanup (tk_request t)) (raise exc)
      | Inr result \<Rightarrow>
          sq (cleanup (tk_request t))
             (finalize_result (tk_request t) (tk_adapter t) (tk_started_at t) result))"

definition run_context_of :: "command_request \<Rightarrow> run_context" where
  "run_context_of rq = \<lparr>rc_session_id = Some (uuid_str (rq_session_id rq)),
     rc_command_id = Some (uuid_str (rq_id rq)), rc_task_id = rq_task_id rq\<rparr>"

definition await_task :: "engine_task \<Rightarrow> ('m term_w_scheme, command_result) prog" where
  "await_task t w =
     (case adapter_run (tk_adapter t) (tk_spec t) True (run_context_of (tk_request t)) w of
        (outcome, w') \<Rightarrow> execute_finish t outcome w')"

definition execute_body :: "command_request \<Rightarrow> ('m term_w_scheme, command_result) prog" where
  "execute_body rq =
     bnd (execute_begin rq) (\<lambda>b. case b of Rejected r \<Rightarrow> ret r | Launched t \<Rightarrow> await_task t)"

definition store_result :: "uuid \<Rightarrow> command_result \<Rightarrow> ('m term_w_scheme, unit) prog" where
  "store_result sid r = modify (\<lambda>w. w\<lparr>tm_last_result := dset sid r (tm_last_result w)\<rparr>)"

definition execute :: "command_request \<Rightarrow> ('m term_w_scheme, command_result) prog" where
  "execute rq =
     bnd (execute_body rq) (\<lambda>result. sq (store_result (rq_session_id rq) result) (ret result))"

definition terminate :: "uuid \<Rightarrow> ('m term_w_scheme, bool) prog" where
  "terminate command_id =
     bnd (gets (\<lambda>w. map_of (tm_running w) command_id)) (\<lambda>found.
     case found of
       None \<Rightarrow> ret False
     | Some t \<Rightarrow>
         sq (modify (\<lambda>w. w\<lparr>tm_running := dset command_id (t\<lparr>tk_cancelled := True\<rparr>) (tm_running w)\<rparr>))
            (ret True))"

section \<open>What the parts change\<close>

lemma sq_engine_emit [simp]:
  "sq (engine_emit t rq d) k w =
     k (w\<lparr>rt_ticks := Suc (rt_ticks w), audit_log := audit_log w @
       [\<lparr>ev_type = t, ev_session_id = Some (uuid_str (rq_session_id rq)),
         ev_command_id = Some (uuid_str (rq_id rq)), ev_task_id = rq_task_id rq,
         ev_timestamp = rt_clock w (rt_ticks w), ev_data = d\<rparr>]\<rparr>)"
  by (simp add: engine_emit_def)

lemma sq_upd_session [simp]:
  "sq (upd_session sid f) k w = k (w\<lparr>tm_sessions :=
     (case map_of (tm_sessions w) sid of None \<Rightarrow> tm_sessions w
      | Some s \<Rightarrow> dset sid (f s) (tm_sessions w))\<rparr>)"
  by (simp add: upd_session_def)

lemma bnd_resolve_adapter [simp]:
  "bnd resolve_adapter f w =
     (case adapter_of w of
        Inl e \<Rightarrow> (Inl e, w) | Inr a \<Rightarrow> f a w)"
  by (simp add: bnd_def resolve_adapter_def)

lemma adapter_of_upd [simp]:
  "adapter_of (w\<lparr>tm_sessions := x1\<rparr>) = adapter_of w"
  "adapter_of (w\<lparr>audit_log := x2\<rparr>) = adapter_of w"
  "adapter_of (w\<lparr>rt_ticks := x3\<rparr>) = adapter_of w"
  "adapter_of (w\<lparr>tm_running := x4\<rparr>) = adapter_of w"
  by (auto simp: adapter_of_def split: option.splits)

lemma sess_kept_term:
  "sess_kept w w' \<Longrightarrow> tm_running w' = tm_running w \<and> tm_adapter w' = tm_adapter w \<and>
     tm_last_result w' = tm_last_result w"
  by (cases w; cases w') (simp add: sess_kept_def)

lemma prepare_error: "prepare c e rq = Inl exc \<Longrightarrow> \<exists>code m. exc = TerminalEngineError code m"
  by (auto simp: prepare_def split: sum.splits
      dest: validate_argv_Inl validate_working_directory_Inl)

lemma touched_usable:
  "usable w sid s \<Longrightarrow> map_of (tm_sessions w) sid = Some s"
  by (simp add: usable_def)

definition calm :: "'m sess_w_scheme \<Rightarrow> 'm sess_w_scheme \<Rightarrow> bool" where
  "calm w w' \<longleftrightarrow> env_kept w w' \<and> sess_le (tm_sessions w) (tm_sessions w') \<and>
     length (tm_sessions w') = length (tm_sessions w)"

lemma sess_kept_calm: "sess_kept w w' \<Longrightarrow> calm w w'"
  using sess_kept_keys(1) by (auto simp: calm_def sess_kept_def)

lemma sess_le_touch:
  "map_of d sid = Some s \<Longrightarrow> sess_le d (dset sid (session_touch t s) d)"
  by (rule sess_le_set) (simp add: session_touch_def)

lemma bnd_require_active:
  assumes "usable w sid s"
  shows "bnd (require_active_session sid) f w = f s (w\<lparr>rt_ticks := Suc (rt_ticks w)\<rparr>)"
  by (simp add: bnd_def require_active_usable [OF assms])

text \<open>A request on a usable session, case by case.\<close>

lemma begin_invalid:
  assumes "usable w (rq_session_id rq) s" and "prepare (tm_config w) (os w) rq = Inl exc"
    and "adapter_of w = Inr a"
  shows "\<exists>r w'. execute_begin rq w = (Inr (Rejected r), w') \<and> cr_status r = Cmd_REJECTED \<and>
     cr_error_message r = Some (exn_str exc) \<and> calm w w' \<and> tm_running w' = tm_running w \<and>
     audit_types w' = audit_types w @ [COMMAND_REQUESTED]"
proof -
  obtain code m where exc: "exc = TerminalEngineError code m"
    using prepare_error [OF assms(2)] by blast
  show ?thesis
    using assms(2,3) touched_usable [OF assms(1)]
    by (simp add: execute_begin_def bnd_require_active [OF assms(1)] exc
        rejected_result_def ret_def env_kept_def audit_types_def bnd_bnd sess_le_touch
        calm_def length_update)
qed

lemma begin_unapproved:
  assumes "usable w (rq_session_id rq) s" and "prepare (tm_config w) (os w) rq = Inr spec"
    and "\<not> approves (rq_authorization_context rq) (rq_approved_by_user rq)" and "adapter_of w = Inr a"
  shows "\<exists>r w'. execute_begin rq w = (Inr (Rejected r), w') \<and> cr_status r = Cmd_REJECTED \<and>
     calm w w' \<and> tm_running w' = tm_running w \<and>
     audit_types w' = audit_types w @ [COMMAND_REQUESTED, COMMAND_REJECTED]"
proof -
  obtain e where "from_policy_decision (rq_id rq) spec (rq_authorization_context rq)
      (rq_approved_by_user rq) = Inl e"
    using assms(3) from_policy_decision_Inl by blast
  then show ?thesis
    using assms(2,4) touched_usable [OF assms(1)]
    by (simp add: execute_begin_def bnd_require_active [OF assms(1)]
        rejected_result_def ret_def env_kept_def audit_types_def bnd_bnd sess_le_touch
        calm_def length_update)
qed

definition running_session :: "time \<Rightarrow> session \<Rightarrow> session" where
  "running_session t s = s\<lparr>se_last_activity_at := t, se_status := Sess_RUNNING\<rparr>"

lemma begin_approved:
  assumes "usable w (rq_session_id rq) s" and "prepare (tm_config w) (os w) rq = Inr spec"
    and "approves (rq_authorization_context rq) (rq_approved_by_user rq)" and "adapter_of w = Inr a"
  shows "\<exists>t w'. execute_begin rq w = (Inr (Launched t), w') \<and>
     tk_request t = rq \<and> tk_adapter t = a \<and> tk_spec t = spec \<and> tk_spawned t = None \<and>
     calm w w' \<and> tm_adapter w' = tm_adapter w \<and>
     tm_running w' = dset (rq_id rq) t (tm_running w) \<and> tm_last_result w' = tm_last_result w \<and>
     map_of (tm_sessions w') (rq_session_id rq) = Some (running_session (rt_clock w (Suc (rt_ticks w))) s) \<and>
     audit_types w' = audit_types w @ [COMMAND_REQUESTED, COMMAND_APPROVED, COMMAND_STARTED]"
proof -
  have fp: "from_policy_decision (rq_id rq) spec (rq_authorization_context rq)
      (rq_approved_by_user rq) = Inr \<lparr>ae_action_id = rq_id rq, ae_command = spec\<rparr>"
    using assms(3) by (simp add: from_policy_decision_Inr)
  have s: "map_of (tm_sessions w) (rq_session_id rq) = Some s" "\<not> ended_status (se_status s)"
    using assms(1) ended_not_live by (auto simp: usable_def)
  show ?thesis
    using assms(2,4) s fp
    by (simp add: execute_begin_def bnd_require_active [OF assms(1)] launch_def
        ret_def env_kept_def calm_def audit_types_def Let_def map_of_update sess_le_def
        length_update session_touch_def running_session_def)
qed

lemma begin_unresolved:
  assumes "usable w (rq_session_id rq) s" and "adapter_of w = Inl exc"
  shows "\<exists>e w'. execute_begin rq w = (Inl e, w') \<and> calm w w' \<and> tm_running w' = tm_running w"
proof -
  note run = bnd_require_active [OF assms(1)]
  show ?thesis
  proof (cases "prepare (tm_config w) (os w) rq")
    case (Inl e)
    then obtain code m where e: "e = TerminalEngineError code m" using prepare_error by blast
    show ?thesis
      using assms(2) Inl touched_usable [OF assms(1)]
      by (simp add: execute_begin_def run e rejected_result_def ret_def env_kept_def bnd_bnd
          sess_le_touch calm_def length_update)
  next
    case (Inr spec)
    show ?thesis
    proof (cases "from_policy_decision (rq_id rq) spec (rq_authorization_context rq)
      (rq_approved_by_user rq)")
      case (Inl e)
      then show ?thesis
        using assms(2) Inr touched_usable [OF assms(1)]
        by (simp add: execute_begin_def run rejected_result_def ret_def env_kept_def bnd_bnd
          sess_le_touch calm_def length_update)
    next
      case (Inr approved)
      then show ?thesis
        using assms(2) \<open>prepare _ _ _ = _\<close> touched_usable [OF assms(1)]
        by (simp add: execute_begin_def run launch_def env_kept_def sess_le_touch calm_def
            length_update)
    qed
  qed
qed

section \<open>What a finished command leaves\<close>

lemma os_frame_term:
  "os_frame w w' \<Longrightarrow> tm_sessions w' = tm_sessions w \<and> tm_config w' = tm_config w \<and>
     tm_adapter w' = tm_adapter w \<and> tm_running w' = tm_running w \<and>
     tm_last_result w' = tm_last_result w \<and> os w' = os w \<and> os_spawn w' = os_spawn w"
  by (cases w; cases w') (simp add: os_frame_def)

definition rested :: "time \<Rightarrow> session \<Rightarrow> session" where
  "rested t s = (let s' = session_touch t s
     in if se_status s' = Sess_RUNNING then s'\<lparr>se_status := Sess_READY\<rparr> else s')"

definition cleaned :: "command_request \<Rightarrow> 'm term_w_scheme \<Rightarrow> 'm term_w_scheme" where
  "cleaned rq w = w\<lparr>tm_running := ddel (rq_id rq) (tm_running w), rt_ticks := Suc (rt_ticks w),
     tm_sessions := (case map_of (tm_sessions w) (rq_session_id rq) of None \<Rightarrow> tm_sessions w
       | Some s \<Rightarrow> dset (rq_session_id rq) (rested (rt_clock w (rt_ticks w)) s) (tm_sessions w))\<rparr>"

lemma sq_cleanup: "sq (cleanup rq) k w = k (cleaned rq w)"
  by (simp add: cleanup_def sq_sq sq_bnd cleaned_def rested_def cong: option.case_cong)

lemma rested_ended: "ended_status (se_status s) \<Longrightarrow> ended_status (se_status (rested t s))"
  by (auto simp: rested_def session_touch_def Let_def)

lemma cleaned_simps [simp]:
  "os_calls (cleaned rq w) = os_calls w" "os_signals (cleaned rq w) = os_signals w"
  "rt_uuid (cleaned rq w) = rt_uuid w" "rt_uuids (cleaned rq w) = rt_uuids w"
  "os (cleaned rq w) = os w" "os_spawn (cleaned rq w) = os_spawn w"
  "tm_config (cleaned rq w) = tm_config w" "tm_adapter (cleaned rq w) = tm_adapter w"
  "tm_running (cleaned rq w) = ddel (rq_id rq) (tm_running w)"
  "audit_log (cleaned rq w) = audit_log w" "tm_last_result (cleaned rq w) = tm_last_result w"
  by (auto simp: cleaned_def)

lemma cleaned_session:
  "map_of (tm_sessions (cleaned rq w)) (rq_session_id rq) =
     map_option (rested (rt_clock w (rt_ticks w))) (map_of (tm_sessions w) (rq_session_id rq))"
  by (simp add: cleaned_def map_of_update split: option.splits)

lemma cleaned_sess_le: "sess_le (tm_sessions w) (tm_sessions (cleaned rq w))"
  by (auto simp: cleaned_def sess_le_refl rested_ended split: option.splits intro!: sess_le_set)

lemma cleaned_length [simp]: "length (tm_sessions (cleaned rq w)) = length (tm_sessions w)"
  by (auto simp: cleaned_def length_update split: option.splits)

lemma finalize_run:
  "\<exists>res w'. finalize_result rq a t r w = (Inr res, w') \<and>
     cr_status res = (if er_timed_out r then Cmd_TIMEOUT
       else if er_status r = Ex_SUCCEEDED then Cmd_COMPLETED else Cmd_FAILED) \<and>
     cr_exit_code res = er_exit_code r \<and> cr_stdout res = er_stdout r \<and> cr_stderr res = er_stderr r \<and>
     cr_stdout_truncated res = er_stdout_truncated r \<and> cr_stderr_truncated res = er_stderr_truncated r \<and>
     cr_command_id res = rq_id rq \<and> cr_session_id res = rq_session_id rq \<and>
     os_calls w' = os_calls w \<and> os_signals w' = os_signals w \<and> env_kept w w' \<and>
     tm_sessions w' = tm_sessions w \<and> tm_running w' = tm_running w \<and>
     tm_last_result w' = tm_last_result w \<and> tm_adapter w' = tm_adapter w"
  by (cases "er_finished_at r") (simp_all add: finalize_result_def Let_def ret_def env_kept_def)

lemma cancelled_run:
  "\<exists>res w'. cancelled_result t w = (Inr res, w') \<and> cr_status res = Cmd_CANCELLED \<and>
     os_calls w' = os_calls w \<and> os_signals w' = os_signals w \<and> env_kept w w' \<and>
     tm_sessions w' = tm_sessions w \<and> tm_running w' = tm_running w \<and>
     tm_last_result w' = tm_last_result w \<and> tm_adapter w' = tm_adapter w"
  by (simp add: cancelled_result_def ret_def env_kept_def)

text \<open>However the task ended, the command is no longer running and its session is at rest.\<close>

lemma execute_finish_leaves:
  assumes "execute_finish t outcome w = (r, w')"
  shows "tm_running w' = ddel (rq_id (tk_request t)) (tm_running w) \<and> env_kept w w' \<and>
     os_signals w' = os_signals w \<and> sess_le (tm_sessions w) (tm_sessions w') \<and>
     length (tm_sessions w') = length (tm_sessions w) \<and> tm_last_result w' = tm_last_result w \<and> tm_adapter w' = tm_adapter w \<and>
     (\<exists>\<tau>. map_of (tm_sessions w') (rq_session_id (tk_request t)) =
        map_option (rested \<tau>) (map_of (tm_sessions w) (rq_session_id (tk_request t))))"
proof (cases outcome)
  case (Inl exc)
  show ?thesis
  proof (cases "exc = CancelledError")
    case True
    obtain res w1 where c: "cancelled_result t w = (Inr res, w1)" "env_kept w w1"
      "os_signals w1 = os_signals w" "tm_sessions w1 = tm_sessions w" "tm_running w1 = tm_running w"
      "tm_last_result w1 = tm_last_result w" "tm_adapter w1 = tm_adapter w"
      using cancelled_run [of t w] by blast
    then show ?thesis
      using assms Inl True cleaned_session [of "tk_request t" w1] cleaned_sess_le [of w1 "tk_request t"]
      by (auto simp: execute_finish_def bnd_eq sq_cleanup ret_def env_kept_def)
  next
    case False
    then show ?thesis
      using assms Inl cleaned_session [of "tk_request t" w] cleaned_sess_le [of w "tk_request t"]
      by (auto simp: execute_finish_def sq_cleanup raise_def env_kept_def)
  qed
next
  case (Inr res)
  then show ?thesis
    using assms cleaned_session [of "tk_request t" w] cleaned_sess_le [of w "tk_request t"]
      finalize_run [of "tk_request t" "tk_adapter t" "tk_started_at t" res "cleaned (tk_request t) w"]
    by (auto simp: execute_finish_def sq_cleanup env_kept_def)
qed

text \<open>What the request learns of a process.\<close>

definition command_status_of :: "proc_end \<Rightarrow> command_status" where
  "command_status_of e = (case e of End_Exit n \<Rightarrow> if n = 0 then Cmd_COMPLETED else Cmd_FAILED
     | End_Timeout \<Rightarrow> Cmd_TIMEOUT | End_Cancelled \<Rightarrow> Cmd_CANCELLED)"

definition reports :: "command_spec \<Rightarrow> proc \<Rightarrow> command_result \<Rightarrow> bool" where
  "reports spec px res \<longleftrightarrow>
     cr_status res = command_status_of (px_end px) \<and>
     (px_end px \<noteq> End_Cancelled \<longrightarrow>
        cr_exit_code res = (case px_end px of End_Exit n \<Rightarrow> Some n | _ \<Rightarrow> None) \<and>
        cr_stdout res = Some (reader_text (stdout_reader spec px)) \<and>
        cr_stderr res = Some (reader_text (stderr_reader spec px)) \<and>
        cr_stdout_truncated res = rd_exceeded (stdout_reader spec px) \<and>
        cr_stderr_truncated res = rd_exceeded (stderr_reader spec px))"

lemma execute_finish_reports:
  assumes "run_outcome a spec px outcome"
  shows "\<exists>res. fst (execute_finish t outcome w) = Inr res \<and> reports spec px res"
proof (cases outcome)
  case (Inl exc)
  then have "exc = CancelledError" "px_end px = End_Cancelled"
    using assms by (auto simp: run_outcome_def)
  then show ?thesis
    using Inl cancelled_run [of t w]
    by (auto simp: execute_finish_def bnd_def sq_cleanup ret_def reports_def command_status_of_def)
next
  case (Inr r)
  then show ?thesis
    using assms finalize_run [of "tk_request t" "tk_adapter t" "tk_started_at t" r "cleaned (tk_request t) w"]
    by (auto simp: execute_finish_def sq_cleanup run_outcome_def reports_def command_status_of_def
        split: proc_end.splits)
qed

section \<open>The gate\<close>

text \<open>
  C25.  An approved command: on a usable session, a request that validates and that policy allows (or
  requires approval for and the user approved) creates exactly one process, the sanitized command;
  the result reports how that process ended, the session is ready again, the command is no longer
  running, and the result is the session's last one.
\<close>

theorem execute_approved:
  assumes "usable w (rq_session_id rq) s" and "prepare (tm_config w) (os w) rq = Inr spec"
    and "approves (rq_authorization_context rq) (rq_approved_by_user rq)" and "adapter_of w = Inr a"
    and "os_spawn w (length (os_calls w)) (call_of a (os w) spec) = Spawned px"
  shows "\<exists>res w' s'. execute rq w = (Inr res, w') \<and> reports spec px res \<and>
    os_calls w' = os_calls w @ [call_of a (os w) spec] \<and>
    map_of (tm_running w') (rq_id rq) = None \<and>
    map_of (tm_sessions w') (rq_session_id rq) = Some s' \<and> se_status s' = Sess_READY \<and>
    get_last_result (rq_session_id rq) w' = Some res"
proof -
  obtain t w1 where b: "execute_begin rq w = (Inr (Launched t), w1)" "tk_request t = rq"
      "tk_adapter t = a" "tk_spec t = spec" "calm w w1"
      "map_of (tm_sessions w1) (rq_session_id rq) =
         Some (running_session (rt_clock w (Suc (rt_ticks w))) s)"
    using begin_approved [OF assms(1-4)] by blast
  have env: "os_calls w1 = os_calls w" "os w1 = os w" "os_spawn w1 = os_spawn w"
    using b(5) by (auto simp: calm_def env_kept_def)
  obtain outcome w2 where run: "adapter_run a spec True (run_context_of rq) w1 = (outcome, w2)"
    by (cases "adapter_run a spec True (run_context_of rq) w1")
  have "os_spawn w1 (length (os_calls w1)) (call_of a (os w1) spec) = Spawned px"
    using assms(5) env by simp
  from adapter_run_outcome_w [OF this, of True "run_context_of rq"]
  have o: "run_outcome a spec px outcome" "os_calls w2 = os_calls w @ [call_of a (os w) spec]"
    using run env by auto
  have fr: "os_frame w1 w2" using adapter_run_frame run by (rule keepsD)
  obtain r w3 where fin: "execute_finish t outcome w2 = (r, w3)" by (cases "execute_finish t outcome w2")
  obtain res where res: "r = Inr res" "reports spec px res"
    using execute_finish_reports [OF o(1), of t w2] fin by auto
  from execute_finish_leaves [OF fin] obtain \<tau> where
    lv: "tm_running w3 = ddel (rq_id rq) (tm_running w2)" "os_calls w3 = os_calls w2"
      "map_of (tm_sessions w3) (rq_session_id rq) =
         Some (rested \<tau> (running_session (rt_clock w (Suc (rt_ticks w))) s))"
    using b os_frame_term [OF fr] by (auto simp: env_kept_def)
  have "execute rq w = (Inr res, w3\<lparr>tm_last_result := dset (rq_session_id rq) res (tm_last_result w3)\<rparr>)"
    using b run fin res
    by (simp add: execute_def execute_body_def bnd_bnd bnd_eq await_task_def store_result_def ret_def)
  then show ?thesis
    using res o lv
    by (simp add: map_of_delete get_last_result_def map_of_update rested_def session_touch_def
        running_session_def)
qed

text \<open>What a process may be given, in terms of the request, the configuration and the host.\<close>

definition safe_call :: "terminal_config \<Rightarrow> os_env \<Rightarrow> command_request \<Rightarrow> spawn_call \<Rightarrow> bool" where
  "safe_call c e rq call \<longleftrightarrow>
     sc_argv call = rq_command rq \<and> rq_command rq \<noteq> [] \<and> length (rq_command rq) \<le> 64 \<and>
     (\<exists>d. sc_cwd call = Some d \<and>
        (d = os_realpath e (tc_workspace_root c) \<or>
         (\<exists>rest. d = os_realpath e (tc_workspace_root c) @ ''/'' @ rest))) \<and>
     (\<forall>k v. map_of (sc_env call) k = Some v \<longrightarrow>
        (k, v) \<in> set (rq_environment rq) \<and> \<not> secret_key k \<or>
        k \<in> set (tc_env_allowlist c) \<and> map_of (os_environ e) k = Some v)"

lemma prepare_safe:
  assumes "prepare c e rq = Inr spec"
  shows "safe_call c e rq (call_of a e spec)"
proof -
  have spec: "cs_argv spec = rq_command rq" "validate_argv (rq_command rq) = Inr ()"
    "cs_env_overrides spec = filter_environment (rq_environment rq)"
    "cs_env_allowlist spec = Some (tc_env_allowlist c)"
    "\<exists>d. cs_working_dir spec = Some d \<and>
       validate_working_directory (os_realpath e) (rq_working_directory rq) (tc_workspace_root c) = Inr d"
    using assms by (auto simp: prepare_def split: sum.splits)
  have env: "(k, v) \<in> set (rq_environment rq) \<and> \<not> secret_key k \<or>
      k \<in> set (tc_env_allowlist c) \<and> map_of (os_environ e) k = Some v"
    if "map_of (filtered_env e spec) k = Some v" for k v
    using that spec(3,4)
    by (auto simp: map_of_filtered_env filter_environment_def split: option.splits if_splits
        dest!: map_of_SomeD)
  show ?thesis
    using spec(1,2,5) env working_directory_within
    by (fastforce simp: safe_call_def call_of_def validate_argv_Inr)
qed

text \<open>How any request begins.\<close>

lemma begin_cases:
  obtains (failed) e w' where "execute_begin rq w = (Inl e, w')" "calm w w'"
      "tm_running w' = tm_running w"
  | (rejected) r w' where "execute_begin rq w = (Inr (Rejected r), w')" "cr_status r = Cmd_REJECTED"
      "calm w w'" "tm_running w' = tm_running w"
  | (launched) t w' where "execute_begin rq w = (Inr (Launched t), w')" "tk_request t = rq"
      "prepare (tm_config w) (os w) rq = Inr (tk_spec t)" "tk_spawned t = None"
      "approves (rq_authorization_context rq) (rq_approved_by_user rq)" "calm w w'"
      "tm_running w' = dset (rq_id rq) t (tm_running w)"
proof (cases "\<exists>s. usable w (rq_session_id rq) s")
  case False
  then obtain e w' where ra: "require_active_session (rq_session_id rq) w = (Inl e, w')" "sess_kept w w'"
    using not_usable by blast
  then have "execute_begin rq w = (Inl e, w')" by (simp add: execute_begin_def bnd_def)
  then show ?thesis using failed sess_kept_calm sess_kept_term ra(2) by blast
next
  case True
  then obtain s where u: "usable w (rq_session_id rq) s" by blast
  show ?thesis
  proof (cases "adapter_of w")
    case (Inl exc)
    then show ?thesis using begin_unresolved [OF u] failed by blast
  next
    case a: (Inr a)
    show ?thesis
    proof (cases "prepare (tm_config w) (os w) rq")
      case (Inl exc)
      then show ?thesis using begin_invalid [OF u _ a] rejected by blast
    next
      case p: (Inr spec)
      show ?thesis
      proof (cases "approves (rq_authorization_context rq) (rq_approved_by_user rq)")
        case False
        then show ?thesis using begin_unapproved [OF u p _ a] rejected by blast
      next
        case True
        then show ?thesis using begin_approved [OF u p True a] p launched by blast
      qed
    qed
  qed
qed

text \<open>
  C24.  Nothing reaches the operating system without authorization: whatever the state of the
  engine, a request whose decision is a denial, or requires an approval the user has not given,
  creates no process, leaves nothing running, and ends in an error or a REJECTED result.
\<close>

theorem unapproved_never_runs:
  assumes "\<not> approves (rq_authorization_context rq) (rq_approved_by_user rq)"
  shows "os_calls (snd (execute rq w)) = os_calls w \<and> tm_running (snd (execute rq w)) = tm_running w \<and>
    (case fst (execute rq w) of Inl _ \<Rightarrow> True | Inr res \<Rightarrow> cr_status res = Cmd_REJECTED)"
proof (cases rule: begin_cases [of rq w])
  case (failed e w')
  then show ?thesis by (simp add: execute_def execute_body_def bnd_bnd bnd_eq calm_def env_kept_def)
next
  case (rejected r w')
  then show ?thesis
    by (simp add: execute_def execute_body_def bnd_bnd bnd_eq calm_def env_kept_def store_result_def ret_def)
next
  case (launched t w')
  then show ?thesis using assms by simp
qed

text \<open>
  A request that fails validation is refused without a process, but the refusal leaves only the
  COMMAND_REQUESTED event in the audit trail; a request that policy refuses leaves COMMAND_REQUESTED
  and COMMAND_REJECTED.
\<close>

theorem refusals_audited:
  assumes "usable w (rq_session_id rq) s" and "adapter_of w = Inr a"
  shows "(\<forall>exc. prepare (tm_config w) (os w) rq = Inl exc \<longrightarrow>
       audit_types (snd (execute rq w)) = audit_types w @ [COMMAND_REQUESTED] \<and>
       (\<exists>res. fst (execute rq w) = Inr res \<and> cr_status res = Cmd_REJECTED \<and>
          cr_error_message res = Some (exn_str exc))) \<and>
    (\<forall>spec. prepare (tm_config w) (os w) rq = Inr spec \<and>
       \<not> approves (rq_authorization_context rq) (rq_approved_by_user rq) \<longrightarrow>
       audit_types (snd (execute rq w)) = audit_types w @ [COMMAND_REQUESTED, COMMAND_REJECTED])"
proof (intro conjI allI impI)
  fix exc
  assume "prepare (tm_config w) (os w) rq = Inl exc"
  from begin_invalid [OF assms(1) this assms(2)]
  show "audit_types (snd (execute rq w)) = audit_types w @ [COMMAND_REQUESTED]"
    and "\<exists>res. fst (execute rq w) = Inr res \<and> cr_status res = Cmd_REJECTED \<and>
          cr_error_message res = Some (exn_str exc)"
    by (auto simp: execute_def execute_body_def bnd_bnd bnd_eq store_result_def ret_def audit_types_def)
next
  fix spec
  assume p: "prepare (tm_config w) (os w) rq = Inr spec \<and>
       \<not> approves (rq_authorization_context rq) (rq_approved_by_user rq)"
  then show "audit_types (snd (execute rq w)) = audit_types w @ [COMMAND_REQUESTED, COMMAND_REJECTED]"
    using begin_unapproved [OF assms(1) _ _ assms(2)]
    by (fastforce simp: execute_def execute_body_def bnd_bnd bnd_eq store_result_def ret_def audit_types_def)
qed

section \<open>A sample engine\<close>

definition sample_config :: terminal_config where
  "sample_config = (default_terminal_config ''/work'')\<lparr>tc_max_concurrent_sessions := 2\<rparr>"

definition sample_session :: "session_status \<Rightarrow> session" where
  "sample_session st = \<lparr>se_id = 5, se_platform = P_LINUX, se_created_at = 0, se_status = st,
     se_working_directory = Some ''/work'', se_task_id = None, se_authorization_context = None,
     se_last_activity_at = 0\<rparr>"

definition sample_request :: "policy_verdict \<Rightarrow> command_request" where
  "sample_request v = \<lparr>rq_session_id = 5, rq_command = [''uname''],
     rq_authorization_context = \<lparr>pd_verdict = v, pd_reasons = [], pd_requires_approval = False\<rparr>,
     rq_task_id = None, rq_id = 9, rq_working_directory = None, rq_environment = [],
     rq_timeout_seconds = None, rq_approved_by_user = False\<rparr>"

definition sample_term_w :: "(uuid \<times> session) list \<Rightarrow> term_w" where
  "sample_term_w sessions = \<lparr>rt_clock = (\<lambda>n. int n), rt_ticks = 0, rt_uuid = (\<lambda>n. 100 + n),
     rt_uuids = 0, audit_log = [], os = sample_os, os_spawn = (\<lambda>_ _. Spawned sample_proc),
     os_calls = [], os_signals = [], tm_config = sample_config, tm_sessions = sessions,
     tm_adapter = Some LinuxTerminalAdapter, tm_running = [], tm_last_result = []\<rparr>"

abbreviation sample_engine :: term_w where
  "sample_engine \<equiv> sample_term_w [(5, sample_session Sess_READY)]"

lemma sample_usable: "usable sample_engine 5 (sample_session Sess_READY)"
  by (simp add: usable_def sample_term_w_def sample_session_def live_status_def
      session_is_expired_def sample_config_def default_terminal_config_def seconds_def)

lemma sample_prepare:
  "prepare (tm_config sample_engine) (os sample_engine) (sample_request v) = Inr
     \<lparr>cs_argv = [''uname''], cs_timeout_seconds = 30, cs_working_dir = Some ''/work'',
      cs_env_overrides = [], cs_env_allowlist = Some DEFAULT_ENV_ALLOWLIST,
      cs_max_stdout_bytes = Some 1000000, cs_max_stderr_bytes = Some 1000000\<rparr>"
  by (simp add: prepare_def sample_term_w_def sample_request_def validate_argv_def
      MAX_COMMAND_ARGS_def MAX_ARG_LENGTH_def py_len_def is_cont_def validate_working_directory_def
      sample_config_def default_terminal_config_def clamp_timeout_def filter_environment_def
      sample_os_def)

theorem execute_approved_witness:
  "\<exists>res w' s'. execute (sample_request ALLOW) sample_engine = (Inr res, w') \<and>
     cr_status res = Cmd_COMPLETED \<and> length (os_calls w') = 1 \<and>
     map_of (tm_sessions w') 5 = Some s' \<and> se_status s' = Sess_READY"
proof -
  have "adapter_of sample_engine = Inr LinuxTerminalAdapter"
    and "os_spawn sample_engine n c = Spawned sample_proc" for n c
    by (simp_all add: adapter_of_def sample_term_w_def)
  moreover have "approves (rq_authorization_context (sample_request ALLOW))
      (rq_approved_by_user (sample_request ALLOW))"
    by (simp add: approves_def sample_request_def)
  moreover have "rq_session_id (sample_request ALLOW) = 5" by (simp add: sample_request_def)
  moreover have "os_calls sample_engine = []" by (simp add: sample_term_w_def)
  ultimately obtain res w' s' where
    "execute (sample_request ALLOW) sample_engine = (Inr res, w')" "length (os_calls w') = 1"
    "cr_status res = command_status_of (px_end sample_proc)"
    "map_of (tm_sessions w') 5 = Some s'" "se_status s' = Sess_READY"
    using execute_approved [of sample_engine "sample_request ALLOW" "sample_session Sess_READY"]
      sample_usable sample_prepare by (fastforce simp: reports_def)
  then show ?thesis by (auto simp: command_status_of_def sample_proc_def)
qed

theorem unapproved_never_runs_witness:
  "os_calls (snd (execute (sample_request DENY) sample_engine)) = []"
  using unapproved_never_runs [of "sample_request DENY" sample_engine]
  by (simp add: approves_def sample_request_def) (simp add: sample_term_w_def)

theorem refusals_audited_witness:
  "audit_types (snd (execute (sample_request DENY) sample_engine)) =
     [COMMAND_REQUESTED, COMMAND_REJECTED]"
proof -
  have "adapter_of sample_engine = Inr LinuxTerminalAdapter"
    by (simp add: adapter_of_def sample_term_w_def)
  moreover have "rq_session_id (sample_request DENY) = 5" by (simp add: sample_request_def)
  moreover have "\<not> approves (rq_authorization_context (sample_request DENY))
      (rq_approved_by_user (sample_request DENY))"
    by (simp add: approves_def sample_request_def)
  moreover have "audit_types sample_engine = []" by (simp add: audit_types_def sample_term_w_def)
  ultimately show ?thesis
    using refusals_audited [of sample_engine "sample_request DENY"] sample_usable sample_prepare
    by fastforce
qed

end
