(* ===== verification/Engine_Steps.thy ===== *)
theory Engine_Steps
  imports Engine
begin

text \<open>
  Several commands on one event loop.  \<open>engine_step\<close> interleaves the pieces of \<open>execute\<close> of
  different requests with each other, with \<open>terminate\<close> and with the session operations; the event
  loop switches only where the source awaits, which is between these pieces.  A request identifier
  and a session identifier are fresh when they are first used, as \<^verbatim>\<open>uuid4\<close> makes them.
\<close>

datatype engine_event =
    Ev_Begin command_request
  | Ev_Start uuid
  | Ev_Finish uuid
  | Ev_Terminate uuid
  | Ev_Create_Session "string option" "string option"
  | Ev_Close_Session uuid
  | Ev_Status uuid

definition begin_command :: "command_request \<Rightarrow> (term_w, unit) prog" where
  "begin_command rq =
     bnd (execute_begin rq) (\<lambda>b. case b of
       Rejected r \<Rightarrow> store_result (rq_session_id rq) r
     | Launched t \<Rightarrow> ret ())"

definition finish_command :: "engine_task \<Rightarrow> exn + execution_result \<Rightarrow> (term_w, unit) prog" where
  "finish_command t outcome =
     bnd (execute_finish t outcome) (\<lambda>r. store_result (rq_session_id (tk_request t)) r)"

definition start_command :: "uuid \<Rightarrow> engine_task \<Rightarrow> (term_w, unit) prog" where
  "start_command i t w =
     (case adapter_start (tk_adapter t) (tk_spec t) True (run_context_of (tk_request t)) w of
        (Inl exc, w') \<Rightarrow> finish_command t (Inl exc) w'
      | (Inr s, w') \<Rightarrow>
          (Inr (), w'\<lparr>tm_running := dset i (t\<lparr>tk_spawned := Some s\<rparr>) (tm_running w')\<rparr>))"

definition end_command :: "engine_task \<Rightarrow> spawn_result \<Rightarrow> (term_w, unit) prog" where
  "end_command t s w =
     (case adapter_finish (tk_adapter t) (tk_spec t) True (run_context_of (tk_request t)) s w of
        (outcome, w') \<Rightarrow> finish_command t outcome w')"

inductive engine_step :: "term_w \<Rightarrow> engine_event \<Rightarrow> term_w \<Rightarrow> bool" where
  begins: "map_of (tm_running w) (rq_id rq) = None \<Longrightarrow>
     begin_command rq w = (r, w') \<Longrightarrow> engine_step w (Ev_Begin rq) w'"
| starts: "map_of (tm_running w) i = Some t \<Longrightarrow> tk_spawned t = None \<Longrightarrow> \<not> tk_cancelled t \<Longrightarrow>
     start_command i t w = (r, w') \<Longrightarrow> engine_step w (Ev_Start i) w'"
| never_started: "map_of (tm_running w) i = Some t \<Longrightarrow> tk_spawned t = None \<Longrightarrow> tk_cancelled t \<Longrightarrow>
     finish_command t (Inl CancelledError) w = (r, w') \<Longrightarrow> engine_step w (Ev_Finish i) w'"
| ends: "map_of (tm_running w) i = Some t \<Longrightarrow> tk_spawned t = Some s \<Longrightarrow>
     end_command t s w = (r, w') \<Longrightarrow> engine_step w (Ev_Finish i) w'"
| interrupted: "map_of (tm_running w) i = Some t \<Longrightarrow> tk_spawned t = Some (SR_Running \<tau> px) \<Longrightarrow>
     tk_cancelled t \<Longrightarrow> end_command t (SR_Running \<tau> (px\<lparr>px_end := End_Cancelled\<rparr>)) w = (r, w') \<Longrightarrow>
     engine_step w (Ev_Finish i) w'"
| terminates: "terminate i w = (r, w') \<Longrightarrow> engine_step w (Ev_Terminate i) w'"
| creates: "map_of (tm_sessions w) (rt_uuid w (rt_uuids w)) = None \<Longrightarrow>
     create_session task_id wd w = (r, w') \<Longrightarrow> engine_step w (Ev_Create_Session task_id wd) w'"
| closes: "close_session sid w = (r, w') \<Longrightarrow> engine_step w (Ev_Close_Session sid) w'"
| reads_status: "get_status sid w = (r, w') \<Longrightarrow> engine_step w (Ev_Status sid) w'"

inductive engine_run :: "term_w \<Rightarrow> engine_event list \<Rightarrow> term_w \<Rightarrow> bool" where
  no_event: "engine_run w [] w"
| event: "engine_run w evs w' \<Longrightarrow> engine_step w' ev w'' \<Longrightarrow> engine_run w (evs @ [ev]) w''"

inductive_cases engine_step_elim: "engine_step w ev w'"
inductive_simps engine_step_begin: "engine_step w (Ev_Begin rq) w'"
inductive_simps engine_step_create: "engine_step w (Ev_Create_Session t d) w'"

section \<open>One step\<close>

definition task_ok :: "terminal_config \<Rightarrow> os_env \<Rightarrow> command_request set \<Rightarrow> uuid \<Rightarrow> engine_task \<Rightarrow> bool" where
  "task_ok c e rqs i t \<longleftrightarrow>
     i = rq_id (tk_request t) \<and> tk_request t \<in> rqs \<and> prepare c e (tk_request t) = Inr (tk_spec t) \<and>
     approves (rq_authorization_context (tk_request t)) (rq_approved_by_user (tk_request t))"

text \<open>The commands that were launched and whose process does not exist yet.\<close>

definition waiting :: "(uuid \<times> engine_task) list \<Rightarrow> nat" where
  "waiting d = length (filter (\<lambda>(_, t). tk_spawned t = None) d)"

lemma waiting_simps [simp]:
  "waiting [] = 0"
  "waiting ((k, t) # d) = (if tk_spawned t = None then Suc (waiting d) else waiting d)"
  by (auto simp: waiting_def)

lemma waiting_delete: "waiting (ddel k d) \<le> waiting d"
  by (induction d) auto

lemma waiting_delete_None:
  "map_of d k = Some t \<Longrightarrow> tk_spawned t = None \<Longrightarrow> waiting (ddel k d) < waiting d"
  by (induction d) (auto simp: less_Suc_eq_le waiting_delete split: if_splits)

lemma waiting_update_new: "map_of d k = None \<Longrightarrow> waiting (dset k t d) \<le> Suc (waiting d)"
  by (induction d) (auto split: if_splits)

lemma waiting_update_same:
  "map_of d k = Some t \<Longrightarrow> tk_spawned t' = tk_spawned t \<Longrightarrow> waiting (dset k t' d) = waiting d"
  by (induction d) (auto split: if_splits)

lemma waiting_update_spawned:
  "map_of d k = Some t \<Longrightarrow> tk_spawned t = None \<Longrightarrow> tk_spawned t' \<noteq> None \<Longrightarrow>
     Suc (waiting (dset k t' d)) = waiting d"
  by (induction d) (auto split: if_splits)

text \<open>What the parts of a command do to the state the invariant speaks of.\<close>

lemma store_result_state [simp]:
  "os_calls (snd (store_result sid r w)) = os_calls w" "os (snd (store_result sid r w)) = os w"
  "tm_config (snd (store_result sid r w)) = tm_config w"
  "tm_running (snd (store_result sid r w)) = tm_running w"
  "tm_sessions (snd (store_result sid r w)) = tm_sessions w"
  by (auto simp: store_result_def modify_def)

definition same_core :: "term_w \<Rightarrow> term_w \<Rightarrow> bool" where
  "same_core w w' \<longleftrightarrow> os w' = os w \<and> tm_config w' = tm_config w \<and>
     sess_le (tm_sessions w) (tm_sessions w') \<and> length (tm_sessions w') = length (tm_sessions w)"

lemma same_core_trans: "same_core a b \<Longrightarrow> same_core b c \<Longrightarrow> same_core a c"
  by (fastforce simp: same_core_def sess_le_def)

lemma calm_core: "calm w w' \<Longrightarrow> same_core w w' \<and> os_calls w' = os_calls w"
  by (simp add: calm_def same_core_def env_kept_def)

lemma frame_core: "os_frame w w' \<Longrightarrow> same_core w w' \<and> tm_running w' = tm_running w"
  using os_frame_term by (fastforce simp: same_core_def sess_le_refl)

lemma store_core: "same_core w (snd (store_result sid r w))"
  by (simp add: same_core_def sess_le_refl)

lemma begin_command_core:
  assumes "begin_command rq w = (r, w')"
  shows "same_core w w' \<and> os_calls w' = os_calls w \<and>
    (tm_running w' = tm_running w \<or>
     (\<exists>t. tm_running w' = dset (rq_id rq) t (tm_running w) \<and> tk_spawned t = None \<and>
        tk_request t = rq \<and> prepare (tm_config w) (os w) rq = Inr (tk_spec t) \<and>
        approves (rq_authorization_context rq) (rq_approved_by_user rq)))"
proof (cases rule: begin_cases [of rq w])
  case (failed e w1)
  then show ?thesis using assms calm_core [of w w1] by (simp add: begin_command_def bnd_eq)
next
  case (rejected res w1)
  then have "w' = snd (store_result (rq_session_id rq) res w1)"
    using assms by (simp add: begin_command_def bnd_eq)
  then show ?thesis
    using rejected calm_core [of w w1] store_core [of w1] same_core_trans by fastforce
next
  case (launched t w1)
  then show ?thesis using assms calm_core [of w w1] by (auto simp: begin_command_def bnd_eq ret_def)
qed

lemma finish_command_core:
  assumes "finish_command t outcome w = (r, w')"
  shows "same_core w w' \<and> os_calls w' = os_calls w \<and>
    tm_running w' = ddel (rq_id (tk_request t)) (tm_running w)"
proof -
  obtain x w1 where ef: "execute_finish t outcome w = (x, w1)" by (cases "execute_finish t outcome w")
  have "same_core w w1 \<and> os_calls w1 = os_calls w \<and>
      tm_running w1 = ddel (rq_id (tk_request t)) (tm_running w)"
    using execute_finish_leaves [OF ef]
    by (auto simp: same_core_def env_kept_def)
  then show ?thesis
    using assms ef store_core [of w1] same_core_trans
    by (cases x) (auto simp: finish_command_def bnd_eq, (metis snd_conv store_result_state)+)
qed

lemma start_command_core:
  assumes "start_command i t w = (r, w')"
  shows "same_core w w' \<and>
    os_calls w' = os_calls w @ [call_of (tk_adapter t) (os w) (tk_spec t)] \<and>
    ((\<exists>s. tm_running w' = dset i (t\<lparr>tk_spawned := Some s\<rparr>) (tm_running w)) \<or>
     tm_running w' = ddel (rq_id (tk_request t)) (tm_running w))"
proof -
  obtain x w1 where st: "adapter_start (tk_adapter t) (tk_spec t) True (run_context_of (tk_request t)) w = (x, w1)"
    by (cases "adapter_start (tk_adapter t) (tk_spec t) True (run_context_of (tk_request t)) w")
  have fr: "same_core w w1 \<and> tm_running w1 = tm_running w"
    using keepsD [OF adapter_start_frame st] by (rule frame_core)
  have calls: "os_calls w1 = os_calls w @ [call_of (tk_adapter t) (os w) (tk_spec t)]"
    using adapter_start_calls(1) [of "tk_adapter t" "tk_spec t" True "run_context_of (tk_request t)" w] st
    by simp
  show ?thesis
  proof (cases x)
    case (Inl exc)
    then have "finish_command t (Inl exc) w1 = (r, w')" using assms st by (simp add: start_command_def)
    from finish_command_core [OF this] show ?thesis
      using fr calls same_core_trans [of w w1 w'] by simp
  next
    case (Inr s)
    then have "w' = w1\<lparr>tm_running := dset i (t\<lparr>tk_spawned := Some s\<rparr>) (tm_running w1)\<rparr>"
      using assms st by (simp add: start_command_def)
    then show ?thesis using fr calls by (auto simp: same_core_def)
  qed
qed

lemma end_command_core:
  assumes "end_command t s w = (r, w')"
  shows "same_core w w' \<and> os_calls w' = os_calls w \<and>
    tm_running w' = ddel (rq_id (tk_request t)) (tm_running w)"
proof -
  obtain x w1 where fi: "adapter_finish (tk_adapter t) (tk_spec t) True (run_context_of (tk_request t)) s w = (x, w1)"
    by (cases "adapter_finish (tk_adapter t) (tk_spec t) True (run_context_of (tk_request t)) s w")
  have fr: "same_core w w1 \<and> tm_running w1 = tm_running w"
    using keepsD [OF adapter_finish_frame fi] by (rule frame_core)
  have calls: "os_calls w1 = os_calls w"
    using adapter_finish_calls [of "tk_adapter t" "tk_spec t" True "run_context_of (tk_request t)" s w] fi
    by simp
  have "finish_command t x w1 = (r, w')" using assms fi by (simp add: end_command_def)
  from finish_command_core [OF this] show ?thesis using fr calls same_core_trans [of w w1 w'] by simp
qed

lemma terminate_core:
  assumes "terminate i (w :: term_w) = (r, w')"
  shows "same_core w w' \<and> os_calls w' = os_calls w \<and>
    (tm_running w' = tm_running w \<or>
     (\<exists>t. map_of (tm_running w) i = Some t \<and>
        tm_running w' = dset i (t\<lparr>tk_cancelled := True\<rparr>) (tm_running w)))"
  using assms by (auto simp: terminate_def ret_def same_core_def sess_le_refl split: option.splits)

lemma kept_core: "sess_kept (w :: term_w) w' \<Longrightarrow> same_core w w' \<and> os_calls w' = os_calls w \<and> tm_running w' = tm_running w"
  using calm_core [OF sess_kept_calm] sess_kept_term by blast

lemma create_session_core:
  assumes "create_session task_id wd (w :: term_w) = (r, w')"
    and "map_of (tm_sessions w) (rt_uuid w (rt_uuids w)) = None"
  shows "os w' = os w \<and> tm_config w' = tm_config w \<and> os_calls w' = os_calls w \<and>
    tm_running w' = tm_running w \<and> sess_le (tm_sessions w) (tm_sessions w') \<and>
    (length (tm_sessions w') = length (tm_sessions w) \<or>
     length (tm_sessions w') = Suc (length (tm_sessions w)) \<and>
       length (tm_sessions w) < tc_max_concurrent_sessions (tm_config w))"
proof (cases "adapter_of w")
  case (Inl e)
  then show ?thesis using assms by (simp add: create_session_def sess_le_refl)
next
  case (Inr a)
  show ?thesis
  proof (cases "tc_max_concurrent_sessions (tm_config w) \<le> length (tm_sessions w)")
    case True
    then obtain m w1 where "sm_create_session (platform_of a) task_id wd w =
        (Inl (InvalidRequestError m), w1)" "sess_kept w w1"
      using create_full by blast
    then show ?thesis
      using assms Inr kept_core [of w w1] by (auto simp: create_session_def bnd_eq same_core_def)
  next
    case False
    then obtain s w1 where c: "sm_create_session (platform_of a) task_id wd w = (Inr s, w1)"
        "sess_le (tm_sessions w) (tm_sessions w1)" "length (tm_sessions w1) = Suc (length (tm_sessions w))"
        "os_calls w1 = os_calls w" "os w1 = os w" "tm_config w1 = tm_config w"
        "sess_w.more w1 = sess_w.more w"
      using create_room [OF _ assms(2), of "platform_of a" task_id wd] by force
    have "tm_running w1 = tm_running w" using c(7) by (cases w; cases w1) simp
    then show ?thesis
      using assms Inr c False
      by (auto simp: create_session_def bnd_eq ret_def split: option.splits)
  qed
qed

section \<open>All interleavings\<close>

definition approved_begin :: "engine_event \<Rightarrow> bool" where
  "approved_begin ev = (case ev of
     Ev_Begin rq \<Rightarrow> approves (rq_authorization_context rq) (rq_approved_by_user rq) | _ \<Rightarrow> False)"

definition begun_requests :: "engine_event list \<Rightarrow> command_request set" where
  "begun_requests evs = {rq. Ev_Begin rq \<in> set evs}"

definition engine_inv :: "term_w \<Rightarrow> engine_event list \<Rightarrow> term_w \<Rightarrow> bool" where
  "engine_inv w0 evs w \<longleftrightarrow>
     os w = os w0 \<and> tm_config w = tm_config w0 \<and>
     (\<forall>i t. map_of (tm_running w) i = Some t \<longrightarrow>
        task_ok (tm_config w0) (os w0) (begun_requests evs) i t) \<and>
     (\<forall>call \<in> set (os_calls w). \<exists>rq \<in> begun_requests evs.
        approves (rq_authorization_context rq) (rq_approved_by_user rq) \<and>
        safe_call (tm_config w0) (os w0) rq call) \<and>
     length (os_calls w) + waiting (tm_running w) \<le> length (filter approved_begin evs) \<and>
     sess_le (tm_sessions w0) (tm_sessions w) \<and>
     length (tm_sessions w) \<le>
       max (length (tm_sessions w0)) (tc_max_concurrent_sessions (tm_config w0))"

lemma engine_inv_core:
  assumes "engine_inv w0 evs w" and "same_core w w'"
    and "os_calls w' = os_calls w \<or>
      (\<exists>call. os_calls w' = os_calls w @ [call] \<and> (\<exists>rq \<in> begun_requests evs.
        approves (rq_authorization_context rq) (rq_approved_by_user rq) \<and>
        safe_call (tm_config w0) (os w0) rq call))"
    and "length (os_calls w') + waiting (tm_running w') \<le> length (filter approved_begin (evs @ [ev]))"
    and "\<And>i t. map_of (tm_running w') i = Some t \<Longrightarrow>
      task_ok (tm_config w0) (os w0) (begun_requests (evs @ [ev])) i t"
  shows "engine_inv w0 (evs @ [ev]) w'"
proof -
  have sub: "begun_requests evs \<subseteq> begun_requests (evs @ [ev])" by (auto simp: begun_requests_def)
  have "sess_le (tm_sessions w0) (tm_sessions w')"
    using assms(1,2) by (fastforce simp: engine_inv_def same_core_def sess_le_def)
  moreover have "\<forall>call \<in> set (os_calls w'). \<exists>rq \<in> begun_requests (evs @ [ev]).
        approves (rq_authorization_context rq) (rq_approved_by_user rq) \<and>
        safe_call (tm_config w0) (os w0) rq call"
    using assms(1,3) sub by (fastforce simp: engine_inv_def)
  ultimately show ?thesis
    using assms(1,2,4,5) by (simp add: engine_inv_def same_core_def)
qed

lemma task_ok_more: "task_ok c e (begun_requests evs) i t \<Longrightarrow> task_ok c e (begun_requests (evs @ [ev])) i t"
  by (auto simp: task_ok_def begun_requests_def)

lemma task_ok_fields:
  "task_ok c e rqs i (t\<lparr>tk_spawned := s\<rparr>) = task_ok c e rqs i t"
  "task_ok c e rqs i (t\<lparr>tk_cancelled := b\<rparr>) = task_ok c e rqs i t"
  by (auto simp: task_ok_def)

lemma engine_inv_idle:
  assumes "engine_inv w0 evs w" and "same_core w w'" and "os_calls w' = os_calls w"
    and "tm_running w' = tm_running w"
  shows "engine_inv w0 (evs @ [ev]) w'"
  using assms(1) by (intro engine_inv_core [OF assms(1,2)])
    (auto simp: assms(3,4) engine_inv_def task_ok_more)

lemma engine_inv_ended:
  assumes "engine_inv w0 evs w" and "same_core w w'" and "os_calls w' = os_calls w"
    and "tm_running w' = ddel i (tm_running w)"
  shows "engine_inv w0 (evs @ [ev]) w'"
proof (rule engine_inv_core [OF assms(1,2)])
  have "length (os_calls w) + waiting (tm_running w) \<le> length (filter approved_begin evs)"
    using assms(1) by (simp add: engine_inv_def)
  then show "length (os_calls w') + waiting (tm_running w') \<le> length (filter approved_begin (evs @ [ev]))"
    using waiting_delete [of i "tm_running w"] by (simp add: assms(3,4))
  show "map_of (tm_running w') j = Some t \<Longrightarrow>
      task_ok (tm_config w0) (os w0) (begun_requests (evs @ [ev])) j t" for j t
    using assms(1) by (auto simp: assms(4) map_of_delete engine_inv_def task_ok_more split: if_splits)
qed (simp add: assms(3))

lemma engine_inv_begin:
  assumes inv: "engine_inv w0 evs w" and fresh: "map_of (tm_running w) (rq_id rq) = None"
    and run: "begin_command rq w = (r, w')"
  shows "engine_inv w0 (evs @ [Ev_Begin rq]) w'"
proof -
  from begin_command_core [OF run] have core: "same_core w w'" "os_calls w' = os_calls w" by auto
  from begin_command_core [OF run] consider "tm_running w' = tm_running w"
    | t where "tm_running w' = dset (rq_id rq) t (tm_running w)" "tk_request t = rq"
        "prepare (tm_config w) (os w) rq = Inr (tk_spec t)"
        "approves (rq_authorization_context rq) (rq_approved_by_user rq)" by blast
  then show ?thesis
  proof cases
    case 1
    then show ?thesis using engine_inv_idle [OF inv core] by blast
  next
    case 2
    show ?thesis
    proof (rule engine_inv_core [OF inv core(1)])
      show "length (os_calls w') + waiting (tm_running w')
          \<le> length (filter approved_begin (evs @ [Ev_Begin rq]))"
        using inv waiting_update_new [OF fresh, of t] 2 core
        by (simp add: engine_inv_def approved_begin_def)
      show "map_of (tm_running w') j = Some t' \<Longrightarrow>
          task_ok (tm_config w0) (os w0) (begun_requests (evs @ [Ev_Begin rq])) j t'" for j t'
        using inv 2 by (auto simp: map_of_update engine_inv_def task_ok_more split: if_splits)
          (auto simp: task_ok_def begun_requests_def)
    qed (simp add: core)
  qed
qed

lemma engine_inv_start:
  assumes inv: "engine_inv w0 evs w" and t: "map_of (tm_running w) i = Some t" "tk_spawned t = None"
    and run: "start_command i t w = (r, w')"
  shows "engine_inv w0 (evs @ [ev]) w'"
proof -
  have ok: "task_ok (tm_config w0) (os w0) (begun_requests evs) i t" and e: "os w = os w0"
    using inv t by (auto simp: engine_inv_def)
  have call: "\<exists>rq \<in> begun_requests evs. approves (rq_authorization_context rq) (rq_approved_by_user rq) \<and>
        safe_call (tm_config w0) (os w0) rq (call_of (tk_adapter t) (os w0) (tk_spec t))"
    using ok prepare_safe by (auto simp: task_ok_def)
  note st = start_command_core [OF run]
  have one: "Suc (waiting (tm_running w')) \<le> waiting (tm_running w)"
    using st t waiting_update_spawned [OF t] waiting_delete_None [OF t] ok by (auto simp: task_ok_def)
  show ?thesis
  proof (rule engine_inv_core [OF inv])
    show "same_core w w'" using st by blast
    show "os_calls w' = os_calls w \<or>
      (\<exists>call. os_calls w' = os_calls w @ [call] \<and> (\<exists>rq \<in> begun_requests evs.
        approves (rq_authorization_context rq) (rq_approved_by_user rq) \<and>
        safe_call (tm_config w0) (os w0) rq call))"
      using st call e by simp
    show "length (os_calls w') + waiting (tm_running w') \<le> length (filter approved_begin (evs @ [ev]))"
      using inv st one by (simp add: engine_inv_def)
    show "map_of (tm_running w') j = Some t' \<Longrightarrow>
        task_ok (tm_config w0) (os w0) (begun_requests (evs @ [ev])) j t'" for j t'
      using inv st ok
      by (auto simp: map_of_update map_of_delete engine_inv_def task_ok_more task_ok_fields split: if_splits)
  qed
qed

lemma engine_inv_terminate:
  assumes inv: "engine_inv w0 evs w" and run: "terminate i w = (r, w')"
  shows "engine_inv w0 (evs @ [ev]) w'"
proof -
  note core = terminate_core [OF run]
  then consider "tm_running w' = tm_running w"
    | t where "map_of (tm_running w) i = Some t"
        "tm_running w' = dset i (t\<lparr>tk_cancelled := True\<rparr>) (tm_running w)" by blast
  then show ?thesis
  proof cases
    case 1
    then show ?thesis using engine_inv_idle [OF inv] core by blast
  next
    case 2
    show ?thesis
    proof (rule engine_inv_core [OF inv])
      show "length (os_calls w') + waiting (tm_running w') \<le> length (filter approved_begin (evs @ [ev]))"
        using inv core 2 waiting_update_same [OF 2(1), of "t\<lparr>tk_cancelled := True\<rparr>"]
        by (simp add: engine_inv_def)
      show "map_of (tm_running w') j = Some t' \<Longrightarrow>
          task_ok (tm_config w0) (os w0) (begun_requests (evs @ [ev])) j t'" for j t'
        using inv 2 by (auto simp: map_of_update engine_inv_def task_ok_more task_ok_fields split: if_splits)
    qed (use core in auto)
  qed
qed

lemma engine_inv_create:
  assumes inv: "engine_inv w0 evs w" and run: "create_session task_id wd w = (r, w')"
    and fresh: "map_of (tm_sessions w) (rt_uuid w (rt_uuids w)) = None"
  shows "engine_inv w0 (evs @ [ev]) w'"
proof -
  note c = create_session_core [OF run fresh]
  have "sess_le (tm_sessions w0) (tm_sessions w')"
    using c inv by (fastforce simp: engine_inv_def sess_le_def)
  then show ?thesis
    using inv c by (auto simp: engine_inv_def task_ok_more) (auto simp: begun_requests_def)
qed

lemma engine_inv_step:
  assumes "engine_inv w0 evs w" and "engine_step w ev w'"
  shows "engine_inv w0 (evs @ [ev]) w'"
  using assms(2)
proof cases
  case (never_started i t r)
  then show ?thesis
    using finish_command_core engine_inv_ended [OF assms(1)] by blast
next
  case (ends i t s r)
  then show ?thesis using end_command_core engine_inv_ended [OF assms(1)] by blast
next
  case (interrupted i t \<tau> px r)
  then show ?thesis using end_command_core engine_inv_ended [OF assms(1)] by blast
next
  case (closes sid r)
  then show ?thesis
    using engine_inv_idle [OF assms(1)] kept_core keepsD [OF close_session_kept, of sid w r w']
    by (simp add: close_session_def)
next
  case (reads_status sid r)
  then show ?thesis
    using engine_inv_idle [OF assms(1)] kept_core keepsD [OF get_session_kept, of sid w r w']
    by (simp add: get_status_def)
next
  case (terminates i r)
  show ?thesis by (rule engine_inv_terminate [OF assms(1) terminates(2)])
next
  case (creates task_id wd r)
  show ?thesis by (rule engine_inv_create [OF assms(1) creates(3,2)])
qed (use engine_inv_begin engine_inv_start assms(1) in blast)+

lemma engine_inv_run: "engine_run w0 evs w \<Longrightarrow> engine_inv w0 [] w0 \<Longrightarrow> engine_inv w0 evs w"
  by (induction rule: engine_run.induct) (auto intro: engine_inv_step)

text \<open>
  C1.  Every interleaving is safe: from an idle engine, however the pieces of any number of requests,
  the cancellations and the session operations interleave, every process that was ever created is
  the sanitized command of a request that was authorized, and there are at most as many processes as
  authorized requests.
\<close>

theorem interleavings_safe:
  assumes "engine_run w0 evs w" and "os_calls w0 = []" and "tm_running w0 = []"
  shows "(\<forall>call \<in> set (os_calls w). \<exists>rq. Ev_Begin rq \<in> set evs \<and>
       approves (rq_authorization_context rq) (rq_approved_by_user rq) \<and>
       safe_call (tm_config w0) (os w0) rq call) \<and>
    length (os_calls w) \<le> length (filter approved_begin evs)"
proof -
  have "engine_inv w0 [] w0" using assms(2,3) by (simp add: engine_inv_def sess_le_refl)
  from engine_inv_run [OF assms(1) this] show ?thesis
    by (auto simp: engine_inv_def begun_requests_def)
qed

text \<open>
  C34.  A session that has stopped, failed or expired never serves again, whatever happens after: at
  the end of any run it is still there, ended, and a request on it is refused.
\<close>

theorem ended_sessions_stay_ended:
  assumes "engine_run w0 evs w" and "os_calls w0 = []" and "tm_running w0 = []"
    and "map_of (tm_sessions w0) sid = Some s" and "ended_status (se_status s)"
  shows "(\<exists>s'. map_of (tm_sessions w) sid = Some s' \<and> ended_status (se_status s')) \<and>
    (\<exists>e. fst (require_active_session sid w) = Inl e)"
proof -
  have "engine_inv w0 [] w0" using assms(2,3) by (simp add: engine_inv_def sess_le_refl)
  from engine_inv_run [OF assms(1) this]
  have "sess_le (tm_sessions w0) (tm_sessions w)" by (simp add: engine_inv_def)
  then obtain s' where s': "map_of (tm_sessions w) sid = Some s'" "ended_status (se_status s')"
    using assms(4,5) by (auto simp: sess_le_def)
  then have "\<nexists>x. usable w sid x" using ended_not_live by (auto simp: usable_def)
  from not_usable [OF this] show ?thesis using s' by auto
qed

text \<open>
  Capacity is never given back: once as many sessions were created as the configuration allows
  at a time, no later event frees a place, closing and expiring included, and every further session
  is refused.
\<close>

theorem capacity_never_freed:
  assumes "engine_run w0 evs w" and "os_calls w0 = []" and "tm_running w0 = []"
    and "tc_max_concurrent_sessions (tm_config w0) \<le> length (tm_sessions w0)"
    and "adapter_of w = Inr a"
  shows "\<exists>m. fst (create_session task_id wd w) = Inl (InvalidRequestError m)"
proof -
  have "engine_inv w0 [] w0" using assms(2,3) by (simp add: engine_inv_def sess_le_refl)
  from engine_inv_run [OF assms(1) this]
  have "tc_max_concurrent_sessions (tm_config w) \<le> length (tm_sessions w)"
    using assms(4) by (auto simp: engine_inv_def sess_le_def)
  from create_full [OF this, of "platform_of a" task_id wd] show ?thesis
    using assms(5) by (auto simp: create_session_def bnd_eq)
qed

lemma sample_run: "engine_run (sample_term_w d) [] (sample_term_w d)"
  by (rule no_event)

lemma sample_run_denied:
  "\<exists>w. engine_run sample_engine [Ev_Begin (sample_request DENY)] w"
proof -
  obtain r w' where "begin_command (sample_request DENY) sample_engine = (r, w')"
    by (cases "begin_command (sample_request DENY) sample_engine")
  then have "engine_step sample_engine (Ev_Begin (sample_request DENY)) w'"
    by (intro begins) (auto simp: sample_term_w_def)
  then show ?thesis using event [OF no_event] by fastforce
qed

theorem interleavings_safe_witness:
  "\<exists>w. engine_run sample_engine [Ev_Begin (sample_request DENY)] w \<and> os_calls w = []"
proof -
  obtain w where run: "engine_run sample_engine [Ev_Begin (sample_request DENY)] w"
    using sample_run_denied by blast
  have "os_calls sample_engine = []" "tm_running sample_engine = []"
    by (auto simp: sample_term_w_def)
  from interleavings_safe [OF run this] show ?thesis
    using run by (auto simp: approved_begin_def approves_def sample_request_def)
qed

theorem ended_sessions_stay_ended_witness:
  "\<exists>e. fst (require_active_session 5 (sample_term_w [(5, sample_session Sess_STOPPED)])) = Inl e"
  using ended_sessions_stay_ended [OF sample_run [of "[(5, sample_session Sess_STOPPED)]"],
      of 5 "sample_session Sess_STOPPED"]
  by (simp add: sample_term_w_def sample_session_def)

theorem capacity_never_freed_witness:
  "\<exists>m. fst (create_session None None (sample_term_w
     [(5, sample_session Sess_STOPPED), (6, sample_session Sess_EXPIRED)])) = Inl (InvalidRequestError m)"
  by (rule capacity_never_freed [OF sample_run [of "[(5, sample_session Sess_STOPPED),
      (6, sample_session Sess_EXPIRED)]"], of LinuxTerminalAdapter])
    (simp_all add: sample_term_w_def sample_config_def adapter_of_def)

end
