(* ===== verification/Tools.thy ===== *)
theory Tools
  imports Engine_Steps
begin

text \<open>
  Tool discovery and the trusted tool registry: \<^verbatim>\<open>services/tools/models.py\<close>, \<open>registry.py\<close>,
  \<open>verification.py\<close>, \<open>policy.py\<close>, \<open>discovery.py\<close>, \<open>research.py\<close> and \<open>proposal.py\<close>.  A report's
  \<open>results\<close> and \<open>notes\<close> are dicts keyed by stage; the registry is a dict from identifier to a
  mutable record.
\<close>

section \<open>Models\<close>

datatype tool_category =
    NETWORK_DIAGNOSTICS | WEB_API_TESTING | VULNERABILITY_ASSESSMENT | DNS_DOMAIN_ANALYSIS
  | INFRASTRUCTURE_DIAGNOSTICS | CLOUD_SECURITY | MOBILE_SECURITY | WIRELESS_DIAGNOSTICS
  | PACKET_TRAFFIC_ANALYSIS | LOG_ANALYSIS | SYSTEM_DIAGNOSTICS | DEFENSIVE_MONITORING | OSINT
  | DEVELOPER_UTILITIES

datatype source_type =
    OFFICIAL_WEBSITE | OFFICIAL_GITHUB | OFFICIAL_PACKAGE_REGISTRY | OTHER_REPUTABLE | SRC_UNKNOWN

fun source_type_value :: "source_type \<Rightarrow> string" where
  "source_type_value OFFICIAL_WEBSITE = ''official_website''"
| "source_type_value OFFICIAL_GITHUB = ''official_github''"
| "source_type_value OFFICIAL_PACKAGE_REGISTRY = ''official_package_registry''"
| "source_type_value OTHER_REPUTABLE = ''other_reputable''"
| "source_type_value SRC_UNKNOWN = ''unknown''"

datatype trust_status =
  TS_UNKNOWN | DISCOVERED | UNDER_REVIEW | TS_VERIFIED | APPROVED | BLOCKED | DEPRECATED

fun trust_value :: "trust_status \<Rightarrow> string" where
  "trust_value TS_UNKNOWN = ''unknown''"
| "trust_value DISCOVERED = ''discovered''"
| "trust_value UNDER_REVIEW = ''under_review''"
| "trust_value TS_VERIFIED = ''verified''"
| "trust_value APPROVED = ''approved''"
| "trust_value BLOCKED = ''blocked''"
| "trust_value DEPRECATED = ''deprecated''"

datatype approval_requirement = AR_NONE | USER_APPROVAL | ADMIN_APPROVAL

datatype verification_stage =
    COLLECT_METADATA | VERIFY_SOURCE | VERIFY_VERSION | CHECK_PLATFORM | CHECK_LICENSE
  | CHECK_DEPENDENCIES | SECURITY_POLICY_REVIEW

datatype verification_result = VERIFIED | UNVERIFIED | FAILED | UNKNOWN

fun verification_value :: "verification_result \<Rightarrow> string" where
  "verification_value VERIFIED = ''verified''"
| "verification_value UNVERIFIED = ''unverified''"
| "verification_value FAILED = ''failed''"
| "verification_value UNKNOWN = ''unknown''"

record source_provenance =
  pv_source_type :: source_type
  pv_source_url :: "string option"
  pv_repository_url :: "string option"
  pv_documentation_url :: "string option"
  pv_publisher :: "string option"
  pv_discovered_version :: "string option"
  pv_discovered_at :: time

record verification_report =
  vr_results :: "(verification_stage \<times> verification_result) list"
  vr_notes :: "(verification_stage \<times> string) list"
  vr_completed_at :: "time option"

definition empty_report :: verification_report where
  "empty_report = \<lparr>vr_results = [], vr_notes = [], vr_completed_at = None\<rparr>"

definition overall :: "verification_report \<Rightarrow> verification_result" where
  "overall report =
     (if vr_results report = [] then UNKNOWN
      else let vals = set (dvalues (vr_results report)) in
        if FAILED \<in> vals then FAILED
        else if UNKNOWN \<in> vals then UNKNOWN
        else if UNVERIFIED \<in> vals then UNVERIFIED
        else VERIFIED)"

record tool_candidate =
  cd_id :: uuid
  cd_name :: string
  cd_display_name :: string
  cd_description :: string
  cd_category :: tool_category
  cd_capabilities :: "string list"
  cd_supported_platforms :: "string list"
  cd_provenance :: source_provenance
  cd_version :: "string option"
  cd_license :: "string option"
  cd_installation_method :: "string option"
  cd_dependencies :: "string list"
  cd_required_permissions :: "string list"
  cd_risk_level :: risk_tier
  cd_capability_requested :: string
  cd_selection_rationale :: string
  cd_verification :: verification_report

record tool_record =
  tl_id :: uuid
  tl_name :: string
  tl_display_name :: string
  tl_description :: string
  tl_category :: tool_category
  tl_capabilities :: "string list"
  tl_supported_platforms :: "string list"
  tl_provenance :: source_provenance
  tl_version :: "string option"
  tl_license :: "string option"
  tl_installation_method :: "string option"
  tl_entrypoint :: "string option"
  tl_dependencies :: "string list"
  tl_required_permissions :: "string list"
  tl_risk_level :: risk_tier
  tl_approval_requirement :: approval_requirement
  tl_trust_status :: trust_status
  tl_verification :: verification_report
  tl_created_at :: time
  tl_updated_at :: time

text \<open>\<open>from_candidate\<close> with the identifier and the two times the dataclass draws.\<close>

definition from_candidate :: "uuid \<Rightarrow> time \<Rightarrow> time \<Rightarrow> tool_candidate \<Rightarrow> tool_record" where
  "from_candidate i created updated c =
     \<lparr>tl_id = i, tl_name = cd_name c, tl_display_name = cd_display_name c,
      tl_description = cd_description c, tl_category = cd_category c,
      tl_capabilities = cd_capabilities c, tl_supported_platforms = cd_supported_platforms c,
      tl_provenance = cd_provenance c, tl_version = cd_version c, tl_license = cd_license c,
      tl_installation_method = cd_installation_method c, tl_entrypoint = None,
      tl_dependencies = cd_dependencies c, tl_required_permissions = cd_required_permissions c,
      tl_risk_level = cd_risk_level c, tl_approval_requirement = USER_APPROVAL,
      tl_trust_status = DISCOVERED, tl_verification = cd_verification c,
      tl_created_at = created, tl_updated_at = updated\<rparr>"

section \<open>Registry\<close>

record disc_w = term_w +
  td_mono :: time
  td_lag :: "nat \<Rightarrow> nat"
  td_reads :: nat
  td_calls :: "time list"
  td_cache :: "(string \<times> tool_candidate list \<times> time) list"
  td_last_provider_call_at :: time

record tools_w = disc_w +
  tr_tools :: "(uuid \<times> tool_record) list"

fun find_by_name :: "string \<Rightarrow> tool_record list \<Rightarrow> tool_record option" where
  "find_by_name name [] = None"
| "find_by_name name (t # ts) = (if tl_name t = name then Some t else find_by_name name ts)"

definition tool_get_by_name :: "string \<Rightarrow> ('m tools_w_scheme, tool_record option) prog" where
  "tool_get_by_name name = gets (\<lambda>w. find_by_name name (dvalues (tr_tools w)))"

definition tool_create :: "tool_record \<Rightarrow> ('m tools_w_scheme, tool_record) prog" where
  "tool_create tool =
     bnd (tool_get_by_name (tl_name tool)) (\<lambda>found.
     if found \<noteq> None then
       raise (DuplicateToolError (''A tool named '' @ quoted (tl_name tool) @ '' is already registered.''))
     else sq (modify (\<lambda>w. w\<lparr>tr_tools := dset (tl_id tool) tool (tr_tools w)\<rparr>)) (ret tool))"

definition tool_get :: "uuid \<Rightarrow> ('m tools_w_scheme, tool_record) prog" where
  "tool_get i =
     bnd (gets (\<lambda>w. map_of (tr_tools w) i)) (\<lambda>found.
     case found of
       None \<Rightarrow> raise (ToolNotFoundError (''Tool '' @ uuid_str i @ '' was not found.''))
     | Some t \<Rightarrow> ret t)"

definition matches_search :: "string \<Rightarrow> tool_record \<Rightarrow> bool" where
  "matches_search search t =
     (let needle = lower search in
      str_in needle (lower (tl_name t)) \<or> str_in needle (lower (tl_display_name t)) \<or>
      str_in needle (lower (tl_description t)) \<or>
      (\<exists>c \<in> set (tl_capabilities t). str_in needle (lower c)))"

definition opt_filter :: "'f option \<Rightarrow> ('f \<Rightarrow> 'a \<Rightarrow> bool) \<Rightarrow> 'a list \<Rightarrow> 'a list" where
  "opt_filter x p xs = (case x of None \<Rightarrow> xs | Some f \<Rightarrow> filter (p f) xs)"

definition tool_list ::
    "tool_category option \<Rightarrow> string option \<Rightarrow> trust_status option \<Rightarrow> string option \<Rightarrow>
     tool_record list \<Rightarrow> tool_record list" where
  "tool_list category platform trust search tools =
     (let r1 = opt_filter category (\<lambda>c t. tl_category t = c) tools;
          r2 = opt_filter platform (\<lambda>p t. p \<in> set (tl_supported_platforms t)) r1;
          r3 = opt_filter trust (\<lambda>s t. tl_trust_status t = s) r2
      in case search of None \<Rightarrow> r3 | Some s \<Rightarrow> if s = [] then r3 else filter (matches_search s) r3)"

definition upd_tool :: "uuid \<Rightarrow> (tool_record \<Rightarrow> tool_record) \<Rightarrow> ('m tools_w_scheme, tool_record) prog" where
  "upd_tool i f =
     bnd (tool_get i) (\<lambda>tool.
     bnd now (\<lambda>t.
     let tool' = (f tool)\<lparr>tl_updated_at := t\<rparr> in
     sq (modify (\<lambda>w. w\<lparr>tr_tools := dset i tool' (tr_tools w)\<rparr>)) (ret tool')))"

definition update_trust_status :: "uuid \<Rightarrow> trust_status \<Rightarrow> ('m tools_w_scheme, tool_record) prog" where
  "update_trust_status i status = upd_tool i (\<lambda>t. t\<lparr>tl_trust_status := status\<rparr>)"

definition record_verification ::
    "uuid \<Rightarrow> verification_report \<Rightarrow> ('m tools_w_scheme, tool_record) prog" where
  "record_verification i report = upd_tool i (\<lambda>t. t\<lparr>tl_verification := report\<rparr>)"

section \<open>Verification\<close>

definition PROHIBITED_CAPABILITY_MARKERS :: "string list" where
  "PROHIBITED_CAPABILITY_MARKERS =
     [''credential_theft'', ''credential_dump'', ''persistence'', ''evasion'', ''exploit_auto'',
      ''av_bypass'', ''security_control_bypass'']"

definition TRUSTED_SOURCE_TYPES :: "source_type list" where
  "TRUSTED_SOURCE_TYPES = [OFFICIAL_WEBSITE, OFFICIAL_GITHUB, OFFICIAL_PACKAGE_REGISTRY]"

definition SUPPORTED_PLATFORMS :: "string list" where
  "SUPPORTED_PLATFORMS = [''WINDOWS'', ''LINUX'', ''MACOS'', ''ANDROID_TERMUX'']"

text \<open>The part of a candidate or a record that the pipeline reads.\<close>

record subject =
  sj_name :: string
  sj_description :: string
  sj_provenance :: source_provenance
  sj_version :: "string option"
  sj_license :: "string option"
  sj_platforms :: "string list"
  sj_dependencies :: "string list"
  sj_capabilities :: "string list"

definition subject_of :: "tool_record \<Rightarrow> subject" where
  "subject_of t = \<lparr>sj_name = tl_name t, sj_description = tl_description t,
     sj_provenance = tl_provenance t, sj_version = tl_version t, sj_license = tl_license t,
     sj_platforms = tl_supported_platforms t, sj_dependencies = tl_dependencies t,
     sj_capabilities = tl_capabilities t\<rparr>"

definition collect_metadata :: "subject \<Rightarrow> verification_result \<times> string" where
  "collect_metadata s =
     (if sj_name s \<noteq> [] \<and> sj_description s \<noteq> [] then (VERIFIED, ''Name and description present.'')
      else (UNKNOWN, ''Missing name or description.''))"

definition verify_source :: "subject \<Rightarrow> verification_result \<times> string" where
  "verify_source s =
     (let p = sj_provenance s in
      if pv_source_type p \<in> set TRUSTED_SOURCE_TYPES \<and> truthy (pv_source_url p) then
        (VERIFIED, ''Source type '' @ quoted (source_type_value (pv_source_type p)) @
           '' with a recorded URL.'')
      else if pv_source_type p = OTHER_REPUTABLE then
        (UNVERIFIED, ''Source is reputable but not an official first-party source.'')
      else (UNKNOWN, ''Source type is unknown or lacks a recorded URL.''))"

definition verify_version :: "subject \<Rightarrow> verification_result \<times> string" where
  "verify_version s =
     (if truthy (sj_version s)
      then (VERIFIED, ''Discovered version '' @ quoted (ostr_show (sj_version s)) @ ''.'')
      else (UNKNOWN, ''No version information was discovered.''))"

text \<open>\<^verbatim>\<open>sorted(set(xs))\<close> on strings.\<close>

fun str_less :: "string \<Rightarrow> string \<Rightarrow> bool" where
  "str_less [] [] = False"
| "str_less [] (_ # _) = True"
| "str_less (_ # _) [] = False"
| "str_less (a # x) (b # y) = (byte a < byte b \<or> (byte a = byte b \<and> str_less x y))"

fun insert_sorted :: "string \<Rightarrow> string list \<Rightarrow> string list" where
  "insert_sorted x [] = [x]"
| "insert_sorted x (y # ys) =
     (if x = y then y # ys else if str_less x y then x # y # ys else y # insert_sorted x ys)"

definition sorted_set :: "string list \<Rightarrow> string list" where
  "sorted_set xs = foldr insert_sorted xs []"

definition check_platform :: "subject \<Rightarrow> verification_result \<times> string" where
  "check_platform s =
     (let platforms = sj_platforms s in
      if platforms = [] then (UNKNOWN, ''No supported platforms were declared.'')
      else if set platforms \<subseteq> set SUPPORTED_PLATFORMS then
        (VERIFIED, ''Declared platforms '' @ show_list (sorted_set platforms) @ '' are all recognized.'')
      else
        (UNVERIFIED, ''Declared unrecognized platform(s): '' @
           show_list (sorted_set (filter (\<lambda>p. p \<notin> set SUPPORTED_PLATFORMS) platforms)) @ ''.''))"

definition check_license :: "subject \<Rightarrow> verification_result \<times> string" where
  "check_license s =
     (if truthy (sj_license s)
      then (VERIFIED, ''Declared license '' @ quoted (ostr_show (sj_license s)) @ ''.'')
      else (UNKNOWN, ''No license information was discovered.''))"

definition check_dependencies :: "subject \<Rightarrow> verification_result \<times> string" where
  "check_dependencies s =
     (if sj_dependencies s \<noteq> [] then
        (UNVERIFIED, ''Declares '' @ show_nat (length (sj_dependencies s)) @
           '' dependency(ies); not independently resolved.'')
      else (VERIFIED, ''No external dependencies declared.''))"

definition prohibited_marker :: "string list \<Rightarrow> string option" where
  "prohibited_marker capabilities =
     find (\<lambda>m. str_in m (lower (join '' '' capabilities))) PROHIBITED_CAPABILITY_MARKERS"

definition security_policy_review :: "subject \<Rightarrow> verification_result \<times> string" where
  "security_policy_review s =
     (case prohibited_marker (sj_capabilities s) of
        Some hit \<Rightarrow> (FAILED, ''Declares prohibited capability marker '' @ quoted hit @ ''.'')
      | None \<Rightarrow> (VERIFIED, ''No prohibited capability markers declared.''))"

definition run_stage ::
    "verification_stage \<Rightarrow> verification_result \<times> string \<Rightarrow> verification_report \<Rightarrow> verification_report" where
  "run_stage stage rn report =
     report\<lparr>vr_results := dset stage (fst rn) (vr_results report),
            vr_notes := dset stage (snd rn) (vr_notes report)\<rparr>"

definition run_stages :: "subject \<Rightarrow> verification_report" where
  "run_stages s =
     run_stage SECURITY_POLICY_REVIEW (security_policy_review s)
      (run_stage CHECK_DEPENDENCIES (check_dependencies s)
       (run_stage CHECK_LICENSE (check_license s)
        (run_stage CHECK_PLATFORM (check_platform s)
         (run_stage VERIFY_VERSION (verify_version s)
          (run_stage VERIFY_SOURCE (verify_source s)
           (run_stage COLLECT_METADATA (collect_metadata s) empty_report))))))"

definition tool_emit :: "string \<Rightarrow> (string \<times> pyval) list \<Rightarrow> ('m audit_w_scheme, unit) prog" where
  "tool_emit t d = audit_emit t None None None d"

definition verify :: "subject \<Rightarrow> ('m audit_w_scheme, verification_report) prog" where
  "verify s =
     sq (tool_emit ''tool.verification.started'' [(''tool_name'', PStr (sj_name s))])
     (bnd now (\<lambda>t.
      let report = (run_stages s)\<lparr>vr_completed_at := Some t\<rparr>;
          data = [(''tool_name'', PStr (sj_name s)),
                  (''overall'', PStr (verification_value (overall report)))]
      in sq (if overall report = FAILED then tool_emit ''tool.verification.failed'' data
             else tool_emit ''tool.verification.completed'' data)
         (ret report)))"

section \<open>Eligibility\<close>

record eligibility =
  el_eligible :: bool
  el_reasons :: "string list"

definition ineligible :: "string \<Rightarrow> eligibility" where
  "ineligible reason = \<lparr>el_eligible = False, el_reasons = [reason]\<rparr>"

definition tool_policy_evaluate :: "tool_record \<Rightarrow> string option \<Rightarrow> eligibility" where
  "tool_policy_evaluate tool target_platform =
     (if tl_trust_status tool = BLOCKED then ineligible ''Tool is explicitly BLOCKED.''
      else if tl_trust_status tool = DEPRECATED then ineligible ''Tool is DEPRECATED.''
      else case prohibited_marker (tl_capabilities tool) of
        Some m \<Rightarrow> ineligible (''Declares prohibited capability marker '' @ quoted m @ ''.'')
      | None \<Rightarrow>
          if (case target_platform of None \<Rightarrow> False | Some p \<Rightarrow> p \<notin> set (tl_supported_platforms tool)) then
            ineligible (''Tool does not declare support for platform '' @
              quoted (ostr_show target_platform) @ '' (declares '' @
              show_list (tl_supported_platforms tool) @ '').'')
          else if map_of (vr_results (tl_verification tool)) SECURITY_POLICY_REVIEW = Some FAILED then
            ineligible ''Security/policy review stage failed verification.''
          else if tl_trust_status tool \<noteq> APPROVED then
            ineligible (''Trust status is '' @ quoted (trust_value (tl_trust_status tool)) @
              '', not APPROVED '' @ em_dash @
              '' eligibility requires explicit approval, not merely verification.'')
          else \<lparr>el_eligible = True, el_reasons =
            [''Tool is APPROVED, platform-compatible, and declares no prohibited capability.'']\<rparr>)"

section \<open>Routes\<close>

text \<open>
  The handlers of \<^verbatim>\<open>apps/api/app/api/routes/tools.py\<close> that change the registry; the response models
  are projections of the record they return.
\<close>

definition tool_error_status :: "(string \<times> nat) list" where
  "tool_error_status = [(''tool_not_found'', 404), (''duplicate_tool'', 409),
     (''invalid_candidate'', 422), (''capability_prohibited'', 403), (''invalid_trust_transition'', 409)]"

definition tool_http_error :: "tool_registry_error_code \<Rightarrow> string \<Rightarrow> exn" where
  "tool_http_error code m = HTTPException
     (case map_of tool_error_status (tool_error_value code) of Some n \<Rightarrow> n | None \<Rightarrow> 400)
     (tool_error_value code) m"

definition tool_route :: "('w, 'a) prog \<Rightarrow> ('w, 'a) prog" where
  "tool_route m = try_except m (\<lambda>exc. case exc of
     ToolRegistryError code msg \<Rightarrow> raise (tool_http_error code msg) | _ \<Rightarrow> raise exc)"

record register_tool_request =
  rg_name :: string
  rg_display_name :: string
  rg_description :: string
  rg_category :: tool_category
  rg_capabilities :: "string list"
  rg_supported_platforms :: "string list"
  rg_source_type :: source_type
  rg_source_url :: "string option"
  rg_repository_url :: "string option"
  rg_documentation_url :: "string option"
  rg_publisher :: "string option"
  rg_version :: "string option"
  rg_license :: "string option"
  rg_installation_method :: "string option"
  rg_dependencies :: "string list"
  rg_required_permissions :: "string list"
  rg_risk_level :: risk_tier

definition register_tool :: "register_tool_request \<Rightarrow> ('m tools_w_scheme, tool_record) prog" where
  "register_tool rq =
     bnd now (\<lambda>discovered.
     bnd uuid4 (\<lambda>i.
     bnd now (\<lambda>created.
     bnd now (\<lambda>updated.
     tool_route (tool_create
       \<lparr>tl_id = i, tl_name = rg_name rq, tl_display_name = rg_display_name rq,
        tl_description = rg_description rq, tl_category = rg_category rq,
        tl_capabilities = rg_capabilities rq, tl_supported_platforms = rg_supported_platforms rq,
        tl_provenance = \<lparr>pv_source_type = rg_source_type rq, pv_source_url = rg_source_url rq,
          pv_repository_url = rg_repository_url rq, pv_documentation_url = rg_documentation_url rq,
          pv_publisher = rg_publisher rq, pv_discovered_version = rg_version rq,
          pv_discovered_at = discovered\<rparr>,
        tl_version = rg_version rq, tl_license = rg_license rq,
        tl_installation_method = rg_installation_method rq, tl_entrypoint = None,
        tl_dependencies = rg_dependencies rq, tl_required_permissions = rg_required_permissions rq,
        tl_risk_level = rg_risk_level rq, tl_approval_requirement = USER_APPROVAL,
        tl_trust_status = DISCOVERED, tl_verification = empty_report,
        tl_created_at = created, tl_updated_at = updated\<rparr>)))))"

definition verify_tool :: "uuid \<Rightarrow> ('m tools_w_scheme, tool_record) prog" where
  "verify_tool i = tool_route
     (bnd (tool_get i) (\<lambda>tool.
      bnd (verify (subject_of tool)) (\<lambda>report.
      bnd (record_verification i report) (\<lambda>_.
      if overall report = FAILED then update_trust_status i BLOCKED
      else if overall report = VERIFIED then update_trust_status i TS_VERIFIED
      else update_trust_status i UNDER_REVIEW))))"

definition approve_tool :: "uuid \<Rightarrow> ('m tools_w_scheme, tool_record) prog" where
  "approve_tool i = tool_route
     (bnd (tool_get i) (\<lambda>tool.
      if tl_trust_status tool \<noteq> TS_VERIFIED then
        raise (HTTPException 409 ''invalid_trust_transition''
          (''Tool must be VERIFIED before approval (currently '' @ trust_value (tl_trust_status tool) @ '').''))
      else update_trust_status i APPROVED))"

definition block_tool :: "uuid \<Rightarrow> ('m tools_w_scheme, tool_record) prog" where
  "block_tool i = tool_route (update_trust_status i BLOCKED)"

definition deprecate_tool :: "uuid \<Rightarrow> ('m tools_w_scheme, tool_record) prog" where
  "deprecate_tool i = tool_route (update_trust_status i DEPRECATED)"

definition check_eligibility ::
    "uuid \<Rightarrow> string option \<Rightarrow> ('m tools_w_scheme, eligibility) prog" where
  "check_eligibility i platform =
     tool_route (bnd (tool_get i) (\<lambda>tool. ret (tool_policy_evaluate tool platform)))"

section \<open>What verification means\<close>

lemma starts_with_no_space:
  assumes "CHR '' '' \<notin> set m" and "m \<noteq> []"
  shows "starts_with m (a @ CHR '' '' # b) \<longleftrightarrow> starts_with m a"
proof
  assume "starts_with m (a @ CHR '' '' # b)"
  then obtain r where r: "a @ CHR '' '' # b = m @ r" by (auto simp: starts_with_iff)
  show "starts_with m a"
  proof (cases "length m \<le> length a")
    case True
    then have "take (length m) (a @ CHR '' '' # b) = take (length m) a" by simp
    then show ?thesis using r by (simp add: starts_with_def)
  next
    case False
    then have "m ! length a = (m @ r) ! length a" and lt: "length a < length m"
      by (auto simp: nth_append)
    then have "m ! length a = CHR '' ''" using r [symmetric] by (simp add: nth_append)
    then show ?thesis using assms(1) lt nth_mem by metis
  qed
next
  assume "starts_with m a"
  then show "starts_with m (a @ CHR '' '' # b)" by (auto simp: starts_with_iff)
qed

lemma str_in_space:
  assumes "CHR '' '' \<notin> set m" and "m \<noteq> []"
  shows "str_in m (a @ CHR '' '' # b) \<longleftrightarrow> str_in m a \<or> str_in m b"
proof (induction a)
  case Nil
  have "\<not> starts_with m (CHR '' '' # b)" using starts_with_no_space [OF assms, of "[]" b] assms(2)
    by (simp add: starts_with_def)
  then show ?case using assms(2) by simp
next
  case (Cons c a)
  then show ?case using starts_with_no_space [OF assms, of "c # a" b] by auto
qed

lemma str_in_join_space:
  assumes "CHR '' '' \<notin> set m" and "m \<noteq> []"
  shows "str_in m (join '' '' xs) \<longleftrightarrow> (\<exists>x \<in> set xs. str_in m x)"
proof (induction xs)
  case Nil
  then show ?case using assms(2) by simp
next
  case (Cons x xs)
  then show ?case using str_in_space [OF assms, of x "join '' '' xs"] by (auto simp: join_Cons)
qed

definition prohibited :: "string list \<Rightarrow> bool" where
  "prohibited capabilities \<longleftrightarrow>
     (\<exists>c \<in> set capabilities. \<exists>m \<in> set PROHIBITED_CAPABILITY_MARKERS. str_in m (lower c))"

lemma markers_plain: "m \<in> set PROHIBITED_CAPABILITY_MARKERS \<Longrightarrow> CHR '' '' \<notin> set m \<and> m \<noteq> []"
  by (auto simp: PROHIBITED_CAPABILITY_MARKERS_def)

lemma lower_space: "lower '' '' = '' ''"
  by (simp add: lower_def lower_char_def)

lemma prohibited_marker_iff: "prohibited_marker caps \<noteq> None \<longleftrightarrow> prohibited caps"
proof -
  have "str_in m (lower (join '' '' caps)) \<longleftrightarrow> (\<exists>c \<in> set caps. str_in m (lower c))"
    if "m \<in> set PROHIBITED_CAPABILITY_MARKERS" for m
    using str_in_join_space [of m "map lower caps"] markers_plain [OF that]
    by (simp add: map_lower_join lower_space)
  then show ?thesis
    unfolding prohibited_marker_def prohibited_def by (auto simp: find_None_iff)
qed

text \<open>The requirements that a verified tool meets.\<close>

definition meets_all :: "subject \<Rightarrow> bool" where
  "meets_all s \<longleftrightarrow>
     sj_name s \<noteq> [] \<and> sj_description s \<noteq> [] \<and>
     pv_source_type (sj_provenance s) \<in> {OFFICIAL_WEBSITE, OFFICIAL_GITHUB, OFFICIAL_PACKAGE_REGISTRY} \<and>
     truthy (pv_source_url (sj_provenance s)) \<and> truthy (sj_version s) \<and> truthy (sj_license s) \<and>
     sj_platforms s \<noteq> [] \<and> set (sj_platforms s) \<subseteq> set SUPPORTED_PLATFORMS \<and>
     sj_dependencies s = [] \<and> \<not> prohibited (sj_capabilities s)"

lemma stage_results:
  "fst (collect_metadata s) = (if sj_name s \<noteq> [] \<and> sj_description s \<noteq> [] then VERIFIED else UNKNOWN)"
  "fst (check_license s) = (if truthy (sj_license s) then VERIFIED else UNKNOWN)"
  "fst (verify_version s) = (if truthy (sj_version s) then VERIFIED else UNKNOWN)"
  "fst (check_dependencies s) = (if sj_dependencies s \<noteq> [] then UNVERIFIED else VERIFIED)"
  "fst (check_platform s) = (if sj_platforms s = [] then UNKNOWN
     else if set (sj_platforms s) \<subseteq> set SUPPORTED_PLATFORMS then VERIFIED else UNVERIFIED)"
  "fst (security_policy_review s) = (if prohibited (sj_capabilities s) then FAILED else VERIFIED)"
  using prohibited_marker_iff [of "sj_capabilities s"]
  by (auto simp: collect_metadata_def check_license_def verify_version_def check_dependencies_def
      check_platform_def Let_def security_policy_review_def split: option.splits)

lemma verify_source_result:
  "fst (verify_source s) =
     (if pv_source_type (sj_provenance s) \<in> {OFFICIAL_WEBSITE, OFFICIAL_GITHUB, OFFICIAL_PACKAGE_REGISTRY} \<and>
         truthy (pv_source_url (sj_provenance s)) then VERIFIED
      else if pv_source_type (sj_provenance s) = OTHER_REPUTABLE then UNVERIFIED else UNKNOWN)"
  by (auto simp: verify_source_def Let_def TRUSTED_SOURCE_TYPES_def)

lemma run_stages_results:
  "vr_results (run_stages s) =
     [(COLLECT_METADATA, fst (collect_metadata s)), (VERIFY_SOURCE, fst (verify_source s)),
      (VERIFY_VERSION, fst (verify_version s)), (CHECK_PLATFORM, fst (check_platform s)),
      (CHECK_LICENSE, fst (check_license s)), (CHECK_DEPENDENCIES, fst (check_dependencies s)),
      (SECURITY_POLICY_REVIEW, fst (security_policy_review s))]"
  by (simp add: run_stages_def run_stage_def empty_report_def)

lemma overall_verified: "overall (run_stages s) = VERIFIED \<longleftrightarrow> meets_all s"
  unfolding overall_def run_stages_results dvalues_def stage_results verify_source_result meets_all_def
  by (auto simp: Let_def)

lemma overall_failed: "overall (run_stages s) = FAILED \<longleftrightarrow> prohibited (sj_capabilities s)"
  unfolding overall_def run_stages_results dvalues_def stage_results verify_source_result
  by (auto simp: Let_def)

lemma overall_completed: "overall (r\<lparr>vr_completed_at := t\<rparr>) = overall r"
  by (simp add: overall_def)

end
