(* ===== verification/Tool_Lifecycle.thy ===== *)
theory Tool_Lifecycle
  imports Tools
begin

text \<open>
  The life of a registry entry: the routes as steps on the registry, and what a trust status is worth
  in every reachable registry.
\<close>

datatype tool_event =
    Register register_tool_request
  | Verify uuid
  | Approve uuid
  | Block uuid
  | Deprecate uuid

inductive tool_step :: "tools_w \<Rightarrow> tool_event \<Rightarrow> tools_w \<Rightarrow> bool" where
  registers: "register_tool rq w = (r, w') \<Longrightarrow> tool_step w (Register rq) w'"
| verifies: "verify_tool i w = (r, w') \<Longrightarrow> tool_step w (Verify i) w'"
| approves_it: "approve_tool i w = (r, w') \<Longrightarrow> tool_step w (Approve i) w'"
| blocks: "block_tool i w = (r, w') \<Longrightarrow> tool_step w (Block i) w'"
| deprecates: "deprecate_tool i w = (r, w') \<Longrightarrow> tool_step w (Deprecate i) w'"

inductive tool_run :: "tools_w \<Rightarrow> tool_event list \<Rightarrow> tools_w \<Rightarrow> bool" where
  no_tool_event: "tool_run w [] w"
| tool_event: "tool_run w evs w' \<Longrightarrow> tool_step w' ev w'' \<Longrightarrow> tool_run w (evs @ [ev]) w''"

inductive_simps tool_step_verify: "tool_step w (Verify i) w'"

definition tool_ok :: "tool_record \<Rightarrow> bool" where
  "tool_ok t \<longleftrightarrow>
     (tl_trust_status t \<in> {TS_VERIFIED, APPROVED} \<longrightarrow>
        meets_all (subject_of t) \<and> overall (tl_verification t) = VERIFIED)"

definition registry_ok :: "(uuid \<times> tool_record) list \<Rightarrow> bool" where
  "registry_ok d \<longleftrightarrow> (\<forall>i t. map_of d i = Some t \<longrightarrow> tool_ok t)"

definition names_distinct :: "(uuid \<times> tool_record) list \<Rightarrow> bool" where
  "names_distinct d \<longleftrightarrow> distinct (map tl_name (dvalues d))"

definition tools_ok :: "'m tools_w_scheme \<Rightarrow> bool" where
  "tools_ok w \<longleftrightarrow> registry_ok (tr_tools w)"

definition keeps_ok :: "'m tools_w_scheme \<Rightarrow> 'm tools_w_scheme \<Rightarrow> bool" where
  "keeps_ok w w' \<longleftrightarrow> (tools_ok w \<longrightarrow> tools_ok w')"

interpretation tok: step_rel keeps_ok
  by unfold_locales (auto simp: keeps_ok_def)

lemma tool_ok_set: "registry_ok d \<Longrightarrow> tool_ok t \<Longrightarrow> registry_ok (dset i t d)"
  by (auto simp: registry_ok_def map_of_update)

lemma keeps_ok_prims:
  "keeps keeps_ok now" "keeps keeps_ok uuid4" "keeps keeps_ok (tool_emit t d)"
  by (auto simp: keeps_def keeps_ok_def now_def uuid4_def tool_emit_def tools_ok_def)

lemmas tool_keeps = tok.keeps_intros keeps_ok_prims

lemma keeps_put_tool:
  "tool_ok tool \<Longrightarrow> keeps keeps_ok (modify (\<lambda>w. w\<lparr>tr_tools := dset i tool (tr_tools w)\<rparr>))"
  by (simp add: keeps_def keeps_ok_def modify_def tools_ok_def tool_ok_set)

lemma keeps_tool_route:
  assumes "keeps keeps_ok m"
  shows "keeps keeps_ok (tool_route m)"
  unfolding tool_route_def
proof (rule tok.keeps_try [OF assms])
  show "keeps keeps_ok (case e of ToolRegistryError code msg \<Rightarrow> raise (tool_http_error code msg)
      | _ \<Rightarrow> raise e)" for e
    by (cases e) (auto intro: tok.keeps_raise)
qed

lemma bnd_tool_get:
  "bnd (tool_get i) f w = (case map_of (tr_tools w) i of
     None \<Rightarrow> (Inl (ToolNotFoundError (''Tool '' @ uuid_str i @ '' was not found.'')), w)
   | Some t \<Rightarrow> f t w)"
  by (simp add: tool_get_def bnd_bnd split: option.splits)

lemma upd_tool_run:
  "map_of (tr_tools w) i = Some t \<Longrightarrow>
     upd_tool i f w = (Inr ((f t)\<lparr>tl_updated_at := rt_clock w (rt_ticks w)\<rparr>),
       w\<lparr>rt_ticks := Suc (rt_ticks w),
         tr_tools := dset i ((f t)\<lparr>tl_updated_at := rt_clock w (rt_ticks w)\<rparr>) (tr_tools w)\<rparr>)"
  by (simp add: upd_tool_def bnd_tool_get ret_def Let_def)

lemma upd_tool_missing:
  "map_of (tr_tools w) i = None \<Longrightarrow>
     upd_tool i f w = (Inl (ToolNotFoundError (''Tool '' @ uuid_str i @ '' was not found.'')), w)"
  by (simp add: upd_tool_def bnd_tool_get)

lemma tool_ok_updated [simp]:
  "tool_ok (t\<lparr>tl_updated_at := x\<rparr>) = tool_ok t"
  "subject_of (t\<lparr>tl_updated_at := x\<rparr>) = subject_of t"
  "subject_of (t\<lparr>tl_trust_status := s\<rparr>) = subject_of t"
  "subject_of (t\<lparr>tl_verification := v\<rparr>) = subject_of t"
  by (auto simp: tool_ok_def subject_of_def)

text \<open>What the verification route stores.\<close>

definition verified_status :: "subject \<Rightarrow> trust_status" where
  "verified_status s = (if prohibited (sj_capabilities s) then BLOCKED
     else if meets_all s then TS_VERIFIED else UNDER_REVIEW)"

lemma verify_run:
  "\<exists>report w'. verify s w = (Inr report, w') \<and> overall report = overall (run_stages s) \<and>
     vr_results report = vr_results (run_stages s) \<and> vr_completed_at report \<noteq> None \<and>
     w' = w\<lparr>rt_ticks := rt_ticks w', audit_log := audit_log w'\<rparr>"
  by (simp add: verify_def tool_emit_def Let_def overall_completed ret_def)

lemma verify_tool_run:
  assumes "map_of (tr_tools w) i = Some t"
  shows "\<exists>t' w'. verify_tool i w = (Inr t', w') \<and> map_of (tr_tools w') i = Some t' \<and>
     tl_trust_status t' = verified_status (subject_of t) \<and> subject_of t' = subject_of t \<and>
     vr_results (tl_verification t') = vr_results (run_stages (subject_of t)) \<and>
     (\<forall>j. j \<noteq> i \<longrightarrow> map_of (tr_tools w') j = map_of (tr_tools w) j) \<and>
     overall (tl_verification t') = overall (run_stages (subject_of t))"
proof -
  obtain report w1 where v: "verify (subject_of t) w = (Inr report, w1)"
      "overall report = overall (run_stages (subject_of t))"
      "vr_results report = vr_results (run_stages (subject_of t))"
      "w1 = w\<lparr>rt_ticks := rt_ticks w1, audit_log := audit_log w1\<rparr>"
    using verify_run by blast
  have tools: "tr_tools w1 = tr_tools w" by (subst v(4)) simp
  let ?t1 = "t\<lparr>tl_verification := report, tl_updated_at := rt_clock w1 (rt_ticks w1)\<rparr>"
  let ?w2 = "w1\<lparr>rt_ticks := Suc (rt_ticks w1), tr_tools := dset i ?t1 (tr_tools w1)\<rparr>"
  have rec: "record_verification i report w1 = (Inr ?t1, ?w2)"
    using assms tools by (simp add: record_verification_def upd_tool_run)
  let ?st = "verified_status (subject_of t)"
  have choice: "(if overall report = FAILED then update_trust_status i BLOCKED
      else if overall report = VERIFIED then update_trust_status i TS_VERIFIED
      else update_trust_status i UNDER_REVIEW) = (update_trust_status i ?st :: ('a tools_w_scheme, _) prog)"
    using v(2) overall_failed [of "subject_of t"] overall_verified [of "subject_of t"]
    by (auto simp: verified_status_def subject_of_def)
  have "bnd (tool_get i) (\<lambda>tool. bnd (verify (subject_of tool)) (\<lambda>report.
      bnd (record_verification i report) (\<lambda>_.
      if overall report = FAILED then update_trust_status i BLOCKED
      else if overall report = VERIFIED then update_trust_status i TS_VERIFIED
      else update_trust_status i UNDER_REVIEW))) w = update_trust_status i ?st ?w2"
    using assms by (simp add: bnd_tool_get bnd_eq [where m = "verify (subject_of t)", OF v(1)] bnd_eq [where m = "record_verification i report", OF rec] choice)
  moreover have "map_of (tr_tools ?w2) i = Some ?t1" by (simp add: map_of_update)
  ultimately show ?thesis
    using v tools
    by (simp add: verify_tool_def tool_route_def try_except_def update_trust_status_def upd_tool_run
        map_of_update overall_def)
qed

section \<open>Every step keeps the registry sound\<close>

lemma keeps_create: "tl_trust_status tool = DISCOVERED \<Longrightarrow> keeps keeps_ok (tool_create tool)"
  unfolding tool_create_def tool_get_by_name_def
  by (intro tool_keeps keeps_put_tool) (simp add: tool_ok_def)

lemma register_keeps: "keeps keeps_ok (register_tool rq)"
  unfolding register_tool_def by (intro tool_keeps keeps_tool_route keeps_create) simp

lemma update_status_keeps:
  assumes "st \<noteq> TS_VERIFIED" and "st \<noteq> APPROVED"
  shows "keeps keeps_ok (update_trust_status i st)"
  unfolding update_trust_status_def upd_tool_def tool_get_def Let_def
  by (intro tool_keeps keeps_put_tool) (simp add: tool_ok_def assms)

lemma route_missing:
  assumes "map_of (tr_tools w) i = None"
  shows "snd (verify_tool i w) = w" and "snd (approve_tool i w) = w"
  using assms by (simp_all add: verify_tool_def approve_tool_def tool_route_def try_except_def
      bnd_tool_get raise_def)

lemma verify_keeps: "keeps keeps_ok (verify_tool i)"
  unfolding keeps_def
proof
  fix w :: "'a tools_w_scheme"
  show "keeps_ok w (snd (verify_tool i w))"
  proof (cases "map_of (tr_tools w) i")
    case None
    then show ?thesis by (simp add: route_missing tok.R_refl)
  next
    case (Some t)
    obtain t' w' where v: "verify_tool i w = (Inr t', w')" "map_of (tr_tools w') i = Some t'"
      "tl_trust_status t' = verified_status (subject_of t)" "subject_of t' = subject_of t"
      "\<forall>j. j \<noteq> i \<longrightarrow> map_of (tr_tools w') j = map_of (tr_tools w) j"
      "overall (tl_verification t') = overall (run_stages (subject_of t))"
      using verify_tool_run [OF Some] by blast
    have "tool_ok t'"
      using v(3,4,6) overall_verified [of "subject_of t"]
      by (auto simp: tool_ok_def verified_status_def split: if_splits)
    then show ?thesis
      using v(1,2,5) by (auto simp: keeps_ok_def tools_ok_def registry_ok_def) (metis option.inject)
  qed
qed

lemma approve_keeps: "keeps keeps_ok (approve_tool i)"
  unfolding keeps_def
proof
  fix w :: "'a tools_w_scheme"
  show "keeps_ok w (snd (approve_tool i w))"
  proof (cases "map_of (tr_tools w) i")
    case None
    then show ?thesis by (simp add: route_missing tok.R_refl)
  next
    case (Some t)
    then show ?thesis
      by (auto simp: approve_tool_def tool_route_def try_except_def bnd_tool_get raise_def
          update_trust_status_def upd_tool_run keeps_ok_def tools_ok_def)
        (rule tool_ok_set, assumption, simp add: registry_ok_def tool_ok_def)
  qed
qed

lemma block_keeps: "keeps keeps_ok (block_tool i)" "keeps keeps_ok (deprecate_tool i)"
  unfolding block_tool_def deprecate_tool_def by (intro keeps_tool_route update_status_keeps; simp)+

lemma tool_step_ok: "tool_step w ev w' \<Longrightarrow> tools_ok w \<Longrightarrow> tools_ok w'"
  by (cases rule: tool_step.cases, assumption)
    (metis keepsD keeps_ok_def register_keeps verify_keeps approve_keeps block_keeps)+

lemma tool_run_ok: "tool_run w0 evs w \<Longrightarrow> tools_ok w0 \<Longrightarrow> tools_ok w"
  by (induction rule: tool_run.induct) (auto intro: tool_step_ok)

text \<open>
  C10.  Trust has to be earned: in every registry reachable by registrations, verifications,
  approvals, blocks and deprecations, a tool that is APPROVED has a recorded verification whose
  overall result is VERIFIED, and meets every requirement of the pipeline: a first-party source with
  a URL, a version, a licence, only known platforms, no dependencies, and no capability that contains
  a prohibited marker.
\<close>

theorem approved_tools_verified:
  assumes "tool_run w0 evs w" and "tr_tools w0 = []" and "map_of (tr_tools w) i = Some t"
    and "tl_trust_status t = APPROVED"
  shows "meets_all (subject_of t) \<and> overall (tl_verification t) = VERIFIED"
proof -
  have "tools_ok w0" using assms(2) by (simp add: tools_ok_def registry_ok_def)
  from tool_run_ok [OF assms(1) this] show ?thesis
    using assms(3,4) by (auto simp: tools_ok_def registry_ok_def tool_ok_def)
qed

text \<open>
  A block does not last: verifying a tool again replaces its trust status whatever it was, so a
  tool that was blocked or deprecated by hand and whose metadata passes becomes VERIFIED and can be
  approved.
\<close>

theorem reverification_lifts_block:
  assumes "map_of (tr_tools w) i = Some t" and "meets_all (subject_of t)"
    and "tl_trust_status t = BLOCKED \<or> tl_trust_status t = DEPRECATED"
  shows "\<exists>t1 w1 t2 w2. verify_tool i w = (Inr t1, w1) \<and> tl_trust_status t1 = TS_VERIFIED \<and>
    approve_tool i w1 = (Inr t2, w2) \<and> tl_trust_status t2 = APPROVED \<and>
    el_eligible (tool_policy_evaluate t2 None)"
proof -
  obtain t1 w1 where v: "verify_tool i w = (Inr t1, w1)" "map_of (tr_tools w1) i = Some t1"
      "tl_trust_status t1 = verified_status (subject_of t)" "subject_of t1 = subject_of t"
      "vr_results (tl_verification t1) = vr_results (run_stages (subject_of t))"
    using verify_tool_run [OF assms(1)] by blast
  have st: "tl_trust_status t1 = TS_VERIFIED" and np: "\<not> prohibited (tl_capabilities t)"
    using v(3) assms(2) by (auto simp: verified_status_def meets_all_def subject_of_def)
  have caps: "prohibited_marker (tl_capabilities t1) = None"
    using np prohibited_marker_iff [of "tl_capabilities t"] v(4) by (simp add: subject_of_def)
  have review: "map_of (vr_results (tl_verification t1)) SECURITY_POLICY_REVIEW = Some VERIFIED"
    using np v(5) by (simp add: run_stages_results stage_results subject_of_def)
  show ?thesis
    using v(1,2) st caps review
    by (simp add: approve_tool_def tool_route_def try_except_def bnd_tool_get
        update_trust_status_def upd_tool_run tool_policy_evaluate_def)
qed

text \<open>
  C38.  Eligibility, exactly: a tool passes the pre-check for a platform when it is approved, declares
  the platform, none of its capabilities contains a prohibited marker, and its security review did not
  fail; the decision always carries one reason.
\<close>

theorem eligibility_iff:
  "el_eligible (tool_policy_evaluate tool p) =
     (tl_trust_status tool = APPROVED \<and> \<not> prohibited (tl_capabilities tool) \<and>
      (case p of None \<Rightarrow> True | Some q \<Rightarrow> q \<in> set (tl_supported_platforms tool)) \<and>
      map_of (vr_results (tl_verification tool)) SECURITY_POLICY_REVIEW \<noteq> Some FAILED) \<and>
   length (el_reasons (tool_policy_evaluate tool p)) = 1"
  using prohibited_marker_iff [of "tl_capabilities tool"]
  by (auto simp: tool_policy_evaluate_def ineligible_def split: option.splits)

definition undetermined :: "subject \<Rightarrow> bool" where
  "undetermined s \<longleftrightarrow>
     sj_name s = [] \<or> sj_description s = [] \<or> \<not> truthy (sj_version s) \<or> \<not> truthy (sj_license s) \<or>
     sj_platforms s = [] \<or> pv_source_type (sj_provenance s) = SRC_UNKNOWN \<or>
     (pv_source_type (sj_provenance s) \<noteq> OTHER_REPUTABLE \<and> \<not> truthy (pv_source_url (sj_provenance s)))"

lemma overall_unknown:
  "overall (run_stages s) = UNKNOWN \<longleftrightarrow> \<not> prohibited (sj_capabilities s) \<and> undetermined s"
  unfolding overall_def run_stages_results dvalues_def stage_results verify_source_result undetermined_def
  by (cases "pv_source_type (sj_provenance s)") (auto simp: Let_def)

text \<open>
  The verification pipeline, exactly: a subject fails when one of its capabilities contains a
  prohibited marker and for no other reason; otherwise it is unknown when some fact is missing,
  verified when it meets every requirement, and unverified in the cases that are left; and every
  stage is reported, in the order of the pipeline.
\<close>

theorem verification_overall:
  "overall (run_stages s) = (if prohibited (sj_capabilities s) then FAILED
     else if undetermined s then UNKNOWN
     else if meets_all s then VERIFIED else UNVERIFIED) \<and>
   map fst (vr_results (run_stages s)) = [COLLECT_METADATA, VERIFY_SOURCE, VERIFY_VERSION,
     CHECK_PLATFORM, CHECK_LICENSE, CHECK_DEPENDENCIES, SECURITY_POLICY_REVIEW]"
  using overall_failed [of s] overall_verified [of s] overall_unknown [of s]
  by (cases "overall (run_stages s)") (auto simp: run_stages_results)

section \<open>Names\<close>

lemma names_update_same:
  "map_of d i = Some t0 \<Longrightarrow> tl_name t = tl_name t0 \<Longrightarrow>
     map tl_name (dvalues (dset i t d)) = map tl_name (dvalues d)"
  by (induction d) (auto simp: dvalues_def split: if_splits)

lemma names_update_new:
  "names_distinct d \<Longrightarrow> tl_name t \<notin> tl_name ` set (dvalues d) \<Longrightarrow> names_distinct (dset i t d)"
proof (induction d)
  case Nil
  then show ?case by (simp add: names_distinct_def dvalues_def)
next
  case (Cons kv d)
  have sub: "x = t \<or> x \<in> snd ` set d" if "(j, x) \<in> set (dset i t d)" for j x
    using that values_update_subset [of i t d] by (force simp: dvalues_def)
  show ?case
    using Cons by (cases kv) (auto simp: names_distinct_def dvalues_def dest!: sub, force)
qed

lemma find_by_name_None: "find_by_name n ts = None \<longleftrightarrow> n \<notin> tl_name ` set ts"
  by (induction ts) auto

definition keeps_names :: "'m tools_w_scheme \<Rightarrow> 'm tools_w_scheme \<Rightarrow> bool" where
  "keeps_names w w' \<longleftrightarrow> (names_distinct (tr_tools w) \<longrightarrow> names_distinct (tr_tools w'))"

interpretation tnm: step_rel keeps_names
  by unfold_locales (auto simp: keeps_names_def)

lemma keeps_names_prims:
  "keeps keeps_names now" "keeps keeps_names uuid4" "keeps keeps_names (tool_emit t d)"
  by (auto simp: keeps_def keeps_names_def now_def uuid4_def tool_emit_def)

lemma keeps_names_route: "keeps keeps_names m \<Longrightarrow> keeps keeps_names (tool_route m)"
  unfolding tool_route_def
proof (rule tnm.keeps_try, assumption)
  show "keeps keeps_names (case e of ToolRegistryError code msg \<Rightarrow> raise (tool_http_error code msg)
      | _ \<Rightarrow> raise e)" for e
    by (cases e) (auto intro: tnm.keeps_raise)
qed

lemma create_names: "keeps keeps_names (tool_create tool)"
  by (auto simp: keeps_def keeps_names_def tool_create_def tool_get_by_name_def raise_def ret_def
      find_by_name_None intro!: names_update_new)

lemma upd_names: "(\<And>t. tl_name (f t) = tl_name t) \<Longrightarrow> keeps keeps_names (upd_tool i f)"
proof -
  assume f: "\<And>t. tl_name (f t) = tl_name t"
  have "names_distinct (tr_tools (snd (upd_tool i f w)))" if "names_distinct (tr_tools w)"
    for w :: "'a tools_w_scheme"
    using that f by (cases "map_of (tr_tools w) i")
      (auto simp: upd_tool_missing upd_tool_run names_distinct_def names_update_same)
  then show ?thesis by (simp add: keeps_def keeps_names_def)
qed

lemmas names_keeps = tnm.keeps_intros keeps_names_prims keeps_names_route create_names upd_names

lemma route_names:
  "keeps keeps_names (register_tool rq)" "keeps keeps_names (verify_tool i)"
  "keeps keeps_names (approve_tool i)" "keeps keeps_names (block_tool i)"
  "keeps keeps_names (deprecate_tool i)"
  unfolding register_tool_def verify_tool_def approve_tool_def block_tool_def deprecate_tool_def
    update_trust_status_def record_verification_def verify_def tool_get_def Let_def
  by (intro names_keeps; simp)+

lemma tool_run_names: "tool_run w0 evs w \<Longrightarrow> names_distinct (tr_tools w0) \<Longrightarrow> names_distinct (tr_tools w)"
proof (induction rule: tool_run.induct)
  case (tool_event w0 evs w' ev w'')
  have "keeps_names w' w''"
    using tool_event.hyps(2) by (cases rule: tool_step.cases) (metis keepsD route_names)+
  then show ?case using tool_event by (simp add: keeps_names_def)
qed

text \<open>
  C37.  A name names one tool: in every reachable registry no two entries have the same name, and
  registering a name that is taken is answered 409.
\<close>

theorem tool_names_unique:
  assumes "tool_run w0 evs w" and "tr_tools w0 = []"
  shows "distinct (map tl_name (dvalues (tr_tools w))) \<and>
    (\<forall>i t. map_of (tr_tools w) i = Some t \<longrightarrow>
       (\<exists>m. fst (register_tool (rq\<lparr>rg_name := tl_name t\<rparr>) w) =
          Inl (HTTPException 409 ''duplicate_tool'' m)))"
proof (intro conjI allI impI)
  have "names_distinct (tr_tools w0)" using assms(2) by (simp add: names_distinct_def dvalues_def)
  from tool_run_names [OF assms(1) this]
  show "distinct (map tl_name (dvalues (tr_tools w)))" by (simp add: names_distinct_def)
  fix i t
  assume "map_of (tr_tools w) i = Some t"
  then have "find_by_name (tl_name t) (dvalues (tr_tools w)) \<noteq> None"
    using map_of_values find_by_name_None by fastforce
  then show "\<exists>m. fst (register_tool (rq\<lparr>rg_name := tl_name t\<rparr>) w) =
          Inl (HTTPException 409 ''duplicate_tool'' m)"
    by (simp add: register_tool_def tool_route_def try_except_def tool_create_def
        tool_get_by_name_def raise_def tool_http_error_def tool_error_status_def)
qed

section \<open>A sample registry\<close>

definition sample_subject_request :: register_tool_request where
  "sample_subject_request = \<lparr>rg_name = ''dig'', rg_display_name = ''dig'', rg_description = ''DNS lookup'',
     rg_category = DNS_DOMAIN_ANALYSIS, rg_capabilities = [''dns_lookup''],
     rg_supported_platforms = [''LINUX''], rg_source_type = OFFICIAL_WEBSITE,
     rg_source_url = Some ''https://www.isc.org/bind/'', rg_repository_url = None,
     rg_documentation_url = None, rg_publisher = None, rg_version = Some ''9.18'',
     rg_license = Some ''MPL-2.0'', rg_installation_method = None, rg_dependencies = [],
     rg_required_permissions = [], rg_risk_level = Risk_LOW\<rparr>"

definition sample_tool :: "trust_status \<Rightarrow> tool_record" where
  "sample_tool st = \<lparr>tl_id = 100, tl_name = ''dig'', tl_display_name = ''dig'',
     tl_description = ''DNS lookup'', tl_category = DNS_DOMAIN_ANALYSIS,
     tl_capabilities = [''dns_lookup''], tl_supported_platforms = [''LINUX''],
     tl_provenance = \<lparr>pv_source_type = OFFICIAL_WEBSITE,
       pv_source_url = Some ''https://www.isc.org/bind/'', pv_repository_url = None,
       pv_documentation_url = None, pv_publisher = None, pv_discovered_version = Some ''9.18'',
       pv_discovered_at = 0\<rparr>,
     tl_version = Some ''9.18'', tl_license = Some ''MPL-2.0'', tl_installation_method = None,
     tl_entrypoint = None, tl_dependencies = [], tl_required_permissions = [],
     tl_risk_level = Risk_LOW, tl_approval_requirement = USER_APPROVAL, tl_trust_status = st,
     tl_verification = empty_report, tl_created_at = 1, tl_updated_at = 2\<rparr>"

definition sample_tools_w :: "(uuid \<times> tool_record) list \<Rightarrow> tools_w" where
  "sample_tools_w tools = \<lparr>rt_clock = (\<lambda>n. int n), rt_ticks = 0, rt_uuid = (\<lambda>n. 100 + n),
     rt_uuids = 0, audit_log = [], os = sample_os, os_spawn = (\<lambda>_ _. Spawned sample_proc),
     os_calls = [], os_signals = [], tm_config = sample_config, tm_sessions = [],
     tm_adapter = None, tm_running = [], tm_last_result = [], td_mono = 0, td_lag = (\<lambda>_. 0),
     td_reads = 0, td_calls = [], td_cache = [], td_last_provider_call_at = 0, tr_tools = tools\<rparr>"

lemma sample_meets: "meets_all (subject_of (sample_tool st))"
proof -
  have "prohibited_marker [''dns_lookup''] = None"
    by (simp add: prohibited_marker_def PROHIBITED_CAPABILITY_MARKERS_def lower_def lower_char_def
        starts_with_def)
  then have "\<not> prohibited [''dns_lookup'']" using prohibited_marker_iff by blast
  then show ?thesis
    by (simp add: meets_all_def subject_of_def sample_tool_def truthy_def SUPPORTED_PLATFORMS_def)
qed

theorem reverification_lifts_block_witness:
  "\<exists>t1 w1. verify_tool 100 (sample_tools_w [(100, sample_tool BLOCKED)]) = (Inr t1, w1) \<and>
     tl_trust_status t1 = TS_VERIFIED"
proof -
  have "map_of (tr_tools (sample_tools_w [(100, sample_tool BLOCKED)])) 100 = Some (sample_tool BLOCKED)"
    by (simp add: sample_tools_w_def)
  moreover have "tl_trust_status (sample_tool BLOCKED) = BLOCKED" by (simp add: sample_tool_def)
  ultimately show ?thesis
    using reverification_lifts_block [OF _ sample_meets] by blast
qed

lemma sample_register:
  "\<exists>w1. register_tool sample_subject_request (sample_tools_w []) = (Inr (sample_tool DISCOVERED), w1) \<and>
     tr_tools w1 = [(100, sample_tool DISCOVERED)]"
  by (simp add: register_tool_def tool_route_def try_except_def tool_create_def tool_get_by_name_def
      sample_tools_w_def dvalues_def ret_def sample_subject_request_def sample_tool_def)

theorem tool_names_unique_witness:
  "\<exists>w m. tool_run (sample_tools_w []) [Register sample_subject_request] w \<and>
     dvalues (tr_tools w) = [sample_tool DISCOVERED] \<and>
     distinct (map tl_name (dvalues (tr_tools w))) \<and>
     fst (register_tool sample_subject_request w) = Inl (HTTPException 409 ''duplicate_tool'' m)"
proof -
  obtain w where r: "register_tool sample_subject_request (sample_tools_w []) =
      (Inr (sample_tool DISCOVERED), w)" "tr_tools w = [(100, sample_tool DISCOVERED)]"
    using sample_register by blast
  have "tool_run (sample_tools_w []) ([] @ [Register sample_subject_request]) w"
    using r(1) by (intro tool_event) (auto intro: tool_step.intros no_tool_event)
  then have run: "tool_run (sample_tools_w []) [Register sample_subject_request] w" by simp
  have empty: "tr_tools (sample_tools_w []) = []" by (simp add: sample_tools_w_def)
  have again: "sample_subject_request\<lparr>rg_name := tl_name (sample_tool DISCOVERED)\<rparr> = sample_subject_request"
    by (simp add: sample_subject_request_def sample_tool_def)
  note unique = tool_names_unique [OF run empty, of sample_subject_request]
  have t: "map_of (tr_tools w) 100 = Some (sample_tool DISCOVERED)" using r(2) by simp
  obtain m where "fst (register_tool (sample_subject_request\<lparr>rg_name := tl_name (sample_tool DISCOVERED)\<rparr>) w) =
      Inl (HTTPException 409 ''duplicate_tool'' m)"
    using unique [THEN conjunct2, rule_format, OF t] by blast
  moreover have "distinct (map tl_name (dvalues (tr_tools w)))" using unique by blast
  ultimately show ?thesis using run r(2) again by (auto simp: dvalues_def)
qed

theorem approved_tools_verified_witness:
  "\<exists>w t. tool_run (sample_tools_w []) [Register sample_subject_request, Verify 100, Approve 100] w \<and>
     map_of (tr_tools w) 100 = Some t \<and> tl_trust_status t = APPROVED \<and> meets_all (subject_of t)"
proof -
  obtain w1 where r: "register_tool sample_subject_request (sample_tools_w []) =
      (Inr (sample_tool DISCOVERED), w1)" "tr_tools w1 = [(100, sample_tool DISCOVERED)]"
    using sample_register by blast
  then have t0: "map_of (tr_tools w1) 100 = Some (sample_tool DISCOVERED)" by simp
  obtain t1 w2 where v: "verify_tool 100 w1 = (Inr t1, w2)" "map_of (tr_tools w2) 100 = Some t1"
      "tl_trust_status t1 = verified_status (subject_of (sample_tool DISCOVERED))"
    using verify_tool_run [OF t0] by blast
  have st: "tl_trust_status t1 = TS_VERIFIED"
    using v(3) sample_meets [of DISCOVERED] by (simp add: verified_status_def meets_all_def)
  obtain t2 w3 where a: "approve_tool 100 w2 = (Inr t2, w3)" "map_of (tr_tools w3) 100 = Some t2"
      "tl_trust_status t2 = APPROVED"
    using v(2) st by (simp add: approve_tool_def tool_route_def try_except_def bnd_tool_get
        update_trust_status_def upd_tool_run map_of_update)
  have "tool_run (sample_tools_w []) ((([] @ [Register sample_subject_request]) @ [Verify 100]) @ [Approve 100]) w3"
    using r(1) v(1) a(1) by (intro tool_event) (auto intro: tool_step.intros no_tool_event)
  then have run: "tool_run (sample_tools_w []) [Register sample_subject_request, Verify 100, Approve 100] w3"
    by simp
  moreover have "tr_tools (sample_tools_w []) = []" by (simp add: sample_tools_w_def)
  ultimately show ?thesis using approved_tools_verified [OF run _ a(2,3)] a by blast
qed

end
