(* ===== verification/Tool_Discovery.thy ===== *)
theory Tool_Discovery
  imports Tool_Lifecycle
begin

text \<open>
  \<^verbatim>\<open>services/tools/discovery.py\<close>, \<open>research.py\<close> and \<open>proposal.py\<close>.  \<^verbatim>\<open>time.monotonic\<close> reads the
  clock \<open>td_mono\<close>, which an arbitrary non-negative lag advances before every reading and after every
  sleep.  \<open>td_calls\<close> is the trace of the moments at which the research provider was called.
\<close>

section \<open>The most cautious result wins\<close>

fun caution :: "verification_result \<Rightarrow> nat" where
  "caution VERIFIED = 0"
| "caution UNVERIFIED = 1"
| "caution UNKNOWN = 2"
| "caution FAILED = 3"

lemma caution_inj: "caution a = caution b \<Longrightarrow> a = b"
  by (cases a; cases b) auto

instantiation verification_result :: linorder
begin

definition less_eq_verification_result :: "verification_result \<Rightarrow> verification_result \<Rightarrow> bool" where
  "less_eq_verification_result a b \<longleftrightarrow> caution a \<le> caution b"

definition less_verification_result :: "verification_result \<Rightarrow> verification_result \<Rightarrow> bool" where
  "less_verification_result a b \<longleftrightarrow> caution a < caution b"

instance
  by standard (auto simp: less_eq_verification_result_def less_verification_result_def caution_inj)

end

lemma overall_upper:
  "r \<in> set (dvalues (vr_results report)) \<Longrightarrow> r \<le> overall report"
  by (cases r) (auto simp: overall_def Let_def less_eq_verification_result_def dvalues_def)

lemma overall_member:
  "vr_results report \<noteq> [] \<Longrightarrow> overall report \<in> set (dvalues (vr_results report))"
proof -
  assume ne: "vr_results report \<noteq> []"
  then obtain r where r: "r \<in> set (dvalues (vr_results report))"
    by (cases "vr_results report") (auto simp: dvalues_def)
  show ?thesis using ne r by (cases r) (auto simp: overall_def Let_def)
qed

text \<open>
  The overall result of a report is the most cautious of its stage results, in the order
  VERIFIED, UNVERIFIED, UNKNOWN, FAILED; a report without results is UNKNOWN.
\<close>

theorem overall_is_max:
  "overall report = (if vr_results report = [] then UNKNOWN
     else Max (set (dvalues (vr_results report))))"
proof (cases "vr_results report = []")
  case True
  then show ?thesis by (simp add: overall_def)
next
  case False
  then show ?thesis
    using overall_upper overall_member by (auto intro!: Max_eqI [symmetric] simp: dvalues_def)
qed

section \<open>Research\<close>

definition show_tuple :: "string list \<Rightarrow> string" where
  "show_tuple xs = ''('' @ join '', '' (map py_repr xs) @ (if length xs = 1 then '','' else []) @ '')''"

record catalog_entry =
  ce_name :: string
  ce_display_name :: string
  ce_description :: string
  ce_category :: tool_category
  ce_capabilities :: "string list"
  ce_supported_platforms :: "string list"
  ce_provenance :: source_provenance
  ce_license :: string
  ce_installation_method :: string
  ce_risk_level :: risk_tier

text \<open>The provenance records are created when the module is loaded, at \<open>t0\<close>.\<close>

definition official_site ::
    "time \<Rightarrow> string \<Rightarrow> string option \<Rightarrow> string \<Rightarrow> string \<Rightarrow> source_provenance" where
  "official_site t0 url repo docs publisher =
     \<lparr>pv_source_type = OFFICIAL_WEBSITE, pv_source_url = Some url, pv_repository_url = repo,
      pv_documentation_url = Some docs, pv_publisher = Some publisher,
      pv_discovered_version = None, pv_discovered_at = t0\<rparr>"

definition CURATED_CATALOG :: "time \<Rightarrow> (string \<times> catalog_entry list) list" where
  "CURATED_CATALOG t0 =
     [(''dns'',
       [\<lparr>ce_name = ''dig'', ce_display_name = ''dig (dnsutils/bind-utils)'',
         ce_description = ''Standard DNS lookup utility for querying DNS servers.'',
         ce_category = DNS_DOMAIN_ANALYSIS, ce_capabilities = [''dns_lookup'', ''dns_trace''],
         ce_supported_platforms = [''LINUX'', ''MACOS''],
         ce_provenance = official_site t0 ''https://www.isc.org/bind/'' None
           ''https://bind9.readthedocs.io/'' ''Internet Systems Consortium (ISC)'',
         ce_license = ''MPL-2.0'', ce_installation_method = ''OS package manager (apt/dnf/brew)'',
         ce_risk_level = Risk_LOW\<rparr>]),
      (''network'',
       [\<lparr>ce_name = ''nmap'', ce_display_name = ''Nmap'',
         ce_description = ''Network discovery and security auditing utility.'',
         ce_category = NETWORK_DIAGNOSTICS,
         ce_capabilities = [''port_scan'', ''host_discovery'', ''service_detection''],
         ce_supported_platforms = [''LINUX'', ''MACOS'', ''WINDOWS''],
         ce_provenance = official_site t0 ''https://nmap.org/'' (Some ''https://github.com/nmap/nmap'')
           ''https://nmap.org/book/man.html'' ''Nmap Project'',
         ce_license = ''NPSL (Nmap Public Source License)'',
         ce_installation_method = ''OS package manager / official installer'',
         ce_risk_level = Risk_MEDIUM\<rparr>]),
      (''web'',
       [\<lparr>ce_name = ''curl'', ce_display_name = ''curl'',
         ce_description = ''Command-line tool for transferring data with URLs.'',
         ce_category = WEB_API_TESTING, ce_capabilities = [''http_request'', ''api_testing''],
         ce_supported_platforms = [''LINUX'', ''MACOS'', ''WINDOWS''],
         ce_provenance = official_site t0 ''https://curl.se/'' (Some ''https://github.com/curl/curl'')
           ''https://curl.se/docs/'' ''curl project (Daniel Stenberg et al.)'',
         ce_license = ''MIT-style (curl license)'',
         ce_installation_method = ''Bundled with most OSes / package manager'',
         ce_risk_level = Risk_LOW\<rparr>])]"

definition entry_matches :: "string \<Rightarrow> string \<Rightarrow> catalog_entry \<Rightarrow> bool" where
  "entry_matches needle keyword e =
     (let haystack = lower (join '' '' ([ce_name e, ce_description e] @ ce_capabilities e @ [keyword]))
      in needle = [] \<or> str_in needle haystack \<or> str_in keyword needle)"

definition candidate_of :: "string \<Rightarrow> uuid \<Rightarrow> catalog_entry \<Rightarrow> tool_candidate" where
  "candidate_of capability i e =
     \<lparr>cd_id = i, cd_name = ce_name e, cd_display_name = ce_display_name e,
      cd_description = ce_description e, cd_category = ce_category e,
      cd_capabilities = ce_capabilities e, cd_supported_platforms = ce_supported_platforms e,
      cd_provenance = ce_provenance e, cd_version = None, cd_license = Some (ce_license e),
      cd_installation_method = Some (ce_installation_method e), cd_dependencies = [],
      cd_required_permissions = [], cd_risk_level = ce_risk_level e,
      cd_capability_requested = capability,
      cd_selection_rationale = ''Declares capabilities '' @ show_tuple (ce_capabilities e) @
        '' matching the requested capability '' @ quoted capability @ ''; sourced from '' @
        source_type_value (pv_source_type (ce_provenance e)) @ '' ('' @
        ostr_show (pv_source_url (ce_provenance e)) @ '').'',
      cd_verification = empty_report\<rparr>"

definition catalog_pairs :: "time \<Rightarrow> (string \<times> catalog_entry) list" where
  "catalog_pairs t0 = concat (map (\<lambda>(k, es). map (\<lambda>e. (k, e)) es) (CURATED_CATALOG t0))"

fun collect_matches ::
    "string \<Rightarrow> string \<Rightarrow> (string \<times> catalog_entry) list \<Rightarrow> ('m runtime_scheme, tool_candidate list) prog" where
  "collect_matches capability needle [] = ret []"
| "collect_matches capability needle ((k, e) # es) =
     (if entry_matches needle k e then
        bnd uuid4 (\<lambda>i. bnd (collect_matches capability needle es) (\<lambda>cs.
          ret (candidate_of capability i e # cs)))
      else collect_matches capability needle es)"

fun unique_by_name :: "string list \<Rightarrow> tool_candidate list \<Rightarrow> tool_candidate list" where
  "unique_by_name seen [] = []"
| "unique_by_name seen (c # cs) =
     (if cd_name c \<in> set seen then unique_by_name seen cs
      else c # unique_by_name (cd_name c # seen) cs)"

definition curated_search :: "time \<Rightarrow> string \<Rightarrow> ('m runtime_scheme, tool_candidate list) prog" where
  "curated_search t0 capability =
     bnd (collect_matches capability (lower (strip capability)) (catalog_pairs t0))
       (\<lambda>cs. ret (unique_by_name [] cs))"

section \<open>Discovery\<close>

record discovery_config =
  dc_cache_ttl :: time
  dc_min_between_provider_calls :: time

definition default_discovery_config :: discovery_config where
  "default_discovery_config =
     \<lparr>dc_cache_ttl = seconds 300, dc_min_between_provider_calls = seconds 1\<rparr>"

definition monotonic :: "('m disc_w_scheme, time) prog" where
  "monotonic w = (let t = td_mono w + int (td_lag w (td_reads w))
     in (Inr t, w\<lparr>td_mono := t, td_reads := Suc (td_reads w)\<rparr>))"

definition sleep :: "time \<Rightarrow> ('m disc_w_scheme, unit) prog" where
  "sleep d = modify (\<lambda>w. w\<lparr>td_mono := td_mono w + d + int (td_lag w (td_reads w)),
     td_reads := Suc (td_reads w)\<rparr>)"

definition note_call :: "('m disc_w_scheme, unit) prog" where
  "note_call = modify (\<lambda>w. w\<lparr>td_calls := td_calls w @ [td_mono w]\<rparr>)"

definition normalize_capability :: "string \<Rightarrow> string" where
  "normalize_capability capability = join '' '' (split_ws (lower (strip capability)))"

definition min_wait :: "discovery_config \<Rightarrow> time \<Rightarrow> time \<Rightarrow> time" where
  "min_wait cfg last_call t = max 0 (dc_min_between_provider_calls cfg - (t - last_call))"

definition fresh_cached ::
    "string \<Rightarrow> time \<Rightarrow> 'm disc_w_scheme \<Rightarrow> tool_candidate list option" where
  "fresh_cached key t w = (case map_of (td_cache w) key of
     Some (cs, expires_at) \<Rightarrow> if expires_at > t then Some cs else None | None \<Rightarrow> None)"

definition emit_discovered :: "string \<Rightarrow> tool_candidate \<Rightarrow> ('m audit_w_scheme, unit) prog" where
  "emit_discovered capability c = tool_emit ''tool.discovered''
     [(''candidate_name'', PStr (cd_name c)), (''capability_requested'', PStr capability),
      (''source_type'', PStr (source_type_value (pv_source_type (cd_provenance c))))]"

definition query_provider ::
    "(string \<Rightarrow> ('m disc_w_scheme, tool_candidate list) prog) \<Rightarrow> discovery_config \<Rightarrow> string \<Rightarrow>
     string \<Rightarrow> time \<Rightarrow> ('m disc_w_scheme, tool_candidate list) prog" where
  "query_provider provider cfg capability key t =
     bnd (gets (\<lambda>w. min_wait cfg (td_last_provider_call_at w) t)) (\<lambda>wait.
     sq (if wait > 0 then sleep wait else ret ())
     (sq note_call
     (bnd (provider capability) (\<lambda>candidates.
      bnd monotonic (\<lambda>t_end.
      sq (modify (\<lambda>w. w\<lparr>td_last_provider_call_at := t_end,
            td_cache := dset key (candidates, t_end + dc_cache_ttl cfg) (td_cache w)\<rparr>))
      (sq (for_each (emit_discovered capability) candidates) (ret candidates)))))))"

definition discover ::
    "(string \<Rightarrow> ('m disc_w_scheme, tool_candidate list) prog) \<Rightarrow> discovery_config \<Rightarrow> string \<Rightarrow>
     ('m disc_w_scheme, tool_candidate list) prog" where
  "discover provider cfg capability =
     (let key = normalize_capability capability in
      if key = [] then ret []
      else
        bnd monotonic (\<lambda>t1.
        bnd (gets (fresh_cached key t1)) (\<lambda>cached.
        case cached of Some cs \<Rightarrow> ret cs
        | None \<Rightarrow>
            bnd monotonic (\<lambda>t2.
            bnd (gets (fresh_cached key t2)) (\<lambda>cached.
            case cached of Some cs \<Rightarrow> ret cs
            | None \<Rightarrow> query_provider provider cfg capability key t2)))))"

definition clear_cache :: "('m disc_w_scheme, unit) prog" where
  "clear_cache = modify (\<lambda>w. w\<lparr>td_cache := []\<rparr>)"

section \<open>Proposals\<close>

record selection_proposal =
  sp_required_capability :: string
  sp_candidates :: "tool_candidate list"
  sp_reason :: string
  sp_expected_platforms :: "string list"
  sp_expected_dependencies :: "string list"
  sp_verification_requirements :: "string list"

definition build_tool_selection_proposal :: "string \<Rightarrow> tool_candidate list \<Rightarrow> selection_proposal" where
  "build_tool_selection_proposal capability candidates =
     \<lparr>sp_required_capability = capability, sp_candidates = candidates,
      sp_reason = (if candidates \<noteq> [] then
          ''Found '' @ show_nat (length candidates) @
          '' candidate(s) declaring capabilities relevant to '' @ quoted capability @ ''.''
        else ''No known candidates declare a capability matching '' @ quoted capability @ ''.''),
      sp_expected_platforms = sorted_set (concat (map cd_supported_platforms candidates)),
      sp_expected_dependencies = sorted_set (concat (map cd_dependencies candidates)),
      sp_verification_requirements =
        [''source_provenance'', ''license'', ''platform_compatibility'', ''security_policy_review'']\<rparr>"

definition to_public_dict :: "selection_proposal \<Rightarrow> (string \<times> pyval) list" where
  "to_public_dict p =
     [(''requiredCapability'', PStr (sp_required_capability p)),
      (''reason'', PStr (sp_reason p)),
      (''expectedPlatforms'', p_strs (sp_expected_platforms p)),
      (''expectedDependencies'', p_strs (sp_expected_dependencies p)),
      (''verificationRequirements'', p_strs (sp_verification_requirements p)),
      (''candidateNames'', p_strs (map cd_name (sp_candidates p)))]"

section \<open>What discovery guarantees\<close>

lemma collect_matches_frame:
  "\<exists>cs n. collect_matches capability needle es w = (Inr cs, w\<lparr>rt_uuids := n\<rparr>)"
proof (induction capability needle es arbitrary: w rule: collect_matches.induct)
  case (1 capability needle)
  show ?case by (rule exI [of _ "[]"], rule exI [of _ "rt_uuids w"]) (simp add: ret_def)
next
  case (2 capability needle k e es)
  show ?case
  proof (cases "entry_matches needle k e")
    case True
    obtain cs n where "collect_matches capability needle es (w\<lparr>rt_uuids := Suc (rt_uuids w)\<rparr>) =
        (Inr cs, w\<lparr>rt_uuids := n\<rparr>)"
      using "2.IH"(1) [OF True, of "w\<lparr>rt_uuids := Suc (rt_uuids w)\<rparr>"] by auto
    then show ?thesis
      using True by (auto simp: bnd_eq [where m = "collect_matches capability needle es"] ret_def)
  next
    case False
    then show ?thesis using "2.IH"(2) [OF False] by simp
  qed
qed

lemma curated_search_frame:
  "\<exists>cs n. curated_search t0 capability w = (Inr cs, w\<lparr>rt_uuids := n\<rparr>)"
proof -
  obtain cs n where "collect_matches capability (lower (strip capability)) (catalog_pairs t0) w =
      (Inr cs, w\<lparr>rt_uuids := n\<rparr>)"
    using collect_matches_frame by blast
  then show ?thesis
    by (auto simp: curated_search_def ret_def
        bnd_eq [where m = "collect_matches capability (lower (strip capability)) (catalog_pairs t0)"])
qed

lemma emit_all_frame:
  "\<exists>w'. for_each (emit_discovered capability) cs w = (Inr (), w') \<and>
     td_mono w' = td_mono w \<and> td_calls w' = td_calls w \<and> td_cache w' = td_cache w \<and>
     td_last_provider_call_at w' = td_last_provider_call_at w \<and> td_reads w' = td_reads w \<and>
     td_lag w' = td_lag w"
  for w :: "'m disc_w_scheme"
proof (induction cs arbitrary: w)
  case Nil
  then show ?case by (simp add: ret_def)
next
  case (Cons c cs)
  obtain w1 where "emit_discovered capability c w = (Inr (), w1)" "td_mono w1 = td_mono w"
      "td_calls w1 = td_calls w" "td_cache w1 = td_cache w" "td_reads w1 = td_reads w"
      "td_last_provider_call_at w1 = td_last_provider_call_at w" "td_lag w1 = td_lag w"
    by (simp add: emit_discovered_def tool_emit_def)
  then show ?case
    using Cons.IH [of w1] by (auto simp: sq_eq [where m = "emit_discovered capability c"])
qed

lemma bnd_monotonic [simp]:
  "bnd monotonic f w = f (td_mono w + int (td_lag w (td_reads w)))
     (w\<lparr>td_mono := td_mono w + int (td_lag w (td_reads w)), td_reads := Suc (td_reads w)\<rparr>)"
  by (simp add: bnd_def monotonic_def Let_def)

text \<open>A query of the curated provider, run at a moment \<open>t\<close> that is not in the future.\<close>

lemma query_curated:
  assumes "t \<le> td_mono w"
  shows "\<exists>cs w' start. query_provider (curated_search t0) cfg capability key t w = (Inr cs, w') \<and>
    td_calls w' = td_calls w @ [start] \<and>
    td_last_provider_call_at w + dc_min_between_provider_calls cfg \<le> start \<and>
    start \<le> td_last_provider_call_at w' \<and> td_last_provider_call_at w' = td_mono w' \<and>
    td_cache w' = dset key (cs, td_mono w' + dc_cache_ttl cfg) (td_cache w)"
proof -
  define d where "d = min_wait cfg (td_last_provider_call_at w) t"
  define w1 where "w1 = (if d > 0 then w\<lparr>td_mono := td_mono w + d + int (td_lag w (td_reads w)),
     td_reads := Suc (td_reads w)\<rparr> else w)"
  have start: "td_last_provider_call_at w + dc_min_between_provider_calls cfg \<le> td_mono w1"
    using assms by (auto simp: w1_def d_def min_wait_def)
  have kept: "td_calls w1 = td_calls w" "td_cache w1 = td_cache w"
    by (auto simp: w1_def)
  obtain cs n where cs: "curated_search t0 capability (w1\<lparr>td_calls := td_calls w1 @ [td_mono w1]\<rparr>) =
      (Inr cs, w1\<lparr>td_calls := td_calls w1 @ [td_mono w1], rt_uuids := n\<rparr>)"
    using curated_search_frame [of t0 capability "w1\<lparr>td_calls := td_calls w1 @ [td_mono w1]\<rparr>"] by auto
  let ?t = "td_mono w1 + int (td_lag w1 (td_reads w1))"
  let ?w2 = "w1\<lparr>td_calls := td_calls w1 @ [td_mono w1], rt_uuids := n, td_mono := ?t,
     td_reads := Suc (td_reads w1), td_last_provider_call_at := ?t,
     td_cache := dset key (cs, ?t + dc_cache_ttl cfg) (td_cache w1)\<rparr>"
  obtain w3 where w3: "for_each (emit_discovered capability) cs ?w2 = (Inr (), w3)"
    "td_mono w3 = td_mono ?w2" "td_calls w3 = td_calls ?w2" "td_cache w3 = td_cache ?w2"
    "td_last_provider_call_at w3 = td_last_provider_call_at ?w2"
    using emit_all_frame [of capability cs ?w2] by blast
  have "query_provider (curated_search t0) cfg capability key t w = (Inr cs, w3)"
    using cs w3(1)
    by (simp add: query_provider_def note_call_def sleep_def d_def [symmetric] w1_def ret_def
        bnd_eq [where m = "curated_search t0 capability"] sq_eq [where m = "for_each (emit_discovered capability) cs"]
        split: if_splits)
  then show ?thesis using w3 start kept by simp
qed

text \<open>
  Discovery does not crawl: one call of \<^verbatim>\<open>discover\<close> calls the research provider at most once,
  never sooner than the configured interval after the previous call returned; and when it does, it
  remembers the answer until the time to live has passed.
\<close>

theorem discover_throttled:
  "\<exists>cs w'. discover (curated_search t0) cfg capability w = (Inr cs, w') \<and>
    (td_calls w' = td_calls w \<and> td_last_provider_call_at w' = td_last_provider_call_at w \<or>
     (\<exists>start. td_calls w' = td_calls w @ [start] \<and>
        td_last_provider_call_at w + dc_min_between_provider_calls cfg \<le> start \<and>
        start \<le> td_last_provider_call_at w' \<and>
        map_of (td_cache w') (normalize_capability capability) =
          Some (cs, td_last_provider_call_at w' + dc_cache_ttl cfg)))"
proof (cases "normalize_capability capability = []")
  case True
  then show ?thesis by (simp add: discover_def ret_def Let_def)
next
  case False
  define t1 where "t1 = td_mono w + int (td_lag w (td_reads w))"
  define w1 where "w1 = w\<lparr>td_mono := t1, td_reads := Suc (td_reads w)\<rparr>"
  show ?thesis
  proof (cases "fresh_cached (normalize_capability capability) t1 w1")
    case (Some cs)
    then show ?thesis
      using False by (simp add: discover_def Let_def ret_def t1_def [symmetric] w1_def [symmetric])
        (simp add: w1_def)
  next
    case None
    define t2 where "t2 = td_mono w1 + int (td_lag w1 (td_reads w1))"
    define w2 where "w2 = w1\<lparr>td_mono := t2, td_reads := Suc (td_reads w1)\<rparr>"
    have step: "discover (curated_search t0) cfg capability w =
        (case fresh_cached (normalize_capability capability) t2 w2 of Some cs \<Rightarrow> ret cs
         | None \<Rightarrow> query_provider (curated_search t0) cfg capability (normalize_capability capability) t2) w2"
      using False None
      by (simp add: discover_def Let_def t1_def [symmetric] w1_def [symmetric] t2_def [symmetric]
          w2_def [symmetric] split: option.splits)
    have same: "td_calls w2 = td_calls w" "td_last_provider_call_at w2 = td_last_provider_call_at w"
      by (auto simp: w2_def w1_def)
    show ?thesis
    proof (cases "fresh_cached (normalize_capability capability) t2 w2")
      case (Some cs)
      then show ?thesis using step same by (simp add: ret_def)
    next
      case None
      have "t2 \<le> td_mono w2" by (simp add: w2_def)
      from query_curated [OF this, of t0 cfg capability "normalize_capability capability"]
      show ?thesis using step None same by (auto simp: map_of_update)
    qed
  qed
qed

text \<open>
  A repeated question is answered from the cache: while an entry for the normalized capability
  has not expired, any spelling of the capability that normalizes to it gets the stored candidates,
  and the provider is not called.
\<close>

theorem discover_cached:
  assumes "map_of (td_cache w) (normalize_capability capability) = Some (cs, expires_at)"
    and "normalize_capability capability \<noteq> []"
    and "td_mono w + int (td_lag w (td_reads w)) < expires_at"
  shows "\<exists>w'. discover provider cfg capability w = (Inr cs, w') \<and> td_calls w' = td_calls w \<and>
    audit_log w' = audit_log w"
  using assms by (simp add: discover_def fresh_cached_def ret_def Let_def)

theorem discover_cached_witness:
  "\<exists>w'. discover (curated_search 0) default_discovery_config '' DNS''
      ((sample_tools_w [])\<lparr>td_cache := [(''dns'', [], 5)]\<rparr>) = (Inr [], w')"
proof -
  have "normalize_capability '' DNS'' = ''dns''"
    by code_simp
  then show ?thesis
    using discover_cached [of "(sample_tools_w [])\<lparr>td_cache := [(''dns'', [], 5)]\<rparr>" "'' DNS''" "[]" 5
        "curated_search 0" default_discovery_config]
    by (auto simp: sample_tools_w_def)
qed

section \<open>Proposals\<close>

lemma str_less_trans: "str_less x y \<Longrightarrow> str_less y z \<Longrightarrow> str_less x z"
proof (induction x y arbitrary: z rule: str_less.induct)
  case (4 a x b y)
  then show ?case by (cases z) auto
qed (auto elim: str_less.elims)

lemma str_less_total: "x \<noteq> y \<Longrightarrow> \<not> str_less x y \<Longrightarrow> str_less y x"
proof (induction x y rule: str_less.induct)
  case (4 a x b y)
  have "byte a = byte b \<Longrightarrow> a = b" by (metis char_of_char)
  then show ?case using 4 by auto
qed auto

lemma insert_sorted_set: "set (insert_sorted x ys) = insert x (set ys)"
  by (induction ys) auto

lemma insert_sorted_sorted: "sorted_wrt str_less ys \<Longrightarrow> sorted_wrt str_less (insert_sorted x ys)"
proof (induction ys)
  case (Cons y ys)
  then show ?case
    using str_less_total [of x y] by (auto simp: insert_sorted_set intro: str_less_trans)
qed simp

lemma sorted_set_props:
  "set (sorted_set xs) = set xs" "sorted_wrt str_less (sorted_set xs)"
  by (induction xs) (auto simp: sorted_set_def insert_sorted_set insert_sorted_sorted)

text \<open>
  A proposal carries every discovered candidate, and exactly the platforms and dependencies
  that some candidate declares, each once and in strictly increasing order.
\<close>

theorem proposal_faithful:
  "sp_candidates (build_tool_selection_proposal capability cs) = cs \<and>
   set (sp_expected_platforms (build_tool_selection_proposal capability cs)) =
     (\<Union>c \<in> set cs. set (cd_supported_platforms c)) \<and>
   sorted_wrt str_less (sp_expected_platforms (build_tool_selection_proposal capability cs)) \<and>
   set (sp_expected_dependencies (build_tool_selection_proposal capability cs)) =
     (\<Union>c \<in> set cs. set (cd_dependencies c)) \<and>
   sorted_wrt str_less (sp_expected_dependencies (build_tool_selection_proposal capability cs))"
  by (simp add: build_tool_selection_proposal_def sorted_set_props)

end
