(* ===== verification/Pystd.thy ===== *)
theory Pystd
  imports Effects
begin

text \<open>
  The parts of the Python library the agent's texts use: \<^verbatim>\<open>repr\<close> and fixed formatting of floats,
  \<^verbatim>\<open>isoformat\<close> of a time in UTC, \<^verbatim>\<open>str\<close> and \<^verbatim>\<open>repr\<close> of plain data.  A float is its exact
  value; infinities, subnormal numbers and overflow do not occur in these texts.
\<close>

section \<open>Floats\<close>

definition round_even :: "rat \<Rightarrow> int" where
  "round_even r =
     (let f = \<lfloor>r\<rfloor>; d = r - of_int f
      in if d < 1 / 2 then f else if 1 / 2 < d then f + 1 else if even f then f else f + 1)"

text \<open>\<^verbatim>\<open>f"{x:.1f}"\<close> and \<^verbatim>\<open>int(x)\<close>.\<close>

definition fixed1 :: "rat \<Rightarrow> string" where
  "fixed1 r = (let n = round_even (10 * \<bar>r\<bar>)
     in (if r < 0 then ''-'' else []) @ show_int (n div 10) @ ''.'' @ show_int (n mod 10))"

definition py_trunc :: "rat \<Rightarrow> int" where
  "py_trunc r = (if r < 0 then \<lceil>r\<rceil> else \<lfloor>r\<rfloor>)"

fun bit_len :: "nat \<Rightarrow> nat" where
  "bit_len n = (if n = 0 then 0 else Suc (bit_len (n div 2)))"

declare bit_len.simps [simp del]

definition scale :: "rat \<Rightarrow> int \<Rightarrow> rat" where
  "scale b e = (if 0 \<le> e then b ^ nat e else 1 / b ^ nat (- e))"

text \<open>The exponents of a positive number: \<open>2\<^sup>e \<le> x < 2\<^sup>e\<^sup>+\<^sup>1\<close>, and the same for ten.\<close>

definition bin_exp :: "rat \<Rightarrow> int" where
  "bin_exp x = (if 1 \<le> x then int (bit_len (nat \<lfloor>x\<rfloor>)) - 1 else - int (bit_len (nat (\<lceil>1 / x\<rceil> - 1))))"

definition dec_exp :: "rat \<Rightarrow> int" where
  "dec_exp x = (if 1 \<le> x then int (length (show_nat (nat \<lfloor>x\<rfloor>))) - 1
     else - int (length (show_nat (nat (\<lceil>1 / x\<rceil> - 1)))))"

definition to_double :: "rat \<Rightarrow> rat" where
  "to_double x = (let q = scale 2 (bin_exp x - 52) in of_int (round_even (x / q)) * q)"

text \<open>The shortest decimal that reads back as the number: its digits and where the point stands.\<close>

definition decimal_of :: "rat \<Rightarrow> nat \<Rightarrow> int \<times> int" where
  "decimal_of x k = (let e = dec_exp x - int k + 1 in (round_even (x / scale 10 e), e))"

definition shortest :: "rat \<Rightarrow> string \<times> int" where
  "shortest x =
     (let reads = (\<lambda>k. case decimal_of x k of (n, e) \<Rightarrow> to_double (of_int n * scale 10 e) = x);
          k = (case find reads [1..<18] of Some k \<Rightarrow> k | None \<Rightarrow> 17)
      in case decimal_of x k of (n, e) \<Rightarrow>
        let ds = show_int n
        in (rev (dropWhile (\<lambda>c. c = CHR ''0'') (rev ds)), e + int (length ds)))"

definition zeros :: "nat \<Rightarrow> string" where
  "zeros k = replicate k (CHR ''0'')"

definition float_digits :: "string \<Rightarrow> int \<Rightarrow> string" where
  "float_digits ds p =
     (if - 4 < p \<and> p \<le> 16 then
        if p \<le> 0 then ''0.'' @ zeros (nat (- p)) @ ds
        else if int (length ds) \<le> p then ds @ zeros (nat p - length ds) @ ''.0''
        else take (nat p) ds @ ''.'' @ drop (nat p) ds
      else take 1 ds @ (if length ds \<le> 1 then [] else ''.'' @ drop 1 ds) @ ''e'' @
        (if p - 1 < 0 then ''-'' else ''+'') @
        (let e = show_int \<bar>p - 1\<bar> in if length e < 2 then ''0'' @ e else e))"

definition float_repr :: "rat \<Rightarrow> string" where
  "float_repr r =
     (if r = 0 then ''0.0''
      else (if r < 0 then ''-'' else []) @ (case shortest \<bar>r\<bar> of (ds, p) \<Rightarrow> float_digits ds p))"

section \<open>Times\<close>

text \<open>The civil date of a day counted from 1970-01-01, by eras of 400 years from 0000-03-01.\<close>

definition civil :: "int \<Rightarrow> int \<times> int \<times> int" where
  "civil days =
     (let z = days + 719468;
          era = z div 146097;
          doe = z mod 146097;
          yoe = (doe - doe div 1460 + doe div 36524 - doe div 146096) div 365;
          doy = doe - (365 * yoe + yoe div 4 - yoe div 100);
          mp = (5 * doy + 2) div 153;
          d = doy - (153 * mp + 2) div 5 + 1;
          m = (if mp < 10 then mp + 3 else mp - 9)
      in (yoe + era * 400 + (if m \<le> 2 then 1 else 0), m, d))"

definition pad :: "nat \<Rightarrow> int \<Rightarrow> string" where
  "pad k i = (let s = show_int i in zeros (k - length s) @ s)"

definition isoformat :: "int \<Rightarrow> string" where
  "isoformat t =
     (let day = 86400000000; us = t mod day
      in case civil (t div day) of (y, m, d) \<Rightarrow>
        pad 4 y @ ''-'' @ pad 2 m @ ''-'' @ pad 2 d @ ''T'' @
        pad 2 (us div 3600000000) @ '':'' @ pad 2 (us div 60000000 mod 60) @ '':'' @
        pad 2 (us div 1000000 mod 60) @
        (if us mod 1000000 = 0 then [] else ''.'' @ pad 6 (us mod 1000000)) @ ''+00:00'')"

section \<open>Plain data as text\<close>

fun py_repr_val :: "pyval \<Rightarrow> string" where
  "py_repr_val PNone = ''None''"
| "py_repr_val (PBool b) = (if b then ''True'' else ''False'')"
| "py_repr_val (PInt i) = show_int i"
| "py_repr_val (PFloat r) = float_repr r"
| "py_repr_val (PStr s) = py_repr s"
| "py_repr_val (PList xs) = ''['' @ join '', '' (map py_repr_val xs) @ '']''"
| "py_repr_val (PDict d) =
     ''{'' @ join '', '' (map (\<lambda>kv. py_repr (fst kv) @ '': '' @ py_repr_val (snd kv)) d) @ ''}''"

definition py_str :: "pyval \<Rightarrow> string" where
  "py_str v = (case v of PStr s \<Rightarrow> s | _ \<Rightarrow> py_repr_val v)"

definition p_otime :: "int option \<Rightarrow> pyval" where
  "p_otime x = (case x of None \<Rightarrow> PNone | Some t \<Rightarrow> PStr (isoformat t))"

end
