(* ===== verification/Pairing.thy ===== *)
theory Pairing
  imports Tool_Discovery Pystd
begin

text \<open>
  \<^verbatim>\<open>services/termux/models.py\<close>, \<open>pairing.py\<close> and the routes of
  \<^verbatim>\<open>apps/api/app/api/routes/termux.py\<close>: the devices, their pairing codes and their credentials.
  SHA-256 and the random strings of \<^verbatim>\<open>secrets\<close> are parameters of the world.
\<close>

section \<open>Devices\<close>

datatype device_state =
    Dev_UNREGISTERED | Dev_PAIRING_REQUIRED | Dev_PAIRING | Dev_AUTHORIZED | Dev_CONNECTED
  | Dev_DISCONNECTED | Dev_RECONNECTING | Dev_REVOKED

fun device_state_value :: "device_state \<Rightarrow> string" where
  "device_state_value Dev_UNREGISTERED = ''UNREGISTERED''"
| "device_state_value Dev_PAIRING_REQUIRED = ''PAIRING_REQUIRED''"
| "device_state_value Dev_PAIRING = ''PAIRING''"
| "device_state_value Dev_AUTHORIZED = ''AUTHORIZED''"
| "device_state_value Dev_CONNECTED = ''CONNECTED''"
| "device_state_value Dev_DISCONNECTED = ''DISCONNECTED''"
| "device_state_value Dev_RECONNECTING = ''RECONNECTING''"
| "device_state_value Dev_REVOKED = ''REVOKED''"

datatype termux_capability =
  Cap_TERMINAL_EXECUTION | Cap_FILESYSTEM_ACCESS | Cap_NETWORK_TOOLS | Cap_PACKAGE_MANAGER | Cap_BLUETOOTH_INTERFACE

fun capability_value :: "termux_capability \<Rightarrow> string" where
  "capability_value Cap_TERMINAL_EXECUTION = ''terminal_execution''"
| "capability_value Cap_FILESYSTEM_ACCESS = ''filesystem_access''"
| "capability_value Cap_NETWORK_TOOLS = ''network_tools''"
| "capability_value Cap_PACKAGE_MANAGER = ''package_manager''"
| "capability_value Cap_BLUETOOTH_INTERFACE = ''bluetooth_interface''"

definition ACTIVE_STATES :: "device_state list" where
  "ACTIVE_STATES = [Dev_AUTHORIZED, Dev_CONNECTED, Dev_DISCONNECTED, Dev_RECONNECTING]"

text \<open>The capabilities are a frozen set; here the list of what was declared.\<close>

record termux_device =
  dv_id :: uuid
  dv_name :: string
  dv_platform :: string
  dv_connector_version :: "string option"
  dv_capabilities :: "termux_capability list"
  dv_state :: device_state
  dv_registered_at :: time
  dv_last_seen_at :: "time option"
  dv_revoked_at :: "time option"

definition is_active_credential :: "termux_device \<Rightarrow> bool" where
  "is_active_credential d \<longleftrightarrow> dv_state d \<in> set ACTIVE_STATES"

definition device_public_dict :: "termux_device \<Rightarrow> (string \<times> pyval) list" where
  "device_public_dict d =
     [(''id'', PStr (uuid_str (dv_id d))), (''name'', PStr (dv_name d)),
      (''platform'', PStr (dv_platform d)), (''connectorVersion'', p_ostr (dv_connector_version d)),
      (''capabilities'', p_strs (sorted_set (map capability_value (dv_capabilities d)))),
      (''state'', PStr (device_state_value (dv_state d))),
      (''registeredAt'', PStr (isoformat (dv_registered_at d))),
      (''lastSeenAt'', p_otime (dv_last_seen_at d)), (''revokedAt'', p_otime (dv_revoked_at d))]"

section \<open>The pairing service\<close>

definition DEVICE_REGISTERED :: string where "DEVICE_REGISTERED = ''termux.device.registered''"
definition DEVICE_PAIRED :: string where "DEVICE_PAIRED = ''termux.device.paired''"
definition DEVICE_AUTH_FAILED :: string where "DEVICE_AUTH_FAILED = ''termux.device.authentication_failed''"
definition DEVICE_REVOKED :: string where "DEVICE_REVOKED = ''termux.device.revoked''"
definition DEVICE_CONNECTED :: string where "DEVICE_CONNECTED = ''termux.device.connected''"
definition DEVICE_DISCONNECTED :: string where "DEVICE_DISCONNECTED = ''termux.device.disconnected''"

record pending_pairing =
  pp_code_hash :: string
  pp_expires_at :: time

record pair_w = audit_w +
  pr_hash :: "string \<Rightarrow> string"
  pr_secret :: "nat \<Rightarrow> nat \<Rightarrow> string"
  pr_secrets :: nat
  pr_ttl_seconds :: int
  pr_devices :: "(uuid \<times> termux_device) list"
  pr_pending :: "(uuid \<times> pending_pairing) list"
  pr_token_hashes :: "(uuid \<times> string) list"

definition PAIRING_CODE_BYTES :: nat where "PAIRING_CODE_BYTES = 6"
definition DEVICE_TOKEN_BYTES :: nat where "DEVICE_TOKEN_BYTES = 32"

definition token_urlsafe :: "nat \<Rightarrow> ('m pair_w_scheme, string) prog" where
  "token_urlsafe n w = (Inr (pr_secret w (pr_secrets w) n), w\<lparr>pr_secrets := Suc (pr_secrets w)\<rparr>)"

definition device_emit ::
    "string \<Rightarrow> termux_device \<Rightarrow> (string \<times> pyval) list \<Rightarrow> ('m pair_w_scheme, unit) prog" where
  "device_emit t d data = audit_emit t None None None
     ([(''device_id'', PStr (uuid_str (dv_id d))), (''state'', PStr (device_state_value (dv_state d)))] @ data)"

definition put_device :: "termux_device \<Rightarrow> ('m pair_w_scheme, unit) prog" where
  "put_device d = modify (\<lambda>w. w\<lparr>pr_devices := dset (dv_id d) d (pr_devices w)\<rparr>)"

definition new_device :: "uuid \<Rightarrow> string \<Rightarrow> string option \<Rightarrow> termux_capability list \<Rightarrow> time \<Rightarrow> termux_device" where
  "new_device i name version capabilities registered =
     \<lparr>dv_id = i, dv_name = name, dv_platform = ''ANDROID_TERMUX'', dv_connector_version = version,
      dv_capabilities = capabilities, dv_state = Dev_PAIRING_REQUIRED, dv_registered_at = registered,
      dv_last_seen_at = None, dv_revoked_at = None\<rparr>"

definition register_device ::
    "string \<Rightarrow> string option \<Rightarrow> termux_capability list \<Rightarrow> ('m pair_w_scheme, termux_device \<times> string) prog" where
  "register_device name version capabilities =
     bnd uuid4 (\<lambda>i. bnd now (\<lambda>registered.
     let d = new_device i name version capabilities registered
     in sq (put_device d)
        (bnd (token_urlsafe PAIRING_CODE_BYTES) (\<lambda>raw_code. bnd now (\<lambda>t.
         sq (modify (\<lambda>w. w\<lparr>pr_pending := dset i
               \<lparr>pp_code_hash = pr_hash w raw_code, pp_expires_at = t + seconds (pr_ttl_seconds w)\<rparr> (pr_pending w)\<rparr>))
            (sq (device_emit DEVICE_REGISTERED d [(''name'', PStr name)])
                (ret (d, raw_code))))))))"

definition require_device :: "uuid \<Rightarrow> ('m pair_w_scheme, termux_device) prog" where
  "require_device i =
     bnd (gets (\<lambda>w. map_of (pr_devices w) i)) (\<lambda>found. case found of
       None \<Rightarrow> raise (TermuxConnectorError TX_DEVICE_NOT_REGISTERED
         (''Device '' @ uuid_str i @ '' is not registered.''))
     | Some d \<Rightarrow> ret d)"

definition confirm_pairing :: "uuid \<Rightarrow> string \<Rightarrow> ('m pair_w_scheme, termux_device \<times> string) prog" where
  "confirm_pairing i pairing_code =
     bnd (require_device i) (\<lambda>d.
     bnd (gets (\<lambda>w. map_of (pr_pending w) i)) (\<lambda>pending. case pending of
       None \<Rightarrow> raise (TermuxConnectorError TX_PAIRING_CODE_INVALID ''No pairing is pending for this device.'')
     | Some p \<Rightarrow>
         bnd now (\<lambda>t.
         if pp_expires_at p < t then
           sq (modify (\<lambda>w. w\<lparr>pr_pending := ddel i (pr_pending w)\<rparr>))
              (raise (TermuxConnectorError TX_PAIRING_CODE_EXPIRED ''The pairing code has expired; register again.''))
         else
           bnd (gets (\<lambda>w. pr_hash w pairing_code)) (\<lambda>h.
           if pp_code_hash p \<noteq> h then
             raise (TermuxConnectorError TX_PAIRING_CODE_INVALID ''The pairing code is incorrect.'')
           else
             sq (modify (\<lambda>w. w\<lparr>pr_pending := ddel i (pr_pending w)\<rparr>))
             (bnd (token_urlsafe DEVICE_TOKEN_BYTES) (\<lambda>raw_token.
              sq (modify (\<lambda>w. w\<lparr>pr_token_hashes := dset i (pr_hash w raw_token) (pr_token_hashes w)\<rparr>))
              (bnd now (\<lambda>t.
               let d' = d\<lparr>dv_state := Dev_AUTHORIZED, dv_last_seen_at := Some t\<rparr>
               in sq (put_device d') (sq (device_emit DEVICE_PAIRED d' []) (ret (d', raw_token)))))))))))"

definition authenticate :: "uuid \<Rightarrow> string \<Rightarrow> ('m pair_w_scheme, termux_device) prog" where
  "authenticate i device_token =
     bnd (require_device i) (\<lambda>d.
     if dv_state d = Dev_REVOKED then
       raise (TermuxConnectorError TX_REVOKED_DEVICE (''This device'' @ [CHR 0x27] @ ''s credentials have been revoked.''))
     else
       bnd (gets (\<lambda>w. (map_of (pr_token_hashes w) i, pr_hash w device_token))) (\<lambda>(stored, h).
       if stored \<noteq> Some h then
         sq (device_emit DEVICE_AUTH_FAILED d [])
            (raise (TermuxConnectorError TX_AUTHENTICATION_FAILED ''Device authentication failed.''))
       else ret d))"

definition revoke_device :: "uuid \<Rightarrow> ('m pair_w_scheme, termux_device) prog" where
  "revoke_device i =
     bnd (require_device i) (\<lambda>d. bnd now (\<lambda>t.
     let d' = d\<lparr>dv_state := Dev_REVOKED, dv_revoked_at := Some t\<rparr>
     in sq (put_device d')
        (sq (modify (\<lambda>w. w\<lparr>pr_token_hashes := ddel i (pr_token_hashes w), pr_pending := ddel i (pr_pending w)\<rparr>))
        (sq (device_emit DEVICE_REVOKED d' []) (ret d')))))"

definition mark_connected :: "uuid \<Rightarrow> ('m pair_w_scheme, termux_device) prog" where
  "mark_connected i =
     bnd (require_device i) (\<lambda>d. bnd now (\<lambda>t.
     let d' = d\<lparr>dv_state := Dev_CONNECTED, dv_last_seen_at := Some t\<rparr>
     in sq (put_device d') (ret d')))"

definition mark_disconnected :: "uuid \<Rightarrow> ('m pair_w_scheme, termux_device) prog" where
  "mark_disconnected i =
     bnd (require_device i) (\<lambda>d. bnd now (\<lambda>t.
     let d' = d\<lparr>dv_state := (if dv_state d = Dev_CONNECTED then Dev_DISCONNECTED else dv_state d),
                dv_last_seen_at := Some t\<rparr>
     in sq (put_device d') (ret d')))"

definition get_device :: "uuid \<Rightarrow> ('m pair_w_scheme, termux_device) prog" where
  "get_device i = require_device i"

definition list_devices :: "'m pair_w_scheme \<Rightarrow> termux_device list" where
  "list_devices w = dvalues (pr_devices w)"

section \<open>The routes\<close>

definition termux_error_value :: "termux_error_code \<Rightarrow> string" where
  "termux_error_value c = (case c of
     TX_DEVICE_NOT_REGISTERED \<Rightarrow> ''device_not_registered'' | TX_PAIRING_REQUIRED \<Rightarrow> ''pairing_required''
   | TX_PAIRING_CODE_INVALID \<Rightarrow> ''pairing_code_invalid'' | TX_PAIRING_CODE_EXPIRED \<Rightarrow> ''pairing_code_expired''
   | TX_AUTHENTICATION_FAILED \<Rightarrow> ''authentication_failed'' | TX_AUTHORIZATION_DENIED \<Rightarrow> ''authorization_denied''
   | TX_DEVICE_OFFLINE \<Rightarrow> ''device_offline'' | TX_CONNECTOR_UNAVAILABLE \<Rightarrow> ''connector_unavailable''
   | TX_TERMUX_UNAVAILABLE \<Rightarrow> ''termux_unavailable'' | TX_PERMISSION_UNAVAILABLE \<Rightarrow> ''permission_unavailable''
   | TX_CAPABILITY_UNAVAILABLE \<Rightarrow> ''capability_unavailable'' | TX_TIMEOUT \<Rightarrow> ''timeout''
   | TX_CANCELLED \<Rightarrow> ''cancelled'' | TX_MALFORMED_REQUEST \<Rightarrow> ''malformed_request''
   | TX_CONNECTION_LOST \<Rightarrow> ''connection_lost'' | TX_REVOKED_DEVICE \<Rightarrow> ''revoked_device'')"

definition termux_status_by_code :: "(string \<times> nat) list" where
  "termux_status_by_code =
     [(''device_not_registered'', 404), (''pairing_code_invalid'', 400), (''pairing_code_expired'', 400),
      (''authentication_failed'', 401), (''revoked_device'', 403)]"

definition termux_http_error :: "exn \<Rightarrow> exn" where
  "termux_http_error e = (case e of
     TermuxConnectorError c m \<Rightarrow> HTTPException
       (case map_of termux_status_by_code (termux_error_value c) of None \<Rightarrow> 400 | Some s \<Rightarrow> s)
       (termux_error_value c) m
   | _ \<Rightarrow> e)"

definition with_http :: "('m pair_w_scheme, 'a) prog \<Rightarrow> ('m pair_w_scheme, 'a) prog" where
  "with_http m = try_except m (\<lambda>e. raise (termux_http_error e))"

text \<open>What a route answers: the device as it is shown, and the secret it shows once.\<close>

definition register_route ::
    "string \<Rightarrow> string option \<Rightarrow> termux_capability list \<Rightarrow>
     ('m pair_w_scheme, (string \<times> pyval) list \<times> string \<times> int) prog" where
  "register_route name version capabilities =
     bnd (register_device name version capabilities) (\<lambda>(d, code).
     bnd (gets pr_ttl_seconds) (\<lambda>ttl. ret (device_public_dict d, code, ttl)))"

definition confirm_route :: "uuid \<Rightarrow> string \<Rightarrow> ('m pair_w_scheme, (string \<times> pyval) list \<times> string) prog" where
  "confirm_route i code =
     bnd (with_http (confirm_pairing i code)) (\<lambda>(d, token). ret (device_public_dict d, token))"

definition list_route :: "('m pair_w_scheme, (string \<times> pyval) list list) prog" where
  "list_route = bnd (gets list_devices) (\<lambda>ds. ret (map device_public_dict ds))"

definition get_route :: "uuid \<Rightarrow> ('m pair_w_scheme, (string \<times> pyval) list) prog" where
  "get_route i = bnd (with_http (get_device i)) (\<lambda>d. ret (device_public_dict d))"

definition revoke_route :: "uuid \<Rightarrow> ('m pair_w_scheme, (string \<times> pyval) list) prog" where
  "revoke_route i = bnd (with_http (revoke_device i)) (\<lambda>d. ret (device_public_dict d))"

end
