(* ===== verification/Uuid_Text.thy ===== *)
theory Uuid_Text
  imports Runtime
begin

text \<open>
  Reading an identifier back: \<^verbatim>\<open>UUID(text)\<close> of the Python library, with the liberties its
  \<^verbatim>\<open>int(text, 16)\<close> takes (a sign, a \<^verbatim>\<open>0x\<close>, single underscores, white space).
\<close>

declare hex_digits.simps [simp del]

text \<open>\<^verbatim>\<open>s.replace(old, "")\<close>.\<close>

function delete_all :: "string \<Rightarrow> string \<Rightarrow> string" where
  "delete_all old [] = []"
| "delete_all old (c # s) =
     (if old \<noteq> [] \<and> starts_with old (c # s) then delete_all old (drop (length old) (c # s))
      else c # delete_all old s)"
  by pat_completeness auto
termination by (relation "measure (\<lambda>(_, s). length s)") auto

declare delete_all.simps(2) [simp del]

definition strip_chars :: "string \<Rightarrow> string \<Rightarrow> string" where
  "strip_chars cs s =
     rev (dropWhile (\<lambda>c. c \<in> set cs) (rev (dropWhile (\<lambda>c. c \<in> set cs) s)))"

definition hex_val :: "char \<Rightarrow> nat option" where
  "hex_val c = (let b = byte c in
     if 48 \<le> b \<and> b < 58 then Some (b - 48)
     else if 97 \<le> b \<and> b < 103 then Some (b - 87)
     else if 65 \<le> b \<and> b < 71 then Some (b - 55) else None)"

text \<open>Digits with single underscores between them; \<open>after\<close> is whether a digit came last.\<close>

fun hex_number :: "nat \<Rightarrow> bool \<Rightarrow> string \<Rightarrow> nat option" where
  "hex_number acc after [] = (if after then Some acc else None)"
| "hex_number acc after (c # s) =
     (case hex_val c of
        Some v \<Rightarrow> hex_number (16 * acc + v) True s
      | None \<Rightarrow> if c = CHR ''_'' \<and> after then hex_number acc False s else None)"

definition hex_body :: "string \<Rightarrow> nat option" where
  "hex_body s =
     (if starts_with ''0x'' s \<or> starts_with ''0X'' s then
        hex_number 0 False (if starts_with ''_'' (drop 2 s) then drop 3 s else drop 2 s)
      else hex_number 0 False s)"

definition int_hex :: "string \<Rightarrow> exn + int" where
  "int_hex text =
     (let s = strip text;
          body = (if starts_with ''-'' s \<or> starts_with ''+'' s then drop 1 s else s)
      in case hex_body body of
           None \<Rightarrow> Inl (ValueError (''invalid literal for int() with base 16: '' @ py_repr text))
         | Some n \<Rightarrow> Inr (if starts_with ''-'' s then - int n else int n))"

definition parse_uuid :: "string \<Rightarrow> exn + uuid" where
  "parse_uuid text =
     (let h = delete_all ''-'' (strip_chars ''{}'' (delete_all ''uuid:'' (delete_all ''urn:'' text)))
      in if py_len h \<noteq> 32 then Inl (ValueError ''badly formed hexadecimal UUID string'')
         else case int_hex h of
           Inl e \<Rightarrow> Inl e
         | Inr i \<Rightarrow> if 0 \<le> i \<and> i < 2 ^ 128 then Inr (nat i)
                    else Inl (ValueError ''int is out of range (need a 128-bit value)''))"

section \<open>The round trip\<close>

definition is_hex :: "char \<Rightarrow> bool" where
  "is_hex c \<longleftrightarrow> c \<in> set ''0123456789abcdef''"

lemma hex_digit_cases: "d < 16 \<Longrightarrow> is_hex (hex_digit d) \<and> hex_val (hex_digit d) = Some d"
proof -
  have "list_all (\<lambda>d. is_hex (hex_digit d) \<and> hex_val (hex_digit d) = Some d) [0..<16]" by code_simp
  then show "d < 16 \<Longrightarrow> is_hex (hex_digit d) \<and> hex_val (hex_digit d) = Some d" by (auto simp: list_all_iff)
qed

lemma is_hex_val: "is_hex c \<Longrightarrow> \<exists>v. hex_val c = Some v"
  by (auto simp: is_hex_def hex_val_def)

lemma hex_digits_hex: "c \<in> set (hex_digits k n) \<Longrightarrow> is_hex c"
  by (induction k n rule: hex_digits.induct) (auto simp: hex_digits.simps hex_digit_cases)

lemma length_hex_digits: "length (hex_digits k n) = k"
  by (induction k n rule: hex_digits.induct) (auto simp: hex_digits.simps)

lemma hex_number_append:
  "list_all is_hex s \<Longrightarrow> s \<noteq> [] \<Longrightarrow> hex_number acc after s = Some m \<Longrightarrow>
   hex_number acc after (s @ t) = hex_number m True t"
proof (induction s arbitrary: acc after)
  case (Cons c s)
  obtain v where v: "hex_val c = Some v" using is_hex_val Cons.prems(1) by auto
  show ?case
  proof (cases "s = []")
    case True
    then show ?thesis using Cons.prems(3) v by simp
  next
    case False
    then show ?thesis using Cons v by simp
  qed
qed simp

lemma hex_number_digits:
  "hex_number acc after (hex_digits (Suc k) n) = Some (16 ^ Suc k * acc + n mod 16 ^ Suc k)"
proof (induction k arbitrary: n)
  case 0
  then show ?case using hex_digit_cases [of "n mod 16"] by (simp add: hex_digits.simps)
next
  case (Suc k)
  have "hex_number acc after (hex_digits (Suc k) (n div 16) @ [hex_digit (n mod 16)]) =
      hex_number (16 ^ Suc k * acc + n div 16 mod 16 ^ Suc k) True [hex_digit (n mod 16)]"
  proof (rule hex_number_append)
    show "list_all is_hex (hex_digits (Suc k) (n div 16))"
      using hex_digits_hex by (auto simp: list_all_iff)
    show "hex_digits (Suc k) (n div 16) \<noteq> []" by (simp add: hex_digits.simps)
  qed (rule Suc.IH)
  also have "\<dots> = Some (16 * (16 ^ Suc k * acc + n div 16 mod 16 ^ Suc k) + n mod 16)"
    using hex_digit_cases [of "n mod 16"] by simp
  also have "16 * (16 ^ Suc k * acc + n div 16 mod 16 ^ Suc k) + n mod 16 =
      16 ^ Suc (Suc k) * acc + n mod 16 ^ Suc (Suc k)"
    using mod_mult2_eq [of n 16 "16 ^ Suc k"] by (simp add: distrib_left mult.assoc [symmetric])
  finally show ?case by (simp add: hex_digits.simps)
qed

lemma delete_all_absent: "old = o1 # os \<Longrightarrow> o1 \<notin> set s \<Longrightarrow> delete_all old s = s"
  by (induction s) (auto simp: delete_all.simps(2) starts_with_def)

lemma delete_all_char: "delete_all [c] s = filter (\<lambda>d. d \<noteq> c) s"
  by (induction s) (auto simp: delete_all.simps(2) starts_with_def)

lemma dropWhile_none: "(\<And>c. c \<in> set s \<Longrightarrow> \<not> P c) \<Longrightarrow> dropWhile P s = s"
  by (cases s) auto

lemma strip_chars_none: "(\<And>c. c \<in> set s \<Longrightarrow> c \<notin> set cs) \<Longrightarrow> strip_chars cs s = s"
  using dropWhile_none [of s "\<lambda>c. c \<in> set cs"] dropWhile_none [of "rev s" "\<lambda>c. c \<in> set cs"]
  by (simp add: strip_chars_def)

lemma is_hex_plain:
  "is_hex c \<Longrightarrow> c \<notin> set ''urn:''" "is_hex c \<Longrightarrow> c \<noteq> CHR ''-''" "is_hex c \<Longrightarrow> c \<notin> set ''{}''"
  "is_hex c \<Longrightarrow> \<not> is_space c" "is_hex c \<Longrightarrow> \<not> is_cont c" "is_hex c \<Longrightarrow> c \<noteq> CHR ''x'' \<and> c \<noteq> CHR ''X''"
  "is_hex c \<Longrightarrow> c \<noteq> CHR ''+''"
  by (auto simp: is_hex_def is_space_def is_cont_def)

lemma uuid_str_chars: "c \<in> set (uuid_str u) \<Longrightarrow> is_hex c \<or> c = CHR ''-''"
  unfolding uuid_str_def Let_def
  by (auto dest!: in_set_takeD in_set_dropD dest: hex_digits_hex)

lemma take_drop_more: "take a (drop b h) @ drop (a + b) h = drop b h"
  using append_take_drop_id [of a "drop b h"] by (simp add: add.commute)

lemma uuid_str_digits: "filter (\<lambda>d. d \<noteq> CHR ''-'') (uuid_str u) = hex_digits 32 u"
proof -
  let ?h = "hex_digits 32 u"
  have keep: "filter (\<lambda>d. d \<noteq> CHR ''-'') xs = xs" if "set xs \<subseteq> set ?h" for xs
    using that hex_digits_hex [of _ 32 u] is_hex_plain(2) by (fastforce simp: filter_id_conv)
  have sub: "set (take a (drop b ?h)) \<subseteq> set ?h" "set (take a ?h) \<subseteq> set ?h" "set (drop b ?h) \<subseteq> set ?h" for a b
    by (auto dest!: in_set_takeD in_set_dropD)
  have "take 8 ?h @ take 4 (drop 8 ?h) @ take 4 (drop 12 ?h) @ take 4 (drop 16 ?h) @ drop 20 ?h = ?h"
    using take_drop_more [of 4 16 ?h] take_drop_more [of 4 12 ?h] take_drop_more [of 4 8 ?h]
      append_take_drop_id [of 8 ?h] by simp
  then show ?thesis
    by (simp add: uuid_str_def Let_def keep [OF sub(1)] keep [OF sub(2)] keep [OF sub(3)])
qed

text \<open>
  Identifiers survive the wire: parsing the text of a 128-bit identifier, as the gateway does with
  what a device sends, gives the identifier back.
\<close>

lemma uuid_roundtrip: "u < 2 ^ 128 \<Longrightarrow> parse_uuid (uuid_str u) = Inr u"
proof -
  assume u: "u < 2 ^ 128"
  let ?h = "hex_digits 32 u"
  have hex: "is_hex c" if "c \<in> set ?h" for c using that by (rule hex_digits_hex)
  have chars: "c \<noteq> CHR ''u''" if "c \<in> set (uuid_str u)" for c
    using uuid_str_chars [OF that] is_hex_plain(1) by auto
  have del: "delete_all ''urn:'' (uuid_str u) = uuid_str u" "delete_all ''uuid:'' (uuid_str u) = uuid_str u"
    using chars by (auto intro!: delete_all_absent)
  have "strip_chars ''{}'' (uuid_str u) = uuid_str u"
    using uuid_str_chars is_hex_plain(3) by (intro strip_chars_none) fastforce
  then have plain: "delete_all ''-'' (strip_chars ''{}'' (delete_all ''uuid:'' (delete_all ''urn:'' (uuid_str u)))) = ?h"
    by (simp add: del delete_all_char uuid_str_digits)
  have len: "py_len ?h = 32"
    using hex is_hex_plain(5) length_hex_digits [of 32 u] by (simp add: py_len_def filter_id_conv)
  have strip: "strip ?h = ?h"
    using hex is_hex_plain(4) dropWhile_none [of ?h is_space] dropWhile_none [of "rev ?h" is_space]
    by (simp add: strip_def lstrip_def)
  have no: "\<not> starts_with ''-'' ?h" "\<not> starts_with ''+'' ?h" "\<not> starts_with ''0x'' ?h" "\<not> starts_with ''0X'' ?h"
  proof -
    have nh: "\<not> is_hex (CHR ''-'')" "\<not> is_hex (CHR ''+'')" "\<not> is_hex (CHR ''x'')" "\<not> is_hex (CHR ''X'')"
      by (simp_all add: is_hex_def)
    then have "CHR ''-'' \<notin> set ?h" "CHR ''+'' \<notin> set ?h" "CHR ''x'' \<notin> set ?h" "CHR ''X'' \<notin> set ?h"
      using hex by auto
    then show "\<not> starts_with ''-'' ?h" "\<not> starts_with ''+'' ?h" "\<not> starts_with ''0x'' ?h"
      "\<not> starts_with ''0X'' ?h" by (auto simp: starts_with_iff)
  qed
  have "hex_number 0 False (hex_digits (Suc 31) u) = Some (u mod 16 ^ Suc 31)"
    using hex_number_digits [of 0 False 31 u] by simp
  then have "int_hex ?h = Inr (int u)"
    using u by (simp add: int_hex_def strip no hex_body_def Let_def)
  then show ?thesis using u by (simp add: parse_uuid_def plain len Let_def del: of_nat_numeral)
qed

end
