(* ===== verification/Termux.thy ===== *)
theory Termux
  imports Pairing Uuid_Text Process
begin

text \<open>
  \<^verbatim>\<open>services/termux/connection_manager.py\<close>, \<open>adapter.py\<close> and the gateway
  \<^verbatim>\<open>apps/api/app/ws/termux_gateway.py\<close>.  A connection is a number; whether a send on it
  succeeds is an oracle, and what was sent is kept.  A command in flight is an object of its own, which
  the table of pending commands and the waiting call both point to, so the objects have addresses.
\<close>

section \<open>Commands in flight\<close>

text \<open>An \<^verbatim>\<open>ExecutionResult\<close> as the manager builds it; the exit code is whatever the device sent.\<close>

record remote_result =
  rr_status :: execution_status
  rr_exit_code :: pyval
  rr_stdout :: "string option"
  rr_stderr :: "string option"
  rr_stdout_truncated :: bool
  rr_stderr_truncated :: bool
  rr_timed_out :: bool
  rr_started_at :: time
  rr_finished_at :: "time option"

record pending_command =
  pc_device_id :: uuid
  pc_result :: "remote_result option"
  pc_max_stdout_bytes :: "int option"
  pc_max_stderr_bytes :: "int option"
  pc_stdout_chunks :: "string list"
  pc_stderr_chunks :: "string list"
  pc_stdout_bytes :: int
  pc_stderr_bytes :: int
  pc_stdout_truncated :: bool
  pc_stderr_truncated :: bool
  pc_started_at :: time

text \<open>One of the two streams: its chunks, the bytes counted and the flag.\<close>

definition append_stream ::
    "int option \<Rightarrow> string \<Rightarrow> string list \<times> int \<times> bool \<Rightarrow> string list \<times> int \<times> bool" where
  "append_stream cap text st = (case st of (chunks, used, truncated) \<Rightarrow>
     (case cap of
        None \<Rightarrow> (chunks @ [text], used + int (length text), truncated)
      | Some c \<Rightarrow>
          let remaining = c - used
          in if remaining \<le> 0 then (chunks, used, True)
             else if remaining < int (length text) then
               let cut = decode_replace (take (nat remaining) text)
               in (chunks @ [cut], used + int (length cut), True)
             else (chunks @ [text], used + int (length text), truncated)))"

definition append_output :: "string \<Rightarrow> string \<Rightarrow> pending_command \<Rightarrow> pending_command" where
  "append_output kind text p =
     (if kind = ''stdout'' then
        (case append_stream (pc_max_stdout_bytes p) text
                (pc_stdout_chunks p, pc_stdout_bytes p, pc_stdout_truncated p) of
           (chunks, n, t) \<Rightarrow> p\<lparr>pc_stdout_chunks := chunks, pc_stdout_bytes := n, pc_stdout_truncated := t\<rparr>)
      else
        (case append_stream (pc_max_stderr_bytes p) text
                (pc_stderr_chunks p, pc_stderr_bytes p, pc_stderr_truncated p) of
           (chunks, n, t) \<Rightarrow> p\<lparr>pc_stderr_chunks := chunks, pc_stderr_bytes := n, pc_stderr_truncated := t\<rparr>))"

section \<open>The manager\<close>

definition TX_COMMAND_FORWARDED :: string where "TX_COMMAND_FORWARDED = ''termux.command.forwarded''"
definition TX_COMMAND_COMPLETED :: string where "TX_COMMAND_COMPLETED = ''termux.command.completed''"
definition TX_COMMAND_FAILED :: string where "TX_COMMAND_FAILED = ''termux.command.failed''"
definition TX_COMMAND_TIMEOUT :: string where "TX_COMMAND_TIMEOUT = ''termux.command.timeout''"
definition TX_COMMAND_CANCELLED :: string where "TX_COMMAND_CANCELLED = ''termux.command.cancelled''"
definition CONNECTION_LOST :: string where "CONNECTION_LOST = ''termux.connection.lost''"
definition MALFORMED_MESSAGE :: string where "MALFORMED_MESSAGE = ''termux.message.malformed''"

type_synonym connection = nat

record tx_w = pair_w +
  tx_transports :: "(uuid \<times> connection) list"
  tx_pending :: "(uuid \<times> nat) list"
  tx_objects :: "pending_command list"
  tx_send_result :: "nat \<Rightarrow> exn option"
  tx_sent :: "(connection \<times> pyval) list"
  tx_closed :: "(connection \<times> nat) list"

definition send_json :: "connection \<Rightarrow> pyval \<Rightarrow> ('m tx_w_scheme, unit) prog" where
  "send_json c message w =
     (case tx_send_result w (length (tx_sent w)) of None \<Rightarrow> Inr () | Some e \<Rightarrow> Inl e,
      w\<lparr>tx_sent := tx_sent w @ [(c, message)]\<rparr>)"

definition tx_emit :: "string \<Rightarrow> uuid \<Rightarrow> uuid option \<Rightarrow> (string \<times> pyval) list \<Rightarrow> ('m tx_w_scheme, unit) prog" where
  "tx_emit t device_id command_id data =
     audit_emit t None (map_option uuid_str command_id) None
       ((''device_id'', PStr (uuid_str device_id)) # data)"

definition handle_connect :: "uuid \<Rightarrow> string \<Rightarrow> connection \<Rightarrow> ('m tx_w_scheme, unit) prog" where
  "handle_connect device_id device_token c =
     bnd (authenticate device_id device_token) (\<lambda>_.
     sq (modify (\<lambda>w. w\<lparr>tx_transports := dset device_id c (tx_transports w)\<rparr>))
     (bnd (mark_connected device_id) (\<lambda>_. tx_emit DEVICE_CONNECTED device_id None [])))"

definition upd_object :: "nat \<Rightarrow> (pending_command \<Rightarrow> pending_command) \<Rightarrow> ('m tx_w_scheme, unit) prog" where
  "upd_object a f = modify (\<lambda>w. w\<lparr>tx_objects := (tx_objects w)[a := f (tx_objects w ! a)]\<rparr>)"

definition pop_pending :: "uuid \<Rightarrow> ('m tx_w_scheme, unit) prog" where
  "pop_pending command_id = modify (\<lambda>w. w\<lparr>tx_pending := ddel command_id (tx_pending w)\<rparr>)"

definition lost_result :: "time \<Rightarrow> time \<Rightarrow> remote_result" where
  "lost_result started finished =
     \<lparr>rr_status = Ex_FAILED, rr_exit_code = PNone, rr_stdout = None,
      rr_stderr = Some ''Connection to the device was lost mid-command.'', rr_stdout_truncated = False,
      rr_stderr_truncated = False, rr_timed_out = False, rr_started_at = started,
      rr_finished_at = Some finished\<rparr>"

definition lose_command :: "uuid \<Rightarrow> uuid \<Rightarrow> ('m tx_w_scheme, unit) prog" where
  "lose_command device_id command_id =
     bnd (gets (\<lambda>w. the (map_of (tx_pending w) command_id))) (\<lambda>a.
     sq (pop_pending command_id)
     (bnd (gets (\<lambda>w. tx_objects w ! a)) (\<lambda>p.
      sq (if pc_result p = None then
            bnd now (\<lambda>t. upd_object a (\<lambda>p. p\<lparr>pc_result := Some (lost_result (pc_started_at p) t)\<rparr>))
          else ret ())
         (tx_emit CONNECTION_LOST device_id (Some command_id) []))))"

definition commands_of :: "uuid \<Rightarrow> 'm tx_w_scheme \<Rightarrow> uuid list" where
  "commands_of device_id w =
     map fst (filter (\<lambda>(_, a). pc_device_id (tx_objects w ! a) = device_id) (tx_pending w))"

definition handle_disconnect :: "uuid \<Rightarrow> ('m tx_w_scheme, unit) prog" where
  "handle_disconnect device_id =
     sq (modify (\<lambda>w. w\<lparr>tx_transports := ddel device_id (tx_transports w)\<rparr>))
     (bnd (mark_disconnected device_id) (\<lambda>_.
      sq (tx_emit DEVICE_DISCONNECTED device_id None [])
      (bnd (gets (commands_of device_id)) (\<lambda>lost. for_each (lose_command device_id) lost))))"

definition is_connected :: "uuid \<Rightarrow> 'm tx_w_scheme \<Rightarrow> bool" where
  "is_connected device_id w \<longleftrightarrow> map_of (tx_transports w) device_id \<noteq> None"

section \<open>One call of execute\<close>

text \<open>What the call holds while it waits: its device, the connection, its command and its object.\<close>

record remote_call =
  rc_device_id :: uuid
  rc_connection :: connection
  rc_command_id :: uuid
  rc_object :: nat

definition new_command :: "uuid \<Rightarrow> command_spec \<Rightarrow> time \<Rightarrow> pending_command" where
  "new_command device_id command t =
     \<lparr>pc_device_id = device_id, pc_result = None, pc_max_stdout_bytes = cs_max_stdout_bytes command,
      pc_max_stderr_bytes = cs_max_stderr_bytes command, pc_stdout_chunks = [], pc_stderr_chunks = [],
      pc_stdout_bytes = 0, pc_stderr_bytes = 0, pc_stdout_truncated = False,
      pc_stderr_truncated = False, pc_started_at = t\<rparr>"

definition remote_begin :: "uuid \<Rightarrow> command_spec \<Rightarrow> ('m tx_w_scheme, remote_call) prog" where
  "remote_begin device_id command =
     bnd (gets (\<lambda>w. map_of (tx_transports w) device_id)) (\<lambda>transport. case transport of
       None \<Rightarrow> raise (TermuxConnectorError TX_DEVICE_OFFLINE
         (''Device '' @ uuid_str device_id @ '' is not currently connected.''))
     | Some c \<Rightarrow>
         bnd uuid4 (\<lambda>command_id. bnd now (\<lambda>t. bnd (gets (\<lambda>w. length (tx_objects w))) (\<lambda>a.
         sq (modify (\<lambda>w. w\<lparr>tx_objects := tx_objects w @ [new_command device_id command t],
               tx_pending := dset command_id a (tx_pending w)\<rparr>))
            (ret \<lparr>rc_device_id = device_id, rc_connection = c, rc_command_id = command_id, rc_object = a\<rparr>)))))"

definition request_message :: "uuid \<Rightarrow> command_spec \<Rightarrow> pyval" where
  "request_message command_id command = PDict
     [(''type'', PStr ''command_request''), (''commandId'', PStr (uuid_str command_id)),
      (''argv'', p_strs (cs_argv command)), (''workingDirectory'', p_ostr (cs_working_dir command)),
      (''timeoutSeconds'', PInt (cs_timeout_seconds command)),
      (''envOverrides'', PDict (map (\<lambda>(k, v). (k, PStr v)) (cs_env_overrides command)))]"

definition remote_send :: "remote_call \<Rightarrow> command_spec \<Rightarrow> ('m tx_w_scheme, unit) prog" where
  "remote_send r command =
     sq (send_json (rc_connection r) (request_message (rc_command_id r) command))
        (tx_emit TX_COMMAND_FORWARDED (rc_device_id r) (Some (rc_command_id r)) [])"

definition best_effort_cancel :: "remote_call \<Rightarrow> ('m tx_w_scheme, unit) prog" where
  "best_effort_cancel r =
     try_except (send_json (rc_connection r)
       (PDict [(''type'', PStr ''command_cancel''), (''commandId'', PStr (uuid_str (rc_command_id r)))]))
       (\<lambda>_. ret ())"

text \<open>The three ways the wait ends: with the result, by its timeout, by cancellation of the caller.\<close>

definition remote_done :: "remote_call \<Rightarrow> remote_result \<Rightarrow> ('m tx_w_scheme, remote_result) prog" where
  "remote_done r result =
     sq (pop_pending (rc_command_id r))
     (sq (if rr_status result = Ex_SUCCEEDED then
            tx_emit TX_COMMAND_COMPLETED (rc_device_id r) (Some (rc_command_id r))
              [(''exit_code'', rr_exit_code result), (''stdout_preview'', p_ostr (truncate_for_log (rr_stdout result)))]
          else
            tx_emit TX_COMMAND_FAILED (rc_device_id r) (Some (rc_command_id r))
              [(''exit_code'', rr_exit_code result), (''stderr_preview'', p_ostr (truncate_for_log (rr_stderr result)))])
        (ret result))"

definition remote_timeout :: "remote_call \<Rightarrow> ('m tx_w_scheme, remote_result) prog" where
  "remote_timeout r =
     sq (pop_pending (rc_command_id r))
     (sq (best_effort_cancel r)
     (sq (tx_emit TX_COMMAND_TIMEOUT (rc_device_id r) (Some (rc_command_id r)) [])
     (bnd (gets (\<lambda>w. tx_objects w ! rc_object r)) (\<lambda>p. bnd now (\<lambda>t.
      sq (pop_pending (rc_command_id r))
         (ret \<lparr>rr_status = Ex_FAILED, rr_exit_code = PNone, rr_stdout = Some (concat (pc_stdout_chunks p)),
            rr_stderr = Some (concat (pc_stderr_chunks p)), rr_stdout_truncated = pc_stdout_truncated p,
            rr_stderr_truncated = pc_stderr_truncated p, rr_timed_out = True,
            rr_started_at = pc_started_at p, rr_finished_at = Some t\<rparr>))))))"

definition remote_cancelled :: "remote_call \<Rightarrow> ('m tx_w_scheme, remote_result) prog" where
  "remote_cancelled r =
     sq (pop_pending (rc_command_id r))
     (sq (best_effort_cancel r)
     (sq (tx_emit TX_COMMAND_CANCELLED (rc_device_id r) (Some (rc_command_id r)) [])
     (sq (pop_pending (rc_command_id r)) (raise CancelledError))))"

text \<open>\<open>RemoteTermuxAdapter.run\<close>: what becomes of the call's end.\<close>

definition adapter_result :: "exn + remote_result \<Rightarrow> ('m runtime_scheme, remote_result) prog" where
  "adapter_result x = (case x of
     Inr result \<Rightarrow> ret result
   | Inl (TermuxConnectorError c m) \<Rightarrow>
       bnd now (\<lambda>t. ret \<lparr>rr_status = Ex_FAILED, rr_exit_code = PNone, rr_stdout = None, rr_stderr = Some m,
         rr_stdout_truncated = False, rr_stderr_truncated = False, rr_timed_out = False,
         rr_started_at = t, rr_finished_at = None\<rparr>)
   | Inl e \<Rightarrow> raise e)"

section \<open>Messages of a device\<close>

definition resolve ::
    "nat \<Rightarrow> execution_status \<Rightarrow> pyval \<Rightarrow> string \<Rightarrow> ('m tx_w_scheme, unit) prog" where
  "resolve a status exit_code extra_stderr =
     bnd (gets (\<lambda>w. tx_objects w ! a)) (\<lambda>p.
     if pc_result p \<noteq> None then ret ()
     else bnd now (\<lambda>t. upd_object a (\<lambda>p. p\<lparr>pc_result := Some
       \<lparr>rr_status = status, rr_exit_code = exit_code, rr_stdout = Some (concat (pc_stdout_chunks p)),
        rr_stderr = Some (concat (pc_stderr_chunks p) @ extra_stderr),
        rr_stdout_truncated = pc_stdout_truncated p, rr_stderr_truncated = pc_stderr_truncated p,
        rr_timed_out = False, rr_started_at = pc_started_at p, rr_finished_at = Some t\<rparr>\<rparr>)))"

definition COMMAND_MESSAGE_TYPES :: "string list" where
  "COMMAND_MESSAGE_TYPES = [''stdout'', ''stderr'', ''command_completed'', ''command_failed'']"

definition dget_or :: "string \<Rightarrow> pyval \<Rightarrow> (string \<times> pyval) list \<Rightarrow> pyval" where
  "dget_or k v d = (case map_of d k of None \<Rightarrow> v | Some x \<Rightarrow> x)"

fun pytype :: "pyval \<Rightarrow> string" where
  "pytype PNone = ''NoneType''"
| "pytype (PBool _) = ''bool''"
| "pytype (PInt _) = ''int''"
| "pytype (PFloat _) = ''float''"
| "pytype (PStr _) = ''str''"
| "pytype (PList _) = ''list''"
| "pytype (PDict _) = ''dict''"

text \<open>\<^verbatim>\<open>UUID(value)\<close> on a value that is not None.\<close>

definition uuid_of :: "pyval \<Rightarrow> exn + uuid" where
  "uuid_of v = (case v of PStr s \<Rightarrow> parse_uuid s
   | _ \<Rightarrow> Inl (AttributeError (quoted (pytype v) @ '' object has no attribute '' @ quoted ''replace'')))"

definition hashable :: "pyval \<Rightarrow> exn + unit" where
  "hashable v = (case v of
     PList _ \<Rightarrow> Inl (TypeError (''unhashable type: '' @ quoted ''list''))
   | PDict _ \<Rightarrow> Inl (TypeError (''unhashable type: '' @ quoted ''dict''))
   | _ \<Rightarrow> Inr ())"

definition malformed :: "uuid \<Rightarrow> string \<Rightarrow> ('m tx_w_scheme, 'a) prog" where
  "malformed device_id m =
     sq (tx_emit MALFORMED_MESSAGE device_id None []) (raise (TermuxConnectorError TX_MALFORMED_REQUEST m))"

definition dispatch_message :: "nat \<Rightarrow> pyval \<Rightarrow> (string \<times> pyval) list \<Rightarrow> ('m tx_w_scheme, unit) prog" where
  "dispatch_message a t d =
     (if t = PStr ''stdout'' then upd_object a (append_output ''stdout'' (py_str (dget_or ''data'' (PStr []) d)))
      else if t = PStr ''stderr'' then upd_object a (append_output ''stderr'' (py_str (dget_or ''data'' (PStr []) d)))
      else if t = PStr ''command_completed'' then resolve a Ex_SUCCEEDED (dget_or ''exitCode'' (PInt 0) d) []
      else if t = PStr ''command_failed'' then
        resolve a Ex_FAILED (dget_or ''exitCode'' PNone d) (py_str (dget_or ''errorMessage'' (PStr []) d))
      else ret ())"

definition handle_inbound_message :: "uuid \<Rightarrow> pyval \<Rightarrow> ('m tx_w_scheme, unit) prog" where
  "handle_inbound_message device_id message =
     (case message of
        PDict d \<Rightarrow>
          (case map_of d ''type'' of
             None \<Rightarrow> malformed device_id (''Message is missing a '' @ quoted ''type'' @ '' field.'')
           | Some t \<Rightarrow>
               let raw = dget_or ''commandId'' PNone d
               in bnd (liftS (hashable t)) (\<lambda>_.
                  if t \<in> PStr ` set COMMAND_MESSAGE_TYPES \<and> \<not> p_truthy raw then
                    malformed device_id (''Message of type '' @ quoted (py_str t) @ '' is missing commandId.'')
                  else if \<not> p_truthy raw then ret ()
                  else
                    bnd (liftS (uuid_of raw)) (\<lambda>command_id.
                    bnd (gets (\<lambda>w. case map_of (tx_pending w) command_id of None \<Rightarrow> None
                          | Some a \<Rightarrow> Some (a, pc_device_id (tx_objects w ! a)))) (\<lambda>pending.
                    case pending of
                      None \<Rightarrow> ret ()
                    | Some (a, owner) \<Rightarrow>
                        if owner \<noteq> device_id then ret () else dispatch_message a t d))))
      | _ \<Rightarrow> malformed device_id (''Message is missing a '' @ quoted ''type'' @ '' field.''))"

section \<open>The gateway\<close>

definition ws_close :: "connection \<Rightarrow> nat \<Rightarrow> ('m tx_w_scheme, unit) prog" where
  "ws_close c code = modify (\<lambda>w. w\<lparr>tx_closed := tx_closed w @ [(c, code)]\<rparr>)"

definition auth_failed :: "string \<Rightarrow> string \<Rightarrow> pyval" where
  "auth_failed code m =
     PDict [(''type'', PStr ''auth_failed''), (''code'', PStr code), (''message'', PStr m)]"

text \<open>The handshake: the device that is connected, or None when the socket has been closed.\<close>

definition gateway_refuse :: "connection \<Rightarrow> exn \<Rightarrow> ('m tx_w_scheme, uuid option) prog" where
  "gateway_refuse c e =
     (case e of
        TermuxConnectorError code m \<Rightarrow>
          sq (send_json c (auth_failed (termux_error_value code) m)) (sq (ws_close c 4401) (ret None))
      | ValueError m \<Rightarrow>
          sq (send_json c (auth_failed ''malformed_request'' m)) (sq (ws_close c 4401) (ret None))
      | _ \<Rightarrow> raise e)"

definition gateway_hello :: "connection \<Rightarrow> exn + pyval \<Rightarrow> ('m tx_w_scheme, uuid option) prog" where
  "gateway_hello c received =
     (case received of
        Inl _ \<Rightarrow> sq (ws_close c 4400) (ret None)
      | Inr auth_message \<Rightarrow>
          (case auth_message of
             PDict d \<Rightarrow>
               if dget_or ''type'' PNone d \<noteq> PStr ''auth'' then
                 sq (send_json c (auth_failed ''malformed_request'' ''Expected auth first.''))
                    (sq (ws_close c 4400) (ret None))
               else
                 bnd (try_except
                   (bnd (liftS (parse_uuid (py_str (dget_or ''deviceId'' PNone d)))) (\<lambda>device_id.
                    sq (handle_connect device_id (py_str (dget_or ''deviceToken'' (PStr []) d)) c)
                       (ret (Some device_id))))
                   (gateway_refuse c)) (\<lambda>connected. case connected of
                     None \<Rightarrow> ret None
                   | Some device_id \<Rightarrow>
                       sq (send_json c (PDict [(''type'', PStr ''auth_ok'')])) (ret (Some device_id)))
           | _ \<Rightarrow> sq (send_json c (auth_failed ''malformed_request'' ''Expected auth first.''))
                    (sq (ws_close c 4400) (ret None))))"

text \<open>One message in the loop.  \<open>Inl\<close> is an exception that ends the loop; a malformed message does not.\<close>

definition gateway_message :: "uuid \<Rightarrow> pyval \<Rightarrow> ('m tx_w_scheme, unit) prog" where
  "gateway_message device_id message =
     try_except (handle_inbound_message device_id message) (\<lambda>e. case e of
       TermuxConnectorError code m \<Rightarrow> if code = TX_MALFORMED_REQUEST then ret () else raise e
     | _ \<Rightarrow> raise e)"

text \<open>The loop on what the socket delivers until it is closed or fails; then the device is gone.\<close>

fun gateway_loop :: "uuid \<Rightarrow> pyval list \<Rightarrow> exn option \<Rightarrow> ('m tx_w_scheme, unit) prog" where
  "gateway_loop device_id [] ended = (case ended of None \<Rightarrow> ret () | Some e \<Rightarrow> raise e)"
| "gateway_loop device_id (m # ms) ended = sq (gateway_message device_id m) (gateway_loop device_id ms ended)"

definition gateway_serve :: "uuid \<Rightarrow> pyval list \<Rightarrow> exn option \<Rightarrow> ('m tx_w_scheme, unit) prog" where
  "gateway_serve device_id ms ended =
     bnd (try_except (sq (gateway_loop device_id ms ended) (ret None)) (\<lambda>e. ret (Some e))) (\<lambda>failed.
     sq (handle_disconnect device_id) (case failed of None \<Rightarrow> ret () | Some e \<Rightarrow> raise e))"

end
