(* ===== verification/Connector.thy ===== *)
theory Connector
  imports Termux
begin

text \<open>
  \<^verbatim>\<open>apps/termux_connector/cyberai_termux.py\<close>: the program on the device at the other end of the
  gateway.  It vets every request on its own, runs the command and streams what it prints.  The
  device's operating system is the one of \<open>Process\<close>; the web socket is what it delivers and what was
  sent on it, each send with an oracle for its failure.  Messages are what \<^verbatim>\<open>json.loads\<close> makes of
  the text, without NaN and infinities.  The steps of a command's task are atomic between two awaits.
\<close>

section \<open>Limits\<close>

definition CONN_MAX_STDOUT_BYTES :: int where "CONN_MAX_STDOUT_BYTES = 1000000"
definition CONN_MAX_STDERR_BYTES :: int where "CONN_MAX_STDERR_BYTES = 1000000"
definition MAX_TIMEOUT_SECONDS :: rat where "MAX_TIMEOUT_SECONDS = 120"
definition MAX_ARGV_LENGTH :: nat where "MAX_ARGV_LENGTH = 64"
definition CONN_MAX_ARG_LENGTH :: nat where "CONN_MAX_ARG_LENGTH = 4096"

definition environ_get :: "os_env \<Rightarrow> string \<Rightarrow> string \<Rightarrow> string" where
  "environ_get e k dflt = (case map_of (os_environ e) k of None \<Rightarrow> dflt | Some v \<Rightarrow> v)"

definition TERMUX_HOME :: string where "TERMUX_HOME = ''/data/data/com.termux/files/home''"

definition DEFAULT_ALLOWED_ROOTS :: "os_env \<Rightarrow> string list" where
  "DEFAULT_ALLOWED_ROOTS e =
     [environ_get e ''HOME'' TERMUX_HOME, ''/data/data/com.termux/files/usr/tmp'', ''/tmp'']"

section \<open>Vetting a request\<close>

definition SHELL_METACHARACTERS :: string where
  "SHELL_METACHARACTERS = '';|&><`$''"

fun argv_parts :: "pyval list \<Rightarrow> exn + string list" where
  "argv_parts [] = Inr []"
| "argv_parts (part # parts) =
     (case part of
        PStr s \<Rightarrow>
          if py_len s > CONN_MAX_ARG_LENGTH then
            Inl (RefusedError (''argv element too long (limit '' @ show_nat CONN_MAX_ARG_LENGTH @ '')''))
          else if CHR 0x00 \<in> set s then Inl (RefusedError ''argv element contains NUL byte'')
          else (case argv_parts parts of Inl e \<Rightarrow> Inl e | Inr rest \<Rightarrow> Inr (s # rest))
      | _ \<Rightarrow> Inl (RefusedError ''argv element is not a string''))"

definition connector_argv :: "pyval \<Rightarrow> exn + string list" where
  "connector_argv argv =
     (case argv of
        PList parts \<Rightarrow>
          if parts = [] then Inl (RefusedError ''argv must be a non-empty list'')
          else if length parts > MAX_ARGV_LENGTH then
            Inl (RefusedError (''argv too long (limit '' @ show_nat MAX_ARGV_LENGTH @ '')''))
          else (case argv_parts parts of
                  Inl e \<Rightarrow> Inl e
                | Inr result \<Rightarrow>
                    if set (hd result) \<inter> set SHELL_METACHARACTERS \<noteq> {} then
                      Inl (RefusedError ''argv[0] contains shell metacharacters'')
                    else Inr result)
      | _ \<Rightarrow> Inl (RefusedError ''argv must be a non-empty list''))"

text \<open>\<^verbatim>\<open>os.path.realpath\<close> does not take a path with a NUL in it.\<close>

definition realpath_of :: "os_env \<Rightarrow> string \<Rightarrow> exn + string" where
  "realpath_of e path =
     (if CHR 0x00 \<in> set path then Inl (ValueError ''lstat: embedded null character in path'')
      else Inr (os_realpath e path))"

definition under_root :: "string \<Rightarrow> string \<Rightarrow> bool" where
  "under_root base resolved \<longleftrightarrow> resolved = base \<or> starts_with (base @ ''/'') resolved"

definition connector_working_directory ::
    "os_env \<Rightarrow> (string \<Rightarrow> bool) \<Rightarrow> pyval \<Rightarrow> exn + string option" where
  "connector_working_directory e isdir path =
     (case path of
        PNone \<Rightarrow> Inr None
      | PStr p \<Rightarrow>
          (case realpath_of e p of
             Inl x \<Rightarrow> Inl x
           | Inr resolved \<Rightarrow>
               if \<not> (\<exists>base \<in> set (DEFAULT_ALLOWED_ROOTS e). under_root base resolved) then
                 Inl (RefusedError (''workingDirectory '' @ py_repr resolved @ '' is outside allowed roots''))
               else if \<not> isdir resolved then
                 Inl (RefusedError (''workingDirectory '' @ py_repr resolved @
                   '' does not exist or is not a directory''))
               else Inr (Some resolved))
      | _ \<Rightarrow> Inl (RefusedError ''workingDirectory must be a string or null''))"

definition upper_char :: "char \<Rightarrow> char" where
  "upper_char c = (if 97 \<le> byte c \<and> byte c \<le> 122 then char_of (byte c - 32) else c)"

definition upper :: "string \<Rightarrow> string" where
  "upper s = map upper_char s"

definition SECRET_NAMES :: "string list" where
  "SECRET_NAMES = [''SECRET'', ''TOKEN'', ''PASSWORD'', ''PASSWD'', ''PRIVATE_KEY'', ''API_KEY'',
     ''APIKEY'', ''CREDENTIAL'']"

fun env_items :: "(string \<times> pyval) list \<Rightarrow> (string \<times> string) list \<Rightarrow> exn + (string \<times> string) list" where
  "env_items [] result = Inr result"
| "env_items ((key, v) # items) result =
     (case v of
        PStr value \<Rightarrow>
          if \<exists>bad \<in> set SECRET_NAMES. str_in bad (upper key) then
            Inl (RefusedError ''refusing to accept secret-shaped env override'')
          else env_items items (dset key value result)
      | _ \<Rightarrow> Inl (RefusedError ''envOverrides entries must be string key/value pairs''))"

definition connector_env_overrides :: "pyval \<Rightarrow> exn + (string \<times> string) list" where
  "connector_env_overrides env =
     (case env of
        PNone \<Rightarrow> Inr []
      | PDict items \<Rightarrow> env_items items []
      | _ \<Rightarrow> Inl (RefusedError ''envOverrides must be a mapping or null''))"

text \<open>
  A bool is an int.  \<^verbatim>\<open>float(i)\<close> raises for an integer that rounds to \<open>2\<^sup>1\<^sup>0\<^sup>2\<^sup>4\<close> or beyond.
\<close>

definition connector_timeout :: "pyval \<Rightarrow> exn + rat" where
  "connector_timeout value =
     (let refused = Inl (RefusedError ''timeoutSeconds must be a positive number'') in
      case value of
        PNone \<Rightarrow> Inr 30
      | PBool b \<Rightarrow> if b then Inr 1 else refused
      | PInt i \<Rightarrow>
          if i \<le> 0 then refused
          else if 2 ^ 1024 - 2 ^ 970 \<le> i then Inl (OverflowError ''int too large to convert to float'')
          else Inr (min (of_int i) MAX_TIMEOUT_SECONDS)
      | PFloat r \<Rightarrow> if r \<le> 0 then refused else Inr (min r MAX_TIMEOUT_SECONDS)
      | _ \<Rightarrow> refused)"

record vetted =
  vt_argv :: "string list"
  vt_cwd :: "string option"
  vt_env :: "(string \<times> string) list"
  vt_timeout :: rat

definition vet_request :: "os_env \<Rightarrow> (string \<Rightarrow> bool) \<Rightarrow> (string \<times> pyval) list \<Rightarrow> exn + vetted" where
  "vet_request e isdir d =
     (case connector_argv (dget_or ''argv'' PNone d) of Inl x \<Rightarrow> Inl x | Inr argv \<Rightarrow>
     (case connector_working_directory e isdir (dget_or ''workingDirectory'' PNone d) of
        Inl x \<Rightarrow> Inl x | Inr cwd \<Rightarrow>
     (case connector_env_overrides (dget_or ''envOverrides'' PNone d) of Inl x \<Rightarrow> Inl x | Inr env \<Rightarrow>
     (case connector_timeout (dget_or ''timeoutSeconds'' PNone d) of Inl x \<Rightarrow> Inl x | Inr t \<Rightarrow>
        Inr \<lparr>vt_argv = argv, vt_cwd = cwd, vt_env = env, vt_timeout = t\<rparr>))))"

section \<open>The task of a command\<close>

datatype task_state = Ct_Scheduled | Ct_Running proc | Ct_Done "exn option" | Ct_Cancelled

record pump_state =
  pu_stdout_bytes :: int
  pu_stderr_bytes :: int
  pu_truncated_stdout :: bool
  pu_truncated_stderr :: bool

record command_task =
  ct_command_id :: pyval
  ct_request :: vetted
  ct_pump :: pump_state
  ct_state :: task_state

record cn_w = os_w +
  cn_isdir :: "string \<Rightarrow> bool"
  cn_send_result :: "nat \<Rightarrow> exn option"
  cn_sent :: "pyval list"
  cn_tasks :: "command_task list"
  cn_running :: "(pyval \<times> nat) list"

text \<open>\<open>cn_sent\<close> holds what was handed to the socket, a message whose send raises included.\<close>

definition conn_send :: "pyval \<Rightarrow> ('m cn_w_scheme, unit) prog" where
  "conn_send message w =
     (case cn_send_result w (length (cn_sent w)) of None \<Rightarrow> Inr () | Some e \<Rightarrow> Inl e,
      w\<lparr>cn_sent := cn_sent w @ [message]\<rparr>)"

definition failed_message :: "pyval \<Rightarrow> pyval \<Rightarrow> string \<Rightarrow> pyval" where
  "failed_message command_id exit_code m = PDict
     [(''type'', PStr ''command_failed''), (''commandId'', command_id), (''exitCode'', exit_code),
      (''errorMessage'', PStr m)]"

definition output_message :: "pyval \<Rightarrow> string \<Rightarrow> string \<Rightarrow> pyval" where
  "output_message command_id kind text = PDict
     [(''type'', PStr kind), (''commandId'', command_id), (''data'', PStr text)]"

definition child_env :: "os_env \<Rightarrow> (string \<times> string) list \<Rightarrow> (string \<times> string) list" where
  "child_env e overrides = AList.updates (map fst overrides) (map snd overrides)
     [(''PATH'', environ_get e ''PATH'' ''/data/data/com.termux/files/usr/bin:/usr/bin:/bin''),
      (''HOME'', environ_get e ''HOME'' TERMUX_HOME),
      (''LANG'', environ_get e ''LANG'' ''C.UTF-8''), (''TERM'', ''dumb'')]"

definition upd_task :: "nat \<Rightarrow> (command_task \<Rightarrow> command_task) \<Rightarrow> ('m cn_w_scheme, unit) prog" where
  "upd_task a f = modify (\<lambda>w. w\<lparr>cn_tasks := (cn_tasks w)[a := f (cn_tasks w ! a)]\<rparr>)"

text \<open>\<open>_run_command\<close> up to the wait: the process, or None when it did not start.\<close>

definition command_spawn :: "pyval \<Rightarrow> vetted \<Rightarrow> ('m cn_w_scheme, proc option) prog" where
  "command_spawn command_id v =
     bnd (gets os) (\<lambda>e.
     bnd (create_subprocess_exec \<lparr>sc_argv = vt_argv v, sc_cwd = vt_cwd v, sc_env = child_env e (vt_env v),
            sc_start_new_session = os_has_setsid e\<rparr>) (\<lambda>answer. case answer of
       SpawnFileNotFound exc \<Rightarrow>
         sq (conn_send (failed_message command_id PNone (''Executable not found: '' @ exc))) (ret None)
     | SpawnPermission exc \<Rightarrow>
         sq (conn_send (failed_message command_id PNone (''Permission denied: '' @ exc))) (ret None)
     | SpawnRaises exc \<Rightarrow> raise exc
     | Spawned px \<Rightarrow> ret (Some px)))"

text \<open>One chunk, not empty, of one of the pipes: what is kept of it, and the counters.\<close>

definition pump_cut :: "string \<Rightarrow> string \<Rightarrow> pump_state \<Rightarrow> string option \<times> pump_state" where
  "pump_cut kind chunk p =
     (let cap = (if kind = ''stdout'' then CONN_MAX_STDOUT_BYTES else CONN_MAX_STDERR_BYTES);
          used = (if kind = ''stdout'' then pu_stdout_bytes p else pu_stderr_bytes p);
          remaining = cap - used;
          truncated = (if kind = ''stdout'' then p\<lparr>pu_truncated_stdout := True\<rparr>
                       else p\<lparr>pu_truncated_stderr := True\<rparr>)
      in if remaining \<le> 0 then (None, truncated)
         else
           let part = (if int (length chunk) > remaining then take (nat remaining) chunk else chunk);
               p' = (if int (length chunk) > remaining then truncated else p)
           in (Some part,
               if kind = ''stdout'' then p'\<lparr>pu_stdout_bytes := pu_stdout_bytes p' + int (length part)\<rparr>
               else p'\<lparr>pu_stderr_bytes := pu_stderr_bytes p' + int (length part)\<rparr>))"

definition pump_chunk :: "pyval \<Rightarrow> string \<Rightarrow> string \<Rightarrow> pump_state \<Rightarrow> ('m cn_w_scheme, pump_state) prog" where
  "pump_chunk command_id kind chunk p =
     (case pump_cut kind chunk p of
        (None, p') \<Rightarrow> ret p'
      | (Some part, p') \<Rightarrow> sq (conn_send (output_message command_id kind (decode_replace part))) (ret p'))"

definition connector_terminate :: "os_env \<Rightarrow> proc \<Rightarrow> os_signal list" where
  "connector_terminate e px =
     (if px_reaped px then []
      else if os_has_killpg e then
        (case px_group px of
           Grp_Gone \<Rightarrow> base_terminate (px_reaped_late px) (px_pid px)
         | _ \<Rightarrow> [Group_SIGTERM (px_pid px)])
      else [Kill (px_pid px)])"

definition final_message :: "pyval \<Rightarrow> int \<Rightarrow> pyval" where
  "final_message command_id exit_code =
     (if exit_code = 0 then
        PDict [(''type'', PStr ''command_completed''), (''commandId'', command_id), (''exitCode'', PInt 0)]
      else failed_message command_id (PInt exit_code) (''exit_code='' @ show_int exit_code))"

definition command_finish :: "pyval \<Rightarrow> proc \<Rightarrow> ('m cn_w_scheme, unit) prog" where
  "command_finish command_id px =
     (let terminate = bnd (gets os) (\<lambda>e. send_signals (connector_terminate e px))
      in case px_end px of
           End_Timeout \<Rightarrow> sq terminate (conn_send (failed_message command_id PNone ''timeout''))
         | End_Cancelled \<Rightarrow> sq terminate (raise CancelledError)
         | End_Exit code \<Rightarrow> conn_send (final_message command_id code))"

text \<open>
  The whole of \<open>_run_command\<close>, on the chunks the two pumps read before the end, in the order they read
  them.
\<close>

definition new_pump :: pump_state where
  "new_pump = \<lparr>pu_stdout_bytes = 0, pu_stderr_bytes = 0, pu_truncated_stdout = False,
     pu_truncated_stderr = False\<rparr>"

fun pump_all :: "pyval \<Rightarrow> (string \<times> string) list \<Rightarrow> pump_state \<Rightarrow> ('m cn_w_scheme, pump_state) prog" where
  "pump_all command_id [] p = ret p"
| "pump_all command_id ((kind, chunk) # cs) p =
     bnd (pump_chunk command_id kind chunk p) (pump_all command_id cs)"

definition run_command :: "pyval \<Rightarrow> vetted \<Rightarrow> (string \<times> string) list \<Rightarrow> ('m cn_w_scheme, unit) prog" where
  "run_command command_id v cs =
     bnd (command_spawn command_id v) (\<lambda>started. case started of
       None \<Rightarrow> ret ()
     | Some px \<Rightarrow> bnd (pump_all command_id cs new_pump) (\<lambda>_. command_finish command_id px))"

section \<open>Tasks side by side\<close>

text \<open>A key of a dict: True is 1, and a float that is a whole number is that number.\<close>

definition dict_key :: "pyval \<Rightarrow> pyval" where
  "dict_key v = (case v of
     PBool b \<Rightarrow> PInt (if b then 1 else 0)
   | PFloat r \<Rightarrow> if r = of_int \<lfloor>r\<rfloor> then PInt \<lfloor>r\<rfloor> else v
   | _ \<Rightarrow> v)"

definition task_ended :: "task_state \<Rightarrow> bool" where
  "task_ended st \<longleftrightarrow> (case st of Ct_Scheduled \<Rightarrow> False | Ct_Running _ \<Rightarrow> False | _ \<Rightarrow> True)"

text \<open>A task that ends takes the entry of its command out of \<open>running_tasks\<close>, whosever it is by then.\<close>

definition set_state :: "nat \<Rightarrow> task_state \<Rightarrow> ('m cn_w_scheme, unit) prog" where
  "set_state a st =
     sq (upd_task a (\<lambda>t. t\<lparr>ct_state := st\<rparr>))
        (if task_ended st then
           modify (\<lambda>w. w\<lparr>cn_running := ddel (dict_key (ct_command_id (cn_tasks w ! a))) (cn_running w)\<rparr>)
         else ret ())"

definition task_start :: "nat \<Rightarrow> ('m cn_w_scheme, unit) prog" where
  "task_start a =
     bnd (gets (\<lambda>w. cn_tasks w ! a)) (\<lambda>t.
     bnd (try_except
       (bnd (command_spawn (ct_command_id t) (ct_request t)) (\<lambda>started.
        ret (case started of None \<Rightarrow> Ct_Done None | Some px \<Rightarrow> Ct_Running px)))
       (\<lambda>e. ret (Ct_Done (Some e)))) (set_state a))"

definition task_pump :: "nat \<Rightarrow> string \<Rightarrow> string \<Rightarrow> ('m cn_w_scheme, unit) prog" where
  "task_pump a kind chunk =
     bnd (gets (\<lambda>w. cn_tasks w ! a)) (\<lambda>t.
     try_except
       (bnd (pump_chunk (ct_command_id t) kind chunk (ct_pump t)) (\<lambda>p.
        upd_task a (\<lambda>t. t\<lparr>ct_pump := p\<rparr>)))
       (\<lambda>e. set_state a (Ct_Done (Some e))))"

definition task_finish :: "nat \<Rightarrow> proc \<Rightarrow> ('m cn_w_scheme, unit) prog" where
  "task_finish a px =
     bnd (gets (\<lambda>w. cn_tasks w ! a)) (\<lambda>t.
     bnd (try_except (sq (command_finish (ct_command_id t) px) (ret (Ct_Done None)))
            (\<lambda>e. ret (Ct_Done (Some e)))) (set_state a))"

text \<open>\<^verbatim>\<open>task.cancel()\<close>: a task that has not started never does, one that waits for its process stops it.\<close>

definition cancel_running :: "nat \<Rightarrow> ('m cn_w_scheme, unit) prog" where
  "cancel_running a =
     bnd (gets (\<lambda>w. ct_state (cn_tasks w ! a))) (\<lambda>st. case st of
       Ct_Scheduled \<Rightarrow> set_state a Ct_Cancelled
     | Ct_Running px \<Rightarrow>
         sq (bnd (gets os) (\<lambda>e. send_signals (connector_terminate e px))) (set_state a Ct_Cancelled)
     | _ \<Rightarrow> ret ())"

section \<open>Messages of the server\<close>

definition create_task_for :: "pyval \<Rightarrow> vetted \<Rightarrow> ('m cn_w_scheme, unit) prog" where
  "create_task_for command_id v =
     bnd (gets (\<lambda>w. length (cn_tasks w))) (\<lambda>a.
     sq (modify (\<lambda>w. w\<lparr>cn_tasks := cn_tasks w @
           [\<lparr>ct_command_id = command_id, ct_request = v, ct_pump = new_pump, ct_state = Ct_Scheduled\<rparr>]\<rparr>))
     (sq (liftS (hashable command_id))
         (modify (\<lambda>w. w\<lparr>cn_running := dset (dict_key command_id) a (cn_running w)\<rparr>))))"

definition connector_request :: "pyval \<Rightarrow> (string \<times> pyval) list \<Rightarrow> ('m cn_w_scheme, unit) prog" where
  "connector_request command_id d =
     bnd (gets (\<lambda>w. vet_request (os w) (cn_isdir w) d)) (\<lambda>request. case request of
       Inl (RefusedError m) \<Rightarrow> conn_send (failed_message command_id PNone (''refused: '' @ m))
     | Inl e \<Rightarrow> raise e
     | Inr v \<Rightarrow> create_task_for command_id v)"

definition connector_message :: "pyval \<Rightarrow> ('m cn_w_scheme, unit) prog" where
  "connector_message message =
     (case message of
        PDict d \<Rightarrow>
          let msg_type = dget_or ''type'' PNone d; command_id = dget_or ''commandId'' PNone d
          in if msg_type = PStr ''command_request'' then connector_request command_id d
             else if msg_type = PStr ''command_cancel'' then
               sq (liftS (hashable command_id))
               (bnd (gets (\<lambda>w. map_of (cn_running w) (dict_key command_id))) (\<lambda>task.
                sq (modify (\<lambda>w. w\<lparr>cn_running := ddel (dict_key command_id) (cn_running w)\<rparr>))
                   (case task of None \<Rightarrow> ret () | Some a \<Rightarrow> cancel_running a)))
             else ret ()
      | _ \<Rightarrow> raise (AttributeError (quoted (pytype message) @ '' object has no attribute '' @ quoted ''get'')))"

text \<open>One frame: text that is no JSON is ignored.\<close>

definition connector_frame :: "pyval option \<Rightarrow> ('m cn_w_scheme, unit) prog" where
  "connector_frame frame = (case frame of None \<Rightarrow> ret () | Some message \<Rightarrow> connector_message message)"

section \<open>The connection\<close>

definition connector_hello :: "string \<Rightarrow> string \<Rightarrow> exn + pyval \<Rightarrow> ('m cn_w_scheme, bool) prog" where
  "connector_hello device_id device_token received =
     sq (conn_send (PDict [(''type'', PStr ''auth''), (''deviceId'', PStr device_id),
           (''deviceToken'', PStr device_token)]))
     (bnd (liftS received) (\<lambda>first. case first of
        PDict d \<Rightarrow> ret (dget_or ''type'' PNone d = PStr ''auth_ok'')
      | _ \<Rightarrow> raise (AttributeError (quoted (pytype first) @ '' object has no attribute '' @ quoted ''get''))))"

definition cancel_all :: "('m cn_w_scheme, unit) prog" where
  "cancel_all =
     bnd (gets (\<lambda>w. dvalues (cn_running w))) (\<lambda>tasks.
     sq (for_each cancel_running tasks) (modify (\<lambda>w. w\<lparr>cn_running := []\<rparr>)))"

definition next_delay :: "rat \<Rightarrow> rat" where
  "next_delay d = min (d * 2) 60"

text \<open>
  What follows when a connection ends: an exception that is no failure of the connection leaves the
  program, else the running tasks are cancelled and the next attempt waits longer.
\<close>

definition connection_ended :: "exn option \<Rightarrow> rat \<Rightarrow> ('m cn_w_scheme, rat) prog" where
  "connection_ended failed reconnect_delay =
     (let retry = sq cancel_all (ret (next_delay reconnect_delay)) in
      case failed of
        None \<Rightarrow> retry
      | Some (ConnectionClosed m) \<Rightarrow> retry
      | Some (OSError m) \<Rightarrow> retry
      | Some e \<Rightarrow> raise e)"

section \<open>The token file\<close>

record token_file =
  tf_path :: string
  tf_exists :: bool
  tf_mode :: nat
  tf_text :: string

fun oct_digits :: "nat \<Rightarrow> string" where
  "oct_digits n = (if n < 8 then [char_of (48 + n)] else oct_digits (n div 8) @ [char_of (48 + n mod 8)])"

declare oct_digits.simps [simp del]

definition shlex_safe :: "char \<Rightarrow> bool" where
  "shlex_safe c \<longleftrightarrow> (byte c \<in> {48..57} \<union> {65..90} \<union> {97..122}) \<or> c \<in> set ''_@%+=:,./-''"

definition shlex_quote :: "string \<Rightarrow> string" where
  "shlex_quote s =
     (let q = CHR 0x27 in
      if s = [] then [q, q] else if \<forall>c \<in> set s. shlex_safe c then s
      else [q] @ concat (map (\<lambda>c. if c = q then [q, CHR 0x22, q, CHR 0x22, q] else [c]) s) @ [q])"

definition read_token_file :: "token_file \<Rightarrow> exn + string" where
  "read_token_file f =
     (if \<not> tf_exists f then Inl (SystemExit (''token file '' @ tf_path f @ '' does not exist''))
      else
        let mode = and (tf_mode f) 511
        in if and mode 63 \<noteq> 0 then
             Inl (SystemExit (''token file '' @ tf_path f @ '' has permissive mode 0o'' @ oct_digits mode @
               ''; run: chmod 600 '' @ shlex_quote (tf_path f)))
           else
             let token = strip (tf_text f)
             in if token = [] then Inl (SystemExit (''token file '' @ tf_path f @ '' is empty'')) else Inr token)"

end
