(* ===== verification/Termux_Lifecycle.thy ===== *)
theory Termux_Lifecycle
  imports Termux
begin

text \<open>
  What holds of the remote connector: the pairing service implements a small automaton of credentials,
  revocation is final, a device speaks for its own commands only, and what is kept of an output is bounded.
\<close>

section \<open>Weakest preconditions\<close>

lemma wp_require_device [wps]:
  "wp (require_device i) Q w = (case map_of (pr_devices w) i of
     None \<Rightarrow> Q (Inl (TermuxConnectorError TX_DEVICE_NOT_REGISTERED (''Device '' @ uuid_str i @ '' is not registered.''))) w
   | Some d \<Rightarrow> Q (Inr d) w)"
  by (simp add: require_device_def wps split: option.split)

lemma wp_put_device [wps]: "wp (put_device d) Q w = Q (Inr ()) (w\<lparr>pr_devices := dset (dv_id d) d (pr_devices w)\<rparr>)"
  by (simp add: put_device_def wps)

lemma wp_token_urlsafe [wps]:
  "wp (token_urlsafe n) Q w = Q (Inr (pr_secret w (pr_secrets w) n)) (w\<lparr>pr_secrets := Suc (pr_secrets w)\<rparr>)"
  by (simp add: wp_def token_urlsafe_def)

section \<open>Credentials\<close>

text \<open>The abstract view of a device: what it may present to be let in.\<close>

datatype credential =
    Cr_Unknown
  | Cr_Awaiting string time
  | Cr_Lapsed
  | Cr_Paired string
  | Cr_Revoked

definition cred_of :: "'m pair_w_scheme \<Rightarrow> uuid \<Rightarrow> credential" where
  "cred_of w i = (case map_of (pr_devices w) i of
     None \<Rightarrow> Cr_Unknown
   | Some d \<Rightarrow>
       if dv_state d = Dev_REVOKED then Cr_Revoked
       else case map_of (pr_token_hashes w) i of
         Some h \<Rightarrow> Cr_Paired h
       | None \<Rightarrow> (case map_of (pr_pending w) i of
           Some p \<Rightarrow> Cr_Awaiting (pp_code_hash p) (pp_expires_at p)
         | None \<Rightarrow> Cr_Lapsed))"

fun cr_confirm :: "time \<Rightarrow> string \<Rightarrow> string \<Rightarrow> credential \<Rightarrow> credential" where
  "cr_confirm t h token_hash (Cr_Awaiting h0 e) =
     (if e < t then Cr_Lapsed else if h0 = h then Cr_Paired token_hash else Cr_Awaiting h0 e)"
| "cr_confirm t h token_hash c = c"

fun cr_revoke :: "credential \<Rightarrow> credential" where
  "cr_revoke Cr_Unknown = Cr_Unknown"
| "cr_revoke _ = Cr_Revoked"

text \<open>How the service stores a device.\<close>

definition device_ok :: "'m pair_w_scheme \<Rightarrow> uuid \<Rightarrow> bool" where
  "device_ok w i \<longleftrightarrow> (case map_of (pr_devices w) i of
     None \<Rightarrow> map_of (pr_token_hashes w) i = None \<and> map_of (pr_pending w) i = None
   | Some d \<Rightarrow> dv_id d = i \<and>
       dv_state d \<in> {Dev_PAIRING_REQUIRED, Dev_AUTHORIZED, Dev_CONNECTED, Dev_DISCONNECTED, Dev_REVOKED} \<and>
       (map_of (pr_token_hashes w) i \<noteq> None \<longleftrightarrow> dv_state d \<in> {Dev_AUTHORIZED, Dev_CONNECTED, Dev_DISCONNECTED}) \<and>
       (map_of (pr_pending w) i \<noteq> None \<longrightarrow> dv_state d = Dev_PAIRING_REQUIRED))"

definition pair_ok :: "'m pair_w_scheme \<Rightarrow> bool" where
  "pair_ok w \<longleftrightarrow> (\<forall>i. device_ok w i)"

text \<open>Nothing about the devices changes except at \<open>i\<close>, which ends as \<open>d\<close> with \<open>th\<close> and \<open>pp\<close>.\<close>

definition dev_step ::
    "uuid \<Rightarrow> termux_device \<Rightarrow> string option \<Rightarrow> pending_pairing option \<Rightarrow>
     'm pair_w_scheme \<Rightarrow> 'm pair_w_scheme \<Rightarrow> bool" where
  "dev_step i d th pp w w' \<longleftrightarrow> pr_hash w' = pr_hash w \<and> map_of (pr_devices w') = (map_of (pr_devices w))(i \<mapsto> d) \<and>
     map_of (pr_token_hashes w') = (map_of (pr_token_hashes w))(i := th) \<and>
     map_of (pr_pending w') = (map_of (pr_pending w))(i := pp)"

definition dev_same :: "'m pair_w_scheme \<Rightarrow> 'm pair_w_scheme \<Rightarrow> bool" where
  "dev_same w w' \<longleftrightarrow> pr_hash w' = pr_hash w \<and> map_of (pr_devices w') = map_of (pr_devices w) \<and>
     map_of (pr_token_hashes w') = map_of (pr_token_hashes w) \<and> map_of (pr_pending w') = map_of (pr_pending w)"

lemma dev_same_cred: "dev_same w w' \<Longrightarrow> cred_of w' = cred_of w \<and> pair_ok w' = pair_ok w"
  by (simp add: dev_same_def cred_of_def [abs_def] pair_ok_def device_ok_def cong: option.case_cong if_cong)

lemma dev_step_ok:
  assumes "dev_step i d th pp w w'" and "pair_ok w" and "dv_id d = i"
    and "dv_state d \<in> {Dev_PAIRING_REQUIRED, Dev_AUTHORIZED, Dev_CONNECTED, Dev_DISCONNECTED, Dev_REVOKED}"
    and "th \<noteq> None \<longleftrightarrow> dv_state d \<in> {Dev_AUTHORIZED, Dev_CONNECTED, Dev_DISCONNECTED}"
    and "pp \<noteq> None \<longrightarrow> dv_state d = Dev_PAIRING_REQUIRED"
  shows "pair_ok w'"
  unfolding pair_ok_def
proof
  fix j
  show "device_ok w' j"
  proof (cases "j = i")
    case True
    then show ?thesis using assms by (simp add: device_ok_def dev_step_def)
  next
    case False
    then have "map_of (pr_devices w') j = map_of (pr_devices w) j"
      "map_of (pr_token_hashes w') j = map_of (pr_token_hashes w) j"
      "map_of (pr_pending w') j = map_of (pr_pending w) j" using assms(1) by (simp_all add: dev_step_def)
    then have "device_ok w' j = device_ok w j" by (simp add: device_ok_def cong: option.case_cong)
    then show ?thesis using assms(2) by (simp add: pair_ok_def)
  qed
qed

lemma dev_step_cred:
  assumes "dev_step i d th pp w w'"
  shows "cred_of w' = (cred_of w)(i :=
    (if dv_state d = Dev_REVOKED then Cr_Revoked else case th of Some h \<Rightarrow> Cr_Paired h
     | None \<Rightarrow> (case pp of Some p \<Rightarrow> Cr_Awaiting (pp_code_hash p) (pp_expires_at p) | None \<Rightarrow> Cr_Lapsed)))"
proof
  fix j
  show "cred_of w' j = ((cred_of w)(i :=
    (if dv_state d = Dev_REVOKED then Cr_Revoked else case th of Some h \<Rightarrow> Cr_Paired h
     | None \<Rightarrow> (case pp of Some p \<Rightarrow> Cr_Awaiting (pp_code_hash p) (pp_expires_at p) | None \<Rightarrow> Cr_Lapsed)))) j"
    using assms by (cases "j = i") (simp_all add: cred_of_def dev_step_def cong: option.case_cong if_cong)
qed

section \<open>The operations of the service\<close>

lemma register_device_post:
  "wp (register_device name version caps) (\<lambda>x w'. \<exists>d code. x = Inr (d, code) \<and> dv_id d = rt_uuid w (rt_uuids w) \<and>
     dv_state d = Dev_PAIRING_REQUIRED \<and> code = pr_secret w (pr_secrets w) PAIRING_CODE_BYTES \<and>
     dev_step (dv_id d) d (map_of (pr_token_hashes w) (dv_id d)) (Some \<lparr>pp_code_hash = pr_hash w code,
       pp_expires_at = rt_clock w (Suc (rt_ticks w)) + seconds (pr_ttl_seconds w)\<rparr>) w w') w"
  by (simp add: register_device_def device_emit_def wps Let_def new_device_def dev_step_def
      AList.update_conv' fun_upd_triv)

lemma confirm_pairing_post:
  assumes "pair_ok w" and "map_of (pr_devices w) i = Some d"
  shows "wp (confirm_pairing i code) (\<lambda>x w'.
    (case map_of (pr_pending w) i of
       None \<Rightarrow> dev_same w w' \<and> (\<exists>m. x = Inl (TermuxConnectorError TX_PAIRING_CODE_INVALID m))
     | Some p \<Rightarrow>
         if pp_expires_at p < rt_clock w (rt_ticks w) then
           dev_step i d None None w w' \<and> (\<exists>m. x = Inl (TermuxConnectorError TX_PAIRING_CODE_EXPIRED m))
         else if pp_code_hash p \<noteq> pr_hash w code then
           dev_same w w' \<and> (\<exists>m. x = Inl (TermuxConnectorError TX_PAIRING_CODE_INVALID m))
         else let token = pr_secret w (pr_secrets w) DEVICE_TOKEN_BYTES;
                  d' = d\<lparr>dv_state := Dev_AUTHORIZED, dv_last_seen_at := Some (rt_clock w (Suc (rt_ticks w)))\<rparr>
              in dev_step i d' (Some (pr_hash w token)) None w w' \<and> x = Inr (d', token))) w"
proof -
  have "device_ok w i" using assms(1) by (simp add: pair_ok_def)
  then have d: "dv_id d = i" and p: "map_of (pr_pending w) i \<noteq> None \<Longrightarrow> map_of (pr_token_hashes w) i = None"
    using assms(2) by (auto simp: device_ok_def)
  show ?thesis
    using assms(2) d p
    by (auto simp: confirm_pairing_def device_emit_def wps Let_def dev_step_def dev_same_def AList.update_conv'
        AList.delete_conv' fun_upd_idem split: option.split)
qed

lemma authenticate_post:
  assumes "pair_ok w"
  shows "wp (authenticate i token) (\<lambda>x w'. dev_same w w' \<and>
    ((\<exists>d. x = Inr d) \<longleftrightarrow> cred_of w i = Cr_Paired (pr_hash w token)) \<and>
    (\<forall>d. x = Inr d \<longrightarrow> map_of (pr_devices w) i = Some d \<and> w' = w) \<and>
    (cred_of w i = Cr_Revoked \<longrightarrow> (\<exists>m. x = Inl (TermuxConnectorError TX_REVOKED_DEVICE m)))) w"
  by (auto simp: authenticate_def device_emit_def wps cred_of_def dev_same_def split: option.split)

lemma revoke_device_post:
  assumes "pair_ok w" and "map_of (pr_devices w) i = Some d"
  shows "wp (revoke_device i) (\<lambda>x w'. \<exists>d'. x = Inr d' \<and> dv_id d' = i \<and> dv_state d' = Dev_REVOKED \<and>
    dev_step i d' None None w w') w"
proof -
  have "device_ok w i" using assms(1) by (simp add: pair_ok_def)
  then have "dv_id d = i" using assms(2) by (simp add: device_ok_def)
  then show ?thesis using assms(2)
    by (simp add: revoke_device_def device_emit_def wps Let_def dev_step_def AList.update_conv' AList.delete_conv')
qed

text \<open>A device that is marked keeps its credential.\<close>

lemma mark_post:
  assumes "pair_ok w" and "map_of (pr_devices w) i = Some d"
  shows "dv_state d \<in> {Dev_AUTHORIZED, Dev_CONNECTED, Dev_DISCONNECTED} \<Longrightarrow>
      wp (mark_connected i) (\<lambda>x w'. \<exists>d'. x = Inr d' \<and> dv_id d' = i \<and> dv_state d' = Dev_CONNECTED \<and>
        dev_step i d' (map_of (pr_token_hashes w) i) (map_of (pr_pending w) i) w w') w"
    and "wp (mark_disconnected i) (\<lambda>x w'. \<exists>d'. x = Inr d' \<and> dv_id d' = i \<and>
        dv_state d' = (if dv_state d = Dev_CONNECTED then Dev_DISCONNECTED else dv_state d) \<and>
        dev_step i d' (map_of (pr_token_hashes w) i) (map_of (pr_pending w) i) w w') w"
proof -
  have "device_ok w i" using assms(1) by (simp add: pair_ok_def)
  then have "dv_id d = i" using assms(2) by (simp add: device_ok_def)
  then show "dv_state d \<in> {Dev_AUTHORIZED, Dev_CONNECTED, Dev_DISCONNECTED} \<Longrightarrow>
      wp (mark_connected i) (\<lambda>x w'. \<exists>d'. x = Inr d' \<and> dv_id d' = i \<and> dv_state d' = Dev_CONNECTED \<and>
        dev_step i d' (map_of (pr_token_hashes w) i) (map_of (pr_pending w) i) w w') w"
    "wp (mark_disconnected i) (\<lambda>x w'. \<exists>d'. x = Inr d' \<and> dv_id d' = i \<and>
        dv_state d' = (if dv_state d = Dev_CONNECTED then Dev_DISCONNECTED else dv_state d) \<and>
        dev_step i d' (map_of (pr_token_hashes w) i) (map_of (pr_pending w) i) w w') w"
    using assms(2)
    by (simp_all add: mark_connected_def mark_disconnected_def wps Let_def dev_step_def AList.update_conv'
        fun_upd_triv)
qed

text \<open>
  C9.  The pairing service implements the automaton of credentials.  In a registry that stores its
  devices as the service does, confirming a code takes an awaiting device to a paired one exactly when
  the code's hash is the stored one and the code has not expired, revoking takes any registered device
  to a revoked one, both leave every other device alone, and a token is accepted exactly when the device
  is paired with its hash.
\<close>

theorem pairing_refines:
  assumes "pair_ok w"
  shows "cred_of (snd (confirm_pairing i code w)) = (cred_of w)(i := cr_confirm (rt_clock w (rt_ticks w))
      (pr_hash w code) (pr_hash w (pr_secret w (pr_secrets w) DEVICE_TOKEN_BYTES)) (cred_of w i)) \<and>
    cred_of (snd (revoke_device i w)) = (cred_of w)(i := cr_revoke (cred_of w i)) \<and>
    cred_of (snd (authenticate i token w)) = cred_of w \<and>
    ((\<exists>d. fst (authenticate i token w) = Inr d) \<longleftrightarrow> cred_of w i = Cr_Paired (pr_hash w token))"
proof (cases "map_of (pr_devices w) i")
  case None
  have "confirm_pairing i code w = (Inl (TermuxConnectorError TX_DEVICE_NOT_REGISTERED
      (''Device '' @ uuid_str i @ '' is not registered.'')), w)"
    "revoke_device i w = (Inl (TermuxConnectorError TX_DEVICE_NOT_REGISTERED
      (''Device '' @ uuid_str i @ '' is not registered.'')), w)"
    using None by (simp_all add: confirm_pairing_def revoke_device_def require_device_def bnd_eq gets_def raise_def)
  then show ?thesis using None authenticate_post [OF assms, of i token]
    by (auto simp: cred_of_def fun_eq_iff wp_def dest: dev_same_cred)
next
  case (Some d)
  have ok: "device_ok w i" using assms by (simp add: pair_ok_def)
  have "cred_of (snd (confirm_pairing i code w)) = (cred_of w)(i := cr_confirm (rt_clock w (rt_ticks w))
      (pr_hash w code) (pr_hash w (pr_secret w (pr_secrets w) DEVICE_TOKEN_BYTES)) (cred_of w i))"
  proof (cases "map_of (pr_pending w) i")
    case None
    then have "cr_confirm t h th (cred_of w i) = cred_of w i" for t h th
      by (simp add: cred_of_def Some split: option.split)
    then show ?thesis using confirm_pairing_post [OF assms Some, of code] None
      by (auto simp: wp_def dest: dev_same_cred)
  next
    case (Some p)
    then have "cred_of w i = Cr_Awaiting (pp_code_hash p) (pp_expires_at p)" "dv_state d \<noteq> Dev_REVOKED"
      using ok \<open>map_of (pr_devices w) i = _\<close> by (auto simp: device_ok_def cred_of_def split: option.splits)
    then show ?thesis
      using confirm_pairing_post [OF assms \<open>map_of (pr_devices w) i = _\<close>, of code] Some
      by (auto simp: wp_def Let_def dev_same_cred dest!: dev_step_cred split: if_splits)
  qed
  moreover have "cred_of (snd (revoke_device i w)) = (cred_of w)(i := cr_revoke (cred_of w i))"
  proof -
    have "cr_revoke (cred_of w i) = Cr_Revoked" by (auto simp: cred_of_def Some split: option.split)
    then show ?thesis using revoke_device_post [OF assms Some] by (auto simp: wp_def dest: dev_step_cred)
  qed
  ultimately show ?thesis using authenticate_post [OF assms, of i token]
    by (auto simp: wp_def dest: dev_same_cred)
qed

section \<open>What a device sends\<close>

text \<open>The parts of the world that a message from device \<open>i\<close> leaves alone.\<close>

definition own_only :: "uuid \<Rightarrow> tx_w \<Rightarrow> tx_w \<Rightarrow> bool" where
  "own_only i w w' \<longleftrightarrow> pr_hash w' = pr_hash w \<and> pr_devices w' = pr_devices w \<and> pr_pending w' = pr_pending w \<and>
     pr_token_hashes w' = pr_token_hashes w \<and> tx_transports w' = tx_transports w \<and>
     tx_pending w' = tx_pending w \<and> tx_sent w' = tx_sent w \<and> length (tx_objects w') = length (tx_objects w) \<and>
     (\<forall>a < length (tx_objects w). pc_device_id (tx_objects w' ! a) = pc_device_id (tx_objects w ! a) \<and>
        (pc_device_id (tx_objects w ! a) \<noteq> i \<longrightarrow> tx_objects w' ! a = tx_objects w ! a))"

interpretation own: step_rel "own_only i"
  by unfold_locales (auto simp: own_only_def)

lemma own_prims:
  "keeps (own_only i) now" "keeps (own_only i) (tx_emit t d c data)"
  by (auto simp: keeps_def own_only_def now_def tx_emit_def)

lemma own_object:
  assumes "pc_device_id (tx_objects w ! a) = i" and "\<And>p. pc_device_id (f p) = pc_device_id p"
  shows "own_only i w (w\<lparr>tx_objects := (tx_objects w)[a := f (tx_objects w ! a)]\<rparr>)"
proof -
  have "pc_device_id ((tx_objects w)[a := f (tx_objects w ! a)] ! b) = pc_device_id (tx_objects w ! b) \<and>
      (pc_device_id (tx_objects w ! b) \<noteq> i \<longrightarrow> (tx_objects w)[a := f (tx_objects w ! a)] ! b = tx_objects w ! b)"
    if "b < length (tx_objects w)" for b
    using assms that by (cases "a = b") auto
  then show ?thesis by (simp add: own_only_def)
qed

lemma append_output_device: "pc_device_id (append_output k t p) = pc_device_id p"
  by (simp add: append_output_def split: prod.split)

lemma wp_resolve: "pc_device_id (tx_objects w ! a) = i \<Longrightarrow> wp (resolve a st ec extra) (\<lambda>x w'. own_only i w w') w"
  using own_object [of "w\<lparr>rt_ticks := Suc (rt_ticks w)\<rparr>" a i]
  by (auto simp: resolve_def upd_object_def wps own_only_def nth_list_update)

lemma dispatch_own:
  assumes "pc_device_id (tx_objects w ! a) = i"
  shows "wp (dispatch_message a t d) (\<lambda>x w'. own_only i w w') w"
proof -
  have "own_only i w w" by (rule own.R_refl)
  then show ?thesis
    unfolding dispatch_message_def
    using assms own_object [OF assms] wp_resolve [OF assms]
    by (simp add: upd_object_def wps append_output_device)
qed

text \<open>
  C16.  A device speaks for its own commands only: whatever it sends, and whether the message is accepted,
  ignored or raises, the commands of every other device, the credentials, the connections and the table
  of pending commands stay as they are, and nothing is sent.
\<close>

theorem device_isolation:
  fixes w w' :: tx_w
  assumes "handle_inbound_message i message w = (x, w')" and "a < length (tx_objects w)"
    and "pc_device_id (tx_objects w ! a) \<noteq> i"
  shows "tx_objects w' ! a = tx_objects w ! a \<and> pr_devices w' = pr_devices w \<and>
    pr_token_hashes w' = pr_token_hashes w \<and> tx_transports w' = tx_transports w \<and>
    tx_pending w' = tx_pending w \<and> tx_sent w' = tx_sent w"
proof -
  have bad: "wp (malformed i m) (\<lambda>x w'. own_only i w w') w" for m
    by (auto simp: malformed_def tx_emit_def wps own_only_def)
  have "own_only i w w" by (rule own.R_refl)
  then have "wp (handle_inbound_message i message) (\<lambda>x w'. own_only i w w') w"
    using dispatch_own bad
    by (auto simp: handle_inbound_message_def wps Let_def on_value_def split: pyval.split option.split sum.split)
  from wpD [OF this assms(1)] assms(2,3) show ?thesis by (simp add: own_only_def)
qed

section \<open>Answers\<close>

lemma uuid_str_nonempty: "uuid_str u \<noteq> []"
  by (simp add: uuid_str_def Let_def)

text \<open>What a device answers to a command of its own is acted on.\<close>

lemma reply_dispatch:
  fixes w :: tx_w
  assumes "c < 2 ^ 128" and "map_of (tx_pending w) c = Some a" and "pc_device_id (tx_objects w ! a) = i"
    and "t \<in> set COMMAND_MESSAGE_TYPES"
  shows "handle_inbound_message i (PDict ((''type'', PStr t) # (''commandId'', PStr (uuid_str c)) # rest)) w =
    dispatch_message a (PStr t) ((''type'', PStr t) # (''commandId'', PStr (uuid_str c)) # rest) w"
  using assms(2-4) uuid_roundtrip [OF assms(1)]
  by (simp add: Let_def handle_inbound_message_def hashable_def uuid_of_def dget_or_def uuid_str_nonempty
      bnd_eq liftS_def gets_def ret_def)

text \<open>
  The identifier of a command survives the trip to the device and back: an answer that carries the
  \<^verbatim>\<open>commandId\<close> of the request, as text, reaches the very command the request was sent for.
  What it prints is appended to that command's stream, and a final answer decides a result that was still
  open, with the output received so far and the exit code as it was sent.
\<close>

theorem reply_reaches_command:
  fixes w :: tx_w
  assumes "request_message c command = PDict request" and "c < 2 ^ 128"
    and "map_of (tx_pending w) c = Some a" and "a < length (tx_objects w)" and "pc_device_id (tx_objects w ! a) = i"
    and "reply = (\<lambda>t k v. PDict [(''type'', PStr t), (''commandId'', dget_or ''commandId'' PNone request), (k, v)])"
  shows "tx_objects (snd (handle_inbound_message i (reply ''stdout'' ''data'' (PStr s)) w)) =
      (tx_objects w)[a := append_output ''stdout'' s (tx_objects w ! a)] \<and>
    tx_objects (snd (handle_inbound_message i (reply ''stderr'' ''data'' (PStr s)) w)) =
      (tx_objects w)[a := append_output ''stderr'' s (tx_objects w ! a)] \<and>
    (pc_result (tx_objects w ! a) = None \<longrightarrow>
      (\<exists>r. pc_result (tx_objects (snd (handle_inbound_message i (reply ''command_completed'' ''exitCode'' code) w)) ! a) = Some r \<and>
         rr_status r = Ex_SUCCEEDED \<and> rr_exit_code r = code \<and>
         rr_stdout r = Some (concat (pc_stdout_chunks (tx_objects w ! a)))))"
proof -
  have id: "dget_or ''commandId'' PNone request = PStr (uuid_str c)"
    using assms(1) by (auto simp: request_message_def dget_or_def)
  have step: "handle_inbound_message i (reply t k v) w =
      dispatch_message a (PStr t) [(''type'', PStr t), (''commandId'', PStr (uuid_str c)), (k, v)] w"
    if "t \<in> set COMMAND_MESSAGE_TYPES" for t k v
    unfolding assms(6) id using reply_dispatch [OF assms(2,3,5) that] .
  have types: "''stdout'' \<in> set COMMAND_MESSAGE_TYPES" "''stderr'' \<in> set COMMAND_MESSAGE_TYPES"
    "''command_completed'' \<in> set COMMAND_MESSAGE_TYPES" by (simp_all add: COMMAND_MESSAGE_TYPES_def)
  show ?thesis using assms(4)
    by (simp add: step [OF types(1)] step [OF types(2)] step [OF types(3)] dispatch_message_def upd_object_def
        dget_or_def py_str_def resolve_def bnd_eq gets_def ret_def modify_def now_def)
qed

section \<open>What is kept of an output\<close>

lemma cont_run_take: "cont_run k s = k \<Longrightarrow> cont_run k (take m s) = min m k"
proof (induction k s arbitrary: m rule: cont_run.induct)
  case (3 k c s)
  then show ?case by (cases m) (auto split: if_splits)
qed auto

lemma utf8_tail_take:
  assumes "utf8_tail b s = utf8_need b" and "0 < utf8_need b"
  shows "utf8_tail b (take m s) = min m (utf8_need b)"
proof (cases s)
  case Nil
  then show ?thesis using assms by (simp add: utf8_tail_def)
next
  case (Cons c t)
  then have c: "utf8_second b (byte c)" "cont_run (utf8_need b - 1) t = utf8_need b - 1"
    using assms by (auto simp: utf8_tail_def split: if_splits)
  show ?thesis
  proof (cases m)
    case (Suc m')
    then show ?thesis using Cons c cont_run_take [OF c(2), of m'] assms(2) by (simp add: utf8_tail_def)
  qed (simp add: utf8_tail_def)
qed

text \<open>A complete character, cut: complete still, or an ill-formed prefix of all that is left of it.\<close>

lemma utf8_chunk_take:
  assumes "utf8_chunk (c # s) = (k, True)" and "0 < n"
  shows "utf8_chunk (take n (c # s)) = (min n k, k \<le> n)"
proof -
  obtain m where n: "n = Suc m" using assms(2) by (cases n) auto
  consider "utf8_need (byte c) = 0" "k = 1" |
    "utf8_need (byte c) \<noteq> 0" "utf8_need (byte c) \<noteq> 4" "k = Suc (utf8_need (byte c))"
    "utf8_tail (byte c) s = utf8_need (byte c)"
    using assms(1) by (auto simp: Let_def split: if_splits)
  then show ?thesis
  proof cases
    case 2
    then show ?thesis using utf8_tail_take [OF 2(4), of m] n by (auto simp: Let_def)
  qed (simp add: n Let_def)
qed

lemma length_replacement: "length replacement_char = 3"
  by (simp add: replacement_char_def)

lemma decode_cut: "utf8_valid s \<Longrightarrow> length (decode_replace (take n s)) \<le> n + 2"
proof (induction s arbitrary: n rule: utf8_valid.induct)
  case 1
  show ?case by simp
next
  case (2 c s)
  obtain k ok where ch: "utf8_chunk (c # s) = (k, ok)" by (cases "utf8_chunk (c # s)")
  with "2.prems" have ok: ok "k \<le> length (c # s)" and v: "utf8_valid (drop k (c # s))"
    by (auto simp: utf8_valid.simps(2))
  show ?case
  proof (cases n)
    case (Suc m)
    have t: "take n (c # s) = c # take m s" by (simp add: Suc)
    have chunk: "utf8_chunk (c # take m s) = (min n k, k \<le> n)"
      using utf8_chunk_take [of c s k n] ch ok(1) by (simp add: Suc)
    have k: "0 < k" using utf8_chunk_pos [of c s] ch by simp
    show ?thesis
    proof (cases "k \<le> n")
      case True
      have "drop k (take n (c # s)) = take (n - k) (drop k (c # s))" by (simp add: drop_take)
      then have "length (decode_replace (drop k (take n (c # s)))) \<le> n - k + 2"
        using "2.IH" [OF ch [symmetric] v, of "n - k"] by simp
      moreover have "decode_replace (take n (c # s)) =
          take k (c # take m s) @ decode_replace (drop k (take n (c # s)))"
        using chunk True by (simp add: t decode_replace.simps(2) del: utf8_chunk.simps)
      moreover have "length (take k (c # take m s)) \<le> k" by simp
      ultimately show ?thesis using True by simp
    next
      case False
      then have "decode_replace (take n (c # s)) = replacement_char @ decode_replace (drop n (take n (c # s)))"
        using chunk by (simp add: t decode_replace.simps(2) del: utf8_chunk.simps)
      then show ?thesis by (simp add: length_replacement Suc)
    qed
  qed simp
qed

lemma utf8_bad_short: "utf8_chunk (c # s) = (n, False) \<Longrightarrow> n \<le> 3"
proof -
  assume ch: "utf8_chunk (c # s) = (n, False)"
  have "utf8_tail (byte c) s \<le> utf8_need (byte c)" if "utf8_need (byte c) \<noteq> 0"
    using that cont_run_le [of "utf8_need (byte c) - 1" "tl s"] by (cases s) (auto simp: utf8_tail_def)
  moreover have "utf8_need (byte c) \<le> 4" by (simp add: utf8_need_def)
  ultimately show ?thesis using ch by (auto simp: Let_def split: if_splits)
qed

lemma decode_longer: "length s \<le> length (decode_replace s)"
proof (induction s rule: decode_replace.induct)
  case (2 c s)
  obtain n ok where ch: "utf8_chunk (c # s) = (n, ok)" by (cases "utf8_chunk (c # s)")
  have "length (drop n (c # s)) \<le> length (decode_replace (drop n (c # s)))"
    using "2.IH" [OF ch [symmetric]] by blast
  moreover have "length (c # s) \<le> length (if ok then take n (c # s) else replacement_char) + length (drop n (c # s))"
    using utf8_bad_short [of c s n] ch by (cases ok) (simp_all add: length_replacement)
  ultimately show ?case by (simp add: decode_replace.simps(2) ch del: utf8_chunk.simps)
qed simp

text \<open>
  A stream as it is kept: all of it if there is no cap; else at most two bytes more than the cap, and either
  all of it or, with the flag of truncation, as much as the cap.
\<close>

definition stream_within :: "int option \<Rightarrow> string \<Rightarrow> string \<Rightarrow> bool \<Rightarrow> bool" where
  "stream_within cap sent kept truncated \<longleftrightarrow> (case cap of
     None \<Rightarrow> kept = sent \<and> \<not> truncated
   | Some c \<Rightarrow> int (length kept) \<le> c + 2 \<and> (if truncated then c \<le> int (length kept) else kept = sent))"

definition stream_ok :: "int option \<Rightarrow> string \<Rightarrow> string list \<times> int \<times> bool \<Rightarrow> bool" where
  "stream_ok cap sent st \<longleftrightarrow> (case st of (chunks, used, truncated) \<Rightarrow>
     used = int (length (concat chunks)) \<and> stream_within cap sent (concat chunks) truncated)"

lemma append_stream_ok:
  assumes "stream_ok cap sent st" and "utf8_valid text'" and "\<forall>c. cap = Some c \<longrightarrow> 0 \<le> c"
  shows "stream_ok cap (sent @ text') (append_stream cap text' st)"
proof -
  obtain chunks used truncated where st: "st = (chunks, used, truncated)" by (cases st)
  show ?thesis
  proof (cases cap)
    case None
    then show ?thesis using assms(1) by (simp add: stream_ok_def stream_within_def st append_stream_def)
  next
    case (Some c)
    have cut: "int (length (decode_replace (take n text'))) \<le> int n + 2"
      "int (min (length text') n) \<le> int (length (decode_replace (take n text')))" for n
      using decode_cut [OF assms(2), of n] decode_longer [of "take n text'"] by (simp, simp only: length_take of_nat_le_iff)
    show ?thesis
      using assms(1,3) cut [of "nat (c - used)"] Some
      by (auto simp: stream_ok_def stream_within_def st append_stream_def Let_def)
  qed
qed

lemma append_streams_ok:
  assumes "stream_ok cap sent st" and "\<forall>m \<in> set texts. utf8_valid m" and "\<forall>c. cap = Some c \<longrightarrow> 0 \<le> c"
  shows "stream_ok cap (sent @ concat texts) (fold (append_stream cap) texts st)"
  using assms
proof (induction texts arbitrary: sent st)
  case (Cons m texts)
  from Cons.IH [OF append_stream_ok [OF Cons.prems(1) _ Cons.prems(3), of m]] Cons.prems show ?case by simp
qed simp

definition stdout_of :: "pending_command \<Rightarrow> string list \<times> int \<times> bool" where
  "stdout_of p = (pc_stdout_chunks p, pc_stdout_bytes p, pc_stdout_truncated p)"

definition stderr_of :: "pending_command \<Rightarrow> string list \<times> int \<times> bool" where
  "stderr_of p = (pc_stderr_chunks p, pc_stderr_bytes p, pc_stderr_truncated p)"

text \<open>The texts of one of the streams, in order.\<close>

definition texts_on :: "string \<Rightarrow> (string \<times> string) list \<Rightarrow> string list" where
  "texts_on kind msgs = map snd (filter (\<lambda>m. fst m = kind) msgs)"

lemma streams_apart:
  assumes "fst ` set msgs \<subseteq> {''stdout'', ''stderr''}"
  shows "stdout_of (fold (\<lambda>(k, m). append_output k m) msgs p) =
      fold (append_stream (pc_max_stdout_bytes p)) (texts_on ''stdout'' msgs) (stdout_of p) \<and>
    stderr_of (fold (\<lambda>(k, m). append_output k m) msgs p) =
      fold (append_stream (pc_max_stderr_bytes p)) (texts_on ''stderr'' msgs) (stderr_of p) \<and>
    pc_result (fold (\<lambda>(k, m). append_output k m) msgs p) = pc_result p"
  using assms
proof (induction msgs arbitrary: p)
  case (Cons x msgs)
  obtain k m where x: "x = (k, m)" by (cases x)
  have "pc_max_stdout_bytes (append_output k m p) = pc_max_stdout_bytes p"
    "pc_max_stderr_bytes (append_output k m p) = pc_max_stderr_bytes p"
    "pc_result (append_output k m p) = pc_result p"
    "stdout_of (append_output k m p) =
      (if k = ''stdout'' then append_stream (pc_max_stdout_bytes p) m (stdout_of p) else stdout_of p)"
    "stderr_of (append_output k m p) =
      (if k = ''stdout'' then stderr_of p else append_stream (pc_max_stderr_bytes p) m (stderr_of p))"
    by (auto simp: append_output_def stdout_of_def stderr_of_def split: prod.split)
  then show ?case using Cons.IH [of "append_output k m p"] Cons.prems x by (auto simp: texts_on_def)
qed (simp add: texts_on_def)

lemma resolve_reports:
  fixes w :: tx_w
  assumes "a < length (tx_objects w)" and "pc_result (tx_objects w ! a) = None"
  shows "\<exists>r. pc_result (tx_objects (snd (resolve a status code extra w)) ! a) = Some r \<and>
    rr_stdout r = Some (concat (pc_stdout_chunks (tx_objects w ! a))) \<and>
    rr_stderr r = Some (concat (pc_stderr_chunks (tx_objects w ! a)) @ extra) \<and>
    rr_stdout_truncated r = pc_stdout_truncated (tx_objects w ! a) \<and>
    rr_stderr_truncated r = pc_stderr_truncated (tx_objects w ! a)"
  using assms by (simp add: resolve_def upd_object_def modify_def)

text \<open>
  C39.  What is kept of a remote command's output is bounded, on both streams, in whatever order their texts
  come: without a cap all of a stream is kept, and with one at most two bytes more than it, which are what
  replacing a cut character can add; and either all of the stream is kept, or its flag of truncation is set
  and it fills the cap.  The result that is reported has just that on standard output, and on the error
  output just that followed by the error message of the device, which no cap bounds, and the two flags.
\<close>

theorem remote_output_capped:
  fixes w :: tx_w
  assumes "fst ` set msgs \<subseteq> {''stdout'', ''stderr''}" and "\<forall>m \<in> snd ` set msgs. utf8_valid m"
    and "\<forall>c. cs_max_stdout_bytes command = Some c \<longrightarrow> 0 \<le> c" and "\<forall>c. cs_max_stderr_bytes command = Some c \<longrightarrow> 0 \<le> c"
    and "a < length (tx_objects w)"
    and "tx_objects w ! a = fold (\<lambda>(k, m). append_output k m) msgs (new_command i command t)"
  shows "\<exists>r out err. pc_result (tx_objects (snd (resolve a status code message w)) ! a) = Some r \<and>
    rr_stdout r = Some out \<and> rr_stderr r = Some (err @ message) \<and>
    stream_within (cs_max_stdout_bytes command) (concat (texts_on ''stdout'' msgs)) out (rr_stdout_truncated r) \<and>
    stream_within (cs_max_stderr_bytes command) (concat (texts_on ''stderr'' msgs)) err (rr_stderr_truncated r)"
proof -
  let ?p = "tx_objects w ! a"
  have valid: "\<forall>m \<in> set (texts_on k msgs). utf8_valid m" for k using assms(2) by (auto simp: texts_on_def)
  have start: "stream_ok cap [] ([], 0, False)" if "\<forall>c. cap = Some c \<longrightarrow> 0 \<le> c" for cap
    using that by (auto simp: stream_ok_def stream_within_def split: option.split)
  have new: "stdout_of (new_command i command t) = ([], 0, False)" "stderr_of (new_command i command t) = ([], 0, False)"
    by (simp_all add: stdout_of_def stderr_of_def new_command_def)
  note apart = streams_apart [OF assms(1), of "new_command i command t", folded assms(6)]
  have "stream_ok (cs_max_stdout_bytes command) ([] @ concat (texts_on ''stdout'' msgs)) (stdout_of ?p)"
    "stream_ok (cs_max_stderr_bytes command) ([] @ concat (texts_on ''stderr'' msgs)) (stderr_of ?p)"
    using append_streams_ok [OF start valid] assms(3,4) apart new by (simp_all add: new_command_def)
  moreover have "pc_result ?p = None" using apart by (simp add: new_command_def)
  ultimately show ?thesis
    using resolve_reports [OF assms(5), of status code message]
    by (auto simp: stream_ok_def stdout_of_def stderr_of_def)
qed

section \<open>Revocation\<close>

definition tx_good :: "tx_w \<Rightarrow> tx_w \<Rightarrow> bool" where
  "tx_good w w' \<longleftrightarrow> pair_ok w' \<and> (\<forall>i. cred_of w i = Cr_Revoked \<longrightarrow> cred_of w' i = Cr_Revoked)"

lemma cred_revoked:
  "cred_of w i = Cr_Revoked \<longleftrightarrow> (\<exists>d. map_of (pr_devices w) i = Some d \<and> dv_state d = Dev_REVOKED)"
  by (auto simp: cred_of_def split: option.splits)

interpretation dsm: step_rel "dev_same :: tx_w \<Rightarrow> tx_w \<Rightarrow> bool"
  by unfold_locales (auto simp: dev_same_def)

lemma same_good: "pair_ok w \<Longrightarrow> dev_same w w' \<Longrightarrow> tx_good w w'"
  using dev_same_cred [of w w'] by (simp add: tx_good_def)

lemma step_good:
  assumes "dev_step i d th pp w w'" and "pair_ok w" and "dv_id d = i"
    and "dv_state d \<in> {Dev_PAIRING_REQUIRED, Dev_AUTHORIZED, Dev_CONNECTED, Dev_DISCONNECTED, Dev_REVOKED}"
    and "th \<noteq> None \<longleftrightarrow> dv_state d \<in> {Dev_AUTHORIZED, Dev_CONNECTED, Dev_DISCONNECTED}"
    and "pp \<noteq> None \<longrightarrow> dv_state d = Dev_PAIRING_REQUIRED"
    and "cred_of w i = Cr_Revoked \<Longrightarrow> dv_state d = Dev_REVOKED"
  shows "tx_good w w'"
  using dev_step_ok [OF assms(1-6)] dev_step_cred [OF assms(1)] assms(7) by (auto simp: tx_good_def)

lemma same_prims:
  "keeps (dev_same :: tx_w \<Rightarrow> tx_w \<Rightarrow> bool) now" "keeps (dev_same :: tx_w \<Rightarrow> tx_w \<Rightarrow> bool) uuid4"
  "keeps (dev_same :: tx_w \<Rightarrow> tx_w \<Rightarrow> bool) (tx_emit t i c data)"
  "keeps (dev_same :: tx_w \<Rightarrow> tx_w \<Rightarrow> bool) (send_json k m)"
  "keeps (dev_same :: tx_w \<Rightarrow> tx_w \<Rightarrow> bool) (pop_pending cid)"
  "keeps (dev_same :: tx_w \<Rightarrow> tx_w \<Rightarrow> bool) (upd_object a f)"
  "keeps (dev_same :: tx_w \<Rightarrow> tx_w \<Rightarrow> bool) (modify (\<lambda>w. w\<lparr>tx_objects := g w, tx_pending := h w\<rparr>))"
  by (auto simp: keeps_def dev_same_def now_def uuid4_def tx_emit_def send_json_def pop_pending_def
      upd_object_def modify_def)

lemmas same_intros = dsm.keeps_intros same_prims

lemma commands_same:
  "keeps (dev_same :: tx_w \<Rightarrow> tx_w \<Rightarrow> bool) (remote_begin i command)"
  "keeps (dev_same :: tx_w \<Rightarrow> tx_w \<Rightarrow> bool) (remote_send r command)"
  "keeps (dev_same :: tx_w \<Rightarrow> tx_w \<Rightarrow> bool) (remote_done r result)"
  "keeps (dev_same :: tx_w \<Rightarrow> tx_w \<Rightarrow> bool) (remote_timeout r)"
  "keeps (dev_same :: tx_w \<Rightarrow> tx_w \<Rightarrow> bool) (remote_cancelled r)"
  "keeps (dev_same :: tx_w \<Rightarrow> tx_w \<Rightarrow> bool) (lose_command i cid)"
  unfolding remote_begin_def remote_send_def remote_done_def remote_timeout_def remote_cancelled_def
    best_effort_cancel_def lose_command_def
  by (intro same_intros)+

lemma inbound_same: "keeps (dev_same :: tx_w \<Rightarrow> tx_w \<Rightarrow> bool) (handle_inbound_message i m)"
  unfolding handle_inbound_message_def malformed_def dispatch_message_def resolve_def Let_def
  by (cases m) (auto intro!: same_intros)

lemma register_good:
  assumes "pair_ok (w :: tx_w)" and "map_of (pr_devices w) (rt_uuid w (rt_uuids w)) = None"
  shows "wp (register_device name version caps) (\<lambda>x w'. tx_good w w') w"
proof (rule wp_mono [OF register_device_post])
  fix x w'
  assume "\<exists>d code. x = Inr (d, code) \<and> dv_id d = rt_uuid w (rt_uuids w) \<and>
     dv_state d = Dev_PAIRING_REQUIRED \<and> code = pr_secret w (pr_secrets w) PAIRING_CODE_BYTES \<and>
     dev_step (dv_id d) d (map_of (pr_token_hashes w) (dv_id d)) (Some \<lparr>pp_code_hash = pr_hash w code,
       pp_expires_at = rt_clock w (Suc (rt_ticks w)) + seconds (pr_ttl_seconds w)\<rparr>) w w'"
  then obtain d pp where d: "dv_id d = rt_uuid w (rt_uuids w)" "dv_state d = Dev_PAIRING_REQUIRED"
      "dev_step (dv_id d) d (map_of (pr_token_hashes w) (dv_id d)) (Some pp) w w'" by blast
  have "device_ok w (dv_id d)" using assms(1) by (simp add: pair_ok_def)
  then have "map_of (pr_token_hashes w) (dv_id d) = None" using assms(2) d(1) by (simp add: device_ok_def)
  then show "tx_good w w'"
    using d assms by (intro step_good [OF d(3)]) (simp_all add: cred_of_def)
qed

lemma confirm_good:
  assumes "pair_ok (w :: tx_w)"
  shows "wp (confirm_pairing i code) (\<lambda>x w'. tx_good w w') w"
proof (cases "map_of (pr_devices w) i")
  case None
  have "dev_same w w" by (rule dsm.R_refl)
  then show ?thesis using None same_good [OF assms] by (simp add: confirm_pairing_def wps)
next
  case (Some d)
  have ok: "device_ok w i" using assms by (simp add: pair_ok_def)
  then have id: "dv_id d = i" and st: "map_of (pr_pending w) i \<noteq> None \<Longrightarrow> dv_state d = Dev_PAIRING_REQUIRED"
    using Some by (auto simp: device_ok_def)
  show ?thesis
  proof (rule wp_mono [OF confirm_pairing_post [OF assms Some, of code]])
    fix x w'
    let ?d = "d\<lparr>dv_state := Dev_AUTHORIZED, dv_last_seen_at := Some (rt_clock w (Suc (rt_ticks w)))\<rparr>"
    have lapsed: "tx_good w w'" if "dev_step i d None None w w'" "map_of (pr_pending w) i \<noteq> None"
      using that st [OF that(2)] id Some by (intro step_good [OF that(1) assms]) (auto simp: cred_revoked)
    have paired: "tx_good w w'" if "dev_step i ?d (Some h) None w w'" "map_of (pr_pending w) i \<noteq> None" for h
      using that st [OF that(2)] id Some
      by (intro step_good [OF that(1) assms]) (auto simp: cred_revoked)
    assume "case map_of (pr_pending w) i of
       None \<Rightarrow> dev_same w w' \<and> (\<exists>m. x = Inl (TermuxConnectorError TX_PAIRING_CODE_INVALID m))
     | Some p \<Rightarrow>
         if pp_expires_at p < rt_clock w (rt_ticks w) then
           dev_step i d None None w w' \<and> (\<exists>m. x = Inl (TermuxConnectorError TX_PAIRING_CODE_EXPIRED m))
         else if pp_code_hash p \<noteq> pr_hash w code then
           dev_same w w' \<and> (\<exists>m. x = Inl (TermuxConnectorError TX_PAIRING_CODE_INVALID m))
         else let token = pr_secret w (pr_secrets w) DEVICE_TOKEN_BYTES;
                  d' = d\<lparr>dv_state := Dev_AUTHORIZED, dv_last_seen_at := Some (rt_clock w (Suc (rt_ticks w)))\<rparr>
              in dev_step i d' (Some (pr_hash w token)) None w w' \<and> x = Inr (d', token)"
    then show "tx_good w w'"
      using same_good [OF assms] lapsed paired by (auto simp: Let_def split: option.splits if_splits)
  qed
qed

lemma revoke_good:
  assumes "pair_ok (w :: tx_w)"
  shows "wp (revoke_device i) (\<lambda>x w'. tx_good w w') w"
proof (cases "map_of (pr_devices w) i")
  case None
  have "dev_same w w" by (rule dsm.R_refl)
  then show ?thesis using None same_good [OF assms] by (simp add: revoke_device_def wps)
next
  case (Some d)
  show ?thesis
    by (rule wp_mono [OF revoke_device_post [OF assms Some]]) (auto intro!: step_good [OF _ assms])
qed

lemma same_dev_step: "dev_same w w1 \<Longrightarrow> dev_step i d th pp w1 w2 \<Longrightarrow> dev_step i d th pp w w2"
  by (simp add: dev_same_def dev_step_def)

text \<open>A device that is marked, from a state that differs in nothing the service stores.\<close>

lemma marked_good:
  assumes "pair_ok (w :: tx_w)" and "dev_same w w1" and "map_of (pr_devices w) i = Some d"
    and "dev_step i d' (map_of (pr_token_hashes w1) i) (map_of (pr_pending w1) i) w1 w2" and "dv_id d' = i"
    and "dv_state d' = dv_state d \<or>
      dv_state d \<in> {Dev_AUTHORIZED, Dev_CONNECTED, Dev_DISCONNECTED} \<and> dv_state d' \<in> {Dev_CONNECTED, Dev_DISCONNECTED}"
  shows "tx_good w w2"
proof -
  have ok: "device_ok w i" using assms(1) by (simp add: pair_ok_def)
  have eq: "map_of (pr_token_hashes w1) i = map_of (pr_token_hashes w) i"
    "map_of (pr_pending w1) i = map_of (pr_pending w) i" using assms(2) by (simp_all add: dev_same_def)
  show ?thesis
    by (rule step_good [OF same_dev_step [OF assms(2,4)] assms(1,5)])
      (use ok assms(3,6) eq in \<open>auto simp: device_ok_def cred_revoked\<close>)
qed

lemma connect_good:
  assumes "pair_ok (w :: tx_w)"
  shows "wp (handle_connect i token c) (\<lambda>x w'. tx_good w w') w"
  unfolding handle_connect_def wp_bnd
proof (rule wp_mono [OF authenticate_post [OF assms, of i token]])
  fix x w1
  let ?k = "\<lambda>_. wp (sq (modify (\<lambda>w. w\<lparr>tx_transports := dset i c (tx_transports w)\<rparr>))
     (bnd (mark_connected i) (\<lambda>_. tx_emit DEVICE_CONNECTED i None []))) (\<lambda>x w'. tx_good w w')"
  assume a: "dev_same w w1 \<and>
    ((\<exists>d. x = Inr d) \<longleftrightarrow> cred_of w i = Cr_Paired (pr_hash w token)) \<and>
    (\<forall>d. x = Inr d \<longrightarrow> map_of (pr_devices w) i = Some d \<and> w1 = w) \<and>
    (cred_of w i = Cr_Revoked \<longrightarrow> (\<exists>m. x = Inl (TermuxConnectorError TX_REVOKED_DEVICE m)))"
  show "on_value (\<lambda>x w'. tx_good w w') ?k x w1"
  proof (cases x)
    case (Inl e)
    then show ?thesis using a same_good [OF assms] by simp
  next
    case (Inr d)
    then have d: "map_of (pr_devices w) i = Some d" "cred_of w i = Cr_Paired (pr_hash w token)" "w1 = w"
      using a by auto
    let ?w2 = "w\<lparr>tx_transports := dset i c (tx_transports w)\<rparr>"
    have same: "dev_same w ?w2" by (simp add: dev_same_def)
    then have ok2: "pair_ok ?w2" using assms dev_same_cred by blast
    have ok: "device_ok w i" using assms by (simp add: pair_ok_def)
    then have st: "dv_state d \<in> {Dev_AUTHORIZED, Dev_CONNECTED, Dev_DISCONNECTED}"
        "map_of (pr_token_hashes w) i \<noteq> None" "map_of (pr_pending w) i = None"
      using d by (auto simp: device_ok_def cred_of_def split: option.splits if_splits)
    have "wp (mark_connected i) (\<lambda>x w'. tx_good w w') ?w2"
      by (rule wp_mono [OF mark_post(1) [OF ok2, of i d]])
        (use d(1) st(1) in \<open>auto intro!: marked_good [OF assms same d(1)]\<close>)
    then have "wp (mark_connected i) (on_value (\<lambda>x w'. tx_good w w')
        (\<lambda>_. wp (tx_emit DEVICE_CONNECTED i None []) (\<lambda>x w'. tx_good w w'))) ?w2"
    proof (rule wp_mono)
      fix y w3
      assume g: "tx_good w w3"
      have "tx_good w w4" if "dev_same w3 w4" for w4
        using g dev_same_cred [OF that] by (simp add: tx_good_def)
      then show "on_value (\<lambda>x w'. tx_good w w') (\<lambda>_. wp (tx_emit DEVICE_CONNECTED i None []) (\<lambda>x w'. tx_good w w')) y w3"
        using g by (cases y) (auto simp: tx_emit_def wps dev_same_def)
    qed
    then show ?thesis using Inr d(3) by (simp add: wps)
  qed
qed

lemma disconnect_good:
  assumes "pair_ok (w :: tx_w)"
  shows "wp (handle_disconnect i) (\<lambda>x w'. tx_good w w') w"
proof -
  let ?w1 = "w\<lparr>tx_transports := ddel i (tx_transports w)\<rparr>"
  have same: "dev_same w ?w1" by (simp add: dev_same_def)
  then have ok1: "pair_ok ?w1" using assms dev_same_cred by blast
  have rest: "keeps (dev_same :: tx_w \<Rightarrow> tx_w \<Rightarrow> bool) (sq (tx_emit DEVICE_DISCONNECTED i None [])
      (bnd (gets (commands_of i)) (\<lambda>lost. for_each (lose_command i) lost)))"
    by (intro same_intros commands_same)
  have mark: "wp (mark_disconnected i) (\<lambda>x w'. tx_good w w') ?w1"
  proof (cases "map_of (pr_devices w) i")
    case None
    then show ?thesis using same same_good [OF assms] by (simp add: mark_disconnected_def wps)
  next
    case (Some d)
    show ?thesis
      by (rule wp_mono [OF mark_post(2) [OF ok1, of i d]])
        (use Some in \<open>auto split: if_splits intro!: marked_good [OF assms same Some]\<close>)
  qed
  have "wp (mark_disconnected i) (on_value (\<lambda>x w'. tx_good w w') (\<lambda>_. wp (sq (tx_emit DEVICE_DISCONNECTED i None [])
      (bnd (gets (commands_of i)) (\<lambda>lost. for_each (lose_command i) lost))) (\<lambda>x w'. tx_good w w'))) ?w1"
  proof (rule wp_mono [OF mark])
    fix y w2
    assume g: "tx_good w w2"
    have "tx_good w w3" if "dev_same w2 w3" for w3
      using g dev_same_cred [OF that] by (simp add: tx_good_def)
    then show "on_value (\<lambda>x w'. tx_good w w') (\<lambda>_. wp (sq (tx_emit DEVICE_DISCONNECTED i None [])
      (bnd (gets (commands_of i)) (\<lambda>lost. for_each (lose_command i) lost))) (\<lambda>x w'. tx_good w w')) y w2"
      using g rest by (cases y) (auto simp: wp_def keeps_def)
  qed
  then show ?thesis by (simp add: handle_disconnect_def wp_sq wp_bnd wp_modify)
qed

datatype tx_event =
    Tx_Registered string "string option" "termux_capability list"
  | Tx_Confirmed uuid string
  | Tx_Revoked uuid
  | Tx_Connected uuid string connection
  | Tx_Disconnected uuid
  | Tx_Message uuid pyval
  | Tx_Begun uuid command_spec
  | Tx_Sent remote_call command_spec
  | Tx_Done remote_call remote_result
  | Tx_Timed_Out remote_call
  | Tx_Cancelled remote_call

text \<open>One call of the service or of the manager.  The identifier of a new device has not been drawn before.\<close>

inductive tx_step :: "tx_w \<Rightarrow> tx_event \<Rightarrow> tx_w \<Rightarrow> bool" where
  tx_registered: "map_of (pr_devices w) (rt_uuid w (rt_uuids w)) = None \<Longrightarrow>
    register_device name version caps w = (x, w') \<Longrightarrow> tx_step w (Tx_Registered name version caps) w'"
| tx_confirmed: "confirm_pairing i code w = (x, w') \<Longrightarrow> tx_step w (Tx_Confirmed i code) w'"
| tx_revoked: "revoke_device i w = (y, w') \<Longrightarrow> tx_step w (Tx_Revoked i) w'"
| tx_connected: "handle_connect i token c w = (u, w') \<Longrightarrow> tx_step w (Tx_Connected i token c) w'"
| tx_disconnected: "handle_disconnect i w = (u, w') \<Longrightarrow> tx_step w (Tx_Disconnected i) w'"
| tx_message: "handle_inbound_message i m w = (u, w') \<Longrightarrow> tx_step w (Tx_Message i m) w'"
| tx_begun: "remote_begin i command w = (v, w') \<Longrightarrow> tx_step w (Tx_Begun i command) w'"
| tx_sending: "remote_send r command w = (u, w') \<Longrightarrow> tx_step w (Tx_Sent r command) w'"
| tx_done: "remote_done r result w = (z, w') \<Longrightarrow> tx_step w (Tx_Done r result) w'"
| tx_timed_out: "remote_timeout r w = (z, w') \<Longrightarrow> tx_step w (Tx_Timed_Out r) w'"
| tx_cancelled: "remote_cancelled r w = (z, w') \<Longrightarrow> tx_step w (Tx_Cancelled r) w'"

inductive tx_run :: "tx_w \<Rightarrow> tx_event list \<Rightarrow> tx_w \<Rightarrow> bool" where
  no_tx_event: "tx_run w [] w"
| tx_event: "tx_run w evs w1 \<Longrightarrow> tx_step w1 e w2 \<Longrightarrow> tx_run w (evs @ [e]) w2"

lemma same_step: "keeps (dev_same :: tx_w \<Rightarrow> tx_w \<Rightarrow> bool) m \<Longrightarrow> m w = (x, w') \<Longrightarrow> pair_ok w \<Longrightarrow> tx_good w w'"
  by (rule same_good) (auto dest: keepsD)

lemma tx_step_good: "tx_step w e w' \<Longrightarrow> pair_ok w \<Longrightarrow> tx_good w w'"
proof (induction rule: tx_step.induct)
  case tx_registered
  then show ?case using register_good [THEN wpD] by blast
next
  case tx_confirmed
  then show ?case using confirm_good [THEN wpD] by blast
next
  case tx_revoked
  then show ?case using revoke_good [THEN wpD] by blast
next
  case tx_connected
  then show ?case using connect_good [THEN wpD] by blast
next
  case tx_disconnected
  then show ?case using disconnect_good [THEN wpD] by blast
next
  case tx_message
  then show ?case using same_step [OF inbound_same] by blast
next
  case tx_begun
  then show ?case using same_step [OF commands_same(1)] by blast
next
  case tx_sending
  then show ?case using same_step [OF commands_same(2)] by blast
next
  case tx_done
  then show ?case using same_step [OF commands_same(3)] by blast
next
  case tx_timed_out
  then show ?case using same_step [OF commands_same(4)] by blast
next
  case tx_cancelled
  then show ?case using same_step [OF commands_same(5)] by blast
qed

lemma tx_run_good: "tx_run w evs w' \<Longrightarrow> pair_ok w \<Longrightarrow> tx_good w w'"
proof (induction rule: tx_run.induct)
  case (no_tx_event w)
  then show ?case by (simp add: tx_good_def)
next
  case (tx_event w evs w1 e w2)
  then have "tx_good w w1" by blast
  moreover have "tx_good w1 w2" using tx_step_good tx_event \<open>tx_good w w1\<close> by (simp add: tx_good_def)
  ultimately show ?case by (simp add: tx_good_def)
qed

lemma pair_ok_empty: "pr_devices w = [] \<Longrightarrow> pr_pending w = [] \<Longrightarrow> pr_token_hashes w = [] \<Longrightarrow> pair_ok w"
  by (simp add: pair_ok_def device_ok_def)

text \<open>
  C17.  Revocation is final: in every state reached after a device is revoked, by any sequence of calls of
  the pairing service and of the connection manager, the device is still revoked, no token of it is
  stored, and every attempt to authenticate or to connect with it raises.
\<close>

theorem revocation_is_final:
  assumes "tx_run w0 evs w" and "pr_devices w0 = []" and "pr_pending w0 = []" and "pr_token_hashes w0 = []"
    and "map_of (pr_devices w) i = Some d" and "dv_state d = Dev_REVOKED" and "tx_run w evs' w'"
  shows "(\<exists>d'. map_of (pr_devices w') i = Some d' \<and> dv_state d' = Dev_REVOKED) \<and>
    map_of (pr_token_hashes w') i = None \<and>
    (\<exists>m. fst (handle_connect i token c w') = Inl (TermuxConnectorError TX_REVOKED_DEVICE m))"
proof -
  have "tx_good w0 w" using tx_run_good assms(1-4) pair_ok_empty by blast
  then have "tx_good w w'" using tx_run_good assms(7) by (auto simp: tx_good_def)
  moreover have "cred_of w i = Cr_Revoked" using assms(5,6) by (simp add: cred_revoked)
  ultimately have w': "pair_ok w'" "cred_of w' i = Cr_Revoked" by (auto simp: tx_good_def)
  then obtain d' where d': "map_of (pr_devices w') i = Some d'" "dv_state d' = Dev_REVOKED"
    by (auto simp: cred_revoked)
  have "device_ok w' i" using w'(1) by (simp add: pair_ok_def)
  then have "map_of (pr_token_hashes w') i = None" using d' by (auto simp: device_ok_def)
  moreover have "\<exists>m. fst (handle_connect i token c w') = Inl (TermuxConnectorError TX_REVOKED_DEVICE m)"
    using d' by (simp add: handle_connect_def authenticate_def require_device_def bnd_eq gets_def ret_def raise_def)
  ultimately show ?thesis using d' by blast
qed

text \<open>
  Revoking a device does not close its connection: while it is connected, the next command for it is
  sent to it all the same.
\<close>

theorem revoked_device_still_runs:
  assumes "map_of (tx_transports w) i = Some c" and "map_of (pr_devices w) i = Some d"
  shows "\<exists>d' w1 r w2 m. revoke_device i w = (Inr d', w1) \<and> dv_state d' = Dev_REVOKED \<and>
    remote_begin i command w1 = (Inr r, w2) \<and> rc_connection r = c \<and>
    tx_sent (snd (remote_send r command w2)) = tx_sent w @ [(c, request_message (rc_command_id r) command)]"
  using assms
  by (simp add: revoke_device_def require_device_def device_emit_def put_device_def remote_begin_def
      remote_send_def send_json_def tx_emit_def bnd_eq sq_def gets_def ret_def modify_def now_def uuid4_def
      Let_def split: option.split)

section \<open>A sample device\<close>

definition sample_device :: "device_state \<Rightarrow> termux_device" where
  "sample_device st = (new_device 100 ''phone'' None [] 0)\<lparr>dv_state := st\<rparr>"

definition sample_tx_w :: tx_w where
  "sample_tx_w = \<lparr>rt_clock = (\<lambda>n. int n), rt_ticks = 0, rt_uuid = (\<lambda>n. 100 + n), rt_uuids = 0,
     audit_log = [], pr_hash = (\<lambda>s. ''h'' @ s), pr_secret = (\<lambda>k n. ''s0''), pr_secrets = 0,
     pr_ttl_seconds = 300, pr_devices = [], pr_pending = [], pr_token_hashes = [], tx_transports = [],
     tx_pending = [], tx_objects = [], tx_send_result = (\<lambda>_. None), tx_sent = [], tx_closed = []\<rparr>"

definition sample_awaiting_w :: tx_w where
  "sample_awaiting_w = sample_tx_w\<lparr>pr_devices := [(100, sample_device Dev_PAIRING_REQUIRED)],
     pr_pending := [(100, \<lparr>pp_code_hash = ''hcode'', pp_expires_at = 300\<rparr>)]\<rparr>"

definition sample_connected_w :: tx_w where
  "sample_connected_w = sample_tx_w\<lparr>pr_devices := [(100, sample_device Dev_CONNECTED)],
     pr_token_hashes := [(100, ''htoken'')], tx_transports := [(100, 1)]\<rparr>"

definition sample_remote :: command_spec where
  "sample_remote = \<lparr>cs_argv = [''ls''], cs_timeout_seconds = 30, cs_working_dir = None, cs_env_overrides = [],
     cs_env_allowlist = None, cs_max_stdout_bytes = Some 3, cs_max_stderr_bytes = None\<rparr>"

lemma sample_awaiting: "pair_ok sample_awaiting_w"
  by (simp add: pair_ok_def device_ok_def sample_awaiting_w_def sample_tx_w_def sample_device_def new_device_def)

theorem pairing_refines_witness:
  "cred_of sample_awaiting_w 100 = Cr_Awaiting ''hcode'' 300 \<and>
   cred_of (snd (confirm_pairing 100 ''code'' sample_awaiting_w)) 100 = Cr_Paired ''hs0'' \<and>
   cred_of (snd (confirm_pairing 100 ''oops'' sample_awaiting_w)) 100 = Cr_Awaiting ''hcode'' 300"
proof -
  have c: "cred_of sample_awaiting_w 100 = Cr_Awaiting ''hcode'' 300"
    by (simp add: cred_of_def sample_awaiting_w_def sample_tx_w_def sample_device_def new_device_def)
  have w: "rt_clock sample_awaiting_w (rt_ticks sample_awaiting_w) = 0" "pr_hash sample_awaiting_w s = ''h'' @ s"
    "pr_secret sample_awaiting_w (pr_secrets sample_awaiting_w) n = ''s0''" for s n
    by (simp_all add: sample_awaiting_w_def sample_tx_w_def)
  from pairing_refines [OF sample_awaiting, of 100 "''code''" "[]"]
    pairing_refines [OF sample_awaiting, of 100 "''oops''" "[]"]
  show ?thesis by (simp add: c w)
qed

theorem device_isolation_witness:
  "let w = sample_connected_w\<lparr>tx_objects := [new_command 100 sample_remote 0], tx_pending := [(7, 0)]\<rparr>;
       w' = snd (handle_inbound_message 101 (PDict [(''type'', PStr ''stdout''), (''commandId'', PStr (uuid_str 7)),
              (''data'', PStr ''x'')]) w)
   in tx_objects w' ! 0 = tx_objects w ! 0 \<and> tx_pending w' = tx_pending w"
proof -
  let ?w = "sample_connected_w\<lparr>tx_objects := [new_command 100 sample_remote 0], tx_pending := [(7, 0)]\<rparr>"
  let ?m = "PDict [(''type'', PStr ''stdout''), (''commandId'', PStr (uuid_str 7)), (''data'', PStr ''x'')]"
  obtain x w' where h: "handle_inbound_message 101 ?m ?w = (x, w')" by (cases "handle_inbound_message 101 ?m ?w")
  have "0 < length (tx_objects ?w)" "pc_device_id (tx_objects ?w ! 0) \<noteq> 101" by (simp_all add: new_command_def)
  from device_isolation [OF h this] show ?thesis unfolding Let_def h snd_conv by blast
qed

theorem remote_output_capped_witness:
  "let msgs = [(''stdout'', ''abcd''), (''stderr'', ''e''), (''stdout'', ''ef'')];
       w = sample_tx_w\<lparr>tx_objects := [fold (\<lambda>(k, m). append_output k m) msgs (new_command 100 sample_remote 0)]\<rparr>
   in \<exists>r out err. pc_result (tx_objects (snd (resolve 0 Ex_FAILED (PInt 1) ''exit_code=1'' w)) ! 0) = Some r \<and>
        rr_stdout r = Some out \<and> length out \<le> 5 \<and> (\<not> rr_stdout_truncated r \<longrightarrow> out = ''abcdef'') \<and>
        rr_stderr r = Some (err @ ''exit_code=1'') \<and> err = ''e'' \<and> \<not> rr_stderr_truncated r"
proof -
  let ?msgs = "[(''stdout'', ''abcd''), (''stderr'', ''e''), (''stdout'', ''ef'')]"
  let ?w = "sample_tx_w\<lparr>tx_objects := [fold (\<lambda>(k, m). append_output k m) ?msgs (new_command 100 sample_remote 0)]\<rparr>"
  have v: "\<forall>m \<in> snd ` set ?msgs. utf8_valid m"
    by (simp add: utf8_valid.simps(2) utf8_need_def)
  have c: "cs_max_stdout_bytes sample_remote = Some 3" "cs_max_stderr_bytes sample_remote = None"
    by (simp_all add: sample_remote_def)
  obtain r out err where "pc_result (tx_objects (snd (resolve 0 Ex_FAILED (PInt 1) ''exit_code=1'' ?w)) ! 0) = Some r"
    "rr_stdout r = Some out" "rr_stderr r = Some (err @ ''exit_code=1'')"
    "stream_within (Some 3) (concat (texts_on ''stdout'' ?msgs)) out (rr_stdout_truncated r)"
    "stream_within None (concat (texts_on ''stderr'' ?msgs)) err (rr_stderr_truncated r)"
    using remote_output_capped [OF _ v, of sample_remote 0 ?w 100 0 Ex_FAILED "PInt 1" "''exit_code=1''"] c by auto
  then show ?thesis unfolding Let_def by (force simp: stream_within_def texts_on_def split: if_splits)
qed

theorem revocation_is_final_witness:
  "\<exists>w. tx_run sample_tx_w [Tx_Registered ''phone'' None [], Tx_Revoked 100] w \<and>
     map_of (pr_token_hashes w) 100 = None \<and>
     (\<exists>m. fst (handle_connect 100 ''token'' 1 w) = Inl (TermuxConnectorError TX_REVOKED_DEVICE m))"
proof -
  obtain x w1 where r: "register_device ''phone'' None [] sample_tx_w = (x, w1)"
    by (cases "register_device ''phone'' None [] sample_tx_w")
  obtain y w2 where v: "revoke_device 100 w1 = (y, w2)" by (cases "revoke_device 100 w1")
  have s: "pr_devices sample_tx_w = []" "pr_pending sample_tx_w = []" "pr_token_hashes sample_tx_w = []"
    "rt_uuid sample_tx_w (rt_uuids sample_tx_w) = 100"
    by (simp_all add: sample_tx_w_def)
  have reg: "tx_run sample_tx_w ([] @ [Tx_Registered ''phone'' None []]) w1"
    by (rule tx_event [OF no_tx_event tx_registered [OF _ r]]) (simp add: s)
  from tx_event [OF reg tx_revoked [OF v]]
  have run: "tx_run sample_tx_w [Tx_Registered ''phone'' None [], Tx_Revoked 100] w2" by simp
  obtain d where d: "map_of (pr_devices w1) 100 = Some d"
    using wpD [OF register_device_post r] s by (auto simp: dev_step_def)
  have "pair_ok w1" using tx_run_good [OF reg] pair_ok_empty s(1-3) by (auto simp: tx_good_def)
  from wpD [OF revoke_device_post [OF this d] v]
  have "\<exists>d. map_of (pr_devices w2) 100 = Some d \<and> dv_state d = Dev_REVOKED" by (auto simp: dev_step_def)
  then obtain d where "map_of (pr_devices w2) 100 = Some d" "dv_state d = Dev_REVOKED" by blast
  from revocation_is_final [OF run s(1-3) this no_tx_event] run show ?thesis by blast
qed

theorem revoked_device_still_runs_witness:
  "\<exists>d' w1 r w2. revoke_device 100 sample_connected_w = (Inr d', w1) \<and> dv_state d' = Dev_REVOKED \<and>
     remote_begin 100 sample_remote w1 = (Inr r, w2) \<and>
     tx_sent (snd (remote_send r sample_remote w2)) = [(1, request_message (rc_command_id r) sample_remote)]"
proof -
  have "map_of (tx_transports sample_connected_w) 100 = Some 1" "tx_sent sample_connected_w = []"
    "map_of (pr_devices sample_connected_w) 100 = Some (sample_device Dev_CONNECTED)"
    by (simp_all add: sample_connected_w_def sample_tx_w_def)
  with revoked_device_still_runs [of sample_connected_w 100 1 _ sample_remote] show ?thesis by fastforce
qed

theorem reply_reaches_command_witness:
  "let w = sample_connected_w\<lparr>tx_objects := [new_command 100 sample_remote 0], tx_pending := [(7, 0)]\<rparr>
   in \<exists>r. pc_result (tx_objects (snd (handle_inbound_message 100 (PDict [(''type'', PStr ''command_completed''),
        (''commandId'', PStr (uuid_str 7)), (''exitCode'', PInt 0)]) w)) ! 0) = Some r \<and>
      rr_status r = Ex_SUCCEEDED \<and> rr_exit_code r = PInt 0"
proof -
  let ?w = "sample_connected_w\<lparr>tx_objects := [new_command 100 sample_remote 0], tx_pending := [(7, 0)]\<rparr>"
  obtain request where q: "request_message 7 sample_remote = PDict request" "dget_or ''commandId'' PNone request = PStr (uuid_str 7)"
    by (simp add: request_message_def dget_or_def)
  have w: "map_of (tx_pending ?w) 7 = Some 0" "0 < length (tx_objects ?w)" "pc_device_id (tx_objects ?w ! 0) = 100"
    "pc_result (tx_objects ?w ! 0) = None" by (simp_all add: new_command_def)
  have "(7::nat) < 2 ^ 128" by simp
  from reply_reaches_command [OF q(1) this w(1-3) refl, of _ "PInt 0"] w(4)
  show ?thesis unfolding Let_def q(2) by blast
qed

end
