(* ===== verification/Connector_Lifecycle.thy ===== *)
theory Connector_Lifecycle
  imports Connector Termux_Lifecycle
begin

text \<open>
  What the connector on the device guarantees on its own, whatever the server sends, and what the two
  ends do together: the result the server reports is what the process on the device wrote.
\<close>

section \<open>What is accepted\<close>

lemma map_PStr_eq [simp]: "map PStr xs = map PStr ys \<longleftrightarrow> xs = ys"
  by (simp add: inj_map_eq_map inj_def)

lemma argv_parts_Inr:
  "argv_parts ps = Inr xs \<longleftrightarrow> ps = map PStr xs \<and> (\<forall>x \<in> set xs. py_len x \<le> 4096 \<and> CHR 0x00 \<notin> set x)"
proof (induction ps arbitrary: xs)
  case (Cons p ps)
  then show ?case
    by (cases p; cases xs) (auto simp: CONN_MAX_ARG_LENGTH_def split: sum.splits)
qed auto

lemma argv_parts_Inl: "argv_parts ps = Inl e \<Longrightarrow> \<exists>m. e = RefusedError m"
  by (induction ps) (auto split: pyval.splits if_splits sum.splits)

lemma connector_argv_Inr:
  "connector_argv v = Inr argv \<longleftrightarrow>
     v = PList (map PStr argv) \<and> argv \<noteq> [] \<and> length argv \<le> 64 \<and>
     (\<forall>x \<in> set argv. py_len x \<le> 4096 \<and> CHR 0x00 \<notin> set x) \<and> set (hd argv) \<inter> set SHELL_METACHARACTERS = {}"
proof (cases v)
  case (PList ps)
  show ?thesis
  proof (cases "argv_parts ps")
    case (Inl e)
    then have "\<not> (ps = map PStr argv \<and> (\<forall>x \<in> set argv. py_len x \<le> 4096 \<and> CHR 0x00 \<notin> set x))"
      using argv_parts_Inr [of ps argv] by simp
    then show ?thesis using PList Inl by (auto simp: connector_argv_def)
  next
    case (Inr xs)
    then have "ps = map PStr xs" "\<forall>x \<in> set xs. py_len x \<le> 4096 \<and> CHR 0x00 \<notin> set x"
      by (simp_all add: argv_parts_Inr)
    then show ?thesis using PList Inr by (auto simp: connector_argv_def MAX_ARGV_LENGTH_def)
  qed
qed (auto simp: connector_argv_def)

lemma connector_argv_Inl: "connector_argv v = Inl e \<Longrightarrow> \<exists>m. e = RefusedError m"
  by (auto simp: connector_argv_def split: pyval.splits if_splits sum.splits dest: argv_parts_Inl)

text \<open>A directory that is there, and is an allowed one or lies below it.\<close>

definition allowed_dir :: "os_env \<Rightarrow> (string \<Rightarrow> bool) \<Rightarrow> string \<Rightarrow> bool" where
  "allowed_dir e isdir d \<longleftrightarrow> isdir d \<and>
     (\<exists>base \<in> set (DEFAULT_ALLOWED_ROOTS e). d = base \<or> (\<exists>rest. d = base @ ''/'' @ rest))"

definition plain_name :: "string \<Rightarrow> bool" where
  "plain_name k \<longleftrightarrow> (\<forall>bad \<in> set SECRET_NAMES. \<not> str_in bad (upper k))"

lemma connector_directory_Inr:
  "connector_working_directory e isdir v = Inr (Some d) \<Longrightarrow> allowed_dir e isdir d"
  by (auto simp: allowed_dir_def connector_working_directory_def under_root_def starts_with_iff
      split: pyval.splits sum.splits if_splits)

lemma env_items_keys:
  "env_items items acc = Inr r \<Longrightarrow> map_of r k \<noteq> None \<Longrightarrow>
     map_of acc k \<noteq> None \<or> plain_name k"
  by (induction items acc rule: env_items.induct)
     (auto simp: map_of_update plain_name_def split: pyval.splits if_splits)

lemma connector_env_keys:
  "connector_env_overrides v = Inr r \<Longrightarrow> map_of r k \<noteq> None \<Longrightarrow> plain_name k"
  by (auto simp: connector_env_overrides_def split: pyval.splits dest!: env_items_keys)

lemma env_items_wf: "env_items items acc = Inr r \<Longrightarrow> distinct (map fst acc) \<Longrightarrow> distinct (map fst r)"
  by (induction items acc rule: env_items.induct)
     (auto simp: AList.distinct_update split: pyval.splits if_splits)

lemma connector_env_distinct: "connector_env_overrides v = Inr r \<Longrightarrow> distinct (map fst r)"
  by (auto simp: connector_env_overrides_def split: pyval.splits dest!: env_items_wf)

lemma connector_timeout_Inr: "connector_timeout v = Inr t \<Longrightarrow> 0 < t \<and> t \<le> 120"
  by (auto simp: connector_timeout_def MAX_TIMEOUT_SECONDS_def Let_def split: pyval.splits if_splits)

text \<open>What holds of a request that has been vetted on a device.\<close>

definition vetted_ok :: "os_env \<Rightarrow> (string \<Rightarrow> bool) \<Rightarrow> vetted \<Rightarrow> bool" where
  "vetted_ok e isdir v \<longleftrightarrow>
     vt_argv v \<noteq> [] \<and> length (vt_argv v) \<le> 64 \<and>
     (\<forall>x \<in> set (vt_argv v). py_len x \<le> 4096 \<and> CHR 0x00 \<notin> set x) \<and>
     set (hd (vt_argv v)) \<inter> set SHELL_METACHARACTERS = {} \<and>
     (\<forall>d. vt_cwd v = Some d \<longrightarrow> allowed_dir e isdir d) \<and>
     distinct (map fst (vt_env v)) \<and>
     (\<forall>k. map_of (vt_env v) k \<noteq> None \<longrightarrow> plain_name k) \<and>
     0 < vt_timeout v \<and> vt_timeout v \<le> 120"

lemma vet_request_ok:
  assumes "vet_request e isdir d = Inr v"
  shows "vetted_ok e isdir v"
proof -
  from assms have r: "connector_argv (dget_or ''argv'' PNone d) = Inr (vt_argv v)"
    "connector_working_directory e isdir (dget_or ''workingDirectory'' PNone d) = Inr (vt_cwd v)"
    "connector_env_overrides (dget_or ''envOverrides'' PNone d) = Inr (vt_env v)"
    "connector_timeout (dget_or ''timeoutSeconds'' PNone d) = Inr (vt_timeout v)"
    by (auto simp: vet_request_def split: sum.splits)
  have "allowed_dir e isdir x" if "vt_cwd v = Some x" for x
    using r(2) that by (intro connector_directory_Inr) simp
  moreover have "plain_name k" if "map_of (vt_env v) k \<noteq> None" for k
    using connector_env_keys [OF r(3) that] .
  ultimately show ?thesis
    using r(1) connector_timeout_Inr [OF r(4)] connector_env_distinct [OF r(3)]
    by (auto simp: vetted_ok_def connector_argv_Inr)
qed

lemma map_of_child_env:
  assumes "distinct (map fst overrides)"
  shows "map_of (child_env e overrides) k =
     (case map_of overrides k of Some v \<Rightarrow> Some v
      | None \<Rightarrow> map_of [(''PATH'', environ_get e ''PATH'' ''/data/data/com.termux/files/usr/bin:/usr/bin:/bin''),
          (''HOME'', environ_get e ''HOME'' TERMUX_HOME),
          (''LANG'', environ_get e ''LANG'' ''C.UTF-8''), (''TERM'', ''dumb'')] k)"
proof -
  have "map_of (AList.updates (map fst kvs) (map snd kvs) d) k =
      (case map_of kvs k of Some v \<Rightarrow> Some v | None \<Rightarrow> map_of d k)"
    if "distinct (map fst kvs)" for kvs and d :: "(string \<times> string) list"
    using that
  proof (induction kvs arbitrary: d)
    case (Cons kv kvs)
    moreover obtain k' v where "kv = (k', v)" by (cases kv)
    moreover have "k' \<notin> fst ` set kvs \<Longrightarrow> map_of kvs k' = None" by (simp add: map_of_eq_None_iff)
    ultimately show ?case by (auto simp: map_of_update split: option.splits)
  qed simp
  from this [OF assms] show ?thesis unfolding child_env_def .
qed

section \<open>Every process is vetted\<close>

text \<open>A call that the connector may make: it is that of a vetted request.\<close>

definition call_ok :: "os_env \<Rightarrow> (string \<Rightarrow> bool) \<Rightarrow> spawn_call \<Rightarrow> bool" where
  "call_ok e isdir c \<longleftrightarrow> (\<exists>v. vetted_ok e isdir v \<and> sc_argv c = vt_argv v \<and> sc_cwd c = vt_cwd v \<and>
     sc_env c = child_env e (vt_env v) \<and> sc_start_new_session c = os_has_setsid e)"

definition pump_ok :: "pump_state \<Rightarrow> bool" where
  "pump_ok p \<longleftrightarrow> 0 \<le> pu_stdout_bytes p \<and> pu_stdout_bytes p \<le> 1000000 \<and>
     0 \<le> pu_stderr_bytes p \<and> pu_stderr_bytes p \<le> 1000000"

definition cn_ok :: "cn_w \<Rightarrow> bool" where
  "cn_ok w \<longleftrightarrow> (\<forall>c \<in> set (os_calls w). call_ok (os w) (cn_isdir w) c) \<and>
     (\<forall>t \<in> set (cn_tasks w). vetted_ok (os w) (cn_isdir w) (ct_request t) \<and> pump_ok (ct_pump t))"

definition cn_good :: "cn_w \<Rightarrow> cn_w \<Rightarrow> bool" where
  "cn_good w w' \<longleftrightarrow> os w' = os w \<and> cn_isdir w' = cn_isdir w \<and> (cn_ok w \<longrightarrow> cn_ok w') \<and>
     length (cn_tasks w) \<le> length (cn_tasks w')"

interpretation cng: step_rel cn_good
  by unfold_locales (auto simp: cn_good_def)

lemma cn_good_prims:
  "keeps cn_good (conn_send m)" "keeps cn_good (send_signals sigs)"
  by (auto simp: keeps_def cn_good_def cn_ok_def conn_send_def send_signals_def modify_def)

lemma cn_good_running: "keeps cn_good (modify (\<lambda>w. w\<lparr>cn_running := f w\<rparr>))"
  by (simp add: keeps_def modify_def cn_good_def cn_ok_def)

lemma in_set_update: "x \<in> set (xs[i := y]) \<Longrightarrow> x = y \<and> i < length xs \<or> x \<in> set xs"
  using set_update_subset_insert [of xs i y] by (cases "i < length xs") (auto simp: list_update_beyond)

lemma cn_good_state: "keeps cn_good (upd_task a (\<lambda>t. t\<lparr>ct_state := st\<rparr>))"
  by (auto simp: keeps_def upd_task_def modify_def cn_good_def cn_ok_def dest!: in_set_update)

lemmas cn_intros = cng.keeps_intros cn_good_prims cn_good_running cn_good_state

lemma set_state_good: "keeps cn_good (set_state a st)"
  unfolding set_state_def by (intro cn_intros)

lemma cancel_running_good: "keeps cn_good (cancel_running a)"
proof -
  have "keeps cn_good (case st of Ct_Scheduled \<Rightarrow> set_state a Ct_Cancelled
     | Ct_Running px \<Rightarrow> sq (bnd (gets os) (\<lambda>e. send_signals (connector_terminate e px))) (set_state a Ct_Cancelled)
     | _ \<Rightarrow> ret ())" for st
    by (cases st) (auto intro!: cn_intros set_state_good)
  then show ?thesis unfolding cancel_running_def by (intro cn_intros)
qed

lemma cancel_all_good: "keeps cn_good cancel_all"
  unfolding cancel_all_def by (intro cn_intros cancel_running_good)

lemma command_finish_good: "keeps cn_good (command_finish c px)"
  by (cases "px_end px") (auto simp: command_finish_def Let_def intro!: cn_intros)

lemma task_finish_good: "keeps cn_good (task_finish a px)"
  unfolding task_finish_def by (intro cn_intros command_finish_good set_state_good)

lemma wp_conn_send [wps]:
  "wp (conn_send m) Q w = Q (case cn_send_result w (length (cn_sent w)) of None \<Rightarrow> Inr () | Some e \<Rightarrow> Inl e)
     (w\<lparr>cn_sent := cn_sent w @ [m]\<rparr>)"
  by (simp add: wp_def conn_send_def)

lemma wp_create_subprocess [wps]:
  "wp (create_subprocess_exec c) Q w =
     Q (Inr (os_spawn w (length (os_calls w)) c)) (w\<lparr>os_calls := os_calls w @ [c]\<rparr>)"
  by (simp add: wp_def create_subprocess_exec_def)

lemma command_spawn_good:
  assumes "vetted_ok (os w) (cn_isdir w) v"
  shows "wp (command_spawn c v) (\<lambda>_ w'. cn_good w w') w"
proof -
  let ?call = "\<lparr>sc_argv = vt_argv v, sc_cwd = vt_cwd v, sc_env = child_env (os w) (vt_env v),
     sc_start_new_session = os_has_setsid (os w)\<rparr>"
  have "call_ok (os w) (cn_isdir w) ?call" using assms by (auto simp: call_ok_def)
  then have "cn_good w (w\<lparr>os_calls := os_calls w @ [?call]\<rparr>)"
    "cn_good w (w\<lparr>os_calls := os_calls w @ [?call], cn_sent := ms\<rparr>)" for ms
    by (auto simp: cn_good_def cn_ok_def)
  then show ?thesis
    by (simp add: command_spawn_def wps on_value_def split: spawn_outcome.split option.split)
qed

lemma task_start_good:
  assumes "a < length (cn_tasks w)" and "cn_ok w"
  shows "cn_good w (snd (task_start a w))"
proof -
  let ?t = "cn_tasks w ! a"
  have ok: "vetted_ok (os w) (cn_isdir w) (ct_request ?t)" using assms by (simp add: cn_ok_def)
  have "wp (set_state a st) (\<lambda>_ w''. cn_good w w'') w'" if "cn_good w w'" for st w'
    using keepsD' [OF set_state_good] that cng.R_trans by (auto simp: wp_def)
  then have "wp (task_start a) (\<lambda>_ w''. cn_good w w'') w"
    unfolding task_start_def wps on_value_simps
    by (intro wp_mono [OF command_spawn_good [OF ok]]) (auto simp: wps on_value_def split: sum.splits)
  then show ?thesis by (simp add: wp_def)
qed

lemma pump_cut_ok:
  assumes "pump_ok p" and "pump_cut kind chunk p = (kept, p')"
  shows "pump_ok p'"
  using assms by (auto simp: pump_cut_def pump_ok_def Let_def CONN_MAX_STDOUT_BYTES_def CONN_MAX_STDERR_BYTES_def
      split: if_splits)

lemma task_pump_good:
  assumes "a < length (cn_tasks w)" and "cn_ok w"
  shows "cn_good w (snd (task_pump a kind chunk w))"
proof -
  let ?t = "cn_tasks w ! a"
  obtain kept p where cut: "pump_cut kind chunk (ct_pump ?t) = (kept, p)" by fastforce
  have ok: "vetted_ok (os w) (cn_isdir w) (ct_request ?t)" "pump_ok p"
    using assms pump_cut_ok [OF _ cut] by (auto simp: cn_ok_def)
  have save: "cn_good w (w'\<lparr>cn_tasks := (cn_tasks w')[a := (cn_tasks w' ! a)\<lparr>ct_pump := p\<rparr>]\<rparr>)"
    if "w' = w \<or> (\<exists>ms. w' = w\<lparr>cn_sent := ms\<rparr>)" for w'
    using that ok assms by (auto simp: cn_good_def cn_ok_def dest!: in_set_update)
  have sent: "cn_good w (w\<lparr>cn_sent := ms\<rparr>)" for ms by (simp add: cn_good_def cn_ok_def)
  have state: "cn_good w (snd (set_state a st (w\<lparr>cn_sent := ms\<rparr>)))" for st ms
    using keepsD' [OF set_state_good] sent cng.R_trans by blast
  show ?thesis
    using save [of w] save [of "w\<lparr>cn_sent := _\<rparr>"] state cut
    by (cases kept)
       (auto simp: task_pump_def pump_chunk_def try_except_def sq_def bnd_def conn_send_def gets_def ret_def
          upd_task_def modify_def split: option.splits)
qed

lemma connector_message_good: "keeps cn_good (connector_message m)"
proof -
  have create: "cn_good w (snd (create_task_for c v w))" if "vetted_ok (os w) (cn_isdir w) v" for c v w
    using that by (auto simp: create_task_for_def bnd_def sq_def gets_def modify_def liftS_def cn_good_def cn_ok_def
        new_pump_def pump_ok_def split: sum.splits)
  have request: "keeps cn_good (connector_request c d)" for c d
    unfolding keeps_def
  proof
    fix w
    show "cn_good w (snd (connector_request c d w))"
    proof (cases "vet_request (os w) (cn_isdir w) d")
      case (Inl e)
      then show ?thesis using keepsD' [OF cn_good_prims(1)]
        by (cases e) (auto simp: connector_request_def raise_def intro: cng.R_refl)
    next
      case (Inr v)
      then show ?thesis using create [OF vet_request_ok] by (simp add: connector_request_def)
    qed
  qed
  show ?thesis
    by (cases m) (auto simp: connector_message_def Let_def intro!: cn_intros request cancel_running_good)
qed

section \<open>One process per request\<close>

text \<open>Tasks that wait to be started, and the processes that were.\<close>

definition scheduled :: "command_task list \<Rightarrow> nat" where
  "scheduled ts = length (filter (\<lambda>t. ct_state t = Ct_Scheduled) ts)"

definition one_each :: "cn_w \<Rightarrow> bool" where
  "one_each w \<longleftrightarrow> length (os_calls w) + scheduled (cn_tasks w) \<le> length (cn_tasks w)"

definition one_kept :: "cn_w \<Rightarrow> cn_w \<Rightarrow> bool" where
  "one_kept w w' \<longleftrightarrow> (one_each w \<longrightarrow> one_each w')"

interpretation one: step_rel one_kept
  by unfold_locales (auto simp: one_kept_def)

lemma scheduled_update:
  "ct_state t \<noteq> Ct_Scheduled \<Longrightarrow> scheduled (ts[a := t]) \<le> scheduled ts"
  "ct_state t \<noteq> Ct_Scheduled \<Longrightarrow> a < length ts \<Longrightarrow> ct_state (ts ! a) = Ct_Scheduled \<Longrightarrow>
     Suc (scheduled (ts[a := t])) = scheduled ts"
  unfolding scheduled_def by (induction ts arbitrary: a) (auto split: nat.splits)

lemma one_prims:
  "keeps one_kept (conn_send m)" "keeps one_kept (send_signals sigs)"
  "keeps one_kept (modify (\<lambda>w. w\<lparr>cn_running := f w\<rparr>))"
  by (auto simp: keeps_def one_kept_def one_each_def conn_send_def send_signals_def modify_def)

lemma one_state:
  assumes "st \<noteq> Ct_Scheduled"
  shows "keeps one_kept (upd_task a (\<lambda>t. t\<lparr>ct_state := st\<rparr>))"
proof -
  have "scheduled ((cn_tasks w)[a := (cn_tasks w ! a)\<lparr>ct_state := st\<rparr>]) \<le> scheduled (cn_tasks w)" for w :: cn_w
    using assms by (intro scheduled_update(1)) simp
  then show ?thesis
    by (auto simp: keeps_def upd_task_def modify_def one_kept_def one_each_def intro: order_trans [OF add_left_mono])
qed

lemma set_state_one: "st \<noteq> Ct_Scheduled \<Longrightarrow> keeps one_kept (set_state a st)"
  unfolding set_state_def by (intro one.keeps_intros one_prims one_state)

lemma cancel_running_one: "keeps one_kept (cancel_running a)"
proof -
  have "keeps one_kept (case st of Ct_Scheduled \<Rightarrow> set_state a Ct_Cancelled
     | Ct_Running px \<Rightarrow> sq (bnd (gets os) (\<lambda>e. send_signals (connector_terminate e px))) (set_state a Ct_Cancelled)
     | _ \<Rightarrow> ret ())" for st
    by (cases st) (auto intro!: one.keeps_intros one_prims set_state_one)
  then show ?thesis unfolding cancel_running_def by (intro one.keeps_intros)
qed

lemma cancel_all_one: "keeps one_kept cancel_all"
  unfolding cancel_all_def by (intro one.keeps_intros one_prims cancel_running_one)

lemma command_finish_one: "keeps one_kept (command_finish c px)"
  by (cases "px_end px") (auto simp: command_finish_def Let_def intro!: one.keeps_intros one_prims)

lemma set_state_after:
  assumes "st \<noteq> Ct_Scheduled" and "one_kept w w1"
  shows "wp (set_state a st) (\<lambda>_ w'. one_kept w w') w1"
  using keepsD' [OF set_state_one [OF assms(1)]] assms(2) one.R_trans by (auto simp: wp_def)

lemma task_finish_one: "keeps one_kept (task_finish a px)"
proof -
  have "wp (command_finish c px) (\<lambda>_ w'. one_kept w w') w" for c w
    using keepsD' [OF command_finish_one] by (simp add: wp_def)
  then have "wp (task_finish a px) (\<lambda>_ w'. one_kept w w') w" for w
    unfolding task_finish_def wps on_value_simps
    by (rule wp_mono) (auto simp: wps on_value_def intro!: set_state_after split: sum.splits)
  then show ?thesis by (simp add: keeps_def wp_def)
qed

lemma task_pump_one: "keeps one_kept (task_pump a kind chunk)"
proof -
  have save: "keeps one_kept (upd_task a (\<lambda>t. t\<lparr>ct_pump := p\<rparr>))" for p
  proof -
    have "scheduled (ts[a := (ts ! a)\<lparr>ct_pump := p\<rparr>]) = scheduled ts" for ts
      unfolding scheduled_def by (induction ts arbitrary: a) (auto split: nat.splits)
    then show ?thesis by (simp add: keeps_def upd_task_def modify_def one_kept_def one_each_def)
  qed
  have "keeps one_kept (pump_chunk c kind chunk p)" for c p
    unfolding pump_chunk_def by (auto intro!: one.keeps_intros one_prims split: prod.split option.split)
  then show ?thesis unfolding task_pump_def by (intro one.keeps_intros save set_state_one) simp_all
qed

lemma task_start_one:
  assumes "a < length (cn_tasks w)" and "ct_state (cn_tasks w ! a) = Ct_Scheduled"
  shows "one_kept w (snd (task_start a w))"
proof -
  have run: "one_kept w (snd (set_state a st w1))"
    if "st \<noteq> Ct_Scheduled" "cn_tasks w1 = cn_tasks w" "length (os_calls w1) = Suc (length (os_calls w))"
    for st and w1 :: cn_w
    using scheduled_update(2) [of "(cn_tasks w ! a)\<lparr>ct_state := st\<rparr>" a "cn_tasks w"] that assms
    by (auto simp: set_state_def upd_task_def modify_def sq_def bnd_def ret_def one_kept_def one_each_def)
  have "wp (command_spawn c v) (\<lambda>_ w1. cn_tasks w1 = cn_tasks w \<and>
      length (os_calls w1) = Suc (length (os_calls w))) w" for c v
    by (simp add: command_spawn_def wps on_value_def split: spawn_outcome.split option.split)
  then have "wp (task_start a) (\<lambda>_ w'. one_kept w w') w"
    unfolding task_start_def wps on_value_simps
    by (rule wp_mono) (auto simp: wps wp_def [of "set_state a _"] on_value_def intro!: run split: sum.splits option.splits)
  then show ?thesis by (simp add: wp_def)
qed

lemma connector_message_one: "keeps one_kept (connector_message m)"
proof -
  have "one_kept w (snd (create_task_for c v w))" for c v w
    by (auto simp: create_task_for_def bnd_def sq_def gets_def modify_def liftS_def one_kept_def one_each_def
        scheduled_def split: sum.splits)
  then have create: "keeps one_kept (create_task_for c v)" for c v by (simp add: keeps_def)
  have "keeps one_kept (case r of Inl (RefusedError m) \<Rightarrow> conn_send (failed_message c PNone (''refused: '' @ m))
      | Inl e \<Rightarrow> raise e | Inr v \<Rightarrow> create_task_for c v)" for r c
  proof (cases r)
    case (Inl e)
    then show ?thesis by (cases e) (auto intro: one.keeps_intros one_prims)
  qed (simp add: create)
  then have "keeps one_kept (connector_request c d)" for c d
    unfolding connector_request_def by (rule one.keeps_bnd [OF one.keeps_gets])
  then show ?thesis
    by (cases m) (auto simp: connector_message_def Let_def intro!: one.keeps_intros one_prims cancel_running_one)
qed

section \<open>Runs\<close>

datatype cn_event =
    Got_Frame "pyval option"
  | Task_Started nat
  | Task_Printed nat string string
  | Task_Over nat
  | Connection_Over "exn option" rat

inductive cn_step :: "cn_w \<Rightarrow> cn_event \<Rightarrow> cn_w \<Rightarrow> bool" where
  got_frame: "connector_frame f w = (r, w') \<Longrightarrow> cn_step w (Got_Frame f) w'"
| task_started: "a < length (cn_tasks w) \<Longrightarrow> ct_state (cn_tasks w ! a) = Ct_Scheduled \<Longrightarrow>
    task_start a w = (r, w') \<Longrightarrow> cn_step w (Task_Started a) w'"
| task_printed: "a < length (cn_tasks w) \<Longrightarrow> ct_state (cn_tasks w ! a) = Ct_Running px \<Longrightarrow>
    task_pump a kind chunk w = (r, w') \<Longrightarrow> cn_step w (Task_Printed a kind chunk) w'"
| task_over: "a < length (cn_tasks w) \<Longrightarrow> ct_state (cn_tasks w ! a) = Ct_Running px \<Longrightarrow>
    task_finish a px w = (r, w') \<Longrightarrow> cn_step w (Task_Over a) w'"
| connection_over: "connection_ended failed d w = (r, w') \<Longrightarrow> cn_step w (Connection_Over failed d) w'"

inductive cn_run :: "cn_w \<Rightarrow> cn_event list \<Rightarrow> cn_w \<Rightarrow> bool" where
  no_event: "cn_run w [] w"
| event: "cn_run w evs w1 \<Longrightarrow> cn_step w1 e w2 \<Longrightarrow> cn_run w (evs @ [e]) w2"

inductive_simps cn_run_Nil: "cn_run w [] w'"

lemma frame_kept: "keeps cn_good (connector_frame f)" "keeps one_kept (connector_frame f)"
  by (cases f; simp add: connector_frame_def connector_message_good connector_message_one
      cng.keeps_ret one.keeps_ret)+

lemma ended_kept: "keeps cn_good (connection_ended f d)" "keeps one_kept (connection_ended f d)"
proof -
  have retry: "keeps cn_good (sq cancel_all (ret x))" "keeps one_kept (sq cancel_all (ret x))" for x :: rat
    by (intro cng.keeps_intros cancel_all_good one.keeps_intros cancel_all_one)+
  have "connection_ended f d = sq cancel_all (ret (next_delay d)) \<or> (\<exists>e. f = Some e \<and> connection_ended f d = raise e)"
  proof (cases f)
    case (Some e)
    then show ?thesis by (cases e) (simp_all add: connection_ended_def Let_def)
  qed (simp add: connection_ended_def)
  then show "keeps cn_good (connection_ended f d)" "keeps one_kept (connection_ended f d)"
    using retry cng.keeps_raise one.keeps_raise by metis+
qed

lemma cn_step_good: "cn_step w e w' \<Longrightarrow> cn_ok w \<Longrightarrow> cn_good w w' \<and> one_kept w w'"
proof (induction rule: cn_step.induct)
  case (got_frame f w r w')
  show ?case using keepsD [OF frame_kept(1) got_frame(1)] keepsD [OF frame_kept(2) got_frame(1)] ..
next
  case (task_started a w r w')
  then show ?case using task_start_good [of a w] task_start_one [of a w] by simp
next
  case (task_printed a w px kind chunk r w')
  have "cn_good w w'" using task_pump_good [of a w kind chunk] task_printed by simp
  then show ?case using keepsD [OF task_pump_one task_printed(3)] ..
next
  case (task_over a w px r w')
  show ?case using keepsD [OF task_finish_good task_over(3)] keepsD [OF task_finish_one task_over(3)] ..
next
  case (connection_over failed d w r w')
  show ?case using keepsD [OF ended_kept(1) connection_over(1)] keepsD [OF ended_kept(2) connection_over(1)] ..
qed

lemma cn_run_good:
  "cn_run w evs w' \<Longrightarrow> cn_ok w \<Longrightarrow> one_each w \<Longrightarrow>
     cn_ok w' \<and> one_each w' \<and> os w' = os w \<and> cn_isdir w' = cn_isdir w"
proof (induction rule: cn_run.induct)
  case (event w evs w1 e w2)
  then show ?case using cn_step_good [of w1 e w2] by (auto simp: cn_good_def one_kept_def)
qed simp

text \<open>
  C8.  The device protects itself: whatever frames arrive and however the tasks, failures and
  reconnections interleave, every process the connector creates has an argument vector of bounded size
  without NUL, a plain first argument, a working directory that exists under an allowed root, and an
  environment of the four base variables and overrides none of which is named like a secret.  There are
  at most as many processes as requests accepted, and no task forwards more than its cap.
\<close>

theorem device_protects_itself:
  assumes "cn_run w0 evs w" and "os_calls w0 = []" and "cn_tasks w0 = []"
  shows "(\<forall>c \<in> set (os_calls w).
      sc_argv c \<noteq> [] \<and> length (sc_argv c) \<le> 64 \<and>
      (\<forall>x \<in> set (sc_argv c). py_len x \<le> 4096 \<and> CHR 0x00 \<notin> set x) \<and>
      set (hd (sc_argv c)) \<inter> set SHELL_METACHARACTERS = {} \<and>
      (\<forall>d. sc_cwd c = Some d \<longrightarrow> allowed_dir (os w0) (cn_isdir w0) d) \<and>
      (\<forall>k. map_of (sc_env c) k \<noteq> None \<longrightarrow> k \<in> {''PATH'', ''HOME'', ''LANG'', ''TERM''} \<or> plain_name k)) \<and>
    length (os_calls w) \<le> length (cn_tasks w) \<and>
    (\<forall>t \<in> set (cn_tasks w). pu_stdout_bytes (ct_pump t) \<le> 1000000 \<and> pu_stderr_bytes (ct_pump t) \<le> 1000000)"
proof -
  have "cn_ok w0" "one_each w0" using assms(2,3) by (simp_all add: cn_ok_def one_each_def scheduled_def)
  then have ok: "cn_ok w" "one_each w" and same: "os w = os w0" "cn_isdir w = cn_isdir w0"
    using cn_run_good [OF assms(1)] by blast+
  have keys: "k \<in> {''PATH'', ''HOME'', ''LANG'', ''TERM''} \<or> plain_name k"
    if "vetted_ok (os w) (cn_isdir w) v" "map_of (child_env (os w) (vt_env v)) k \<noteq> None" for v k
    using that map_of_child_env [of "vt_env v" "os w" k]
    by (auto simp: vetted_ok_def split: option.splits if_splits)
  have call: "\<exists>v. vetted_ok (os w) (cn_isdir w) v \<and> sc_argv c = vt_argv v \<and> sc_cwd c = vt_cwd v \<and>
      sc_env c = child_env (os w) (vt_env v)" if "c \<in> set (os_calls w)" for c
    using ok(1) that by (auto simp: cn_ok_def call_ok_def)
  show ?thesis unfolding same [symmetric]
  proof (intro conjI ballI)
    fix c assume "c \<in> set (os_calls w)"
    from call [OF this] obtain v where v: "vetted_ok (os w) (cn_isdir w) v" "sc_argv c = vt_argv v"
      "sc_cwd c = vt_cwd v" "sc_env c = child_env (os w) (vt_env v)" by blast
    show "\<forall>k. map_of (sc_env c) k \<noteq> None \<longrightarrow> k \<in> {''PATH'', ''HOME'', ''LANG'', ''TERM''} \<or> plain_name k"
      using keys [OF v(1)] v(4) by metis
    show "sc_argv c \<noteq> []" "length (sc_argv c) \<le> 64" "set (hd (sc_argv c)) \<inter> set SHELL_METACHARACTERS = {}"
      "\<forall>d. sc_cwd c = Some d \<longrightarrow> allowed_dir (os w) (cn_isdir w) d"
      using v by (simp_all add: vetted_ok_def)
    show "py_len x \<le> 4096" "CHR 0x00 \<notin> set x" if "x \<in> set (sc_argv c)" for x
      using v that by (simp_all add: vetted_ok_def)
  next
    show "length (os_calls w) \<le> length (cn_tasks w)" using ok(2) by (simp add: one_each_def)
  next
    fix t assume "t \<in> set (cn_tasks w)"
    then show "pu_stdout_bytes (ct_pump t) \<le> 1000000" "pu_stderr_bytes (ct_pump t) \<le> 1000000"
      using ok(1) by (simp_all add: cn_ok_def pump_ok_def)
  qed
qed

section \<open>Both ends together\<close>

definition chunks_of :: "string \<Rightarrow> (string \<times> string) list \<Rightarrow> string list" where
  "chunks_of kind cs = map snd (filter (\<lambda>x. fst x = kind) cs)"

text \<open>A way the chunks of the two pipes may be read: each pipe in its order, nothing else.\<close>

definition reads :: "proc \<Rightarrow> (string \<times> string) list \<Rightarrow> bool" where
  "reads px cs \<longleftrightarrow> chunks_of ''stdout'' cs = px_stdout px \<and> chunks_of ''stderr'' cs = px_stderr px \<and>
     fst ` set cs \<subseteq> {''stdout'', ''stderr''} \<and> (\<forall>x \<in> set cs. snd x \<noteq> [])"

lemma chunks_of_Cons: "chunks_of k ((k', ch) # cs) = (if k' = k then ch # chunks_of k cs else chunks_of k cs)"
  by (simp add: chunks_of_def)

lemma pump_all_sends:
  assumes "cn_send_result w = (\<lambda>_. None)" and "fst ` set cs \<subseteq> {''stdout'', ''stderr''}"
    and "\<forall>x \<in> set cs. snd x \<noteq> []"
    and "pu_stdout_bytes p + int (length (concat (chunks_of ''stdout'' cs))) \<le> 1000000"
    and "pu_stderr_bytes p + int (length (concat (chunks_of ''stderr'' cs))) \<le> 1000000"
  shows "\<exists>p'. pump_all cid cs p w = (Inr p', w\<lparr>cn_sent := cn_sent w @
    map (\<lambda>(k, ch). output_message cid k (decode_replace ch)) cs\<rparr>)"
  using assms
proof (induction cs arbitrary: p w)
  case (Cons x cs)
  obtain k ch where x: "x = (k, ch)" by (cases x)
  let ?w = "w\<lparr>cn_sent := cn_sent w @ [output_message cid k (decode_replace ch)]\<rparr>"
  let ?p1 = "if k = ''stdout'' then p\<lparr>pu_stdout_bytes := pu_stdout_bytes p + int (length ch)\<rparr>
     else p\<lparr>pu_stderr_bytes := pu_stderr_bytes p + int (length ch)\<rparr>"
  have pos: "0 < int (length ch)" using Cons.prems(3) x by simp
  have "pu_stdout_bytes p + int (length ch) \<le> 1000000" if "k = ''stdout''"
    using Cons.prems(4) x that by (simp add: chunks_of_Cons)
  moreover have "pu_stderr_bytes p + int (length ch) \<le> 1000000" if "k \<noteq> ''stdout''"
    using Cons.prems(2,5) x that by (simp add: chunks_of_Cons)
  ultimately have cut: "pump_cut k ch p = (Some ch, ?p1)"
    using pos by (cases "k = ''stdout''"; cases ch)
      (simp_all add: pump_cut_def Let_def CONN_MAX_STDOUT_BYTES_def CONN_MAX_STDERR_BYTES_def)
  have "\<exists>p'. pump_all cid cs ?p1 ?w = (Inr p', ?w\<lparr>cn_sent := cn_sent ?w @
      map (\<lambda>(k, ch). output_message cid k (decode_replace ch)) cs\<rparr>)"
    using Cons.prems x by (intro Cons.IH) (auto simp: chunks_of_Cons split: if_splits)
  then show ?case
    using cut Cons.prems(1) x by (simp add: pump_chunk_def bnd_def sq_def conn_send_def ret_def)
qed (simp add: ret_def)

lemma append_output_room:
  assumes "case cap of None \<Rightarrow> True | Some c \<Rightarrow> used + int (length ch) \<le> c" and "ch \<noteq> []"
  shows "append_stream cap ch (chunks, used, t) = (chunks @ [ch], used + int (length ch), t)"
proof -
  have "0 < int (length ch)" using assms(2) by simp
  then show ?thesis using assms(1) by (cases ch) (auto simp: append_stream_def Let_def split: option.splits)
qed

text \<open>The streams of a command as the server keeps them, while neither cap is reached.\<close>

definition room :: "int option \<Rightarrow> int \<Rightarrow> bool" where
  "room cap n \<longleftrightarrow> (case cap of None \<Rightarrow> True | Some c \<Rightarrow> n \<le> c)"

lemma fold_append_output:
  assumes "fst ` set cs \<subseteq> {''stdout'', ''stderr''}" and "\<forall>x \<in> set cs. snd x \<noteq> []"
    and "room (pc_max_stdout_bytes p) (pc_stdout_bytes p + int (length (concat (chunks_of ''stdout'' cs))))"
    and "room (pc_max_stderr_bytes p) (pc_stderr_bytes p + int (length (concat (chunks_of ''stderr'' cs))))"
  shows "fold (\<lambda>(k, ch). append_output k ch) cs p =
    p\<lparr>pc_stdout_chunks := pc_stdout_chunks p @ chunks_of ''stdout'' cs,
      pc_stdout_bytes := pc_stdout_bytes p + int (length (concat (chunks_of ''stdout'' cs))),
      pc_stderr_chunks := pc_stderr_chunks p @ chunks_of ''stderr'' cs,
      pc_stderr_bytes := pc_stderr_bytes p + int (length (concat (chunks_of ''stderr'' cs)))\<rparr>"
  using assms
proof (induction cs arbitrary: p)
  case (Cons x cs)
  obtain k ch where x: "x = (k, ch)" by (cases x)
  have "append_output k ch p =
      (if k = ''stdout'' then p\<lparr>pc_stdout_chunks := pc_stdout_chunks p @ [ch],
         pc_stdout_bytes := pc_stdout_bytes p + int (length ch)\<rparr>
       else p\<lparr>pc_stderr_chunks := pc_stderr_chunks p @ [ch],
         pc_stderr_bytes := pc_stderr_bytes p + int (length ch)\<rparr>)"
    using Cons.prems x by (auto simp: append_output_def chunks_of_Cons room_def append_output_room split: option.splits)
  then show ?case
    using Cons.prems x Cons.IH [of "append_output k ch p"]
    by (auto simp: chunks_of_Cons add.assoc)
qed (simp add: chunks_of_def)

lemma upd_object_run: "upd_object a f w = (Inr (), w\<lparr>tx_objects := (tx_objects w)[a := f (tx_objects w ! a)]\<rparr>)"
  by (simp add: upd_object_def modify_def)

lemma append_output_owner: "pc_device_id (append_output k ch p) = pc_device_id p"
  by (rule append_output_device)

lemma outputs_received:
  fixes s :: tx_w
  assumes "c < 2 ^ 128" and "map_of (tx_pending s) c = Some a" and "a < length (tx_objects s)"
    and "pc_device_id (tx_objects s ! a) = i" and "fst ` set cs \<subseteq> {''stdout'', ''stderr''}"
  shows "for_each (gateway_message i) (map (\<lambda>(k, ch). output_message (PStr (uuid_str c)) k ch) cs) s =
    (Inr (), s\<lparr>tx_objects := (tx_objects s)[a := fold (\<lambda>(k, ch). append_output k ch) cs (tx_objects s ! a)]\<rparr>)"
  using assms
proof (induction cs arbitrary: s)
  case (Cons x cs)
  obtain k ch where x: "x = (k, ch)" by (cases x)
  let ?s = "s\<lparr>tx_objects := (tx_objects s)[a := append_output k ch (tx_objects s ! a)]\<rparr>"
  have k: "k = ''stdout'' \<or> k = ''stderr''" using Cons.prems(5) x by simp
  then have "k \<in> set COMMAND_MESSAGE_TYPES" by (auto simp: COMMAND_MESSAGE_TYPES_def)
  then have "handle_inbound_message i (output_message (PStr (uuid_str c)) k ch) s = (Inr (), ?s)"
    using k unfolding output_message_def reply_dispatch [OF Cons.prems(1,2,4) \<open>k \<in> set COMMAND_MESSAGE_TYPES\<close>]
    by (auto simp: dispatch_message_def upd_object_run dget_or_def py_str_def)
  then have "gateway_message i (output_message (PStr (uuid_str c)) k ch) s = (Inr (), ?s)"
    by (simp add: gateway_message_def try_except_def)
  moreover have "for_each (gateway_message i) (map (\<lambda>(k, ch). output_message (PStr (uuid_str c)) k ch) cs) ?s =
      (Inr (), ?s\<lparr>tx_objects := (tx_objects ?s)[a := fold (\<lambda>(k, ch). append_output k ch) cs (tx_objects ?s ! a)]\<rparr>)"
    using Cons.prems by (intro Cons.IH) (auto simp: append_output_owner)
  ultimately show ?case using x Cons.prems(3) by (simp add: sq_eq)
qed (simp add: ret_def)

lemma for_each_append: "for_each f (xs @ ys) w = sq (for_each f xs) (for_each f ys) w"
  by (induction xs arbitrary: w) (simp_all add: sq_sq sq_def bnd_def ret_def split: prod.split sum.split)

lemma final_received:
  fixes s :: tx_w
  assumes "c < 2 ^ 128" and "map_of (tx_pending s) c = Some a" and "a < length (tx_objects s)"
    and "pc_device_id (tx_objects s ! a) = i" and "pc_result (tx_objects s ! a) = None"
  shows "\<exists>s' r. gateway_message i (final_message (PStr (uuid_str c)) code) s = (Inr (), s') \<and>
    pc_result (tx_objects s' ! a) = Some r \<and> rr_status r = (if code = 0 then Ex_SUCCEEDED else Ex_FAILED) \<and>
    rr_exit_code r = PInt code \<and> rr_stdout r = Some (concat (pc_stdout_chunks (tx_objects s ! a))) \<and>
    rr_stderr r = Some (concat (pc_stderr_chunks (tx_objects s ! a)) @
      (if code = 0 then [] else ''exit_code='' @ show_int code)) \<and>
    rr_stdout_truncated r = pc_stdout_truncated (tx_objects s ! a) \<and>
    rr_stderr_truncated r = pc_stderr_truncated (tx_objects s ! a)"
proof -
  have types: "''command_completed'' \<in> set COMMAND_MESSAGE_TYPES" "''command_failed'' \<in> set COMMAND_MESSAGE_TYPES"
    by (simp_all add: COMMAND_MESSAGE_TYPES_def)
  note reply = reply_dispatch [OF assms(1,2,4) types(1)] reply_dispatch [OF assms(1,2,4) types(2)]
  show ?thesis using assms(3,5)
    by (simp add: final_message_def failed_message_def gateway_message_def try_except_def reply dispatch_message_def
        dget_or_def py_str_def resolve_def upd_object_run bnd_eq gets_def ret_def now_def)
qed

text \<open>The chunks as the device sends them: each read decoded by itself.\<close>

abbreviation decoded :: "(string \<times> string) list \<Rightarrow> (string \<times> string) list" where
  "decoded cs \<equiv> map (\<lambda>(k, ch). (k, decode_replace ch)) cs"

lemma decode_replace_nonempty:
  assumes "s \<noteq> []"
  shows "decode_replace s \<noteq> []"
proof -
  obtain c r where s: "s = c # r" using assms by (cases s) auto
  obtain n ok where u: "utf8_chunk (c # r) = (n, ok)" by (cases "utf8_chunk (c # r)")
  have "0 < n" using utf8_chunk_fst_pos [OF u [symmetric]] .
  then show ?thesis unfolding s decode_replace.simps(2) u by (cases n) (simp_all add: replacement_char_def)
qed

lemma chunks_of_decoded: "chunks_of k (decoded cs) = map decode_replace (chunks_of k cs)"
  by (induction cs) (auto simp: chunks_of_def)

lemma decoded_reads:
  assumes "reads px cs"
  shows "chunks_of ''stdout'' (decoded cs) = map decode_replace (px_stdout px)"
    and "chunks_of ''stderr'' (decoded cs) = map decode_replace (px_stderr px)"
    and "fst ` set (decoded cs) \<subseteq> {''stdout'', ''stderr''}" and "\<forall>x \<in> set (decoded cs). snd x \<noteq> []"
  using assms by (auto simp: reads_def chunks_of_decoded decode_replace_nonempty)

lemma decoded_valid: "\<forall>x \<in> set xs. utf8_valid x \<Longrightarrow> map decode_replace xs = xs"
  by (intro map_idI) (simp add: decode_replace_valid)

lemma run_command_sends:
  assumes "os_spawn w (length (os_calls w)) = (\<lambda>_. Spawned px)" and "px_end px = End_Exit code" and "reads px cs"
    and "cn_send_result w = (\<lambda>_. None)"
    and "length (concat (px_stdout px)) \<le> 1000000" and "length (concat (px_stderr px)) \<le> 1000000"
  shows "\<exists>w' call. run_command cid v cs w = (Inr (), w') \<and> os_calls w' = os_calls w @ [call] \<and>
    sc_argv call = vt_argv v \<and> os_signals w' = os_signals w \<and>
    cn_sent w' = cn_sent w @ map (\<lambda>(k, ch). output_message cid k ch) (decoded cs) @ [final_message cid code]"
proof -
  let ?call = "\<lparr>sc_argv = vt_argv v, sc_cwd = vt_cwd v, sc_env = child_env (os w) (vt_env v),
     sc_start_new_session = os_has_setsid (os w)\<rparr>"
  let ?w = "w\<lparr>os_calls := os_calls w @ [?call]\<rparr>"
  have spawn: "command_spawn cid v w = (Inr (Some px), ?w)"
    using assms(1) by (simp add: command_spawn_def bnd_def gets_def create_subprocess_exec_def ret_def)
  have "\<exists>p'. pump_all cid cs new_pump ?w = (Inr p', ?w\<lparr>cn_sent := cn_sent ?w @
      map (\<lambda>(k, ch). output_message cid k (decode_replace ch)) cs\<rparr>)"
    using assms(3-6) by (intro pump_all_sends) (auto simp: reads_def new_pump_def)
  moreover have "map (\<lambda>(k, ch). output_message cid k (decode_replace ch)) cs =
      map (\<lambda>(k, ch). output_message cid k ch) (decoded cs)" by auto
  ultimately obtain p' where "pump_all cid cs new_pump ?w = (Inr p', ?w\<lparr>cn_sent := cn_sent w @
      map (\<lambda>(k, ch). output_message cid k ch) (decoded cs)\<rparr>)"
    by auto
  then have "run_command cid v cs w = (Inr (), ?w\<lparr>cn_sent := cn_sent w @
      map (\<lambda>(k, ch). output_message cid k ch) (decoded cs) @ [final_message cid code]\<rparr>)"
    using assms(2,4) spawn by (simp add: run_command_def bnd_def command_finish_def conn_send_def Let_def)
  then show ?thesis by (auto intro!: exI [of _ ?call])
qed

text \<open>
  C7.  From one end to the other, when nothing goes wrong on the way: for a request of the server that the
  device accepts, whose process exits before a time limit with no more than a megabyte on each pipe and
  no more than the caps the server set, and on a connection that takes every message, the device runs
  exactly the argument vector the server asked for; and once the server has received what the device
  sends back, its command has a result: success exactly when the process exited with 0, its exit code,
  and what the process wrote on each pipe, unmixed and in order, however the two pipes were interleaved,
  each read decoded by itself with a replacement character for what is not UTF-8 there, so the very bytes
  when every read is valid UTF-8.  A failure adds the exit code to the error output.
\<close>

theorem remote_run_end_to_end:
  fixes s :: tx_w and w :: cn_w
  assumes "request_message c command = PDict d" and "vet_request (os w) (cn_isdir w) d = Inr v"
    and "os_spawn w (length (os_calls w)) = (\<lambda>_. Spawned px)" and "px_end px = End_Exit code" and "reads px cs"
    and "cn_send_result w = (\<lambda>_. None)"
    and "length (concat (px_stdout px)) \<le> 1000000" and "length (concat (px_stderr px)) \<le> 1000000"
    and "room (cs_max_stdout_bytes command) (int (length (concat (map decode_replace (px_stdout px)))))"
    and "room (cs_max_stderr_bytes command) (int (length (concat (map decode_replace (px_stderr px)))))"
    and "c < 2 ^ 128" and "map_of (tx_pending s) c = Some a" and "a < length (tx_objects s)"
    and "tx_objects s ! a = new_command i command t"
  shows "\<exists>w' call s' r. run_command (dget_or ''commandId'' PNone d) v cs w = (Inr (), w') \<and>
    os_calls w' = os_calls w @ [call] \<and> sc_argv call = cs_argv command \<and>
    for_each (gateway_message i) (drop (length (cn_sent w)) (cn_sent w')) s = (Inr (), s') \<and>
    pc_result (tx_objects s' ! a) = Some r \<and>
    rr_status r = (if code = 0 then Ex_SUCCEEDED else Ex_FAILED) \<and> rr_exit_code r = PInt code \<and>
    rr_stdout r = Some (concat (map decode_replace (px_stdout px))) \<and>
    rr_stderr r = Some (concat (map decode_replace (px_stderr px)) @
      (if code = 0 then [] else ''exit_code='' @ show_int code)) \<and>
    ((\<forall>x \<in> set (px_stdout px). utf8_valid x) \<longrightarrow> rr_stdout r = Some (concat (px_stdout px))) \<and>
    ((\<forall>x \<in> set (px_stderr px). utf8_valid x) \<longrightarrow>
      rr_stderr r = Some (concat (px_stderr px) @ (if code = 0 then [] else ''exit_code='' @ show_int code))) \<and>
    \<not> rr_stdout_truncated r \<and> \<not> rr_stderr_truncated r"
proof -
  let ?cid = "PStr (uuid_str c)"
  have d: "dget_or ''commandId'' PNone d = ?cid" "dget_or ''argv'' PNone d = PList (map PStr (cs_argv command))"
    using assms(1) by (auto simp: request_message_def dget_or_def p_strs_def)
  have argv: "vt_argv v = cs_argv command"
    using assms(2) d(2) by (auto simp: vet_request_def connector_argv_Inr split: sum.splits)
  obtain w' call where w': "run_command ?cid v cs w = (Inr (), w')" "os_calls w' = os_calls w @ [call]"
    "sc_argv call = cs_argv command"
    "cn_sent w' = cn_sent w @ map (\<lambda>(k, ch). output_message ?cid k ch) (decoded cs) @ [final_message ?cid code]"
    using run_command_sends [OF assms(3-8), of ?cid v] argv by auto
  let ?p = "fold (\<lambda>(k, ch). append_output k ch) (decoded cs) (new_command i command t)"
  let ?s = "s\<lparr>tx_objects := (tx_objects s)[a := ?p]\<rparr>"
  note dec = decoded_reads [OF assms(5)]
  have p: "pc_stdout_chunks ?p = map decode_replace (px_stdout px)"
    "pc_stderr_chunks ?p = map decode_replace (px_stderr px)" "pc_device_id ?p = i"
    "pc_result ?p = None" "\<not> pc_stdout_truncated ?p" "\<not> pc_stderr_truncated ?p"
    using assms(9,10) fold_append_output [OF dec(3,4), of "new_command i command t"]
    unfolding dec(1,2) by (auto simp: new_command_def)
  have out: "for_each (gateway_message i) (map (\<lambda>(k, ch). output_message ?cid k ch) (decoded cs)) s = (Inr (), ?s)"
    using outputs_received [OF assms(11-13) _ dec(3), of i] unfolding assms(14) by (simp add: new_command_def)
  obtain s' r where r: "gateway_message i (final_message ?cid code) ?s = (Inr (), s')"
    "pc_result (tx_objects s' ! a) = Some r" "rr_status r = (if code = 0 then Ex_SUCCEEDED else Ex_FAILED)"
    "rr_exit_code r = PInt code" "rr_stdout r = Some (concat (map decode_replace (px_stdout px)))"
    "rr_stderr r = Some (concat (map decode_replace (px_stderr px)) @ (if code = 0 then [] else ''exit_code='' @ show_int code))"
    "\<not> rr_stdout_truncated r" "\<not> rr_stderr_truncated r"
    using final_received [OF assms(11), of ?s a i code] assms(12,13) p by auto
  have "for_each (gateway_message i) (drop (length (cn_sent w)) (cn_sent w')) s = (Inr (), s')"
    using w'(4) out r(1) by (simp add: for_each_append sq_eq ret_def)
  with w'(1-3) r(2-8) show ?thesis unfolding d(1) by (auto simp: decoded_valid)
qed

text \<open>
  A connection that breaks while a command prints leaves its process alone: the send in the pump
  raises, the task ends with that exception, and no signal is sent; the reconnection finds no task left
  to cancel, so the process runs on.
\<close>

theorem broken_connection_orphans:
  fixes w :: cn_w
  assumes "a < length (cn_tasks w)" and "ct_state (cn_tasks w ! a) = Ct_Running px"
    and "pump_cut kind chunk (ct_pump (cn_tasks w ! a)) = (Some part, p)"
    and "cn_send_result w (length (cn_sent w)) = Some (ConnectionClosed m)"
    and "cn_running w = [(dict_key (ct_command_id (cn_tasks w ! a)), a)]"
  shows "\<exists>w1 w2. task_pump a kind chunk w = (Inr (), w1) \<and>
    ct_state (cn_tasks w1 ! a) = Ct_Done (Some (ConnectionClosed m)) \<and>
    connection_ended (Some (ConnectionClosed m)) delay w1 = (Inr (next_delay delay), w2) \<and>
    os_signals w2 = os_signals w"
  using assms
  by (simp add: task_pump_def pump_chunk_def try_except_def sq_def bnd_def conn_send_def gets_def set_state_def
      upd_task_def modify_def task_ended_def ret_def connection_ended_def Let_def cancel_all_def dvalues_def)

section \<open>The token\<close>

lemma mode_bits:
  fixes m :: nat
  shows "(and (and m 511) 63 = 0) = (m mod 64 = 0)"
proof -
  have "and (and m 511) 63 = and m (mask 6)"
    by (simp add: mask_eq_exp_minus_1 and.assoc)
  then show ?thesis by (simp only: take_bit_eq_mask [symmetric]) (simp add: take_bit_eq_mod)
qed

lemma read_token_iff:
  "read_token_file f = Inr token \<longleftrightarrow>
     tf_exists f \<and> tf_mode f mod 64 = 0 \<and> token = strip (tf_text f) \<and> token \<noteq> []"
  by (auto simp: read_token_file_def Let_def mode_bits simp del: neq0_conv)

section \<open>A sample device\<close>

definition sample_cn_w :: cn_w where
  "sample_cn_w = \<lparr>rt_clock = (\<lambda>n. int n), rt_ticks = 0, rt_uuid = (\<lambda>n. n), rt_uuids = 0, audit_log = [],
     os = sample_os, os_spawn = (\<lambda>_ _. Spawned sample_proc), os_calls = [], os_signals = [],
     cn_isdir = (\<lambda>_. True), cn_send_result = (\<lambda>_. None), cn_sent = [], cn_tasks = [], cn_running = []\<rparr>"

definition sample_vetted :: vetted where
  "sample_vetted = \<lparr>vt_argv = [''ls''], vt_cwd = None, vt_env = [], vt_timeout = 30\<rparr>"

lemma sample_argv: "connector_argv (PList [PStr ''ls'']) = Inr [''ls'']"
  using connector_argv_Inr [of "PList (map PStr [''ls''])" "[''ls'']"]
  by (simp add: py_len_def SHELL_METACHARACTERS_def)

lemma sample_vet:
  "vet_request e isdir [(''type'', PStr ''command_request''), (''commandId'', PStr ''7''), (''argv'', PList [PStr ''ls''])] =
     Inr sample_vetted"
  by (simp add: vet_request_def dget_or_def sample_argv connector_working_directory_def connector_env_overrides_def
      connector_timeout_def sample_vetted_def Let_def)

theorem device_protects_itself_witness:
  "\<exists>w. cn_run sample_cn_w [Got_Frame (Some (PDict [(''type'', PStr ''command_request''), (''commandId'', PStr ''7''),
        (''argv'', PList [PStr ''ls''])])), Task_Started 0] w \<and>
     length (os_calls w) = 1 \<and> (\<forall>c \<in> set (os_calls w). sc_argv c \<noteq> []) \<and> length (os_calls w) \<le> length (cn_tasks w)"
proof -
  let ?m = "PDict [(''type'', PStr ''command_request''), (''commandId'', PStr ''7''), (''argv'', PList [PStr ''ls''])]"
  let ?t = "\<lparr>ct_command_id = PStr ''7'', ct_request = sample_vetted, ct_pump = new_pump, ct_state = Ct_Scheduled\<rparr>"
  let ?w = "sample_cn_w\<lparr>cn_tasks := [?t], cn_running := [(PStr ''7'', 0)]\<rparr>"
  have "connector_frame (Some ?m) sample_cn_w = (Inr (), ?w)"
    by (simp add: connector_frame_def connector_message_def connector_request_def sample_vet create_task_for_def
        hashable_def dict_key_def liftS_def modify_def sq_def bnd_def gets_def dget_or_def sample_cn_w_def Let_def)
  then have one: "cn_run sample_cn_w ([] @ [Got_Frame (Some ?m)]) ?w"
    by (rule event [OF no_event got_frame])
  obtain r w where st: "task_start 0 ?w = (r, w)" by (cases "task_start 0 ?w")
  have two: "cn_run sample_cn_w ([Got_Frame (Some ?m)] @ [Task_Started 0]) w"
    using event [OF one [unfolded append_Nil] task_started [OF _ _ st]] by simp
  have "length (os_calls w) = 1"
    using arg_cong [OF st, of snd] by (auto simp: task_start_def command_spawn_def try_except_def bnd_def gets_def
        create_subprocess_exec_def ret_def set_state_def sq_def upd_task_def modify_def task_ended_def sample_cn_w_def)
  with device_protects_itself [OF two] two show ?thesis by (auto simp: sample_cn_w_def)
qed

definition sample_command :: command_spec where
  "sample_command = \<lparr>cs_argv = [''ls''], cs_timeout_seconds = 30, cs_working_dir = None, cs_env_overrides = [],
     cs_env_allowlist = None, cs_max_stdout_bytes = Some 9, cs_max_stderr_bytes = Some 9\<rparr>"

theorem remote_run_end_to_end_witness:
  "let s = sample_connected_w\<lparr>tx_objects := [new_command 100 sample_command 0], tx_pending := [(7, 0)]\<rparr>
   in \<exists>w' s' r. run_command (PStr (uuid_str 7)) sample_vetted [(''stdout'', ''abc'')] sample_cn_w = (Inr (), w') \<and>
     for_each (gateway_message 100) (cn_sent w') s = (Inr (), s') \<and> pc_result (tx_objects s' ! 0) = Some r \<and>
     rr_stdout r = Some ''abc'' \<and> rr_exit_code r = PInt 0 \<and> rr_status r = Ex_SUCCEEDED"
proof -
  let ?s = "sample_connected_w\<lparr>tx_objects := [new_command 100 sample_command 0], tx_pending := [(7, 0)]\<rparr>"
  obtain d where d: "request_message 7 sample_command = PDict d" "dget_or ''argv'' PNone d = PList [PStr ''ls'']"
    "dget_or ''workingDirectory'' PNone d = PNone" "dget_or ''envOverrides'' PNone d = PDict []"
    "dget_or ''timeoutSeconds'' PNone d = PInt 30" "dget_or ''commandId'' PNone d = PStr (uuid_str 7)"
    by (simp add: request_message_def sample_command_def dget_or_def p_strs_def p_ostr_def)
  have v: "vet_request (os sample_cn_w) (cn_isdir sample_cn_w) d = Inr sample_vetted"
    by (simp add: vet_request_def d sample_argv connector_working_directory_def connector_env_overrides_def
        connector_timeout_def MAX_TIMEOUT_SECONDS_def sample_vetted_def Let_def)
  have "reads sample_proc [(''stdout'', ''abc'')]" "px_end sample_proc = End_Exit 0" "utf8_valid ''abc''"
    by (simp_all add: reads_def chunks_of_def sample_proc_def utf8_valid.simps(2) utf8_need_def)
  note h = this
  have x: "os_spawn sample_cn_w (length (os_calls sample_cn_w)) = (\<lambda>_. Spawned sample_proc)"
    "cn_send_result sample_cn_w = (\<lambda>_. None)" "length (concat (px_stdout sample_proc)) \<le> 1000000"
    "length (concat (px_stderr sample_proc)) \<le> 1000000"
    "room (cs_max_stdout_bytes sample_command) (int (length (concat (map decode_replace (px_stdout sample_proc)))))"
    "room (cs_max_stderr_bytes sample_command) (int (length (concat (map decode_replace (px_stderr sample_proc)))))"
    "concat (map decode_replace (px_stdout sample_proc)) = ''abc''" "(7::nat) < 2 ^ 128" "map_of (tx_pending ?s) 7 = Some 0"
    "0 < length (tx_objects ?s)" "tx_objects ?s ! 0 = new_command 100 sample_command 0"
    by (simp_all add: sample_cn_w_def sample_proc_def sample_command_def room_def decode_replace_valid [OF h(3)])
  obtain w' s' r where "run_command (PStr (uuid_str 7)) sample_vetted [(''stdout'', ''abc'')] sample_cn_w = (Inr (), w')"
    "for_each (gateway_message 100) (drop (length (cn_sent sample_cn_w)) (cn_sent w')) ?s = (Inr (), s')"
    "pc_result (tx_objects s' ! 0) = Some r" "rr_stdout r = Some ''abc''" "rr_exit_code r = PInt 0"
    "rr_status r = (if (0::int) = 0 then Ex_SUCCEEDED else Ex_FAILED)"
    using remote_run_end_to_end [OF d(1) v x(1) h(2,1) x(2-6,8-11)] unfolding d(6) x(7) by blast
  moreover have "drop (length (cn_sent sample_cn_w)) (cn_sent w') = cn_sent w'" by (simp add: sample_cn_w_def)
  ultimately show ?thesis unfolding Let_def by auto
qed

theorem broken_connection_orphans_witness:
  "let w = sample_cn_w\<lparr>cn_send_result := (\<lambda>_. Some (ConnectionClosed [])), cn_running := [(PStr ''7'', 0)],
         cn_tasks := [\<lparr>ct_command_id = PStr ''7'', ct_request = sample_vetted, ct_pump = new_pump,
           ct_state = Ct_Running (sample_proc\<lparr>px_reaped := False\<rparr>)\<rparr>]\<rparr>
   in \<exists>w1 w2. task_pump 0 ''stdout'' ''abc'' w = (Inr (), w1) \<and>
        connection_ended (Some (ConnectionClosed [])) 2 w1 = (Inr 4, w2) \<and> os_signals w2 = []"
proof -
  let ?t = "\<lparr>ct_command_id = PStr ''7'', ct_request = sample_vetted, ct_pump = new_pump,
     ct_state = Ct_Running (sample_proc\<lparr>px_reaped := False\<rparr>)\<rparr>"
  let ?w = "sample_cn_w\<lparr>cn_send_result := (\<lambda>_. Some (ConnectionClosed [])), cn_running := [(PStr ''7'', 0)],
     cn_tasks := [?t]\<rparr>"
  have "pump_cut ''stdout'' ''abc'' (ct_pump (cn_tasks ?w ! 0)) = (Some ''abc'', new_pump\<lparr>pu_stdout_bytes := 3\<rparr>)"
    by (simp add: pump_cut_def new_pump_def Let_def CONN_MAX_STDOUT_BYTES_def)
  from broken_connection_orphans [of 0 ?w "sample_proc\<lparr>px_reaped := False\<rparr>", OF _ _ this, of "[]" 2]
  show ?thesis unfolding Let_def by (auto simp: dict_key_def next_delay_def sample_cn_w_def)
qed

end
