(* ===== verification/Healing.thy ===== *)
theory Healing
  imports Regex Runtime Pystd
begin

text \<open>
  \<^verbatim>\<open>services/self_healing\<close>: the diagnosis of a failed action from its signals, the strategy proposed
  for it, and the history both read.  The engine only proposes; nothing here runs a command.  Case is
  ignored on ASCII letters, and a float of the configuration is its exact value.
\<close>

section \<open>Models\<close>

datatype diagnosis_confidence = Conf_HIGH | Conf_MEDIUM | Conf_LOW | Conf_UNKNOWN

datatype strategy_kind =
    RETRY_WITH_BACKOFF | INSTALL_MISSING_DEPENDENCY | USE_ALTERNATIVE_TOOL | ADJUST_TIMEOUT
  | REDUCE_SCOPE | ESCALATE_TO_USER | ABANDON

fun strategy_value :: "strategy_kind \<Rightarrow> string" where
  "strategy_value RETRY_WITH_BACKOFF = ''retry_with_backoff''"
| "strategy_value INSTALL_MISSING_DEPENDENCY = ''install_missing_dependency''"
| "strategy_value USE_ALTERNATIVE_TOOL = ''use_alternative_tool''"
| "strategy_value ADJUST_TIMEOUT = ''adjust_timeout''"
| "strategy_value REDUCE_SCOPE = ''reduce_scope''"
| "strategy_value ESCALATE_TO_USER = ''escalate_to_user''"
| "strategy_value ABANDON = ''abandon''"

datatype healing_outcome = Heal_PENDING | Heal_APPLIED | Heal_SUCCEEDED | Heal_FAILED | Heal_REJECTED

record diagnosis =
  dg_id :: uuid
  dg_error_category :: string
  dg_root_cause :: string
  dg_supporting_signals :: "string list"
  dg_confidence :: diagnosis_confidence
  dg_created_at :: time

record healing_strategy =
  hs_id :: uuid
  hs_kind :: strategy_kind
  hs_description :: string
  hs_parameters :: "(string \<times> pyval) list"
  hs_requires_policy_recheck :: bool
  hs_requires_user_approval :: bool

record healing_attempt =
  ha_id :: uuid
  ha_task_id :: "uuid option"
  ha_action_id :: "uuid option"
  ha_diagnosis :: "diagnosis option"
  ha_strategy :: "healing_strategy option"
  ha_outcome :: healing_outcome
  ha_note :: string
  ha_created_at :: time
  ha_completed_at :: "time option"

section \<open>Diagnosis\<close>

record failure_signals =
  fs_stderr :: "string option"
  fs_stdout :: "string option"
  fs_exit_code :: "int option"
  fs_timed_out :: bool
  fs_policy_denied :: bool
  fs_error_category :: "string option"

text \<open>Patterns that ignore case, written in lower case.\<close>

primrec ilit :: "string \<Rightarrow> rx" where
  "ilit [] = RLit []"
| "ilit (c # s) = RSeq (RCls (\<lambda>x. lower_char x = c)) (ilit s)"

fun ilits :: "string list \<Rightarrow> rx" where
  "ilits [] = RCls (\<lambda>_. False)"
| "ilits [l] = ilit l"
| "ilits (l # m # ls) = RAlt (ilit l) (ilits (m # ls))"

text \<open>
  A row of the table: the pattern's own text, the pattern, where its group starts when it has one, the
  category, the template around \<^verbatim>\<open>{match}\<close>, the confidence.
\<close>

record hint =
  hn_text :: string
  hn_rx :: rx
  hn_group :: "nat option"
  hn_category :: string
  hn_template :: "string \<Rightarrow> string"
  hn_confidence :: diagnosis_confidence

definition DIAGNOSIS_HINTS :: "hint list" where
  "DIAGNOSIS_HINTS =
     [\<lparr>hn_text = ''unable to locate package ('' @ [CHR 0x5C] @ ''S+)'',
       hn_rx = RSeq (ilit ''unable to locate package '') (RMany 1 None (\<lambda>c. \<not> is_space c)),
       hn_group = Some (length ''unable to locate package ''), hn_category = ''missing_package'',
       hn_template = (\<lambda>m. ''Package '' @ quoted m @ '' is not available in the configured repositories.''),
       hn_confidence = Conf_HIGH\<rparr>,
      \<lparr>hn_text = ''e: (?:package|unable to fetch)'',
       hn_rx = RSeq (ilit ''e: '') (ilits [''package'', ''unable to fetch'']), hn_group = None,
       hn_category = ''package_manager_failure'',
       hn_template = (\<lambda>_. ''The system package manager could not complete the install.''),
       hn_confidence = Conf_MEDIUM\<rparr>,
      \<lparr>hn_text = ''could not find (?:a )?version that satisfies'',
       hn_rx = RSeq (ilit ''could not find '') (RSeq (ROpt (ilit ''a '')) (ilit ''version that satisfies'')),
       hn_group = None, hn_category = ''incompatible_version'',
       hn_template = (\<lambda>_. ''No version matching the requested constraint is available.''),
       hn_confidence = Conf_HIGH\<rparr>,
      \<lparr>hn_text = ''(?:permission denied|access is denied|operation not permitted)'',
       hn_rx = ilits [''permission denied'', ''access is denied'', ''operation not permitted''],
       hn_group = None, hn_category = ''permission_issue'',
       hn_template = (\<lambda>_. ''The process lacked permission to complete the operation.''),
       hn_confidence = Conf_HIGH\<rparr>,
      \<lparr>hn_text = ''(?:no such file or directory|command not found|not recognized)'',
       hn_rx = ilits [''no such file or directory'', ''command not found'', ''not recognized''],
       hn_group = None, hn_category = ''missing_executable'',
       hn_template = (\<lambda>_. ''The required executable is not on PATH or does not exist.''),
       hn_confidence = Conf_HIGH\<rparr>,
      \<lparr>hn_text = ''(?:connection refused|connection reset|network is unreachable|could not resolve)'',
       hn_rx = ilits [''connection refused'', ''connection reset'', ''network is unreachable'',
         ''could not resolve''],
       hn_group = None, hn_category = ''network_connectivity'',
       hn_template = (\<lambda>_. ''Network connectivity to the target failed.''),
       hn_confidence = Conf_MEDIUM\<rparr>,
      \<lparr>hn_text = ''(?:disk|no space left on device)'',
       hn_rx = ilits [''disk'', ''no space left on device''], hn_group = None,
       hn_category = ''disk_space'', hn_template = (\<lambda>_. ''The host is out of writable disk space.''),
       hn_confidence = Conf_HIGH\<rparr>,
      \<lparr>hn_text = ''(?:invalid argument|unrecognized option)'',
       hn_rx = ilits [''invalid argument'', ''unrecognized option''], hn_group = None,
       hn_category = ''invalid_argument'',
       hn_template = (\<lambda>_. ''The command was invoked with arguments it does not recognize.''),
       hn_confidence = Conf_MEDIUM\<rparr>]"

text \<open>The first row whose pattern is found, with the text of its group, or of the whole match.\<close>

fun first_hint :: "hint list \<Rightarrow> string \<Rightarrow> (hint \<times> string) option" where
  "first_hint [] h = None"
| "first_hint (n # ns) h =
     (case re_search (hn_rx n) h of
        Some (b, t) \<Rightarrow>
          let whole = take (length b - length t) b
          in Some (n, case hn_group n of None \<Rightarrow> whole | Some k \<Rightarrow> drop k whole)
      | None \<Rightarrow> first_hint ns h)"

definition haystack :: "failure_signals \<Rightarrow> string" where
  "haystack s = ostr_or (fs_stderr s) [] @ newline @ ostr_or (fs_stdout s) []"

definition new_diagnosis ::
    "string \<Rightarrow> string \<Rightarrow> string list \<Rightarrow> diagnosis_confidence \<Rightarrow> ('m runtime_scheme, diagnosis) prog" where
  "new_diagnosis category cause signals conf =
     bnd uuid4 (\<lambda>i. bnd now (\<lambda>t. ret \<lparr>dg_id = i, dg_error_category = category,
       dg_root_cause = cause, dg_supporting_signals = signals, dg_confidence = conf,
       dg_created_at = t\<rparr>))"

definition diagnose :: "failure_signals \<Rightarrow> ('m runtime_scheme, diagnosis) prog" where
  "diagnose s =
     (if fs_policy_denied s then
        new_diagnosis ''policy_restriction'' ''The Policy Engine denied the action.''
          [''policy_denied=True''] Conf_HIGH
      else if fs_timed_out s then
        new_diagnosis ''timeout'' ''The action exceeded its configured timeout.''
          [''timed_out=True''] Conf_HIGH
      else case first_hint DIAGNOSIS_HINTS (haystack s) of
        Some (n, token) \<Rightarrow>
          new_diagnosis (hn_category n) (hn_template n token)
            [''pattern_matched='' @ py_repr (hn_text n), ''token='' @ py_repr token] (hn_confidence n)
      | None \<Rightarrow>
          (case fs_exit_code s of
             Some code \<Rightarrow>
               if code \<noteq> 0 then
                 new_diagnosis (ostr_or (fs_error_category s) ''nonzero_exit'')
                   (''Command exited with status '' @ show_int code @ ''.'')
                   [''exit_code='' @ show_int code] Conf_LOW
               else new_diagnosis (ostr_or (fs_error_category s) ''unknown'')
                   ''No matching diagnostic pattern.'' [] Conf_UNKNOWN
           | None \<Rightarrow> new_diagnosis (ostr_or (fs_error_category s) ''unknown'')
                   ''No matching diagnostic pattern.'' [] Conf_UNKNOWN))"

section \<open>History\<close>

definition record_attempt :: "healing_attempt \<Rightarrow> healing_attempt list \<Rightarrow> healing_attempt list" where
  "record_attempt a h = h @ [a]"

definition attempts_for_task :: "uuid \<Rightarrow> healing_attempt list \<Rightarrow> healing_attempt list" where
  "attempts_for_task i h = filter (\<lambda>a. ha_task_id a = Some i) h"

definition has_category :: "string \<Rightarrow> healing_attempt \<Rightarrow> bool" where
  "has_category c a \<longleftrightarrow> (case ha_diagnosis a of None \<Rightarrow> False | Some d \<Rightarrow> dg_error_category d = c)"

definition category_history :: "uuid \<Rightarrow> string \<Rightarrow> healing_attempt list \<Rightarrow> healing_attempt list" where
  "category_history i c h = filter (\<lambda>a. ha_task_id a = Some i \<and> has_category c a) h"

fun update_outcome ::
    "uuid \<Rightarrow> healing_outcome \<Rightarrow> string \<Rightarrow> healing_attempt list \<Rightarrow> healing_attempt list" where
  "update_outcome i outcome note [] = []"
| "update_outcome i outcome note (a # h) =
     (if ha_id a = i then
        a\<lparr>ha_outcome := outcome,
          ha_note := (if note = [] then ha_note a
                      else if ha_note a \<noteq> [] then ha_note a @ '' | '' @ note else note)\<rparr> # h
      else a # update_outcome i outcome note h)"

definition has_kind :: "string \<Rightarrow> healing_attempt \<Rightarrow> bool" where
  "has_kind k a \<longleftrightarrow> (case ha_strategy a of None \<Rightarrow> False | Some s \<Rightarrow> strategy_value (hs_kind s) = k)"

definition success_rate_for_strategy :: "string \<Rightarrow> healing_attempt list \<Rightarrow> rat" where
  "success_rate_for_strategy k h =
     (let matching = filter (has_kind k) h
      in if matching = [] then 0
         else of_nat (length (filter (\<lambda>a. ha_outcome a = Heal_SUCCEEDED) matching)) /
              of_nat (length matching))"

section \<open>Strategies\<close>

record planner_config =
  pc_max_retries :: nat
  pc_backoff_base_seconds :: rat
  pc_max_timeout_multiplier :: rat

definition default_planner_config :: planner_config where
  "default_planner_config =
     \<lparr>pc_max_retries = 2, pc_backoff_base_seconds = 1, pc_max_timeout_multiplier = 4\<rparr>"

definition times_sign :: string where
  "times_sign = [CHR 0xC3, CHR 0x97]"

definition strategy ::
    "strategy_kind \<Rightarrow> string \<Rightarrow> (string \<times> pyval) list \<Rightarrow> bool \<Rightarrow> bool \<Rightarrow>
     ('m runtime_scheme, healing_strategy) prog" where
  "strategy kind description parameters recheck approval =
     bnd uuid4 (\<lambda>i. ret \<lparr>hs_id = i, hs_kind = kind, hs_description = description,
       hs_parameters = parameters, hs_requires_policy_recheck = recheck,
       hs_requires_user_approval = approval\<rparr>)"

definition repeated_category :: "string list \<Rightarrow> string \<Rightarrow> bool" where
  "repeated_category prior category \<longleftrightarrow>
     prior \<noteq> [] \<and> last prior = category \<and> category \<noteq> ''timeout''"

definition propose ::
    "planner_config \<Rightarrow> diagnosis \<Rightarrow> nat \<Rightarrow> string list \<Rightarrow> ('m runtime_scheme, healing_strategy) prog" where
  "propose c d retries_used prior =
     (let category = dg_error_category d;
          low_confidence = dg_confidence d \<in> {Conf_LOW, Conf_UNKNOWN}
      in if repeated_category prior category then
           strategy ABANDON (''Category '' @ quoted category @ '' repeated on consecutive attempts '' @
             em_dash @ '' further retries are unlikely to help without new information.'') [] False False
         else if category = ''policy_restriction'' then
           strategy ESCALATE_TO_USER
             ''Policy denied the action; only a human can decide whether to widen scope or drop the action.''
             [] False True
         else if category = ''timeout'' \<and> retries_used < pc_max_retries c then
           (let multiplier = min (2 ^ Suc retries_used) (py_trunc (pc_max_timeout_multiplier c))
            in strategy ADJUST_TIMEOUT (''Timeout hit; retry with '' @ show_int multiplier @ times_sign @
                 '' timeout.'') [(''timeout_multiplier'', PInt multiplier)] True False)
         else if category = ''missing_package'' \<or> category = ''missing_executable'' then
           strategy INSTALL_MISSING_DEPENDENCY (''A required package/executable is missing '' @ em_dash @
             '' try installing it via the existing Tool Installation service.'')
             [(''hint'', PStr (dg_root_cause d))] True True
         else if category = ''network_connectivity'' \<and> retries_used < pc_max_retries c then
           (let delay = pc_backoff_base_seconds c * 2 ^ retries_used
            in strategy RETRY_WITH_BACKOFF (''Transient network issue; retry after '' @ fixed1 delay @
                 ''s backoff.'') [(''backoff_seconds'', PFloat delay)] False False)
         else if category = ''incompatible_version'' then
           strategy USE_ALTERNATIVE_TOOL (''No compatible version '' @ em_dash @
             '' search the Tool Registry for an alternative.'') [] False True
         else if category \<in> {''permission_issue'', ''disk_space''} then
           strategy ESCALATE_TO_USER (quoted category @
             '' requires operator action; the agent cannot resolve it.'') [] False True
         else if category = ''invalid_argument'' then
           strategy REDUCE_SCOPE (''Command arguments were rejected '' @ em_dash @
             '' propose a simpler variant.'') [] True True
         else if low_confidence \<or> pc_max_retries c \<le> retries_used then
           strategy ESCALATE_TO_USER (''Diagnosis inconclusive or retry budget exhausted '' @ em_dash @
             '' escalating.'') [] False True
         else strategy RETRY_WITH_BACKOFF ''Category was inconclusive but retryable; one bounded retry.''
             [(''backoff_seconds'', PFloat (pc_backoff_base_seconds c))] False False)"

section \<open>The engine\<close>

record healing_proposal =
  hp_diagnosis :: diagnosis
  hp_strategy :: healing_strategy
  hp_attempt :: healing_attempt

definition prior_categories :: "healing_attempt list \<Rightarrow> string list" where
  "prior_categories prior = map dg_error_category (List.map_filter ha_diagnosis prior)"

definition retries_used :: "string \<Rightarrow> healing_attempt list \<Rightarrow> nat" where
  "retries_used category prior = length (filter (has_category category) prior)"

text \<open>\<open>heal\<close> returns its proposal with the history after it.\<close>

definition heal ::
    "planner_config \<Rightarrow> uuid \<Rightarrow> uuid option \<Rightarrow> failure_signals \<Rightarrow> healing_attempt list \<Rightarrow>
     ('m runtime_scheme, healing_proposal \<times> healing_attempt list) prog" where
  "heal c task_id action_id signals h =
     bnd (diagnose signals) (\<lambda>d.
     let prior = attempts_for_task task_id h in
     bnd (propose c d (retries_used (dg_error_category d) prior) (prior_categories prior)) (\<lambda>s.
     bnd uuid4 (\<lambda>i. bnd now (\<lambda>t.
     let attempt = \<lparr>ha_id = i, ha_task_id = Some task_id, ha_action_id = action_id,
           ha_diagnosis = Some d, ha_strategy = Some s, ha_outcome = Heal_PENDING,
           ha_note = ''Proposed '' @ strategy_value (hs_kind s) @ '' for '' @ dg_error_category d @ ''.'',
           ha_created_at = t, ha_completed_at = None\<rparr>
     in ret (\<lparr>hp_diagnosis = d, hp_strategy = s, hp_attempt = attempt\<rparr>, record_attempt attempt h)))))"

definition record_outcome ::
    "uuid \<Rightarrow> healing_outcome \<Rightarrow> string \<Rightarrow> healing_attempt list \<Rightarrow> healing_attempt list" where
  "record_outcome i outcome note h = update_outcome i outcome note h"

section \<open>Patterns that ignore case\<close>

lemma is_space_lower [simp]: "is_space (lower_char c) = is_space c"
  by (auto simp: is_space_def lower_char_def)

lemma rx_match_ilit:
  "rx_match (ilit l) s = (if starts_with l (lower s) then [drop (length l) s] else [])"
proof (induction l arbitrary: s)
  case Nil
  then show ?case by (simp add: starts_with_def)
next
  case (Cons c l)
  then show ?case by (cases s) (auto simp: starts_with_def lower_def)
qed

lemma lower_split: "(\<exists>a b. s = a @ b \<and> starts_with l (lower b)) \<longleftrightarrow> str_in l (lower s)"
proof
  assume "\<exists>a b. s = a @ b \<and> starts_with l (lower b)"
  then obtain a r where "lower s = lower a @ l @ r" by (auto simp: starts_with_iff)
  then show "str_in l (lower s)" unfolding str_in_iff by blast
next
  assume "str_in l (lower s)"
  then obtain a b where ab: "lower s = a @ l @ b" by (auto simp: str_in_iff)
  have "starts_with l (lower (drop (length a) s))"
    using ab by (simp add: lower_def starts_with_iff drop_map [symmetric])
  then show "\<exists>a b. s = a @ b \<and> starts_with l (lower b)" by (metis append_take_drop_id)
qed

lemma re_found_ilit: "re_found (ilit l) s \<longleftrightarrow> str_in l (lower s)"
  unfolding re_found_iff lower_split [symmetric] rx_match_ilit by auto

lemma re_found_ilits: "re_found (ilits ls) s \<longleftrightarrow> (\<exists>l \<in> set ls. str_in l (lower s))"
proof (induction ls rule: ilits.induct)
  case 1
  then show ?case by (auto simp: re_found_iff split: list.splits)
qed (auto simp: re_found_ilit re_found_RAlt)

lemma found_seq_ilit:
  "re_found (RSeq (ilit l) r) s \<longleftrightarrow> (\<exists>a b. s = a @ b \<and> starts_with l (lower b) \<and> rx_match r (drop (length l) b) \<noteq> [])"
  unfolding re_found_iff by (simp add: rx_match_ilit)

lemma lower_drop: "lower (drop n s) = drop n (lower s)"
  by (simp add: lower_def drop_map)

lemma starts_with_append_iff:
  "starts_with (l @ m) t \<longleftrightarrow> starts_with l t \<and> starts_with m (drop (length l) t)"
  by (auto simp: starts_with_iff)

lemma found_seq_lits:
  assumes "\<And>t. rx_match r t \<noteq> [] \<longleftrightarrow> (\<exists>m \<in> set ms. starts_with m (lower t))"
  shows "re_found (RSeq (ilit l) r) s \<longleftrightarrow> (\<exists>m \<in> set ms. str_in (l @ m) (lower s))"
  unfolding found_seq_ilit assms lower_drop
  using lower_split [of s "l @ _"] by (simp add: starts_with_append_iff) blast

section \<open>What a diagnosis says\<close>

definition contains_any :: "string list \<Rightarrow> string \<Rightarrow> bool" where
  "contains_any ls t \<longleftrightarrow> (\<exists>l \<in> set ls. str_in l t)"

text \<open>The symptoms, as words of the lowered text, in the order they are looked for.\<close>

definition SYMPTOMS :: "(string \<times> (string \<Rightarrow> bool)) list" where
  "SYMPTOMS =
     [(''missing_package'', \<lambda>t. \<exists>c. \<not> is_space c \<and> str_in (''unable to locate package '' @ [c]) t),
      (''package_manager_failure'', contains_any [''e: package'', ''e: unable to fetch'']),
      (''incompatible_version'', contains_any [''could not find a version that satisfies'',
         ''could not find version that satisfies'']),
      (''permission_issue'', contains_any [''permission denied'', ''access is denied'',
         ''operation not permitted'']),
      (''missing_executable'', contains_any [''no such file or directory'', ''command not found'',
         ''not recognized'']),
      (''network_connectivity'', contains_any [''connection refused'', ''connection reset'',
         ''network is unreachable'', ''could not resolve'']),
      (''disk_space'', contains_any [''disk'', ''no space left on device'']),
      (''invalid_argument'', contains_any [''invalid argument'', ''unrecognized option''])]"

lemma first_hint_category:
  "map_option (hn_category \<circ> fst) (first_hint ns h) =
     map_option hn_category (find (\<lambda>n. re_found (hn_rx n) h) ns)"
  by (induction ns) (auto simp: re_found_def Let_def split: option.splits)

lemma found_package:
  "re_found (RSeq (ilit l) (RMany 1 None (\<lambda>c. \<not> is_space c))) s \<longleftrightarrow>
     (\<exists>c. \<not> is_space c \<and> str_in (l @ [c]) (lower s))"
proof -
  have some: "rx_match (RMany 1 None (\<lambda>c. \<not> is_space c)) t \<noteq> [] \<longleftrightarrow>
      (\<exists>c. \<not> is_space c \<and> starts_with [c] (lower t))" for t
    by (cases t) (auto simp: Let_def greedy_run_nonempty starts_with_def lower_def)
  show ?thesis
    unfolding found_seq_ilit some lower_drop
    using lower_split [of s "l @ [_]"] by (simp add: starts_with_append_iff) blast
qed

lemma match_ilits: "rx_match (ilits ls) t \<noteq> [] \<longleftrightarrow> (\<exists>l \<in> set ls. starts_with l (lower t))"
  by (induction ls rule: ilits.induct) (auto simp: rx_match_ilit split: list.splits if_splits)

lemma match_version:
  "rx_match (RSeq (ROpt (ilit a)) (ilit v)) t \<noteq> [] \<longleftrightarrow> (\<exists>m \<in> set [a @ v, v]. starts_with m (lower t))"
  by (auto simp: rx_match_ilit starts_with_append_iff lower_drop)

lemma find_categories:
  "list_all2 (\<lambda>n (c, p). hn_category n = c \<and> (re_found (hn_rx n) h \<longleftrightarrow> p (lower h))) ns ss \<Longrightarrow>
   map_option hn_category (find (\<lambda>n. re_found (hn_rx n) h) ns) = map_option fst (find (\<lambda>(c, p). p (lower h)) ss)"
  by (induction rule: list_all2_induct) auto

lemma hints_symptoms:
  "map_option hn_category (find (\<lambda>n. re_found (hn_rx n) h) DIAGNOSIS_HINTS) =
     map_option fst (find (\<lambda>(c, p). p (lower h)) SYMPTOMS)"
  apply (rule find_categories)
  apply (unfold DIAGNOSIS_HINTS_def SYMPTOMS_def list_all2_Cons list_all2_Nil prod.case hint.simps
      found_package re_found_ilits contains_any_def found_seq_lits [OF match_ilits]
      found_seq_lits [OF match_version])
  apply (intro conjI refl TrueI)
  apply (simp_all only: list.simps ball_simps bex_simps append.simps refl)
  done

text \<open>
  A diagnosis names the first symptom found: the category of every diagnosis is the one a plain
  search of the lowered output for the listed words gives, after a denial of the policy and a timeout,
  which come first whatever was printed; without a symptom it is the upstream category, or whether the
  exit code was zero.
\<close>

theorem diagnosis_names_symptom:
  "\<exists>d w'. diagnose s w = (Inr d, w') \<and> dg_error_category d =
     (if fs_policy_denied s then ''policy_restriction''
      else if fs_timed_out s then ''timeout''
      else case find (\<lambda>(c, p). p (lower (haystack s))) SYMPTOMS of
        Some (c, _) \<Rightarrow> c
      | None \<Rightarrow> ostr_or (fs_error_category s)
          (if fs_exit_code s \<in> {None, Some 0} then ''unknown'' else ''nonzero_exit''))"
proof -
  have "map_option (hn_category \<circ> fst) (first_hint DIAGNOSIS_HINTS (haystack s)) =
      map_option fst (find (\<lambda>(c, p). p (lower (haystack s))) SYMPTOMS)"
    by (simp only: first_hint_category hints_symptoms)
  then show ?thesis
    by (auto simp: diagnose_def new_diagnosis_def ret_def split: option.splits)
qed

section \<open>What a proposal may ask for\<close>

text \<open>The flags a strategy carries: a fresh policy check, the user's approval.\<close>

fun flags_of :: "strategy_kind \<Rightarrow> bool \<times> bool" where
  "flags_of RETRY_WITH_BACKOFF = (False, False)"
| "flags_of INSTALL_MISSING_DEPENDENCY = (True, True)"
| "flags_of USE_ALTERNATIVE_TOOL = (False, True)"
| "flags_of ADJUST_TIMEOUT = (True, False)"
| "flags_of REDUCE_SCOPE = (True, True)"
| "flags_of ESCALATE_TO_USER = (False, True)"
| "flags_of ABANDON = (False, False)"

text \<open>The kind \<open>propose\<close> chooses.\<close>

definition chosen_kind ::
    "planner_config \<Rightarrow> string \<Rightarrow> diagnosis_confidence \<Rightarrow> nat \<Rightarrow> string list \<Rightarrow> strategy_kind" where
  "chosen_kind c category conf k prior =
     (if repeated_category prior category then ABANDON
      else if category = ''policy_restriction'' then ESCALATE_TO_USER
      else if category = ''timeout'' \<and> k < pc_max_retries c then ADJUST_TIMEOUT
      else if category = ''missing_package'' \<or> category = ''missing_executable'' then INSTALL_MISSING_DEPENDENCY
      else if category = ''network_connectivity'' \<and> k < pc_max_retries c then RETRY_WITH_BACKOFF
      else if category = ''incompatible_version'' then USE_ALTERNATIVE_TOOL
      else if category \<in> {''permission_issue'', ''disk_space''} then ESCALATE_TO_USER
      else if category = ''invalid_argument'' then REDUCE_SCOPE
      else if conf \<in> {Conf_LOW, Conf_UNKNOWN} \<or> pc_max_retries c \<le> k then ESCALATE_TO_USER
      else RETRY_WITH_BACKOFF)"

lemma wp_strategy:
  "wp (strategy kind description parameters recheck approval) Q w =
     Q (Inr \<lparr>hs_id = rt_uuid w (rt_uuids w), hs_kind = kind, hs_description = description,
       hs_parameters = parameters, hs_requires_policy_recheck = recheck,
       hs_requires_user_approval = approval\<rparr>) (w\<lparr>rt_uuids := Suc (rt_uuids w)\<rparr>)"
  by (simp add: strategy_def wps)

lemma wp_propose:
  assumes "\<And>s w'. hs_kind s = chosen_kind c (dg_error_category d) (dg_confidence d) k prior \<Longrightarrow>
      (hs_requires_policy_recheck s, hs_requires_user_approval s) = flags_of (hs_kind s) \<Longrightarrow> Q (Inr s) w'"
  shows "wp (propose c d k prior) Q w"
  unfolding propose_def Let_def
  by (simp add: wp_strategy, intro conjI impI; rule assms; simp add: chosen_kind_def)

text \<open>The category and the confidence of a diagnosis.\<close>

definition diagnosed :: "failure_signals \<Rightarrow> string \<times> diagnosis_confidence" where
  "diagnosed s =
     (if fs_policy_denied s then (''policy_restriction'', Conf_HIGH)
      else if fs_timed_out s then (''timeout'', Conf_HIGH)
      else case first_hint DIAGNOSIS_HINTS (haystack s) of
        Some (n, _) \<Rightarrow> (hn_category n, hn_confidence n)
      | None \<Rightarrow> if fs_exit_code s \<in> {None, Some 0}
          then (ostr_or (fs_error_category s) ''unknown'', Conf_UNKNOWN)
          else (ostr_or (fs_error_category s) ''nonzero_exit'', Conf_LOW))"

lemma wp_diagnose:
  assumes "\<And>d w'. (dg_error_category d, dg_confidence d) = diagnosed s \<Longrightarrow> Q (Inr d) w'"
  shows "wp (diagnose s) Q w"
proof -
  have new: "wp (new_diagnosis category cause sg conf) Q w"
    if "(category, conf) = diagnosed s" for category cause sg conf
    using assms that by (simp add: new_diagnosis_def wps)
  show ?thesis
    unfolding diagnose_def
    by (auto split: option.split intro!: new simp: diagnosed_def)
qed

definition proposed ::
    "planner_config \<Rightarrow> uuid \<Rightarrow> failure_signals \<Rightarrow> healing_attempt list \<Rightarrow> healing_proposal \<Rightarrow> bool" where
  "proposed c i s h p \<longleftrightarrow>
     (let prior = attempts_for_task i h; category = fst (diagnosed s) in
      hs_kind (hp_strategy p) = chosen_kind c category (snd (diagnosed s))
        (retries_used category prior) (prior_categories prior) \<and>
      (hs_requires_policy_recheck (hp_strategy p), hs_requires_user_approval (hp_strategy p)) =
        flags_of (hs_kind (hp_strategy p)) \<and>
      ha_task_id (hp_attempt p) = Some i \<and> ha_strategy (hp_attempt p) = Some (hp_strategy p) \<and>
      (\<exists>d. ha_diagnosis (hp_attempt p) = Some d \<and> dg_error_category d = category))"

lemma wp_heal:
  assumes "\<And>p w'. proposed c i s h p \<Longrightarrow> Q (Inr (p, h @ [hp_attempt p])) w'"
  shows "wp (heal c i a s h) Q w"
  unfolding heal_def wp_bnd
  apply (rule wp_diagnose)
  apply (simp add: wp_bnd Let_def)
  apply (rule wp_propose)
  apply (simp add: wps record_attempt_def)
  apply (rule assms [of "\<lparr>hp_diagnosis = _, hp_strategy = _, hp_attempt = _\<rparr>", simplified])
  apply (auto simp: proposed_def Let_def prod_eq_iff)
  done

text \<open>
  Self-healing only proposes, and never more than it may: every \<^verbatim>\<open>heal\<close> returns a proposal and
  adds exactly its attempt to the history; the flags of the proposed strategy follow from its kind
  alone, so that installing a dependency always asks for a policy check and the user's approval, a longer
  timeout for a policy check; and a denied action is only ever escalated or abandoned.
\<close>

theorem heal_only_proposes:
  "\<exists>p w'. heal c i a s h w = (Inr (p, h @ [hp_attempt p]), w') \<and>
     (hs_requires_policy_recheck (hp_strategy p), hs_requires_user_approval (hp_strategy p)) =
       flags_of (hs_kind (hp_strategy p)) \<and>
     hs_kind (hp_strategy p) \<in> (if fs_policy_denied s then {ESCALATE_TO_USER, ABANDON} else UNIV) \<and>
     ha_strategy (hp_attempt p) = Some (hp_strategy p) \<and> ha_task_id (hp_attempt p) = Some i"
proof -
  have "wp (heal c i a s h) (\<lambda>x _. \<exists>p. x = Inr (p, h @ [hp_attempt p]) \<and> proposed c i s h p) w"
    by (rule wp_heal) auto
  then obtain p w' where "heal c i a s h w = (Inr (p, h @ [hp_attempt p]), w')" "proposed c i s h p"
    by (cases "heal c i a s h w") (auto simp: wp_def)
  then show ?thesis
    by (auto simp: proposed_def Let_def diagnosed_def chosen_kind_def)
qed

section \<open>Healing settles\<close>

text \<open>The same failure of one task, healed \<open>n\<close> times.\<close>

fun heal_times ::
    "planner_config \<Rightarrow> uuid \<Rightarrow> uuid option \<Rightarrow> failure_signals \<Rightarrow> nat \<Rightarrow> healing_attempt list \<Rightarrow>
     ('m runtime_scheme, strategy_kind list \<times> healing_attempt list) prog" where
  "heal_times c i a s 0 h = ret ([], h)"
| "heal_times c i a s (Suc n) h =
     bnd (heal_times c i a s n h) (\<lambda>(kinds, h1).
     bnd (heal c i a s h1) (\<lambda>(p, h2). ret (kinds @ [hs_kind (hp_strategy p)], h2)))"

definition healed :: "planner_config \<Rightarrow> uuid \<Rightarrow> failure_signals \<Rightarrow> nat \<Rightarrow> strategy_kind list \<Rightarrow>
    healing_attempt list \<Rightarrow> bool" where
  "healed c i s n kinds h \<longleftrightarrow>
     kinds = map (\<lambda>k. chosen_kind c (fst (diagnosed s)) (snd (diagnosed s)) k
       (replicate k (fst (diagnosed s)))) [0..<n] \<and>
     retries_used (fst (diagnosed s)) (attempts_for_task i h) = n \<and>
     prior_categories (attempts_for_task i h) = replicate n (fst (diagnosed s))"

lemma wp_heal_times:
  assumes "attempts_for_task i h = []"
  shows "wp (heal_times c i a s n h) (\<lambda>x _. \<exists>kinds h'. x = Inr (kinds, h') \<and> healed c i s n kinds h') w"
proof (induction n)
  case 0
  then show ?case using assms
    by (simp add: wps healed_def retries_used_def prior_categories_def List.map_filter_def)
next
  case (Suc n)
  show ?case
    unfolding heal_times.simps wp_bnd
    apply (rule wp_mono [OF Suc])
    apply clarsimp
    apply (simp only: wp_bnd)
    apply (rule wp_heal)
    apply (auto simp: wps healed_def proposed_def Let_def attempts_for_task_def retries_used_def
        prior_categories_def List.map_filter_def has_category_def replicate_append_same)
    done
qed

lemma in_set_drop_nth: "x \<in> set (drop m xs) \<Longrightarrow> \<exists>j. m \<le> j \<and> j < length xs \<and> x = xs ! j"
proof -
  assume "x \<in> set (drop m xs)"
  then obtain i where "i < length xs - m" "x = drop m xs ! i" by (auto simp: in_set_conv_nth)
  then show ?thesis by (intro exI [of _ "m + i"]) auto
qed

text \<open>
  C18.  Healing the same failure again and again settles: for every task, every failure and every number
  of rounds, the strategies are determined, one per round; after the first round, or after the
  configured number of retries for a timeout, every further proposal is to give up or to ask the user,
  so no failure is retried automatically more often than that.
\<close>

theorem healing_settles:
  assumes "attempts_for_task i h = []"
  shows "\<exists>kinds h' w'. heal_times c i a s n h w = (Inr (kinds, h'), w') \<and> length kinds = n \<and>
    (\<forall>k<n. max 1 (pc_max_retries c) \<le> k \<longrightarrow> kinds ! k \<in> {ABANDON, ESCALATE_TO_USER}) \<and>
    length (filter (\<lambda>x. x \<in> {RETRY_WITH_BACKOFF, ADJUST_TIMEOUT}) kinds) \<le> max 1 (pc_max_retries c)"
proof -
  let ?m = "max 1 (pc_max_retries c)"
  obtain kinds h' w' where run: "heal_times c i a s n h w = (Inr (kinds, h'), w')" and k: "healed c i s n kinds h'"
    using wp_heal_times [OF assms, of c a s n w] by (cases "heal_times c i a s n h w") (auto simp: wp_def)
  have len: "length kinds = n" using k by (simp add: healed_def)
  have settled: "kinds ! j \<in> {ABANDON, ESCALATE_TO_USER}" if "j < n" "?m \<le> j" for j
    using k that by (cases j) (auto simp: healed_def chosen_kind_def repeated_category_def diagnosed_def)
  have "filter (\<lambda>x. x \<in> {RETRY_WITH_BACKOFF, ADJUST_TIMEOUT}) (drop ?m kinds) = []"
  proof -
    have "x \<in> {ABANDON, ESCALATE_TO_USER}" if "x \<in> set (drop ?m kinds)" for x
      using in_set_drop_nth [OF that] settled len by auto
    then show ?thesis by (fastforce simp: filter_empty_conv)
  qed
  then have "filter (\<lambda>x. x \<in> {RETRY_WITH_BACKOFF, ADJUST_TIMEOUT}) kinds =
      filter (\<lambda>x. x \<in> {RETRY_WITH_BACKOFF, ADJUST_TIMEOUT}) (take ?m kinds)"
    by (metis append_Nil2 append_take_drop_id filter_append)
  moreover have "length (filter P (take ?m kinds)) \<le> ?m" for P :: "strategy_kind \<Rightarrow> bool"
    using length_filter_le [of P "take ?m kinds"] by simp
  ultimately show ?thesis using run len settled by auto
qed

theorem healing_settles_witness:
  "\<exists>kinds h' w'. heal_times default_planner_config 1 None
      \<lparr>fs_stderr = None, fs_stdout = None, fs_exit_code = None, fs_timed_out = True,
       fs_policy_denied = False, fs_error_category = None\<rparr> 3 [] \<lparr>rt_clock = int, rt_ticks = 0, rt_uuid = id, rt_uuids = 0\<rparr> = (Inr (kinds, h'), w') \<and>
     kinds ! 2 \<in> {ABANDON, ESCALATE_TO_USER}"
  using healing_settles [of 1 "[]" default_planner_config None
      "\<lparr>fs_stderr = None, fs_stdout = None, fs_exit_code = None, fs_timed_out = True,
       fs_policy_denied = False, fs_error_category = None\<rparr>" 3
      "\<lparr>rt_clock = int, rt_ticks = 0, rt_uuid = id, rt_uuids = 0\<rparr>"]
  by (auto simp: attempts_for_task_def default_planner_config_def)

end
