(* ===== verification/Agent_Core.thy ===== *)
theory Agent_Core
  imports Healing Policy
begin

text \<open>
  The parts of \<^verbatim>\<open>services/agent_orchestrator\<close> that hold no state of their own: \<open>actions.py\<close>,
  \<open>models.py\<close>, \<open>ai_schemas.py\<close>, \<open>budget.py\<close>, \<open>policy_gate.py\<close>, \<open>analysis.py\<close>,
  \<open>recovery.py\<close>, \<open>reasoning.py\<close> and \<open>report.py\<close>.  A task is a record that the handlers of
  \<open>Agent\<close> pass along and save.
\<close>

section \<open>Actions\<close>

datatype action_type =
    DISCOVER_TARGET | CHECK_ENVIRONMENT | RESEARCH_TOOL | INSTALL_TOOL | RUN_DIAGNOSTIC
  | COLLECT_INFORMATION | ANALYZE_OUTPUT | VERIFY_FINDING | GENERATE_REPORT | ASK_USER
  | WAIT_FOR_APPROVAL | COMPLETE_TASK

fun action_value :: "action_type \<Rightarrow> string" where
  "action_value DISCOVER_TARGET = ''DISCOVER_TARGET''"
| "action_value CHECK_ENVIRONMENT = ''CHECK_ENVIRONMENT''"
| "action_value RESEARCH_TOOL = ''RESEARCH_TOOL''"
| "action_value INSTALL_TOOL = ''INSTALL_TOOL''"
| "action_value RUN_DIAGNOSTIC = ''RUN_DIAGNOSTIC''"
| "action_value COLLECT_INFORMATION = ''COLLECT_INFORMATION''"
| "action_value ANALYZE_OUTPUT = ''ANALYZE_OUTPUT''"
| "action_value VERIFY_FINDING = ''VERIFY_FINDING''"
| "action_value GENERATE_REPORT = ''GENERATE_REPORT''"
| "action_value ASK_USER = ''ASK_USER''"
| "action_value WAIT_FOR_APPROVAL = ''WAIT_FOR_APPROVAL''"
| "action_value COMPLETE_TASK = ''COMPLETE_TASK''"

definition READ_ONLY_ACTION_TYPES :: "action_type list" where
  "READ_ONLY_ACTION_TYPES =
     [DISCOVER_TARGET, CHECK_ENVIRONMENT, RESEARCH_TOOL, ANALYZE_OUTPUT, VERIFY_FINDING,
      GENERATE_REPORT, ASK_USER, WAIT_FOR_APPROVAL, COMPLETE_TASK]"

definition EXECUTION_ACTION_TYPES :: "action_type list" where
  "EXECUTION_ACTION_TYPES = [RUN_DIAGNOSTIC, INSTALL_TOOL]"

section \<open>Models\<close>

datatype agent_phase =
    Ph_CREATED | Ph_UNDERSTANDING | Ph_RESEARCHING | Ph_PLANNING | Ph_WAITING_FOR_AUTHORIZATION
  | Ph_WAITING_FOR_APPROVAL | Ph_PREPARING | Ph_EXECUTING | Ph_OBSERVING | Ph_ANALYZING
  | Ph_VERIFYING | Ph_RECOVERING | Ph_PAUSED | Ph_CANCELLED | Ph_COMPLETED | Ph_FAILED | Ph_BLOCKED

fun phase_value :: "agent_phase \<Rightarrow> string" where
  "phase_value Ph_CREATED = ''CREATED''"
| "phase_value Ph_UNDERSTANDING = ''UNDERSTANDING''"
| "phase_value Ph_RESEARCHING = ''RESEARCHING''"
| "phase_value Ph_PLANNING = ''PLANNING''"
| "phase_value Ph_WAITING_FOR_AUTHORIZATION = ''WAITING_FOR_AUTHORIZATION''"
| "phase_value Ph_WAITING_FOR_APPROVAL = ''WAITING_FOR_APPROVAL''"
| "phase_value Ph_PREPARING = ''PREPARING''"
| "phase_value Ph_EXECUTING = ''EXECUTING''"
| "phase_value Ph_OBSERVING = ''OBSERVING''"
| "phase_value Ph_ANALYZING = ''ANALYZING''"
| "phase_value Ph_VERIFYING = ''VERIFYING''"
| "phase_value Ph_RECOVERING = ''RECOVERING''"
| "phase_value Ph_PAUSED = ''PAUSED''"
| "phase_value Ph_CANCELLED = ''CANCELLED''"
| "phase_value Ph_COMPLETED = ''COMPLETED''"
| "phase_value Ph_FAILED = ''FAILED''"
| "phase_value Ph_BLOCKED = ''BLOCKED''"

definition TERMINAL_PHASES :: "agent_phase list" where
  "TERMINAL_PHASES = [Ph_CANCELLED, Ph_COMPLETED, Ph_FAILED, Ph_BLOCKED]"

datatype approval_state = Appr_NOT_REQUIRED | Appr_PENDING | Appr_APPROVED | Appr_REJECTED

fun approval_value :: "approval_state \<Rightarrow> string" where
  "approval_value Appr_NOT_REQUIRED = ''NOT_REQUIRED''"
| "approval_value Appr_PENDING = ''PENDING''"
| "approval_value Appr_APPROVED = ''APPROVED''"
| "approval_value Appr_REJECTED = ''REJECTED''"

datatype cancellation_state = Canc_NONE | Canc_REQUESTED | Canc_CANCELLED

datatype subtask_status = Sub_PENDING | Sub_IN_PROGRESS | Sub_COMPLETED | Sub_BLOCKED | Sub_FAILED

datatype evidence_kind =
  EK_FACT | EK_OBSERVATION | EK_ASSUMPTION | EK_UNKNOWN | EK_FINDING | EK_VERIFIED_FINDING

fun evidence_value :: "evidence_kind \<Rightarrow> string" where
  "evidence_value EK_FACT = ''FACT''"
| "evidence_value EK_OBSERVATION = ''OBSERVATION''"
| "evidence_value EK_ASSUMPTION = ''ASSUMPTION''"
| "evidence_value EK_UNKNOWN = ''UNKNOWN''"
| "evidence_value EK_FINDING = ''FINDING''"
| "evidence_value EK_VERIFIED_FINDING = ''VERIFIED_FINDING''"

record evidence =
  evd_id :: uuid
  evd_kind :: evidence_kind
  evd_summary :: string
  evd_source_action_id :: "uuid option"
  evd_created_at :: time

record subtask =
  sub_id :: uuid
  sub_description :: string
  sub_category :: string
  sub_status :: subtask_status
  sub_depends_on :: "uuid list"

record agent_action =
  aa_id :: uuid
  aa_action_type :: action_type
  aa_target :: pyval
  aa_capability :: "string option"
  aa_tool :: "string option"
  aa_parameters :: "(string \<times> pyval) list"
  aa_requires_approval :: bool
  aa_approval_state :: approval_state
  aa_expected_result :: string
  aa_verification_requirement :: string
  aa_reasoning_summary :: string
  aa_confidence :: rat
  aa_result_summary :: "string option"
  aa_error_category :: "string option"
  aa_created_at :: time
  aa_completed_at :: "time option"

record agent_error =
  ae_id :: uuid
  ae_action_id :: "uuid option"
  ae_category :: string
  ae_message :: string
  ae_created_at :: time

record recovery_attempt =
  ra_action_id :: uuid
  ra_error_category :: string
  ra_strategy :: string
  ra_id :: uuid
  ra_outcome :: string
  ra_created_at :: time

record agent_task =
  ag_id :: uuid
  ag_objective :: string
  ag_user_request :: string
  ag_target :: "string option"
  ag_target_type :: "string option"
  ag_authorization_status :: string
  ag_target_id :: "uuid option"
  ag_scope :: "string list"
  ag_phase :: agent_phase
  ag_current_subtask_id :: "uuid option"
  ag_subtasks :: "subtask list"
  ag_selected_tools :: "string list"
  ag_tool_capabilities :: "(string \<times> string list) list"
  ag_installation_state :: "(string \<times> string) list"
  ag_execution_state :: string
  ag_actions :: "agent_action list"
  ag_observations :: "evidence list"
  ag_findings :: "evidence list"
  ag_evidence :: "evidence list"
  ag_outputs :: "string list"
  ag_errors :: "agent_error list"
  ag_recovery_attempts :: "recovery_attempt list"
  ag_verification_results :: "(string \<times> bool) list"
  ag_confidence :: rat
  ag_assumptions :: "string list"
  ag_unknowns :: "string list"
  ag_next_action :: "string option"
  ag_approval_state :: approval_state
  ag_pending_action_id :: "uuid option"
  ag_cancellation_state :: cancellation_state
  ag_clarification_question :: "string option"
  ag_action_count :: nat
  ag_model_call_count :: nat
  ag_installation_count :: nat
  ag_retry_count_by_action :: "(string \<times> nat) list"
  ag_last_error_signature :: "string option"
  ag_created_at :: time
  ag_updated_at :: time
  ag_started_at :: "time option"
  ag_completed_at :: "time option"

definition ag_is_terminal :: "agent_task \<Rightarrow> bool" where
  "ag_is_terminal s \<longleftrightarrow> ag_phase s \<in> set TERMINAL_PHASES"

definition completed_subtasks :: "agent_task \<Rightarrow> subtask list" where
  "completed_subtasks s = filter (\<lambda>t. sub_status t = Sub_COMPLETED) (ag_subtasks s)"

definition pending_subtasks :: "agent_task \<Rightarrow> subtask list" where
  "pending_subtasks s = filter (\<lambda>t. sub_status t = Sub_PENDING) (ag_subtasks s)"

definition blocked_subtasks :: "agent_task \<Rightarrow> subtask list" where
  "blocked_subtasks s = filter (\<lambda>t. sub_status t = Sub_BLOCKED) (ag_subtasks s)"

section \<open>Decisions of the model\<close>

datatype agent_intent = CONTINUE | CLARIFY | COMPLETE | INTENT_BLOCKED

record agent_decision =
  ad_reasoning_summary :: string
  ad_intent :: agent_intent
  ad_next_action :: string
  ad_action_type :: action_type
  ad_required_capability :: "string option"
  ad_tool :: "string option"
  ad_arguments :: "(string \<times> pyval) list"
  ad_requires_approval :: bool
  ad_missing_information :: "string list"
  ad_expected_evidence :: "string list"
  ad_verification_plan :: "string list"
  ad_confidence :: rat

text \<open>The bounds the schema declares, which the validating library enforces on what it returns.\<close>

definition decision_bounds :: "agent_decision \<Rightarrow> bool" where
  "decision_bounds d \<longleftrightarrow>
     py_len (ad_reasoning_summary d) \<le> 500 \<and> py_len (ad_next_action d) \<le> 300 \<and>
     0 \<le> ad_confidence d \<and> ad_confidence d \<le> 1"

text \<open>\<open>validate\<close> is the library's \<^verbatim>\<open>model_validate\<close>: an error text or a decision.\<close>

definition parse_agent_decision ::
    "(pyval \<Rightarrow> string + agent_decision) \<Rightarrow> pyval \<Rightarrow> string + agent_decision" where
  "parse_agent_decision validate payload =
     (case validate payload of
        Inl e \<Rightarrow> Inl (''Agent decision failed schema validation: '' @ e)
      | Inr d \<Rightarrow> Inr d)"

section \<open>Budgets\<close>

record budget_config =
  bc_max_task_duration_seconds :: rat
  bc_max_actions :: nat
  bc_max_retries_per_action :: nat
  bc_max_tool_installations :: nat
  bc_max_model_calls :: nat
  bc_max_output_chars :: nat
  bc_max_context_chars :: nat
  bc_max_concurrent_tasks :: nat

definition default_budget :: budget_config where
  "default_budget = \<lparr>bc_max_task_duration_seconds = 1800, bc_max_actions = 40,
     bc_max_retries_per_action = 2, bc_max_tool_installations = 3, bc_max_model_calls = 60,
     bc_max_output_chars = 200000, bc_max_context_chars = 20000, bc_max_concurrent_tasks = 5\<rparr>"

definition check_action_budget :: "budget_config \<Rightarrow> agent_task \<Rightarrow> ('m runtime_scheme, unit) prog" where
  "check_action_budget c s =
     (if bc_max_actions c \<le> ag_action_count s then
        raise (BudgetExceededError (''Maximum action budget reached ('' @ show_nat (bc_max_actions c) @ '').''))
      else case ag_started_at s of
        None \<Rightarrow> ret ()
      | Some started \<Rightarrow> bnd now (\<lambda>t.
          if bc_max_task_duration_seconds c \<le> of_int (t - started) / 1000000 then
            raise (BudgetExceededError (''Maximum task duration reached ('' @
              float_repr (bc_max_task_duration_seconds c) @ ''s).''))
          else ret ()))"

definition check_model_call_budget :: "budget_config \<Rightarrow> agent_task \<Rightarrow> exn + unit" where
  "check_model_call_budget c s =
     (if bc_max_model_calls c \<le> ag_model_call_count s then
        Inl (BudgetExceededError (''Maximum model call budget reached ('' @ show_nat (bc_max_model_calls c) @ '').''))
      else Inr ())"

definition check_installation_budget :: "budget_config \<Rightarrow> agent_task \<Rightarrow> exn + unit" where
  "check_installation_budget c s =
     (if bc_max_tool_installations c \<le> ag_installation_count s then
        Inl (BudgetExceededError (''Maximum tool installation budget reached ('' @
          show_nat (bc_max_tool_installations c) @ '').''))
      else Inr ())"

definition retries_of :: "agent_task \<Rightarrow> string \<Rightarrow> nat" where
  "retries_of s k = (case map_of (ag_retry_count_by_action s) k of None \<Rightarrow> 0 | Some n \<Rightarrow> n)"

definition check_retry_budget :: "budget_config \<Rightarrow> agent_task \<Rightarrow> string \<Rightarrow> exn + unit" where
  "check_retry_budget c s k =
     (if bc_max_retries_per_action c \<le> retries_of s k then
        Inl (BudgetExceededError (''Maximum retries reached for '' @ quoted k @ '' ('' @
          show_nat (bc_max_retries_per_action c) @ '').''))
      else Inr ())"

definition budget_status :: "budget_config \<Rightarrow> agent_task \<Rightarrow> (string \<times> pyval) list" where
  "budget_status c s =
     [(''actionsUsed'', PInt (int (ag_action_count s))), (''actionsLimit'', PInt (int (bc_max_actions c))),
      (''modelCallsUsed'', PInt (int (ag_model_call_count s))),
      (''modelCallsLimit'', PInt (int (bc_max_model_calls c))),
      (''installationsUsed'', PInt (int (ag_installation_count s))),
      (''installationsLimit'', PInt (int (bc_max_tool_installations c)))]"

section \<open>The gate\<close>

record gate_decision =
  gd_allowed :: bool
  gd_reasons :: "string list"
  gd_requires_approval :: bool

definition dget :: "string \<Rightarrow> (string \<times> pyval) list \<Rightarrow> pyval" where
  "dget k d = (case map_of d k of None \<Rightarrow> PNone | Some v \<Rightarrow> v)"

definition normalized :: "string \<Rightarrow> string" where
  "normalized s = lower (strip s)"

definition gate_evaluate :: "agent_task \<Rightarrow> agent_decision \<Rightarrow> exn + gate_decision" where
  "gate_evaluate s d =
     (if ad_action_type d \<in> set EXECUTION_ACTION_TYPES \<and> ag_authorization_status s \<noteq> ''AUTHORIZED'' then
        Inr \<lparr>gd_allowed = False,
             gd_reasons = [''Authorization status is '' @ quoted (ag_authorization_status s) @
               '', not AUTHORIZED '' @ em_dash @ '' an execution action cannot proceed.''],
             gd_requires_approval = True\<rparr>
      else
        let target = dget ''target'' (ad_arguments d)
        in if p_truthy target \<and> truthy (ag_target s) \<and>
              normalized (py_str target) \<noteq> normalized (the (ag_target s)) then
             Inl (OutOfScopeError (''Decision names target '' @ quoted (py_str target) @
               '', outside the task''  @ [CHR 0x27] @ ''s authorized target '' @
               quoted (the (ag_target s)) @ ''.''))
           else
             Inr \<lparr>gd_allowed = True,
                  gd_reasons = [''Decision is within task scope and authorization is sufficient so far.''],
                  gd_requires_approval =
                    (ad_requires_approval d \<or> ad_action_type d \<in> {RUN_DIAGNOSTIC, INSTALL_TOOL})\<rparr>)"

definition build_action :: "agent_decision \<Rightarrow> gate_decision \<Rightarrow> ('m runtime_scheme, agent_action) prog" where
  "build_action d g =
     bnd uuid4 (\<lambda>i. bnd now (\<lambda>t. ret
       \<lparr>aa_id = i, aa_action_type = ad_action_type d, aa_target = dget ''target'' (ad_arguments d),
        aa_capability = ad_required_capability d, aa_tool = ad_tool d, aa_parameters = ad_arguments d,
        aa_requires_approval = gd_requires_approval g,
        aa_approval_state = (if gd_requires_approval g then Appr_PENDING else Appr_NOT_REQUIRED),
        aa_expected_result = ad_next_action d,
        aa_verification_requirement = join ''; '' (ad_verification_plan d),
        aa_reasoning_summary = ad_reasoning_summary d, aa_confidence = ad_confidence d,
        aa_result_summary = None, aa_error_category = None, aa_created_at = t, aa_completed_at = None\<rparr>))"

section \<open>Analysis and verification\<close>

definition new_evidence ::
    "evidence_kind \<Rightarrow> uuid option \<Rightarrow> string \<Rightarrow> ('m runtime_scheme, evidence) prog" where
  "new_evidence kind action_id summary =
     bnd uuid4 (\<lambda>i. bnd now (\<lambda>t. ret \<lparr>evd_id = i, evd_kind = kind, evd_summary = summary,
       evd_source_action_id = action_id, evd_created_at = t\<rparr>))"

definition observe :: "uuid \<Rightarrow> string \<Rightarrow> ('m runtime_scheme, evidence) prog" where
  "observe action_id summary = new_evidence EK_OBSERVATION (Some action_id) summary"

definition propose_finding :: "uuid \<Rightarrow> string \<Rightarrow> ('m runtime_scheme, evidence) prog" where
  "propose_finding action_id summary = new_evidence EK_FINDING (Some action_id) summary"

definition assume_evidence :: "uuid \<Rightarrow> string \<Rightarrow> ('m runtime_scheme, evidence) prog" where
  "assume_evidence action_id summary = new_evidence EK_ASSUMPTION (Some action_id) summary"

definition verify_evidence :: "evidence \<Rightarrow> string list \<Rightarrow> ('m runtime_scheme, evidence) prog" where
  "verify_evidence finding corroborating =
     (if evd_kind finding \<noteq> EK_FINDING then raise (ValueError ''Only a FINDING can be verified.'')
      else if corroborating = [] then ret finding
      else bnd now (\<lambda>t. ret \<lparr>evd_id = evd_id finding, evd_kind = EK_VERIFIED_FINDING,
        evd_summary = evd_summary finding @ '' | verified by: '' @ join ''; '' corroborating,
        evd_source_action_id = evd_source_action_id finding, evd_created_at = t\<rparr>))"

section \<open>Recovery\<close>

definition NEVER_RETRY_CATEGORIES :: "string list" where
  "NEVER_RETRY_CATEGORIES = [''policy_restriction'', ''permission_issue'', ''unsupported_platform'']"

datatype failure_class =
    FC_MISSING_DEPENDENCY | FC_MISSING_EXECUTABLE | FC_INCOMPATIBLE_VERSION | FC_UNSUPPORTED_PLATFORM
  | FC_PERMISSION_ISSUE | FC_INVALID_ARGUMENT | FC_CONFIGURATION_ISSUE | FC_NETWORK_CONNECTIVITY
  | FC_TIMEOUT | FC_TOOL_UNAVAILABLE | FC_UNEXPECTED_OUTPUT | FC_POLICY_RESTRICTION | FC_UNKNOWN

fun failure_value :: "failure_class \<Rightarrow> string" where
  "failure_value FC_MISSING_DEPENDENCY = ''missing_dependency''"
| "failure_value FC_MISSING_EXECUTABLE = ''missing_executable''"
| "failure_value FC_INCOMPATIBLE_VERSION = ''incompatible_version''"
| "failure_value FC_UNSUPPORTED_PLATFORM = ''unsupported_platform''"
| "failure_value FC_PERMISSION_ISSUE = ''permission_issue''"
| "failure_value FC_INVALID_ARGUMENT = ''invalid_argument''"
| "failure_value FC_CONFIGURATION_ISSUE = ''configuration_issue''"
| "failure_value FC_NETWORK_CONNECTIVITY = ''network_connectivity''"
| "failure_value FC_TIMEOUT = ''timeout''"
| "failure_value FC_TOOL_UNAVAILABLE = ''tool_unavailable''"
| "failure_value FC_UNEXPECTED_OUTPUT = ''unexpected_output''"
| "failure_value FC_POLICY_RESTRICTION = ''policy_restriction''"
| "failure_value FC_UNKNOWN = ''unknown''"

definition STDERR_HINTS :: "(string \<times> failure_class) list" where
  "STDERR_HINTS =
     [(''permission denied'', FC_PERMISSION_ISSUE), (''not found'', FC_MISSING_EXECUTABLE),
      (''no such file'', FC_MISSING_EXECUTABLE), (''could not resolve'', FC_NETWORK_CONNECTIVITY),
      (''network is unreachable'', FC_NETWORK_CONNECTIVITY),
      (''connection refused'', FC_NETWORK_CONNECTIVITY),
      (''unsupported platform'', FC_UNSUPPORTED_PLATFORM), (''incompatible'', FC_INCOMPATIBLE_VERSION),
      (''invalid argument'', FC_INVALID_ARGUMENT), (''dependency'', FC_MISSING_DEPENDENCY)]"

definition classify :: "bool \<Rightarrow> bool \<Rightarrow> int option \<Rightarrow> string option \<Rightarrow> failure_class" where
  "classify timed_out policy_denied exit_code stderr =
     (if policy_denied then FC_POLICY_RESTRICTION
      else if timed_out then FC_TIMEOUT
      else case find (\<lambda>(hint, _). str_in hint (lower (ostr_or stderr []))) STDERR_HINTS of
        Some (_, category) \<Rightarrow> category
      | None \<Rightarrow> if exit_code \<noteq> None \<and> exit_code \<noteq> Some 0 then FC_UNEXPECTED_OUTPUT else FC_UNKNOWN)"

datatype adaptation_strategy = Adapt_RETRY | Adapt_ASK_USER | Adapt_FAIL

record adaptation_decision =
  an_strategy :: adaptation_strategy
  an_reason :: string

definition error_signature :: "string \<Rightarrow> string \<Rightarrow> string" where
  "error_signature action_key category = action_key @ '':'' @ category"

definition decide_adaptation :: "budget_config \<Rightarrow> agent_task \<Rightarrow> string \<Rightarrow> string \<Rightarrow> adaptation_decision" where
  "decide_adaptation c s action_key failure =
     (if ag_last_error_signature s = Some (error_signature action_key failure) then
        \<lparr>an_strategy = Adapt_FAIL, an_reason = ''Repeated identical failure ('' @ failure @ '') '' @
           em_dash @ '' stopping instead of looping.''\<rparr>
      else if failure \<in> set NEVER_RETRY_CATEGORIES then
        \<lparr>an_strategy = Adapt_FAIL, an_reason = quoted failure @
           '' is not retryable; the same input would fail the same way.''\<rparr>
      else case check_retry_budget c s action_key of
        Inl _ \<Rightarrow> \<lparr>an_strategy = Adapt_FAIL, an_reason = ''Retry budget exhausted for this action.''\<rparr>
      | Inr _ \<Rightarrow>
          if failure \<in> {failure_value FC_MISSING_DEPENDENCY, failure_value FC_TOOL_UNAVAILABLE} then
            \<lparr>an_strategy = Adapt_ASK_USER, an_reason = quoted failure @
               '' likely needs a different tool/capability choice.''\<rparr>
          else \<lparr>an_strategy = Adapt_RETRY, an_reason = quoted failure @ '' may be transient.''\<rparr>)"

section \<open>What the model is shown\<close>

record reasoning_context =
  rx_available_capabilities :: "string list"
  rx_platform :: "string option"
  rx_policy_constraints :: "string list"
  rx_budget_remaining :: "(string \<times> pyval) list"

definition MAX_CONTEXT_CHARS :: nat where "MAX_CONTEXT_CHARS = 20000"
definition MAX_RECENT_ACTIONS :: nat where "MAX_RECENT_ACTIONS = 8"
definition MAX_RECENT_EVIDENCE :: nat where "MAX_RECENT_EVIDENCE = 8"

text \<open>\<^verbatim>\<open>xs[-n:]\<close> for a positive \<open>n\<close>.\<close>

definition take_last :: "nat \<Rightarrow> 'a list \<Rightarrow> 'a list" where
  "take_last n xs = drop (length xs - n) xs"

definition context_lines :: "agent_task \<Rightarrow> reasoning_context \<Rightarrow> string list" where
  "context_lines s c =
     (let recent_actions = take_last MAX_RECENT_ACTIONS (ag_actions s);
          recent_evidence = take_last MAX_RECENT_EVIDENCE (ag_observations s @ ag_findings s)
      in [''Objective: '' @ ag_objective s,
          ''Authorized target: '' @ ostr_or (ag_target s) ''UNKNOWN'' @ '' (type: '' @
            ostr_or (ag_target_type s) ''UNKNOWN'' @ '')'',
          ''Authorization status: '' @ ag_authorization_status s,
          ''Scope: '' @ str_or (join '', '' (ag_scope s)) ''none declared'',
          ''Current phase: '' @ phase_value (ag_phase s),
          ''Platform: '' @ ostr_or (rx_platform c) ''unknown'',
          ''Available capabilities: '' @ str_or (join '', '' (rx_available_capabilities c)) ''none known'',
          ''Policy constraints: '' @ str_or (join '', '' (rx_policy_constraints c)) ''none additional'',
          ''Budget remaining: '' @ py_repr_val (PDict (rx_budget_remaining c)),
          ''Completed actions ('' @ show_nat (length (ag_actions s)) @ '' total, most recent '' @
            show_nat (length recent_actions) @ ''):''] @
         map (\<lambda>a. ''  - '' @ action_value (aa_action_type a) @ '' tool='' @ ostr_show (aa_tool a) @
            '' result='' @ ostr_or (aa_result_summary a) ''pending'') recent_actions @
         [''Recent evidence ('' @ show_nat (length recent_evidence) @ ''):''] @
         map (\<lambda>e. ''  - ['' @ evidence_value (evd_kind e) @ ''] '' @ evd_summary e) recent_evidence @
         (if ag_errors s \<noteq> [] then
            [''Errors so far: '' @ show_list (map ae_category (take_last 5 (ag_errors s)))] else []) @
         (if ag_unknowns s \<noteq> [] then [''Unresolved unknowns: '' @ show_list (ag_unknowns s)] else []))"

definition build_agent_context_block :: "agent_task \<Rightarrow> reasoning_context \<Rightarrow> string" where
  "build_agent_context_block s c =
     (let text = join newline (context_lines s c)
      in if MAX_CONTEXT_CHARS < py_len text
         then py_take MAX_CONTEXT_CHARS text @ newline @ ''...[truncated]'' else text)"

record message =
  mg_role :: string
  mg_content :: string

definition SYSTEM_INSTRUCTION :: string where
  "SYSTEM_INSTRUCTION =
     ''You are the reasoning engine for Cyber AI System'' @ [CHR 0x27] @
     ''s autonomous security agent. You NEVER execute anything directly '' @ em_dash @
     '' you only propose ONE next structured action from the fixed action-type list you are given. You '' @
     ''never invent a target outside the authorized scope you are shown. You never claim an objective is '' @
     ''verified without evidence. You never fabricate tool capabilities. If required information is '' @
     ''missing, propose ASK_USER or CLARIFY instead of guessing.''"

definition decide_messages :: "string \<Rightarrow> message list" where
  "decide_messages context_block =
     [\<lparr>mg_role = ''system'', mg_content = SYSTEM_INSTRUCTION\<rparr>,
      \<lparr>mg_role = ''user'', mg_content = ''Current task context:'' @ newline @ ''```'' @ newline @
         context_block @ newline @ ''```'' @ newline @
         ''Propose exactly one next structured action as JSON matching the required schema.''\<rparr>]"

section \<open>The report\<close>

definition recommendations :: "agent_task \<Rightarrow> string list" where
  "recommendations s =
     (if ag_unknowns s \<noteq> [] then
        [''Additional authorized investigation is needed to resolve remaining unknowns.''] else []) @
     (if \<exists>e \<in> set (ag_findings s). evd_kind e = EK_FINDING then
        [''One or more findings remain unverified '' @ em_dash @
         '' corroborate with an independent check before acting on them.''] else [])"

definition build_report :: "agent_task \<Rightarrow> (string \<times> pyval) list" where
  "build_report s =
     (let verified = filter (\<lambda>e. evd_kind e = EK_VERIFIED_FINDING) (ag_findings s);
          unverified = filter (\<lambda>e. evd_kind e = EK_FINDING) (ag_findings s)
      in [(''taskId'', PStr (uuid_str (ag_id s))), (''objective'', PStr (ag_objective s)),
          (''target'', p_ostr (ag_target s)), (''targetType'', p_ostr (ag_target_type s)),
          (''scope'', p_strs (ag_scope s)), (''authorizationStatus'', PStr (ag_authorization_status s)),
          (''actionsPerformed'', PList (map (\<lambda>a. PDict
             [(''actionType'', PStr (action_value (aa_action_type a))), (''tool'', p_ostr (aa_tool a)),
              (''resultSummary'', p_ostr (aa_result_summary a)),
              (''approvalState'', PStr (approval_value (aa_approval_state a)))]) (ag_actions s))),
          (''toolsUsed'', p_strs (ag_selected_tools s)),
          (''observations'', p_strs (map evd_summary (ag_observations s))),
          (''findings'', p_strs (map evd_summary unverified)),
          (''verifiedFindings'', p_strs (map evd_summary verified)),
          (''evidence'', PList (map (\<lambda>e. PDict
             [(''id'', PStr (uuid_str (evd_id e))), (''kind'', PStr (evidence_value (evd_kind e))),
              (''summary'', PStr (evd_summary e)),
              (''createdAt'', PStr (isoformat (evd_created_at e)))]) (ag_evidence s))),
          (''verificationStatus'', PStr (if verified \<noteq> [] then ''verified'' else ''unverified'')),
          (''errors'', PList (map (\<lambda>e. PDict
             [(''category'', PStr (ae_category e)), (''message'', PStr (ae_message e))]) (ag_errors s))),
          (''recoveryAttempts'', PList (map (\<lambda>r. PDict
             [(''errorCategory'', PStr (ra_error_category r)), (''strategy'', PStr (ra_strategy r)),
              (''outcome'', PStr (ra_outcome r))]) (ag_recovery_attempts s))),
          (''unresolvedItems'', p_strs (ag_unknowns s)), (''assumptions'', p_strs (ag_assumptions s)),
          (''recommendations'', p_strs (recommendations s)),
          (''createdAt'', PStr (isoformat (ag_created_at s))),
          (''completedAt'', p_otime (ag_completed_at s))])"

end
