(* ===== verification/Installation.thy ===== *)
theory Installation
  imports Tool_Discovery
begin

text \<open>
  Planning an installation: \<^verbatim>\<open>services/installation/models.py\<close>, \<open>environment.py\<close>, \<open>planner.py\<close>,
  \<open>readiness.py\<close> and \<open>verifier.py\<close>.  The life of a request is in \<open>Install_Service\<close>.
\<close>

section \<open>Models\<close>

datatype package_manager =
  PM_WINGET | PM_APT | PM_DNF | PM_PACMAN | PM_BREW | PM_PIP | PM_TERMUX_PKG | PM_UNKNOWN

fun pm_value :: "package_manager \<Rightarrow> string" where
  "pm_value PM_WINGET = ''winget''"
| "pm_value PM_APT = ''apt''"
| "pm_value PM_DNF = ''dnf''"
| "pm_value PM_PACMAN = ''pacman''"
| "pm_value PM_BREW = ''brew''"
| "pm_value PM_PIP = ''pip''"
| "pm_value PM_TERMUX_PKG = ''termux_pkg''"
| "pm_value PM_UNKNOWN = ''unknown''"

datatype installation_state =
    IS_DISCOVERED | IS_REVIEWING | IS_DEPENDENCIES_CHECKING | IS_WAITING_FOR_APPROVAL | IS_PREPARING
  | IS_INSTALLING | IS_VERIFYING | IS_INSTALLED | IS_FAILED | IS_BLOCKED | IS_CANCELLED
  | IS_ROLLBACK_REQUIRED

fun is_value :: "installation_state \<Rightarrow> string" where
  "is_value IS_DISCOVERED = ''DISCOVERED''"
| "is_value IS_REVIEWING = ''REVIEWING''"
| "is_value IS_DEPENDENCIES_CHECKING = ''DEPENDENCIES_CHECKING''"
| "is_value IS_WAITING_FOR_APPROVAL = ''WAITING_FOR_APPROVAL''"
| "is_value IS_PREPARING = ''PREPARING''"
| "is_value IS_INSTALLING = ''INSTALLING''"
| "is_value IS_VERIFYING = ''VERIFYING''"
| "is_value IS_INSTALLED = ''INSTALLED''"
| "is_value IS_FAILED = ''FAILED''"
| "is_value IS_BLOCKED = ''BLOCKED''"
| "is_value IS_CANCELLED = ''CANCELLED''"
| "is_value IS_ROLLBACK_REQUIRED = ''ROLLBACK_REQUIRED''"

definition TERMINAL_STATES :: "installation_state list" where
  "TERMINAL_STATES = [IS_INSTALLED, IS_FAILED, IS_BLOCKED, IS_CANCELLED]"

datatype dependency_status = SATISFIED | MISSING | CONFLICTING | DEP_UNKNOWN

record dependency_check =
  dp_name :: string
  dp_required_version :: "string option"
  dp_found_version :: "string option"
  dp_status :: dependency_status
  dp_note :: string

record environment_check =
  en_platform :: string
  en_architecture :: string
  en_shell :: "string option"
  en_available :: "package_manager list"
  en_python_version :: "string option"
  en_notes :: "string list"

record installation_step =
  st_description :: string
  st_package_manager :: package_manager
  st_action_type :: string
  st_package_name :: string
  st_version :: "string option"

record installation_plan =
  pn_tool_id :: uuid
  pn_tool_name :: string
  pn_platform :: string
  pn_architecture :: string
  pn_source :: source_provenance
  pn_version :: "string option"
  pn_package_manager :: package_manager
  pn_dependencies :: "dependency_check list"
  pn_prerequisites :: "string list"
  pn_required_permissions :: "string list"
  pn_installation_steps :: "installation_step list"
  pn_verification_steps :: "string list"
  pn_risk_level :: risk_tier
  pn_approval_required :: bool
  pn_estimated_changes :: "string list"
  pn_rollback_information :: string
  pn_generated_at :: time

record installation_verification =
  vf_executable_found :: "bool option"
  vf_version_output :: "string option"
  vf_checks :: "(string \<times> string) list"
  vf_verified :: bool

record installation_attempt =
  at_number :: nat
  at_started_at :: time
  at_completed_at :: "time option"
  at_exit_code :: "int option"
  at_stdout :: "string option"
  at_stderr :: "string option"
  at_duration :: "time option"
  at_error_category :: "string option"

record installation_request =
  ir_id :: uuid
  ir_tool_id :: uuid
  ir_target_id :: "uuid option"
  ir_session_id :: "uuid option"
  ir_requested_by :: "string option"
  ir_plan :: "installation_plan option"
  ir_state :: installation_state
  ir_approved_by :: "string option"
  ir_approved_at :: "time option"
  ir_rejection_reason :: "string option"
  ir_attempts :: "installation_attempt list"
  ir_verification :: "installation_verification option"
  ir_error_message :: "string option"
  ir_created_at :: time
  ir_updated_at :: time

definition is_terminal :: "installation_request \<Rightarrow> bool" where
  "is_terminal r \<longleftrightarrow> ir_state r \<in> set TERMINAL_STATES"

section \<open>Environment\<close>

definition PACKAGE_MANAGER_EXECUTABLE :: "(package_manager \<times> string) list" where
  "PACKAGE_MANAGER_EXECUTABLE =
     [(PM_WINGET, ''winget''), (PM_APT, ''apt-get''), (PM_DNF, ''dnf''), (PM_PACMAN, ''pacman''),
      (PM_BREW, ''brew''), (PM_TERMUX_PKG, ''pkg'')]"

definition CANDIDATES_BY_PLATFORM :: "(platform_identifier \<times> package_manager list) list" where
  "CANDIDATES_BY_PLATFORM =
     [(P_WINDOWS, [PM_WINGET, PM_PIP]), (P_LINUX, [PM_APT, PM_DNF, PM_PACMAN, PM_PIP]),
      (P_MACOS, [PM_BREW, PM_PIP]), (P_ANDROID_TERMUX, [PM_TERMUX_PKG, PM_PIP])]"

definition resolve_shell :: "os_env \<Rightarrow> platform_identifier \<Rightarrow> string option" where
  "resolve_shell e i =
     (if i = P_WINDOWS then resolve_powershell_executable e None
      else if i = P_LINUX then resolve_linux_shell e None
      else if i = P_MACOS then resolve_macos_shell e None
      else None)"

definition manager_available :: "os_env \<Rightarrow> package_manager \<Rightarrow> bool" where
  "manager_available e m =
     (if m = PM_PIP then truthy (os_which e ''pip'') \<or> truthy (os_which e ''pip3'')
      else (case map_of PACKAGE_MANAGER_EXECUTABLE m of
              None \<Rightarrow> False | Some exe \<Rightarrow> truthy (os_which e exe)))"

definition inspect :: "os_env \<Rightarrow> platform_identifier option \<Rightarrow> environment_check" where
  "inspect e identifier =
     (let platform_id = (case identifier of Some i \<Rightarrow> i | None \<Rightarrow> detect_platform e);
          candidates = (case map_of CANDIDATES_BY_PLATFORM platform_id of
                          Some c \<Rightarrow> c | None \<Rightarrow> [PM_PIP]);
          available = filter (manager_available e) candidates
      in \<lparr>en_platform = platform_value platform_id,
          en_architecture = str_or (os_machine e) ''unknown'',
          en_shell = resolve_shell e platform_id, en_available = available,
          en_python_version = Some (hd (split_ws (os_python_version e))),
          en_notes = (if available = [] then
            [''No known package manager was found on PATH for platform '' @
             platform_value platform_id @ ''.''] else [])\<rparr>)"

section \<open>Plans\<close>

definition PLATFORM_PREFERENCE :: "(string \<times> package_manager list) list" where
  "PLATFORM_PREFERENCE =
     [(''WINDOWS'', [PM_WINGET, PM_PIP]), (''LINUX'', [PM_APT, PM_DNF, PM_PACMAN, PM_PIP]),
      (''MACOS'', [PM_BREW, PM_PIP]), (''ANDROID_TERMUX'', [PM_TERMUX_PKG, PM_PIP])]"

definition choose_package_manager :: "string \<Rightarrow> environment_check \<Rightarrow> exn + package_manager" where
  "choose_package_manager target_platform environment =
     (let preference = (case map_of PLATFORM_PREFERENCE target_platform of
                          Some p \<Rightarrow> p | None \<Rightarrow> [PM_PIP])
      in case find (\<lambda>m. m \<in> set (en_available environment)) preference of
           Some m \<Rightarrow> Inr m
         | None \<Rightarrow> Inl (PackageManagerUnavailableError
             (''No supported package manager is available for platform '' @ quoted target_platform @
              '' (checked '' @ show_list (map pm_value preference) @ '').'')))"

definition plan_with ::
    "tool_record \<Rightarrow> environment_check \<Rightarrow> string \<Rightarrow> package_manager \<Rightarrow> time \<Rightarrow> installation_plan" where
  "plan_with tool environment target_platform pm t =
     \<lparr>pn_tool_id = tl_id tool, pn_tool_name = tl_name tool, pn_platform = target_platform,
      pn_architecture = en_architecture environment, pn_source = tl_provenance tool,
      pn_version = tl_version tool, pn_package_manager = pm,
      pn_dependencies = map (\<lambda>dep. \<lparr>dp_name = dep, dp_required_version = None,
          dp_found_version = None, dp_status = DEP_UNKNOWN,
          dp_note = ''Declared by the tool; not independently resolved before installation.''\<rparr>)
        (tl_dependencies tool),
      pn_prerequisites = [pm_value pm @ '' must be available on the target host.''],
      pn_required_permissions = tl_required_permissions tool,
      pn_installation_steps =
        [\<lparr>st_description = ''Install '' @ quoted (tl_name tool) @ '' via '' @ pm_value pm @ ''.'',
          st_package_manager = pm, st_action_type = INSTALL_ACTION_TYPE,
          st_package_name = tl_name tool, st_version = tl_version tool\<rparr>],
      pn_verification_steps =
        [''Run a read-only '' @ pm_value pm @ '' presence/version check for '' @
         quoted (tl_name tool) @ ''.''] @
        (if truthy (tl_entrypoint tool) then
           [''Run '' @ quoted (the (tl_entrypoint tool) @ '' --version'') @ '' and confirm it responds.'']
         else []),
      pn_risk_level = tl_risk_level tool,
      pn_approval_required = (tl_risk_level tool \<in> {Risk_MEDIUM, Risk_HIGH, Risk_CRITICAL}),
      pn_estimated_changes =
        [''Installs package '' @ quoted (tl_name tool) @
         (if truthy (tl_version tool) then '' version '' @ the (tl_version tool)
          else '' (latest available)'') @ '' via '' @ pm_value pm @ ''.''] @
        (if tl_required_permissions tool \<noteq> [] then
           [''Tool declares required permissions: '' @ show_list (tl_required_permissions tool) @ ''.'']
         else []),
      pn_rollback_information =
        ''No automated rollback in this phase; uninstall via the same package manager.'',
      pn_generated_at = t\<rparr>"

definition build_plan ::
    "tool_record \<Rightarrow> environment_check \<Rightarrow> string \<Rightarrow> ('m runtime_scheme, installation_plan) prog" where
  "build_plan tool environment target_platform =
     (if target_platform \<notin> set (tl_supported_platforms tool) then
        raise (UnsupportedPlatformForToolError (''Tool '' @ quoted (tl_name tool) @
          '' does not declare support for platform '' @ quoted target_platform @ ''.''))
      else
        bnd (liftS (choose_package_manager target_platform environment)) (\<lambda>pm.
        bnd now (\<lambda>t. ret (plan_with tool environment target_platform pm t))))"

section \<open>Readiness\<close>

datatype check_status = PASS | FAIL | CHECK_UNKNOWN

fun check_value :: "check_status \<Rightarrow> string" where
  "check_value PASS = ''PASS''"
| "check_value FAIL = ''FAIL''"
| "check_value CHECK_UNKNOWN = ''UNKNOWN''"

record readiness_check =
  ck_name :: string
  ck_status :: check_status
  ck_detail :: string
  ck_critical :: bool

record readiness_report =
  rr_tool :: "tool_record option"
  rr_checks :: "readiness_check list"
  rr_policy_decision :: "policy_decision option"

definition denied_by :: "policy_decision option \<Rightarrow> bool" where
  "denied_by d \<longleftrightarrow> (case d of None \<Rightarrow> False | Some x \<Rightarrow> pd_verdict x = DENY)"

definition ready :: "readiness_report \<Rightarrow> bool" where
  "ready r \<longleftrightarrow>
     (if rr_tool r = None then False
      else if denied_by (rr_policy_decision r) then False
      else (\<forall>c \<in> set (rr_checks r). ck_critical c \<longrightarrow> ck_status c = PASS))"

definition check :: "string \<Rightarrow> bool \<Rightarrow> check_status \<Rightarrow> string \<Rightarrow> bool \<Rightarrow> readiness_check" where
  "check name ok otherwise detail critical =
     \<lparr>ck_name = name, ck_status = (if ok then PASS else otherwise), ck_detail = detail,
      ck_critical = critical\<rparr>"

definition exists_check :: readiness_check where
  "exists_check = check ''tool_exists'' True FAIL ''Tool exists in the registry.'' True"

definition provenance_check :: "tool_record \<Rightarrow> readiness_check" where
  "provenance_check tool = check ''provenance_known''
     (pv_source_type (tl_provenance tool) \<noteq> SRC_UNKNOWN) CHECK_UNKNOWN
     (''Source type is '' @ quoted (source_type_value (pv_source_type (tl_provenance tool))) @ ''.'') True"

definition source_check :: "tool_record \<Rightarrow> readiness_check" where
  "source_check tool =
     (let trusted = pv_source_type (tl_provenance tool) \<in>
            {OFFICIAL_WEBSITE, OFFICIAL_GITHUB, OFFICIAL_PACKAGE_REGISTRY}
      in check ''source_trusted'' trusted FAIL
        (if trusted then ''Source is an official first-party source.''
         else ''Source type '' @ quoted (source_type_value (pv_source_type (tl_provenance tool))) @
           '' is not trusted enough for installation.'') True)"

definition platform_check :: "tool_record \<Rightarrow> string \<Rightarrow> readiness_check" where
  "platform_check tool platform = check ''platform_supported''
     (platform \<in> set (tl_supported_platforms tool)) FAIL
     (''Tool declares support for '' @ show_list (tl_supported_platforms tool) @ ''; target is '' @
      quoted platform @ ''.'') True"

definition license_check :: "tool_record \<Rightarrow> readiness_check" where
  "license_check tool = check ''license_known'' (truthy (tl_license tool)) CHECK_UNKNOWN
     (if truthy (tl_license tool) then ''License: '' @ the (tl_license tool)
      else ''No license information on record.'') False"

definition dependency_check_ready :: "tool_record \<Rightarrow> readiness_check" where
  "dependency_check_ready tool = check ''dependencies_understood'' True FAIL
     (''Declares '' @ show_nat (length (tl_dependencies tool)) @ '' dependency(ies): '' @
      show_list (tl_dependencies tool) @ ''.'') False"

definition permissions_check :: "tool_record \<Rightarrow> readiness_check" where
  "permissions_check tool = check ''permissions_known'' True FAIL
     (''Declares '' @ show_nat (length (tl_required_permissions tool)) @
      '' required permission(s): '' @ show_list (tl_required_permissions tool) @ ''.'') False"

definition risk_check :: "tool_record \<Rightarrow> readiness_check" where
  "risk_check tool = check ''risk_evaluated'' True FAIL
     (''Risk level: '' @ risk_value (tl_risk_level tool) @ ''.'') True"

definition trust_check :: "tool_record \<Rightarrow> readiness_check" where
  "trust_check tool = check ''trust_approved'' (tl_trust_status tool = APPROVED) FAIL
     (''Trust status is '' @ quoted (trust_value (tl_trust_status tool)) @
      (if tl_trust_status tool = APPROVED then [] else '' (must be APPROVED before installation).'')) True"

definition policy_check :: "policy_decision \<Rightarrow> readiness_check" where
  "policy_check d = check ''policy_allows'' (pd_verdict d \<noteq> DENY) FAIL
     (''Policy verdict: '' @ verdict_value (pd_verdict d) @ ''.'') True"

definition authorization_check :: "time \<Rightarrow> target_scope \<Rightarrow> readiness_check" where
  "authorization_check t ts = check ''target_authorized'' (is_authorized_now t ts) FAIL
     (if is_authorized_now t ts then ''Target has active, non-expired authorization.''
      else ''Target is inactive or its authorization has expired.'') True"

definition readiness_of ::
    "tool_record \<Rightarrow> target_scope \<Rightarrow> string \<Rightarrow> time \<Rightarrow> time \<Rightarrow> readiness_report" where
  "readiness_of tool ts platform t1 t2 =
     (let decision = policy_evaluate t1 \<lparr>ar_action_id = tl_id tool,
            ar_action_type = INSTALL_ACTION_TYPE, ar_risk_tier = tl_risk_level tool, ar_target = ts\<rparr>
      in \<lparr>rr_tool = Some tool,
          rr_checks = [exists_check, provenance_check tool, source_check tool,
            platform_check tool platform, license_check tool, dependency_check_ready tool,
            permissions_check tool, risk_check tool, trust_check tool, policy_check decision,
            authorization_check t2 ts],
          rr_policy_decision = Some decision\<rparr>)"

definition check_readiness ::
    "uuid \<Rightarrow> target_scope \<Rightarrow> string \<Rightarrow> ('m tools_w_scheme, readiness_report) prog" where
  "check_readiness tool_id ts platform =
     bnd (gets (\<lambda>w. map_of (tr_tools w) tool_id)) (\<lambda>found.
     case found of
       None \<Rightarrow> ret \<lparr>rr_tool = None, rr_checks =
           [check ''tool_exists'' False FAIL ''Tool was not found in the registry.'' True],
           rr_policy_decision = None\<rparr>
     | Some tool \<Rightarrow> bnd now (\<lambda>t1. bnd now (\<lambda>t2. ret (readiness_of tool ts platform t1 t2))))"

section \<open>Verification of an installation\<close>

definition evaluate_verification :: "command_result \<Rightarrow> installation_verification" where
  "evaluate_verification r =
     (let ran_cleanly = (cr_status r = Cmd_COMPLETED);
          exit_ok = (cr_exit_code r = Some 0);
          stdout = strip (ostr_or (cr_stdout r) []);
          has_output = (length stdout > 0);
          verified = (ran_cleanly \<and> exit_ok \<and> has_output)
      in \<lparr>vf_executable_found = Some (verified \<or> (ran_cleanly \<and> exit_ok)),
          vf_version_output = (if stdout = [] then None else Some stdout),
          vf_checks =
            [(''verification_command_completed'', if ran_cleanly then ''PASS'' else ''FAIL''),
             (''verification_exit_code_zero'', if exit_ok then ''PASS''
                else if cr_exit_code r \<noteq> None then ''FAIL'' else ''UNKNOWN''),
             (''verification_output_present'', if has_output then ''PASS'' else ''UNKNOWN'')],
          vf_verified = verified\<rparr>)"

section \<open>What readiness guarantees\<close>

lemma ready_readiness_of:
  "ready (readiness_of tool ts platform t1 t2) \<longleftrightarrow>
     tl_trust_status tool = APPROVED \<and>
     pv_source_type (tl_provenance tool) \<in> {OFFICIAL_WEBSITE, OFFICIAL_GITHUB, OFFICIAL_PACKAGE_REGISTRY} \<and>
     platform \<in> set (tl_supported_platforms tool) \<and>
     is_authorized_now t1 ts \<and> is_authorized_now t2 ts"
  by (cases "pv_source_type (tl_provenance tool)")
     (auto simp: ready_def readiness_of_def Let_def denied_by_def exists_check_def check_def
       provenance_check_def source_check_def platform_check_def license_check_def
       dependency_check_ready_def permissions_check_def risk_check_def trust_check_def
       policy_check_def authorization_check_def policy_deny_iff REGISTERED_ACTION_TYPES_def
       INSTALL_ACTION_TYPE_def)

text \<open>
  Readiness, exactly: a tool is ready to be installed when it is approved, comes from an official
  first-party source, declares the platform, and the target's authorization is active and unexpired at
  both readings of the clock; the licence, dependency and permission checks never decide.  A tool that
  is not in the registry is never ready.
\<close>

theorem readiness_iff:
  "\<exists>report w'. check_readiness tool_id ts platform w = (Inr report, w') \<and>
     ready report = (case map_of (tr_tools w) tool_id of None \<Rightarrow> False
       | Some tool \<Rightarrow> tl_trust_status tool = APPROVED \<and>
           pv_source_type (tl_provenance tool) \<in>
             {OFFICIAL_WEBSITE, OFFICIAL_GITHUB, OFFICIAL_PACKAGE_REGISTRY} \<and>
           platform \<in> set (tl_supported_platforms tool) \<and>
           is_authorized_now (rt_clock w (rt_ticks w)) ts \<and>
           is_authorized_now (rt_clock w (Suc (rt_ticks w))) ts) \<and>
     tr_tools w' = tr_tools w"
  by (cases "map_of (tr_tools w) tool_id")
     (simp_all add: check_readiness_def ret_def ready_readiness_of, simp add: ready_def)

end
