(* ===== verification/Install_Service.thy ===== *)
theory Install_Service
  imports Installation
begin

text \<open>
  \<^verbatim>\<open>services/installation/service.py\<close> and \<open>registry.py\<close>: the life of an installation request.  A
  handler works on its request and writes it back with \<^verbatim>\<open>save\<close>; every change of the source is
  followed by a save before anything else can run or raise, so the stored request and the handler's
  agree wherever another handler could look.
\<close>

section \<open>Registry\<close>

record install_config =
  ic_max_install_attempts :: nat
  ic_install_timeout_seconds :: int
  ic_verify_timeout_seconds :: int

definition default_install_config :: install_config where
  "default_install_config = \<lparr>ic_max_install_attempts = 2, ic_install_timeout_seconds = 300,
     ic_verify_timeout_seconds = 30\<rparr>"

record inst_w = tools_w +
  in_config :: install_config
  in_requests :: "(uuid \<times> installation_request) list"
  in_running_commands :: "(uuid \<times> uuid) list"

definition ir_create :: "installation_request \<Rightarrow> ('m inst_w_scheme, unit) prog" where
  "ir_create r = modify (\<lambda>w. w\<lparr>in_requests := dset (ir_id r) r (in_requests w)\<rparr>)"

definition ir_get :: "uuid \<Rightarrow> ('m inst_w_scheme, installation_request) prog" where
  "ir_get i =
     bnd (gets (\<lambda>w. map_of (in_requests w) i)) (\<lambda>found. case found of
       None \<Rightarrow> raise (InstallationNotFoundError (''Installation request '' @ uuid_str i @ '' was not found.''))
     | Some r \<Rightarrow> ret r)"

definition ir_save :: "installation_request \<Rightarrow> ('m inst_w_scheme, installation_request) prog" where
  "ir_save r =
     bnd now (\<lambda>t. let r' = r\<lparr>ir_updated_at := t\<rparr> in
       sq (modify (\<lambda>w. w\<lparr>in_requests := dset (ir_id r') r' (in_requests w)\<rparr>)) (ret r'))"

definition list_for_tool :: "uuid \<Rightarrow> 'm inst_w_scheme \<Rightarrow> installation_request list" where
  "list_for_tool i w = filter (\<lambda>r. ir_tool_id r = i) (dvalues (in_requests w))"

definition list_installed :: "'m inst_w_scheme \<Rightarrow> installation_request list" where
  "list_installed w = filter (\<lambda>r. ir_state r = IS_INSTALLED) (dvalues (in_requests w))"

definition list_all_requests :: "'m inst_w_scheme \<Rightarrow> installation_request list" where
  "list_all_requests w = dvalues (in_requests w)"

section \<open>Request and approval\<close>

definition install_emit ::
    "string \<Rightarrow> installation_request \<Rightarrow> (string \<times> pyval) list \<Rightarrow> ('m audit_w_scheme, unit) prog" where
  "install_emit t r d = audit_emit t (map_option uuid_str (ir_session_id r)) None None
     ([(''request_id'', PStr (uuid_str (ir_id r))), (''tool_id'', PStr (uuid_str (ir_tool_id r))),
       (''state'', PStr (is_value (ir_state r)))] @ d)"

definition new_request ::
    "uuid \<Rightarrow> uuid \<Rightarrow> target_scope \<Rightarrow> string option \<Rightarrow> time \<Rightarrow> time \<Rightarrow> installation_request" where
  "new_request i tool_id ts requested_by created updated =
     \<lparr>ir_id = i, ir_tool_id = tool_id, ir_target_id = Some (ts_id ts), ir_session_id = None,
      ir_requested_by = requested_by, ir_plan = None, ir_state = IS_DISCOVERED,
      ir_approved_by = None, ir_approved_at = None, ir_rejection_reason = None, ir_attempts = [],
      ir_verification = None, ir_error_message = None, ir_created_at = created,
      ir_updated_at = updated\<rparr>"

definition block_request ::
    "installation_request \<Rightarrow> string \<Rightarrow> ('m inst_w_scheme, installation_request) prog" where
  "block_request r reason =
     (let r' = r\<lparr>ir_state := IS_BLOCKED, ir_error_message := Some reason\<rparr> in
      sq (ir_create r') (sq (install_emit ''install.blocked'' r' [(''reason'', PStr reason)]) (ret r')))"

definition failed_details :: "readiness_report \<Rightarrow> string" where
  "failed_details report = str_or
     (join ''; '' (map ck_detail (filter (\<lambda>c. ck_status c = FAIL) (rr_checks report))))
     ''Tool is not ready for installation.''"

text \<open>The part of \<open>request_installation\<close> after a plan has been built.\<close>

definition settle_request ::
    "installation_request \<Rightarrow> installation_plan \<Rightarrow> policy_decision option \<Rightarrow>
     ('m inst_w_scheme, installation_request) prog" where
  "settle_request r plan decision =
     (let r1 = r\<lparr>ir_plan := Some plan\<rparr> in
      sq (install_emit ''install.plan_generated'' r1
            [(''package_manager'', PStr (pm_value (pn_package_manager plan)))])
      (if denied_by decision then block_request r1 (join ''; '' (pd_reasons (the decision)))
       else
         let r2 = r1\<lparr>ir_state := (if pn_approval_required plan then IS_WAITING_FOR_APPROVAL
                                   else IS_PREPARING)\<rparr>
         in sq (ir_create r2) (ret r2)))"

definition plan_refused :: "exn \<Rightarrow> bool" where
  "plan_refused exc = (case exc of
     InstallationError code m \<Rightarrow> code = IE_UNSUPPORTED_PLATFORM \<or> code = IE_PACKAGE_MANAGER_UNAVAILABLE
   | _ \<Rightarrow> False)"

definition request_installation ::
    "uuid \<Rightarrow> target_scope \<Rightarrow> string \<Rightarrow> string option \<Rightarrow>
     ('m inst_w_scheme, installation_request) prog" where
  "request_installation tool_id ts platform requested_by =
     bnd uuid4 (\<lambda>i. bnd now (\<lambda>created. bnd now (\<lambda>updated.
     let r = new_request i tool_id ts requested_by created updated in
     sq (install_emit ''install.requested'' r [(''platform'', PStr platform)])
     (bnd (check_readiness tool_id ts platform) (\<lambda>report.
      sq (install_emit ''install.readiness_checked'' r
            [(''ready'', PBool (ready report)),
             (''checks'', PDict (map (\<lambda>c. (ck_name c, PStr (check_value (ck_status c)))) (rr_checks report)))])
      (case rr_tool report of
         None \<Rightarrow> block_request r (failed_details report)
       | Some tool \<Rightarrow>
           if \<not> ready report then block_request r (failed_details report)
           else
             bnd (gets os) (\<lambda>e.
             try_except
               (bnd (build_plan tool (inspect e None) platform) (\<lambda>plan.
                  settle_request r plan (rr_policy_decision report)))
               (\<lambda>exc. if plan_refused exc then block_request r (exn_str exc) else raise exc))))))))"

definition approve_request :: "uuid \<Rightarrow> string \<Rightarrow> ('m inst_w_scheme, installation_request) prog" where
  "approve_request i approved_by =
     bnd (ir_get i) (\<lambda>r.
     if ir_state r \<noteq> IS_WAITING_FOR_APPROVAL then
       raise (InstallationInvalidStateError (''Installation request '' @ uuid_str i @
         '' is not waiting for approval (state='' @ is_value (ir_state r) @ '').''))
     else
       bnd now (\<lambda>t.
       bnd (ir_save (r\<lparr>ir_approved_by := Some approved_by, ir_approved_at := Some t,
              ir_state := IS_PREPARING\<rparr>)) (\<lambda>r'.
       sq (install_emit ''install.approved'' r' [(''approved_by'', PStr approved_by)]) (ret r'))))"

definition reject_request :: "uuid \<Rightarrow> string \<Rightarrow> ('m inst_w_scheme, installation_request) prog" where
  "reject_request i reason =
     bnd (ir_get i) (\<lambda>r.
     if is_terminal r then
       raise (InstallationInvalidStateError (''Installation request '' @ uuid_str i @
         '' is already in a terminal state (state='' @ is_value (ir_state r) @ '').''))
     else
       bnd (ir_save (r\<lparr>ir_state := IS_CANCELLED, ir_rejection_reason := Some reason\<rparr>)) (\<lambda>r'.
       sq (install_emit ''install.rejected'' r' [(''reason'', PStr reason)]) (ret r')))"

definition cancel_request :: "uuid \<Rightarrow> ('m inst_w_scheme, installation_request) prog" where
  "cancel_request i =
     bnd (ir_get i) (\<lambda>r.
     if is_terminal r then ret r
     else
       bnd (gets (\<lambda>w. map_of (in_running_commands w) i)) (\<lambda>running.
       case running of
         Some command_id \<Rightarrow> bnd (terminate command_id) (\<lambda>_. ret r)
       | None \<Rightarrow>
           bnd (ir_save (r\<lparr>ir_state := IS_CANCELLED\<rparr>)) (\<lambda>r'.
           sq (install_emit ''install.cancelled'' r' []) (ret r'))))"

section \<open>Execution\<close>

definition terminal_request ::
    "uuid \<Rightarrow> uuid \<Rightarrow> string list \<Rightarrow> policy_decision \<Rightarrow> int \<Rightarrow> bool \<Rightarrow> command_request" where
  "terminal_request i session_id argv decision timeout approved =
     \<lparr>rq_session_id = session_id, rq_command = argv, rq_authorization_context = decision,
      rq_task_id = None, rq_id = i, rq_working_directory = None, rq_environment = [],
      rq_timeout_seconds = Some timeout, rq_approved_by_user = approved\<rparr>"

definition attempt_of :: "nat \<Rightarrow> time \<Rightarrow> command_result \<Rightarrow> installation_attempt" where
  "attempt_of n started r =
     \<lparr>at_number = n, at_started_at = started, at_completed_at = cr_completed_at r,
      at_exit_code = cr_exit_code r, at_stdout = truncate_for_log (cr_stdout r),
      at_stderr = truncate_for_log (cr_stderr r), at_duration = cr_duration r,
      at_error_category = (if cr_status r \<noteq> Cmd_COMPLETED
        then Some (command_status_value (cr_status r)) else None)\<rparr>"

datatype attempt_outcome =
    Stop installation_request
  | Succeeded installation_request
  | StepFailed installation_request "string option"

text \<open>The body of the attempt loop.\<close>

definition run_attempt ::
    "installation_request \<Rightarrow> installation_step \<Rightarrow> installation_plan \<Rightarrow> uuid \<Rightarrow> target_scope \<Rightarrow>
     nat \<Rightarrow> ('m inst_w_scheme, attempt_outcome) prog" where
  "run_attempt r step plan session_id ts n =
     bnd (gets os) (\<lambda>e. bnd (gets in_config) (\<lambda>c.
     bnd (liftS (build_install_command (os_python e) (pm_value (st_package_manager step))
            (st_package_name step) (st_version step))) (\<lambda>argv.
     bnd now (\<lambda>t.
     let decision = policy_evaluate t \<lparr>ar_action_id = ir_id r, ar_action_type = INSTALL_ACTION_TYPE,
           ar_risk_tier = pn_risk_level plan, ar_target = ts\<rparr>
     in if pd_verdict decision = DENY then
          bnd (ir_save (r\<lparr>ir_state := IS_BLOCKED,
                 ir_error_message := Some (join ''; '' (pd_reasons decision))\<rparr>)) (\<lambda>r'.
          sq (install_emit ''install.blocked'' r'
                [(''reason'', p_ostr (ir_error_message r'))]) (ret (Stop r')))
        else
          bnd uuid4 (\<lambda>cid.
          let approved = (pd_verdict decision = ALLOW \<or> ir_approved_by r \<noteq> None);
              rq = terminal_request cid session_id argv decision (ic_install_timeout_seconds c) approved
          in sq (modify (\<lambda>w. w\<lparr>in_running_commands := dset (ir_id r) cid (in_running_commands w)\<rparr>))
             (bnd now (\<lambda>started.
              bnd (execute rq) (\<lambda>result.
              sq (modify (\<lambda>w. w\<lparr>in_running_commands := ddel (ir_id r) (in_running_commands w)\<rparr>))
              (let attempt = attempt_of n started result in
               bnd (ir_save (r\<lparr>ir_attempts := ir_attempts r @ [attempt]\<rparr>)) (\<lambda>r1.
               if cr_status result = Cmd_CANCELLED then
                 bnd (ir_save (r1\<lparr>ir_state := IS_CANCELLED\<rparr>)) (\<lambda>r2.
                 sq (install_emit ''install.cancelled'' r2 []) (ret (Stop r2)))
               else if cr_status result = Cmd_COMPLETED then
                 sq (install_emit ''install.step_completed'' r1 [(''attempt'', PInt (int n))])
                    (ret (Succeeded r1))
               else
                 sq (install_emit ''install.step_failed'' r1
                       [(''attempt'', PInt (int n)),
                        (''status'', PStr (command_status_value (cr_status result))),
                        (''stderr_preview'', p_ostr (truncate_for_log (cr_stderr result)))])
                    (ret (StepFailed r1 (at_error_category attempt)))))))))))))"

text \<open>The loop: at most \<open>k\<close> more attempts, stopping on a repeated failure category.\<close>

fun attempt_loop ::
    "nat \<Rightarrow> installation_request \<Rightarrow> installation_step \<Rightarrow> installation_plan \<Rightarrow> uuid \<Rightarrow> target_scope \<Rightarrow>
     nat \<Rightarrow> string option \<Rightarrow> ('m inst_w_scheme, attempt_outcome) prog" where
  "attempt_loop 0 r step plan session_id ts n last_error = ret (StepFailed r last_error)"
| "attempt_loop (Suc k) r step plan session_id ts n last_error =
     bnd (run_attempt r step plan session_id ts n) (\<lambda>outcome.
     case outcome of
       Stop r' \<Rightarrow> ret (Stop r')
     | Succeeded r' \<Rightarrow> ret (Succeeded r')
     | StepFailed r' err \<Rightarrow>
         if last_error \<noteq> None \<and> last_error = err then ret (StepFailed r' err)
         else attempt_loop k r' step plan session_id ts (Suc n) err)"

definition verify_installation ::
    "installation_request \<Rightarrow> tool_record \<Rightarrow> installation_step \<Rightarrow> uuid \<Rightarrow> target_scope \<Rightarrow>
     ('m inst_w_scheme, installation_request) prog" where
  "verify_installation r tool step session_id ts =
     bnd (ir_save (r\<lparr>ir_state := IS_VERIFYING\<rparr>)) (\<lambda>r1.
     sq (install_emit ''install.verifying'' r1 [])
     (bnd (gets os) (\<lambda>e. bnd (gets in_config) (\<lambda>c.
      bnd (liftS (build_verification_command (os_python e) (pm_value (st_package_manager step))
             (st_package_name step) (tl_entrypoint tool))) (\<lambda>argv.
      bnd now (\<lambda>t.
      let decision = policy_evaluate t \<lparr>ar_action_id = ir_id r1, ar_action_type = VERIFY_ACTION_TYPE,
            ar_risk_tier = Risk_LOW, ar_target = ts\<rparr>
      in bnd uuid4 (\<lambda>cid.
         bnd (execute (terminal_request cid session_id argv decision
                (ic_verify_timeout_seconds c) (pd_verdict decision = ALLOW))) (\<lambda>result.
         let v = evaluate_verification result;
             checks = [(''checks'', PDict (map (\<lambda>(k, x). (k, PStr x)) (vf_checks v)))];
             r2 = r1\<lparr>ir_verification := Some v\<rparr>
         in if vf_verified v then
              bnd (ir_save (r2\<lparr>ir_state := IS_INSTALLED\<rparr>)) (\<lambda>r3.
              sq (install_emit ''install.verified'' r3 checks)
              (sq (install_emit ''install.completed'' r3 []) (ret r3)))
            else
              bnd (ir_save (r2\<lparr>ir_state := IS_ROLLBACK_REQUIRED, ir_error_message :=
                Some ''Installation command succeeded but verification could not confirm the tool is actually usable.''\<rparr>)) (\<lambda>r3.
              sq (install_emit ''install.verification_failed'' r3 checks) (ret r3))))))))))"

definition conclude_attempts ::
    "tool_record \<Rightarrow> installation_step \<Rightarrow> uuid \<Rightarrow> target_scope \<Rightarrow> attempt_outcome \<Rightarrow>
     ('m inst_w_scheme, installation_request) prog" where
  "conclude_attempts tool step session_id ts outcome =
     (case outcome of
        Stop r' \<Rightarrow> ret r'
      | Succeeded r' \<Rightarrow> verify_installation r' tool step session_id ts
      | StepFailed r' _ \<Rightarrow>
          bnd (ir_save (r'\<lparr>ir_state := IS_FAILED, ir_error_message := Some (''Installation failed after '' @
                 show_nat (length (ir_attempts r')) @ '' attempt(s).'')\<rparr>)) (\<lambda>r2.
          sq (install_emit ''install.failed'' r2 [(''attempts'', PInt (int (length (ir_attempts r2))))])
             (ret r2)))"

definition run_installation ::
    "installation_request \<Rightarrow> installation_plan \<Rightarrow> uuid \<Rightarrow> target_scope \<Rightarrow>
     ('m inst_w_scheme, installation_request) prog" where
  "run_installation r plan session_id ts =
     bnd (tool_get (ir_tool_id r)) (\<lambda>tool.
     if tl_trust_status tool \<noteq> APPROVED then
       raise (ToolNotApprovedError (''Tool '' @ quoted (tl_name tool) @ '' is not APPROVED.''))
     else
       bnd (gets in_config) (\<lambda>c.
       let step = hd (pn_installation_steps plan) in
       bnd (attempt_loop (ic_max_install_attempts c) r step plan session_id ts 1 None)
         (conclude_attempts tool step session_id ts)))"

definition start_installation ::
    "uuid \<Rightarrow> uuid \<Rightarrow> target_scope \<Rightarrow> ('m inst_w_scheme, installation_request) prog" where
  "start_installation i session_id ts =
     bnd (ir_get i) (\<lambda>r.
     if ir_state r = IS_WAITING_FOR_APPROVAL then
       raise (ApprovalRequiredError (''Installation request '' @ uuid_str i @
         '' requires approval before it can start.''))
     else if ir_state r \<noteq> IS_PREPARING then
       raise (InstallationInvalidStateError (''Installation request '' @ uuid_str i @
         '' is not ready to start (state='' @ is_value (ir_state r) @ '').''))
     else case ir_plan r of
       None \<Rightarrow> raise (InstallationInvalidStateError ''Installation request has no plan.'')
     | Some plan \<Rightarrow>
         bnd (ir_save (r\<lparr>ir_session_id := Some session_id, ir_state := IS_INSTALLING\<rparr>)) (\<lambda>r1.
         sq (install_emit ''install.started'' r1 []) (run_installation r1 plan session_id ts)))"

end
