(* ===== verification/Install_Lifecycle.thy ===== *)
theory Install_Lifecycle
  imports Install_Service
begin

text \<open>
  Every reachable installation request: what its state is worth, which transitions exist, how many
  processes a start may create, and where a request can get stuck.
\<close>

section \<open>The engine leaves a larger world alone\<close>

definition term_frame :: "'m term_w_scheme \<Rightarrow> 'm term_w_scheme \<Rightarrow> bool" where
  "term_frame w w' \<longleftrightarrow> term_w.more w' = term_w.more w"

interpretation tfr: step_rel term_frame
  by unfold_locales (auto simp: term_frame_def)

lemma os_frame_term_frame: "os_frame w w' \<Longrightarrow> term_frame w w'"
  by (cases w; cases w') (simp add: os_frame_def term_frame_def)

lemma sess_kept_term_frame: "sess_kept w w' \<Longrightarrow> term_frame w w'"
  by (cases w; cases w') (simp add: sess_kept_def term_frame_def)

lemma keeps_mono: "keeps R m \<Longrightarrow> (\<And>w w'. R w w' \<Longrightarrow> Q w w') \<Longrightarrow> keeps Q m"
  by (simp add: keeps_def)

lemma term_frame_prims:
  "keeps term_frame now" "keeps term_frame (engine_emit t rq d)" "keeps term_frame resolve_adapter"
  "keeps term_frame (upd_session sid f)" "keeps term_frame (store_result sid r)"
  "keeps term_frame (modify (\<lambda>w. w\<lparr>tm_running := g w\<rparr>))"
  by (auto simp: keeps_def term_frame_def now_def engine_emit_def resolve_adapter_def
      upd_session_def modify_def store_result_def)

lemma require_active_frame: "keeps term_frame (require_active_session sid)"
  by (rule keeps_mono [OF require_active_kept sess_kept_term_frame])

lemmas term_frame_intros = tfr.keeps_intros term_frame_prims require_active_frame

lemma rejected_result_frame: "keeps term_frame (rejected_result rq t m)"
  unfolding rejected_result_def by (intro term_frame_intros)

lemma execute_begin_frame: "keeps term_frame (execute_begin rq)"
  unfolding execute_begin_def launch_def Let_def
  apply (intro term_frame_intros rejected_result_frame)
  subgoal for _ _ _ _ _ e
    by (cases e) (auto intro!: term_frame_intros rejected_result_frame)
  done

lemma cleanup_frame: "keeps term_frame (cleanup rq)"
  unfolding cleanup_def by (intro term_frame_intros)

lemma execute_finish_frame: "keeps term_frame (execute_finish t outcome)"
  unfolding execute_finish_def cancelled_result_def finalize_result_def Let_def
  by (intro term_frame_intros cleanup_frame)

lemma await_task_frame: "keeps term_frame (await_task t)"
proof -
  have "term_frame w (snd (await_task t w))" for w :: "'a term_w_scheme"
  proof -
    obtain x w1 where run: "adapter_run (tk_adapter t) (tk_spec t) True (run_context_of (tk_request t)) w = (x, w1)"
      by (cases "adapter_run (tk_adapter t) (tk_spec t) True (run_context_of (tk_request t)) w")
    have "term_frame w w1" using keepsD [OF adapter_run_frame run] by (rule os_frame_term_frame)
    moreover have "term_frame w1 (snd (execute_finish t x w1))"
      using execute_finish_frame by (rule keepsD')
    ultimately show ?thesis using run by (auto simp: await_task_def intro: tfr.R_trans)
  qed
  then show ?thesis by (simp add: keeps_def)
qed

lemma execute_frame: "keeps term_frame (execute rq)"
  unfolding execute_def execute_body_def
  by (intro term_frame_intros execute_begin_frame)
    (auto split: begun.split intro!: term_frame_intros await_task_frame)

lemma execute_calls:
  "os_calls (snd (execute rq w)) = os_calls w \<or>
   (\<exists>call. os_calls (snd (execute rq w)) = os_calls w @ [call]) \<and>
     approves (rq_authorization_context rq) (rq_approved_by_user rq)"
proof (cases rule: begin_cases [of rq w])
  case (failed e w')
  then show ?thesis by (simp add: execute_def execute_body_def bnd_bnd bnd_eq calm_def env_kept_def)
next
  case (rejected r w')
  then show ?thesis
    by (simp add: execute_def execute_body_def bnd_bnd bnd_eq calm_def env_kept_def store_result_def ret_def)
next
  case (launched t w')
  obtain x w1 where run: "adapter_run (tk_adapter t) (tk_spec t) True (run_context_of (tk_request t)) w' = (x, w1)"
    by (cases "adapter_run (tk_adapter t) (tk_spec t) True (run_context_of (tk_request t)) w'")
  then have calls: "os_calls w1 = os_calls w @ [call_of (tk_adapter t) (os w') (tk_spec t)]"
    using adapter_run_calls [of "tk_adapter t" "tk_spec t" True "run_context_of (tk_request t)" w'] launched
    by (simp add: calm_def env_kept_def)
  obtain y w2 where fin: "execute_finish t x w1 = (y, w2)" by (cases "execute_finish t x w1")
  then have "os_calls w2 = os_calls w1" using execute_finish_leaves [OF fin] by (simp add: env_kept_def)
  then show ?thesis
    using launched run fin calls
    by (cases y) (auto simp: execute_def execute_body_def bnd_bnd bnd_eq await_task_def store_result_def ret_def)
qed

section \<open>The requests\<close>

text \<open>What of the world the life of a request depends on.\<close>

definition same_inst :: "'m inst_w_scheme \<Rightarrow> 'm inst_w_scheme \<Rightarrow> bool" where
  "same_inst w w' \<longleftrightarrow> in_requests w' = in_requests w \<and> tr_tools w' = tr_tools w \<and>
     in_config w' = in_config w"

lemma term_frame_inst:
  "term_frame w w' \<Longrightarrow> same_inst w w' \<and> in_running_commands w' = in_running_commands w"
  by (cases w; cases w') (simp add: term_frame_def same_inst_def)

lemma wp_execute:
  assumes "\<And>r w'. same_inst w w' \<Longrightarrow> in_running_commands w' = in_running_commands w \<Longrightarrow>
      os_calls w' = os_calls w \<or> (\<exists>call. os_calls w' = os_calls w @ [call]) \<and>
        approves (rq_authorization_context rq) (rq_approved_by_user rq) \<Longrightarrow> Q r w'"
  shows "wp (execute rq) Q w"
proof -
  have "term_frame w (snd (execute rq w))" using execute_frame by (rule keepsD')
  from term_frame_inst [OF this] show ?thesis
    unfolding wp_def using execute_calls [of rq w] by (intro assms) auto
qed

lemma wp_install_emit [wps]:
  "wp (install_emit t r d) Q w = Q (Inr ()) (w\<lparr>rt_ticks := Suc (rt_ticks w), audit_log := audit_log w @
     [\<lparr>ev_type = t, ev_session_id = map_option uuid_str (ir_session_id r), ev_command_id = None,
       ev_task_id = None, ev_timestamp = rt_clock w (rt_ticks w),
       ev_data = [(''request_id'', PStr (uuid_str (ir_id r))), (''tool_id'', PStr (uuid_str (ir_tool_id r))),
         (''state'', PStr (is_value (ir_state r)))] @ d\<rparr>]\<rparr>)"
  by (simp add: install_emit_def wps)

lemma wp_ir_save [wps]:
  "wp (ir_save r) Q w = Q (Inr (r\<lparr>ir_updated_at := rt_clock w (rt_ticks w)\<rparr>))
     (w\<lparr>rt_ticks := Suc (rt_ticks w),
        in_requests := dset (ir_id r) (r\<lparr>ir_updated_at := rt_clock w (rt_ticks w)\<rparr>) (in_requests w)\<rparr>)"
  by (simp add: wp_def ir_save_def ret_def Let_def)

lemma wp_ir_create [wps]:
  "wp (ir_create r) Q w = Q (Inr ()) (w\<lparr>in_requests := dset (ir_id r) r (in_requests w)\<rparr>)"
  by (simp add: wp_def ir_create_def modify_def)

lemma wp_ir_get:
  "wp (ir_get i) Q w = (case map_of (in_requests w) i of
     None \<Rightarrow> Q (Inl (InstallationNotFoundError (''Installation request '' @ uuid_str i @ '' was not found.''))) w
   | Some r \<Rightarrow> Q (Inr r) w)"
  by (simp add: wp_def ir_get_def ret_def raise_def split: option.splits)

definition progress ::
    "nat \<Rightarrow> installation_plan \<Rightarrow> installation_request \<Rightarrow> inst_w \<Rightarrow> inst_w \<Rightarrow> installation_request \<Rightarrow> bool" where
  "progress n plan r w w' r' \<longleftrightarrow>
     map_of (in_requests w') (ir_id r) = Some r' \<and>
     (\<forall>j. j \<noteq> ir_id r \<longrightarrow> map_of (in_requests w') j = map_of (in_requests w) j) \<and>
     tr_tools w' = tr_tools w \<and> in_config w' = in_config w \<and>
     ir_id r' = ir_id r \<and> ir_tool_id r' = ir_tool_id r \<and> ir_plan r' = ir_plan r \<and>
     ir_approved_by r' = ir_approved_by r \<and>
     length (ir_attempts r') \<le> length (ir_attempts r) + n \<and>
     length (os_calls w') \<le> length (os_calls w) + n \<and>
     (os_calls w' \<noteq> os_calls w \<longrightarrow> ir_approved_by r \<noteq> None \<or> pn_risk_level plan = Risk_LOW)"

definition last_ok :: "installation_request \<Rightarrow> bool" where
  "last_ok r \<longleftrightarrow> ir_attempts r \<noteq> [] \<and> at_error_category (last (ir_attempts r)) = None"

definition attempt_post ::
    "nat \<Rightarrow> installation_plan \<Rightarrow> installation_request \<Rightarrow> inst_w \<Rightarrow> exn + attempt_outcome \<Rightarrow> inst_w \<Rightarrow> bool" where
  "attempt_post n plan r w outcome w' \<longleftrightarrow> (\<exists>r'. progress n plan r w w' r' \<and>
     (case outcome of
        Inl e \<Rightarrow> ir_state r' = IS_INSTALLING
      | Inr (Stop x) \<Rightarrow> x = r' \<and> ir_state r' \<in> {IS_BLOCKED, IS_CANCELLED}
      | Inr (Succeeded x) \<Rightarrow> x = r' \<and> ir_state r' = IS_INSTALLING \<and> last_ok r'
      | Inr (StepFailed x err) \<Rightarrow> x = r' \<and> ir_state r' = IS_INSTALLING))"

lemma run_attempt_post:
  assumes "map_of (in_requests w) (ir_id r) = Some r" and "ir_state r = IS_INSTALLING"
  shows "wp (run_attempt r step plan session_id ts n) (attempt_post 1 plan r w) w"
proof (cases "build_install_command (os_python (os w)) (pm_value (st_package_manager step))
            (st_package_name step) (st_version step)")
  case (Inl e)
  then show ?thesis
    using assms by (simp add: run_attempt_def wps attempt_post_def progress_def)
next
  case (Inr argv)
  define d where "d = policy_evaluate (rt_clock w (rt_ticks w)) \<lparr>ar_action_id = ir_id r,
     ar_action_type = INSTALL_ACTION_TYPE, ar_risk_tier = pn_risk_level plan, ar_target = ts\<rparr>"
  show ?thesis
  proof (cases "pd_verdict d = DENY")
    case True
    then show ?thesis
      using assms Inr by (simp add: run_attempt_def wps Let_def d_def [symmetric] attempt_post_def
          progress_def map_of_update)
  next
    case False
    have low: "pn_risk_level plan = Risk_LOW" if "pd_verdict d = ALLOW"
      using that by (simp add: d_def policy_allow_iff)
    show ?thesis
      apply (simp add: run_attempt_def wps Let_def d_def [symmetric] Inr False)
      apply (rule wp_execute)
      subgoal for res w'
        using assms low
        by (cases res) (auto simp: same_inst_def wps attempt_post_def progress_def map_of_update
            last_ok_def attempt_of_def terminal_request_def approves_def)
      done
  qed
qed

lemma progress_refl: "map_of (in_requests w) (ir_id r) = Some r \<Longrightarrow> progress n plan r w w r"
  by (simp add: progress_def)

lemma progress_trans:
  "progress m plan r w w1 r1 \<Longrightarrow> progress n plan r1 w1 w2 r2 \<Longrightarrow> progress (m + n) plan r w w2 r2"
  by (auto simp: progress_def)

lemma attempt_loop_post:
  "map_of (in_requests w) (ir_id r) = Some r \<Longrightarrow> ir_state r = IS_INSTALLING \<Longrightarrow>
   wp (attempt_loop k r step plan session_id ts n err) (attempt_post k plan r w) w"
proof (induction k arbitrary: r w n err)
  case 0
  then show ?case by (auto simp: wps attempt_post_def progress_refl)
next
  case (Suc k)
  show ?case
    unfolding attempt_loop.simps wp_bnd
  proof (rule wp_mono [OF run_attempt_post [OF Suc.prems]])
    fix o1 w1
    assume "attempt_post 1 plan r w o1 w1"
    then obtain r1 where p: "progress 1 plan r w w1 r1"
      and c: "case o1 of Inl e \<Rightarrow> ir_state r1 = IS_INSTALLING
        | Inr (Stop x) \<Rightarrow> x = r1 \<and> ir_state r1 \<in> {IS_BLOCKED, IS_CANCELLED}
        | Inr (Succeeded x) \<Rightarrow> x = r1 \<and> ir_state r1 = IS_INSTALLING \<and> last_ok r1
        | Inr (StepFailed x err) \<Rightarrow> x = r1 \<and> ir_state r1 = IS_INSTALLING"
      by (auto simp: attempt_post_def)
    have more: "progress (Suc k) plan r w w1 r1" using p by (auto simp: progress_def)
    have stored: "map_of (in_requests w1) (ir_id r1) = Some r1" using p by (simp add: progress_def)
    have lift: "attempt_post (Suc k) plan r w o2 w2" if "attempt_post k plan r1 w1 o2 w2" for o2 w2
      using that progress_trans [OF p, of k] by (fastforce simp: attempt_post_def)
    show "on_value (attempt_post (Suc k) plan r w) (\<lambda>x. wp (case x of
        Stop r' \<Rightarrow> ret (Stop r')
      | Succeeded r' \<Rightarrow> ret (Succeeded r')
      | StepFailed r' erra \<Rightarrow> if err \<noteq> None \<and> err = erra then ret (StepFailed r' erra)
          else attempt_loop k r' step plan session_id ts (Suc n) erra)
        (attempt_post (Suc k) plan r w)) o1 w1"
    proof (cases o1)
      case (Inl e)
      then show ?thesis using c more by (auto simp: attempt_post_def)
    next
      case (Inr x)
      show ?thesis
      proof (cases x)
        case (Stop y)
        then show ?thesis using Inr c more by (auto simp: wps attempt_post_def)
      next
        case (Succeeded y)
        then show ?thesis using Inr c more by (auto simp: wps attempt_post_def)
      next
        case (StepFailed y e)
        then have y: "y = r1" "ir_state r1 = IS_INSTALLING" using Inr c by auto
        show ?thesis
        proof (cases "err \<noteq> None \<and> err = e")
          case True
          then show ?thesis using StepFailed Inr y more by (auto simp: wps attempt_post_def)
        next
          case False
          have "wp (attempt_loop k r1 step plan session_id ts (Suc n) e)
              (attempt_post (Suc k) plan r w) w1"
            by (rule wp_mono [OF Suc.IH [OF stored y(2)] lift])
          then show ?thesis using StepFailed Inr y False by auto
        qed
      qed
    qed
  qed
qed

text \<open>The end of an installation: what the final state records.\<close>

definition installed_ok :: "installation_request \<Rightarrow> bool" where
  "installed_ok r \<longleftrightarrow> last_ok r \<and> (case ir_verification r of None \<Rightarrow> False | Some v \<Rightarrow> vf_verified v)"

definition run_post ::
    "nat \<Rightarrow> installation_plan \<Rightarrow> installation_request \<Rightarrow> inst_w \<Rightarrow> exn + installation_request \<Rightarrow>
     inst_w \<Rightarrow> bool" where
  "run_post n plan r w outcome w' \<longleftrightarrow> (\<exists>r'. progress n plan r w w' r' \<and>
     length (ir_attempts r') < length (ir_attempts r) + n \<and>
     (case outcome of
        Inl e \<Rightarrow> ir_state r' \<in> {IS_INSTALLING, IS_VERIFYING}
      | Inr x \<Rightarrow> x = r' \<and> (ir_state r' \<in> {IS_BLOCKED, IS_CANCELLED, IS_FAILED, IS_ROLLBACK_REQUIRED} \<or>
          ir_state r' = IS_INSTALLED \<and> installed_ok r')))"

definition low_or_approved :: "installation_plan \<Rightarrow> installation_request \<Rightarrow> bool" where
  "low_or_approved plan r \<longleftrightarrow> ir_approved_by r \<noteq> None \<or> pn_risk_level plan = Risk_LOW"

lemma verify_installation_post:
  assumes "map_of (in_requests w) (ir_id r) = Some r" and "last_ok r" and "low_or_approved plan r"
  shows "wp (verify_installation r tool step session_id ts) (run_post 1 plan r w) w"
proof (cases "build_verification_command (os_python (os w)) (pm_value (st_package_manager step))
             (st_package_name step) (tl_entrypoint tool)")
  case (Inl e)
  then show ?thesis
    using assms by (simp add: verify_installation_def wps run_post_def progress_def map_of_update)
next
  case (Inr argv)
  show ?thesis
    apply (simp add: verify_installation_def wps Let_def Inr)
    apply (rule wp_execute)
    subgoal for res w'
      using assms
      by (cases res) (auto simp: same_inst_def wps run_post_def progress_def map_of_update
          installed_ok_def last_ok_def low_or_approved_def)
    done
qed

lemma run_post_mono:
  "progress m plan r w w1 r1 \<Longrightarrow> run_post n plan r1 w1 o2 w2 \<Longrightarrow> run_post (m + n) plan r w o2 w2"
  unfolding run_post_def using progress_trans [of m plan r w w1 r1 n]
  by (fastforce simp: progress_def [of m])

lemma loop_approved:
  "progress n plan r w w1 r1 \<Longrightarrow> low_or_approved plan r \<Longrightarrow> low_or_approved plan r1"
  by (simp add: progress_def low_or_approved_def)

lemma run_installation_post:
  assumes "map_of (in_requests w) (ir_id r) = Some r" and "ir_state r = IS_INSTALLING"
    and "low_or_approved plan r"
  shows "wp (run_installation r plan session_id ts)
     (run_post (Suc (ic_max_install_attempts (in_config w))) plan r w) w"
proof (cases "map_of (tr_tools w) (ir_tool_id r)")
  case None
  then show ?thesis
    using assms by (auto simp: run_installation_def wp_def bnd_tool_get run_post_def
        intro!: exI [of _ r] progress_refl)
next
  case (Some tool)
  let ?k = "ic_max_install_attempts (in_config w)"
  let ?post = "run_post (Suc ?k) plan r w"
  let ?finish = "conclude_attempts tool (hd (pn_installation_steps plan)) session_id ts"
  have "wp (attempt_loop ?k r (hd (pn_installation_steps plan)) plan session_id ts 1 None)
      (on_value ?post (\<lambda>x. wp (?finish x) ?post)) w"
  proof (rule wp_mono [OF attempt_loop_post [OF assms(1,2)]])
    fix o1 w1
    assume "attempt_post ?k plan r w o1 w1"
    then obtain r1 where p: "progress ?k plan r w w1 r1"
      and c: "case o1 of Inl e \<Rightarrow> ir_state r1 = IS_INSTALLING
        | Inr (Stop x) \<Rightarrow> x = r1 \<and> ir_state r1 \<in> {IS_BLOCKED, IS_CANCELLED}
        | Inr (Succeeded x) \<Rightarrow> x = r1 \<and> ir_state r1 = IS_INSTALLING \<and> last_ok r1
        | Inr (StepFailed x err) \<Rightarrow> x = r1 \<and> ir_state r1 = IS_INSTALLING"
      by (auto simp: attempt_post_def)
    have more: "progress (Suc ?k) plan r w w1 r1"
      "length (ir_attempts r1) < length (ir_attempts r) + Suc ?k"
      using p by (auto simp: progress_def)
    have stored: "map_of (in_requests w1) (ir_id r1) = Some r1" using p by (simp add: progress_def)
    show "on_value ?post (\<lambda>x. wp (?finish x) ?post) o1 w1"
    proof (cases o1)
      case (Inl e)
      then show ?thesis using c more by (auto simp: run_post_def)
    next
      case (Inr x)
      show ?thesis
      proof (cases x)
        case (Stop y)
        then show ?thesis using Inr c more by (auto simp: conclude_attempts_def wps run_post_def)
      next
        case (Succeeded y)
        have "wp (verify_installation r1 tool (hd (pn_installation_steps plan)) session_id ts) ?post w1"
        proof (rule wp_mono [OF verify_installation_post [OF stored]])
          show "last_ok r1" using Succeeded Inr c by simp
          show "low_or_approved plan r1" using loop_approved [OF p assms(3)] .
          show "?post o2 w2" if "run_post 1 plan r1 w1 o2 w2" for o2 w2
            using run_post_mono [OF p that] by simp
        qed
        then show ?thesis using Inr Succeeded c by (simp add: conclude_attempts_def)
      next
        case (StepFailed y e)
        then show ?thesis
          using Inr c more by (simp add: conclude_attempts_def wps run_post_def progress_def map_of_update)
      qed
    qed
  qed
  then have loop: "wp (bnd (attempt_loop ?k r (hd (pn_installation_steps plan)) plan session_id ts 1 None)
      ?finish) ?post w"
    by (simp add: wp_bnd)
  show ?thesis
  proof (cases "tl_trust_status tool = APPROVED")
    case True
    then have "run_installation r plan session_id ts w =
        bnd (attempt_loop ?k r (hd (pn_installation_steps plan)) plan session_id ts 1 None) ?finish w"
      using Some by (simp add: run_installation_def bnd_tool_get Let_def)
    then show ?thesis using loop unfolding wp_def by (simp only:)
  next
    case False
    then show ?thesis
      using assms Some by (auto simp: run_installation_def wp_def bnd_tool_get run_post_def raise_def
          intro!: exI [of _ r] progress_refl)
  qed
qed

section \<open>Every operation\<close>

definition req_ok :: "installation_request \<Rightarrow> bool" where
  "req_ok r \<longleftrightarrow>
     (ir_state r \<in> {IS_PREPARING, IS_INSTALLING, IS_VERIFYING, IS_INSTALLED, IS_FAILED, IS_ROLLBACK_REQUIRED} \<longrightarrow>
        (\<exists>plan. ir_plan r = Some plan \<and> low_or_approved plan r)) \<and>
     (ir_state r = IS_WAITING_FOR_APPROVAL \<longrightarrow> ir_plan r \<noteq> None) \<and>
     (ir_state r = IS_INSTALLED \<longrightarrow> installed_ok r) \<and>
     (ir_state r \<in> {IS_WAITING_FOR_APPROVAL, IS_PREPARING} \<longrightarrow> ir_attempts r = [])"

definition inst_ok :: "inst_w \<Rightarrow> bool" where
  "inst_ok w \<longleftrightarrow> (\<forall>i r. map_of (in_requests w) i = Some r \<longrightarrow>
     ir_id r = i \<and> req_ok r \<and> length (ir_attempts r) \<le> ic_max_install_attempts (in_config w))"

definition finals_kept :: "inst_w \<Rightarrow> inst_w \<Rightarrow> bool" where
  "finals_kept w w' \<longleftrightarrow> (\<forall>i r. map_of (in_requests w) i = Some r \<and> is_terminal r \<longrightarrow>
     map_of (in_requests w') i = Some r)"

definition inst_good :: "inst_w \<Rightarrow> inst_w \<Rightarrow> bool" where
  "inst_good w w' \<longleftrightarrow> inst_ok w' \<and> finals_kept w w' \<and> in_config w' = in_config w"

text \<open>An operation that stores one request: a sound one, over none or over one that is not final.\<close>

lemma inst_good_store:
  assumes "inst_ok w" and "in_config w' = in_config w" and "ir_id r = i" and "req_ok r"
    and "length (ir_attempts r) \<le> ic_max_install_attempts (in_config w)"
    and "\<And>r0. map_of (in_requests w) i = Some r0 \<Longrightarrow> \<not> is_terminal r0"
    and "map_of (in_requests w') i = Some r"
    and "\<And>j. j \<noteq> i \<Longrightarrow> map_of (in_requests w') j = map_of (in_requests w) j"
  shows "inst_good w w'"
proof -
  have "ir_id x = j \<and> req_ok x \<and> length (ir_attempts x) \<le> ic_max_install_attempts (in_config w)"
    if "map_of (in_requests w') j = Some x" for j x
    using that assms by (cases "j = i") (auto simp: inst_ok_def)
  moreover have "map_of (in_requests w') j = Some x"
    if "map_of (in_requests w) j = Some x" "is_terminal x" for j x
    using that assms by (cases "j = i") auto
  ultimately show ?thesis using assms(2) by (simp add: inst_good_def inst_ok_def finals_kept_def)
qed

lemma inst_good_idle:
  "inst_ok w \<Longrightarrow> in_requests w' = in_requests w \<Longrightarrow> in_config w' = in_config w \<Longrightarrow> inst_good w w'"
  by (simp add: inst_good_def inst_ok_def finals_kept_def)

lemma plan_risk:
  "pn_approval_required (plan_with tool e p pm t) \<longleftrightarrow> pn_risk_level (plan_with tool e p pm t) \<noteq> Risk_LOW"
  by (cases "tl_risk_level tool") (auto simp: plan_with_def)

lemma block_request_good:
  assumes "inst_ok w0" and "map_of (in_requests w0) (ir_id r) = None" and "ir_attempts r = []"
    and "in_requests w = in_requests w0" and "in_config w = in_config w0"
  shows "wp (block_request r m) (\<lambda>_ w'. inst_good w0 w') w"
  unfolding block_request_def Let_def wps on_value_simps
  by (rule inst_good_store [OF assms(1)])
    (use assms in \<open>auto simp: map_of_update req_ok_def\<close>)

lemma settle_request_good:
  assumes "inst_ok w0" and "map_of (in_requests w0) (ir_id r) = None" and "ir_attempts r = []"
    and "in_requests w = in_requests w0" and "in_config w = in_config w0"
    and "pn_approval_required plan \<longleftrightarrow> pn_risk_level plan \<noteq> Risk_LOW"
  shows "wp (settle_request r plan d) (\<lambda>x w'. inst_good w0 w' \<and> (\<exists>r'. x = Inr r')) w"
proof (cases "denied_by d")
  case True
  have "wp (block_request (r\<lparr>ir_plan := Some plan\<rparr>) m) (\<lambda>x w'. inst_good w0 w' \<and> (\<exists>r'. x = Inr r')) w1"
    if "in_requests w1 = in_requests w0" "in_config w1 = in_config w0" for w1 m
    unfolding block_request_def Let_def wps on_value_simps
    by (rule conjI, rule inst_good_store [OF assms(1)])
      (use assms that in \<open>auto simp: map_of_update req_ok_def\<close>)
  then show ?thesis using True assms(4,5) by (simp add: settle_request_def Let_def wps)
next
  case False
  show ?thesis
    unfolding settle_request_def Let_def wps on_value_simps if_not_P [OF False]
    by (rule conjI, rule inst_good_store [OF assms(1)])
      (use assms in \<open>auto simp: map_of_update req_ok_def low_or_approved_def\<close>)
qed

lemma wp_check_readiness:
  assumes "\<And>report k. Q (Inr report) (w\<lparr>rt_ticks := k\<rparr>)"
  shows "wp (check_readiness tool_id ts platform) Q w"
proof (cases "map_of (tr_tools w) tool_id")
  case None
  then show ?thesis using assms [of _ "rt_ticks w"] by (simp add: check_readiness_def wps)
next
  case (Some tool)
  then show ?thesis using assms by (simp add: check_readiness_def wps)
qed

lemma wp_build_plan:
  assumes "\<And>e. Q (Inl e) w"
    and "\<And>plan k. pn_approval_required plan \<longleftrightarrow> pn_risk_level plan \<noteq> Risk_LOW \<Longrightarrow>
      Q (Inr plan) (w\<lparr>rt_ticks := k\<rparr>)"
  shows "wp (build_plan tool e platform) Q w"
  using assms plan_risk
  by (cases "choose_package_manager platform e") (simp_all add: build_plan_def wps)

definition fresh_request :: "inst_w \<Rightarrow> bool" where
  "fresh_request w \<longleftrightarrow> map_of (in_requests w) (rt_uuid w (rt_uuids w)) = None"

lemma request_installation_good:
  assumes "inst_ok w" and "fresh_request w"
  shows "wp (request_installation tool_id ts platform by) (\<lambda>_ w'. inst_good w w') w"
proof -
  define r where "r = new_request (rt_uuid w (rt_uuids w)) tool_id ts by
     (rt_clock w (rt_ticks w)) (rt_clock w (Suc (rt_ticks w)))"
  have r: "map_of (in_requests w) (ir_id r) = None" "ir_attempts r = []"
    using assms(2) by (simp_all add: r_def new_request_def fresh_request_def)
  have block: "wp (block_request r m) (\<lambda>_ w'. inst_good w w') w1"
    if "in_requests w1 = in_requests w" "in_config w1 = in_config w" for m w1
    by (rule block_request_good [OF assms(1) r that])
  have settle: "wp (settle_request r plan d)
      (\<lambda>x w2. case x of Inl e \<Rightarrow> wp (if plan_refused e then block_request r (exn_str e) else raise e)
           (\<lambda>_ w'. inst_good w w') w2
         | Inr y \<Rightarrow> inst_good w w2) w1"
    if "in_requests w1 = in_requests w" "in_config w1 = in_config w"
      "pn_approval_required plan \<longleftrightarrow> pn_risk_level plan \<noteq> Risk_LOW" for plan d w1
    by (rule wp_mono [OF settle_request_good [OF assms(1) r that]]) auto
  have plan: "wp (try_except (bnd (build_plan tool e platform) (\<lambda>plan. settle_request r plan d))
        (\<lambda>exc. if plan_refused exc then block_request r (exn_str exc) else raise exc))
      (\<lambda>_ w'. inst_good w w') w1"
    if "in_requests w1 = in_requests w" "in_config w1 = in_config w" for tool e d w1
    unfolding wp_try wp_bnd
    by (rule wp_build_plan)
      (use that block settle inst_good_idle [OF assms(1)] in \<open>auto simp: wps\<close>)
  show ?thesis
    apply (simp add: request_installation_def wps Let_def r_def [symmetric])
    apply (rule wp_check_readiness)
    subgoal for report k
      by (cases "rr_tool report") (auto simp: wps block [unfolded r_def] plan [unfolded r_def] simp del: wp_try)
    done
qed

lemma inst_good_saved:
  assumes "inst_ok w" and "map_of (in_requests w) i = Some r0"
    and "in_requests w' = dset i r (in_requests w)" and "\<not> is_terminal r0"
    and "in_config w' = in_config w"
    and "ir_id r = ir_id r0" and "ir_attempts r = ir_attempts r0" and "req_ok r"
  shows "inst_good w w'"
  by (rule inst_good_store [OF assms(1,5) _ assms(8)])
    (use assms in \<open>auto simp: map_of_update inst_ok_def\<close>)

lemma stored_request:
  "inst_ok w \<Longrightarrow> map_of (in_requests w) i = Some r \<Longrightarrow> ir_id r = i \<and> req_ok r"
  by (simp add: inst_ok_def)

lemma approve_request_good:
  assumes "inst_ok w"
  shows "wp (approve_request i by) (\<lambda>_ w'. inst_good w w') w"
proof (cases "map_of (in_requests w) i")
  case None
  then show ?thesis using assms by (simp add: approve_request_def wps wp_ir_get inst_good_idle)
next
  case (Some r)
  note r = stored_request [OF assms Some]
  show ?thesis
  proof (cases "ir_state r = IS_WAITING_FOR_APPROVAL")
    case True
    with Some r show ?thesis
      by (simp add: approve_request_def wps wp_ir_get)
        (rule inst_good_saved [OF assms Some], simp,
         auto simp: is_terminal_def TERMINAL_STATES_def req_ok_def low_or_approved_def)
  next
    case False
    then show ?thesis using Some assms
      by (simp add: approve_request_def wps wp_ir_get inst_good_idle)
  qed
qed

lemma reject_request_good:
  assumes "inst_ok w"
  shows "wp (reject_request i reason) (\<lambda>_ w'. inst_good w w') w"
proof (cases "map_of (in_requests w) i")
  case None
  then show ?thesis using assms by (simp add: reject_request_def wps wp_ir_get inst_good_idle)
next
  case (Some r)
  note r = stored_request [OF assms Some]
  show ?thesis
  proof (cases "is_terminal r")
    case False
    with Some r show ?thesis
      by (simp add: reject_request_def wps wp_ir_get)
        (rule inst_good_saved [OF assms Some], simp, auto simp: req_ok_def)
  next
    case True
    then show ?thesis using Some assms
      by (simp add: reject_request_def wps wp_ir_get inst_good_idle)
  qed
qed

lemma cancel_request_good:
  assumes "inst_ok w"
  shows "wp (cancel_request i) (\<lambda>_ w'. inst_good w w') w"
proof (cases "map_of (in_requests w) i")
  case None
  then show ?thesis using assms by (simp add: cancel_request_def wps wp_ir_get inst_good_idle)
next
  case (Some r)
  note r = stored_request [OF assms Some]
  show ?thesis
  proof (cases "is_terminal r \<or> map_of (in_running_commands w) i \<noteq> None")
    case False
    with Some r show ?thesis
      by (simp add: cancel_request_def wps wp_ir_get)
        (rule inst_good_saved [OF assms Some], simp, auto simp: req_ok_def)
  next
    case True
    then show ?thesis using Some assms
      by (auto simp: cancel_request_def wps wp_ir_get inst_good_idle terminate_def
          split: option.splits)
  qed
qed

text \<open>A start: its bound on processes, and what it leaves of the requests.\<close>

definition approver :: "'m inst_w_scheme \<Rightarrow> uuid \<Rightarrow> string option" where
  "approver w i = (case map_of (in_requests w) i of None \<Rightarrow> None | Some r \<Rightarrow> ir_approved_by r)"

definition started :: "uuid \<Rightarrow> inst_w \<Rightarrow> inst_w \<Rightarrow> bool" where
  "started i w w' \<longleftrightarrow> approver w' = approver w \<and>
     length (os_calls w') \<le> Suc (length (os_calls w) + ic_max_install_attempts (in_config w)) \<and>
     (os_calls w' \<noteq> os_calls w \<longrightarrow> (\<exists>r plan. map_of (in_requests w) i = Some r \<and>
        ir_state r = IS_PREPARING \<and> ir_plan r = Some plan \<and> low_or_approved plan r))"

lemma run_post_good:
  assumes "inst_ok w" and "map_of (in_requests w) i = Some r0" and "ir_state r0 = IS_PREPARING"
    and "ir_plan r0 = Some plan" and "low_or_approved plan r0"
    and "in_config w1 = in_config w" and "in_requests w1 = dset i r (in_requests w)"
    and "ir_id r = ir_id r0" "ir_plan r = ir_plan r0" "ir_approved_by r = ir_approved_by r0"
      "ir_attempts r = []" "os_calls w1 = os_calls w"
    and "run_post (Suc (ic_max_install_attempts (in_config w))) plan r w1 o2 w2"
  shows "inst_good w w2 \<and> started i w w2"
proof -
  have i: "ir_id r0 = i" using assms(1,2) by (simp add: stored_request)
  obtain r' where p: "progress (Suc (ic_max_install_attempts (in_config w))) plan r w1 w2 r'"
    and l: "length (ir_attempts r') \<le> ic_max_install_attempts (in_config w)"
    and c: "case o2 of Inl e \<Rightarrow> ir_state r' \<in> {IS_INSTALLING, IS_VERIFYING}
      | Inr x \<Rightarrow> x = r' \<and> (ir_state r' \<in> {IS_BLOCKED, IS_CANCELLED, IS_FAILED, IS_ROLLBACK_REQUIRED} \<or>
          ir_state r' = IS_INSTALLED \<and> installed_ok r')"
    using assms(11,13) by (auto simp: run_post_def)
  have st: "ir_state r' \<in> {IS_INSTALLING, IS_VERIFYING, IS_BLOCKED, IS_CANCELLED, IS_FAILED,
      IS_ROLLBACK_REQUIRED} \<or> ir_state r' = IS_INSTALLED \<and> installed_ok r'"
    using c by (cases o2) auto
  have "inst_good w w2"
  proof (rule inst_good_store [OF assms(1)])
    show "in_config w2 = in_config w" using p assms(6) by (simp add: progress_def)
    show "req_ok r'"
      using st p assms(4,5,8-10) by (auto simp: req_ok_def progress_def low_or_approved_def)
    show "ir_id r' = i" using p i assms(8) by (simp add: progress_def)
    show "length (ir_attempts r') \<le> ic_max_install_attempts (in_config w)" by (rule l)
    show "map_of (in_requests w2) i = Some r'" using p i assms(8) by (simp add: progress_def)
    show "map_of (in_requests w2) j = map_of (in_requests w) j" if "j \<noteq> i" for j
      using that p i assms(7,8) by (simp add: progress_def map_of_update)
    show "\<not> is_terminal x" if "map_of (in_requests w) i = Some x" for x
      using that assms(2,3) by (simp add: is_terminal_def TERMINAL_STATES_def)
  qed
  moreover have "approver w2 j = approver w j" for j
    using p i assms(2,7,8,10)
    by (cases "j = i") (simp_all add: approver_def progress_def map_of_update)
  then have "started i w w2"
    using p assms(2-5,12) by (auto simp: progress_def started_def low_or_approved_def fun_eq_iff)
  ultimately show ?thesis by blast
qed

lemma start_installation_good:
  assumes "inst_ok w"
  shows "wp (start_installation i session_id ts) (\<lambda>_ w'. inst_good w w' \<and> started i w w') w"
proof (cases "map_of (in_requests w) i")
  case None
  then show ?thesis using assms
    by (simp add: start_installation_def wps wp_ir_get inst_good_idle started_def)
next
  case (Some r)
  note r = stored_request [OF assms Some]
  show ?thesis
  proof (cases "ir_state r = IS_PREPARING")
    case False
    then show ?thesis using assms Some
      by (simp add: start_installation_def wps wp_ir_get inst_good_idle started_def)
  next
    case True
    then obtain plan where plan: "ir_plan r = Some plan" "low_or_approved plan r" "ir_attempts r = []"
      using r by (auto simp: req_ok_def)
    show ?thesis
      using True Some r plan
      apply (simp add: start_installation_def wps wp_ir_get)
      apply (rule wp_mono [OF run_installation_post])
         apply (simp_all add: map_of_update low_or_approved_def [of plan])
      apply (erule run_post_good [OF assms Some True plan(1,2), rotated -1])
          apply (simp_all add: plan)
      done
  qed
qed

section \<open>Reachable registries\<close>

datatype inst_event =
    Requested uuid target_scope string "string option"
  | Approved uuid string
  | Rejected uuid string
  | Cancelled uuid
  | Started uuid uuid target_scope
  | Elsewhere

inductive inst_step :: "inst_w \<Rightarrow> inst_event \<Rightarrow> inst_w \<Rightarrow> bool" where
  requests: "request_installation tool_id ts platform by w = (x, w') \<Longrightarrow> fresh_request w \<Longrightarrow>
    inst_step w (Requested tool_id ts platform by) w'"
| approves_it: "approve_request i by w = (x, w') \<Longrightarrow> inst_step w (Approved i by) w'"
| rejects: "reject_request i reason w = (x, w') \<Longrightarrow> inst_step w (Rejected i reason) w'"
| cancels: "cancel_request i w = (x, w') \<Longrightarrow> inst_step w (Cancelled i) w'"
| starts: "start_installation i session_id ts w = (x, w') \<Longrightarrow> inst_step w (Started i session_id ts) w'"
| elsewhere: "in_requests w' = in_requests w \<Longrightarrow> in_config w' = in_config w \<Longrightarrow> inst_step w Elsewhere w'"

inductive_cases started_step: "inst_step w (Started i session_id ts) w'"

inductive inst_run :: "inst_w \<Rightarrow> inst_event list \<Rightarrow> inst_w \<Rightarrow> bool" where
  no_inst_event: "inst_run w [] w"
| inst_event: "inst_run w evs w1 \<Longrightarrow> inst_step w1 e w2 \<Longrightarrow> inst_run w (evs @ [e]) w2"

lemma inst_step_good: "inst_step w e w' \<Longrightarrow> inst_ok w \<Longrightarrow> inst_good w w'"
proof (induction rule: inst_step.induct)
  case requests
  then show ?case using request_installation_good [THEN wpD] by blast
next
  case approves_it
  then show ?case using approve_request_good [THEN wpD] by blast
next
  case rejects
  then show ?case using reject_request_good [THEN wpD] by blast
next
  case cancels
  then show ?case using cancel_request_good [THEN wpD] by blast
next
  case starts
  then show ?case using start_installation_good [THEN wpD] by blast
next
  case elsewhere
  then show ?case using inst_good_idle by blast
qed

lemma inst_good_trans: "inst_good w w1 \<Longrightarrow> inst_good w1 w2 \<Longrightarrow> inst_good w w2"
  by (simp add: inst_good_def finals_kept_def)

lemma inst_run_good: "inst_run w evs w' \<Longrightarrow> inst_ok w \<Longrightarrow> inst_good w w'"
proof (induction rule: inst_run.induct)
  case (no_inst_event w)
  then show ?case by (simp add: inst_good_idle)
next
  case (inst_event w evs w1 e w2)
  then have "inst_good w w1" by blast
  moreover have "inst_good w1 w2" using inst_step_good inst_event \<open>inst_good w w1\<close>
    by (simp add: inst_good_def)
  ultimately show ?case by (rule inst_good_trans)
qed

lemma inst_ok_empty: "in_requests w = [] \<Longrightarrow> inst_ok w"
  by (simp add: inst_ok_def)

text \<open>
  C6.  No installation proceeds unapproved or ends INSTALLED on its own say-so.  In every registry
  reached from an empty one by any sequence of requests, approvals, rejections, cancellations and
  starts, and whatever happens elsewhere in between, a request that is being prepared, running or run
  has a plan that a person approved or whose risk is low; one that is INSTALLED also has a last attempt
  that ran to completion and a verification that confirmed the tool; and no request has more attempts
  than the configuration allows.
\<close>

theorem installed_is_verified:
  assumes "inst_run w0 evs w" and "in_requests w0 = []" and "map_of (in_requests w) i = Some r"
  shows "length (ir_attempts r) \<le> ic_max_install_attempts (in_config w0) \<and>
    (ir_state r \<in> {IS_PREPARING, IS_INSTALLING, IS_VERIFYING, IS_INSTALLED, IS_FAILED, IS_ROLLBACK_REQUIRED} \<longrightarrow>
      (\<exists>plan. ir_plan r = Some plan \<and> (ir_approved_by r \<noteq> None \<or> pn_risk_level plan = Risk_LOW))) \<and>
    (ir_state r = IS_INSTALLED \<longrightarrow>
      (\<exists>v. ir_attempts r \<noteq> [] \<and> at_error_category (last (ir_attempts r)) = None \<and>
         ir_verification r = Some v \<and> vf_verified v))"
proof -
  have "inst_good w0 w" using inst_run_good assms inst_ok_empty by blast
  then have r: "req_ok r" and l: "length (ir_attempts r) \<le> ic_max_install_attempts (in_config w0)"
    using assms(3) by (auto simp: inst_good_def inst_ok_def)
  from r have "ir_state r = IS_INSTALLED \<longrightarrow> installed_ok r" by (simp add: req_ok_def)
  then show ?thesis using l r
    by (auto simp: req_ok_def low_or_approved_def installed_ok_def last_ok_def split: option.splits)
qed

text \<open>
  C22.  INSTALLED, FAILED, BLOCKED and CANCELLED are ends: whatever operation begins on a request in one
  of them, in whatever registry, changes nothing at all and creates no process.  A cancellation returns
  the request as it is; starting, approving and rejecting are refused with an error.  A start that began
  before the request ended is another matter, shown next.
\<close>

theorem finished_requests_final:
  fixes w :: inst_w
  assumes "map_of (in_requests w) i = Some r"
    and "ir_state r \<in> {IS_INSTALLED, IS_FAILED, IS_BLOCKED, IS_CANCELLED}"
  shows "cancel_request i w = (Inr r, w) \<and>
    (\<exists>m. start_installation i session_id ts w = (Inl (InstallationInvalidStateError m), w)) \<and>
    (\<exists>m. approve_request i by w = (Inl (InstallationInvalidStateError m), w)) \<and>
    (\<exists>m. reject_request i reason w = (Inl (InstallationInvalidStateError m), w))"
proof -
  have get: "bnd (ir_get i) f w = f r w" for f :: "installation_request \<Rightarrow> (inst_w, 'b) prog"
    using assms(1) by (simp add: ir_get_def bnd_bnd)
  have "is_terminal r" using assms(2) by (auto simp: is_terminal_def TERMINAL_STATES_def)
  then have "cancel_request i w = (Inr r, w)"
    "\<exists>m. reject_request i reason w = (Inl (InstallationInvalidStateError m), w)"
    by (simp_all add: cancel_request_def reject_request_def get ret_def raise_def)
  moreover have "\<exists>m. start_installation i session_id ts w = (Inl (InstallationInvalidStateError m), w)"
    "\<exists>m. approve_request i by w = (Inl (InstallationInvalidStateError m), w)"
    using assms(2) by (auto simp: start_installation_def approve_request_def get raise_def)
  ultimately show ?thesis by blast
qed

text \<open>
  A start that was waiting for its process when its request was rejected goes on with the request it had
  read, and saves it over the end: here after an attempt that failed.
\<close>

theorem suspended_start_overwrites:
  fixes w :: inst_w
  assumes "map_of (in_requests w) i = Some c" and "ir_state c = IS_CANCELLED" and "ir_id r = i"
  shows "wp (conclude_attempts tool step session_id ts (StepFailed r e)) (\<lambda>x w'. \<exists>r'.
    map_of (in_requests w') i = Some r' \<and> ir_state r' = IS_FAILED) w"
  using assms(3)
  by (simp add: conclude_attempts_def wps ir_save_def install_emit_def Let_def map_of_update)

text \<open>
  What a start may create: in every reachable registry, starting a request creates at most one
  process per allowed attempt and one to verify, and none at all unless the request was PREPARING with
  a plan of low risk or an approval on record.
\<close>

theorem start_bounded:
  assumes "inst_run w0 evs w" and "in_requests w0 = []"
    and "start_installation i session_id ts w = (x, w')"
  shows "length (os_calls w') \<le> length (os_calls w) + ic_max_install_attempts (in_config w0) + 1 \<and>
    (os_calls w' = os_calls w \<or> (\<exists>r plan. map_of (in_requests w) i = Some r \<and>
        ir_state r = IS_PREPARING \<and> ir_plan r = Some plan \<and>
        (ir_approved_by r \<noteq> None \<or> pn_risk_level plan = Risk_LOW)))"
proof -
  have "inst_good w0 w" using inst_run_good assms inst_ok_empty by blast
  then have "inst_ok w" "in_config w = in_config w0" by (auto simp: inst_good_def)
  then show ?thesis
    using start_installation_good [THEN wpD, OF _ assms(3)]
    by (auto simp: started_def low_or_approved_def)
qed

text \<open>
  A start of a tool that is no longer approved fails, and leaves its request behind: the request
  is saved as INSTALLING before the trust status is read, so the start raises and every later start of
  the same request is refused.
\<close>

theorem untrusted_start_strands:
  assumes "map_of (in_requests w) i = Some r" and "ir_id r = i" and "ir_state r = IS_PREPARING"
    and "ir_plan r = Some plan" and "map_of (tr_tools w) (ir_tool_id r) = Some tool"
    and "tl_trust_status tool \<noteq> APPROVED"
  shows "\<exists>m r' w'. start_installation i session_id ts w = (Inl (ToolNotApprovedError m), w') \<and>
    os_calls w' = os_calls w \<and> map_of (in_requests w') i = Some r' \<and> ir_state r' = IS_INSTALLING \<and>
    (\<forall>sid ts'. \<exists>m'. start_installation i sid ts' w' = (Inl (InstallationInvalidStateError m'), w'))"
  using assms
  by (simp add: start_installation_def ir_get_def ret_def ir_save_def Let_def install_emit_def
      run_installation_def tool_get_def raise_def bnd_def modify_def sq_def gets_def now_def
      audit_emit_def map_of_update)

section \<open>A sample installation\<close>

definition sample_inst_w :: "trust_status \<Rightarrow> inst_w" where
  "sample_inst_w st = \<lparr>rt_clock = (\<lambda>n. int n), rt_ticks = 0, rt_uuid = (\<lambda>n. 200 + n),
     rt_uuids = 0, audit_log = [], os = sample_os, os_spawn = (\<lambda>_ _. Spawned sample_proc),
     os_calls = [], os_signals = [], tm_config = sample_config,
     tm_sessions = [(5, sample_session Sess_READY)],
     tm_adapter = Some LinuxTerminalAdapter, tm_running = [], tm_last_result = [], td_mono = 0,
     td_lag = (\<lambda>_. 0), td_reads = 0, td_calls = [], td_cache = [], td_last_provider_call_at = 0,
     tr_tools = [(100, sample_tool st)], in_config = default_install_config, in_requests = [],
     in_running_commands = []\<rparr>"

definition sample_target :: target_scope where
  "sample_target = \<lparr>ts_id = 3, ts_is_active = True, ts_expires_at = None\<rparr>"

lemma readiness_of_simps:
  "rr_tool (readiness_of tool ts platform t1 t2) = Some tool"
  "rr_policy_decision (readiness_of tool ts platform t1 t2) = Some (policy_evaluate t1
     \<lparr>ar_action_id = tl_id tool, ar_action_type = INSTALL_ACTION_TYPE, ar_risk_tier = tl_risk_level tool,
      ar_target = ts\<rparr>)"
  by (simp_all add: readiness_of_def Let_def)

lemmas sample_request_defs =
  request_installation_def sample_inst_w_def new_request_def check_readiness_def install_emit_def bnd_bnd

lemmas sample_plan_defs =
  ready_readiness_of readiness_of_simps sample_tool_def sample_target_def is_authorized_now_def
  try_except_def build_plan_def choose_package_manager_def PLATFORM_PREFERENCE_def inspect_def
  sample_os_def CANDIDATES_BY_PLATFORM_def manager_available_def PACKAGE_MANAGER_EXECUTABLE_def
  detect_platform_def is_termux_def is_wsl_def truthy_def settle_request_def plan_with_def
  denied_by_def policy_deny_iff REGISTERED_ACTION_TYPES_def INSTALL_ACTION_TYPE_def ir_create_def ret_def

abbreviation sample_request_of :: "trust_status \<Rightarrow> (exn + installation_request) \<times> inst_w" where
  "sample_request_of st \<equiv> request_installation 100 sample_target ''LINUX'' None (sample_inst_w st)"

lemma sample_prepared:
  "\<exists>r. in_requests (snd (sample_request_of APPROVED)) = [(200, r)] \<and> ir_state r = IS_PREPARING"
  by (simp add: sample_request_defs Let_def)
    (simp add: sample_plan_defs install_emit_def bnd_bnd Let_def)

lemma sample_blocked:
  "\<exists>r. in_requests (snd (sample_request_of BLOCKED)) = [(200, r)] \<and> ir_state r = IS_BLOCKED"
  by (simp add: sample_request_defs Let_def)
    (simp add: ready_readiness_of readiness_of_simps sample_tool_def block_request_def ir_create_def
      install_emit_def Let_def ret_def)

lemma sample_inst_run:
  "inst_run (sample_inst_w st) [Requested 100 sample_target ''LINUX'' None] (snd (sample_request_of st))"
proof -
  have "fresh_request (sample_inst_w st)" by (simp add: fresh_request_def sample_inst_w_def)
  then have "inst_step (sample_inst_w st) (Requested 100 sample_target ''LINUX'' None)
      (snd (sample_request_of st))"
    by (intro requests) (auto simp: prod_eq_iff)
  from inst_event [OF no_inst_event this] show ?thesis by simp
qed

lemma sample_inst_empty: "in_requests (sample_inst_w st) = []"
  by (simp add: sample_inst_w_def)

theorem installed_is_verified_witness:
  "\<exists>r plan. map_of (in_requests (snd (sample_request_of APPROVED))) 200 = Some r \<and>
     ir_state r = IS_PREPARING \<and> ir_plan r = Some plan \<and>
     (ir_approved_by r \<noteq> None \<or> pn_risk_level plan = Risk_LOW)"
proof -
  obtain r where r: "in_requests (snd (sample_request_of APPROVED)) = [(200, r)]" "ir_state r = IS_PREPARING"
    using sample_prepared by blast
  then have "map_of (in_requests (snd (sample_request_of APPROVED))) 200 = Some r" by simp
  from installed_is_verified [OF sample_inst_run sample_inst_empty this] this r show ?thesis by auto
qed

theorem finished_requests_final_witness:
  "\<exists>r w m1 m2 m3. snd (sample_request_of BLOCKED) = w \<and> map_of (in_requests w) 200 = Some r \<and>
     ir_state r = IS_BLOCKED \<and> cancel_request 200 w = (Inr r, w) \<and>
     start_installation 200 5 sample_target w = (Inl (InstallationInvalidStateError m1), w) \<and>
     approve_request 200 ''ana'' w = (Inl (InstallationInvalidStateError m2), w) \<and>
     reject_request 200 ''no'' w = (Inl (InstallationInvalidStateError m3), w)"
proof -
  obtain r where r: "in_requests (snd (sample_request_of BLOCKED)) = [(200, r)]" "ir_state r = IS_BLOCKED"
    using sample_blocked by blast
  then have "map_of (in_requests (snd (sample_request_of BLOCKED))) 200 = Some r" by simp
  from finished_requests_final [OF this, of 5 sample_target "''ana''" "''no''"] this r(2)
  show ?thesis by blast
qed

theorem start_bounded_witness:
  "length (os_calls (snd (start_installation 200 5 sample_target (snd (sample_request_of APPROVED))))) \<le>
     length (os_calls (snd (sample_request_of APPROVED))) + 3"
proof -
  obtain x w' where s: "start_installation 200 5 sample_target (snd (sample_request_of APPROVED)) = (x, w')"
    by (cases "start_installation 200 5 sample_target (snd (sample_request_of APPROVED))")
  have "ic_max_install_attempts (in_config (sample_inst_w APPROVED)) = 2"
    by (simp add: sample_inst_w_def default_install_config_def)
  with start_bounded [OF sample_inst_run sample_inst_empty s] s show ?thesis by simp
qed

definition stranded_w :: inst_w where
  "stranded_w = (sample_inst_w BLOCKED)\<lparr>in_requests :=
     [(200, (new_request 200 100 sample_target None 0 0)\<lparr>ir_state := IS_PREPARING, ir_plan := Some
        (plan_with (sample_tool APPROVED) (inspect sample_os None) ''LINUX'' PM_APT 0)\<rparr>)]\<rparr>"

theorem untrusted_start_strands_witness:
  "\<exists>r w'. snd (start_installation 200 5 sample_target stranded_w) = w' \<and>
     map_of (in_requests w') 200 = Some r \<and> ir_state r = IS_INSTALLING"
  using untrusted_start_strands [of stranded_w 200 _ _ "sample_tool BLOCKED" 5 sample_target]
  by (fastforce simp: stranded_w_def new_request_def sample_inst_w_def sample_tool_def)

end
