(* ===== verification/Agent.thy ===== *)
theory Agent
  imports Agent_Core Install_Lifecycle
begin

text \<open>
  \<^verbatim>\<open>services/agent_orchestrator/orchestrator.py\<close>, \<open>registry.py\<close>, \<open>events.py\<close> and the provider call of
  \<open>reasoning.py\<close>.  A handler reads its task, works on it and saves it, as with the database registry
  of the application; an action is named by its position in the task's list, so that changing it
  changes the list.  The provider's answers and the validating library are parameters of the world.
\<close>

section \<open>Registry and events\<close>

record agent_event =
  ge_id :: uuid
  ge_task_id :: uuid
  ge_event_type :: string
  ge_data :: "(string \<times> pyval) list"
  ge_created_at :: time

record agent_w = inst_w +
  aw_budget :: budget_config
  aw_catalog_at :: time
  aw_discovery :: discovery_config
  aw_healing :: "(planner_config \<times> healing_attempt list) option"
  aw_generate :: "nat \<Rightarrow> exn + pyval"
  aw_prompts :: "message list list"
  aw_validate :: "pyval \<Rightarrow> string + agent_decision"
  aw_tasks :: "(uuid \<times> agent_task) list"
  aw_events :: "agent_event list"

definition task_create :: "agent_task \<Rightarrow> ('m agent_w_scheme, unit) prog" where
  "task_create s = modify (\<lambda>w. w\<lparr>aw_tasks := dset (ag_id s) s (aw_tasks w)\<rparr>)"

definition task_get :: "uuid \<Rightarrow> ('m agent_w_scheme, agent_task) prog" where
  "task_get i =
     bnd (gets (\<lambda>w. map_of (aw_tasks w) i)) (\<lambda>found. case found of
       None \<Rightarrow> raise (TaskNotFoundError (''Agent task '' @ uuid_str i @ '' was not found.''))
     | Some s \<Rightarrow> ret s)"

definition task_save :: "agent_task \<Rightarrow> ('m agent_w_scheme, agent_task) prog" where
  "task_save s =
     bnd now (\<lambda>t. let s' = s\<lparr>ag_updated_at := t\<rparr> in
       sq (modify (\<lambda>w. w\<lparr>aw_tasks := dset (ag_id s') s' (aw_tasks w)\<rparr>)) (ret s'))"

definition list_tasks :: "'m agent_w_scheme \<Rightarrow> agent_task list" where
  "list_tasks w = dvalues (aw_tasks w)"

definition count_active :: "'m agent_w_scheme \<Rightarrow> nat" where
  "count_active w = length (filter (\<lambda>s. \<not> ag_is_terminal s) (dvalues (aw_tasks w)))"

definition agent_emit :: "agent_task \<Rightarrow> string \<Rightarrow> (string \<times> pyval) list \<Rightarrow> ('m agent_w_scheme, unit) prog" where
  "agent_emit s t d =
     bnd uuid4 (\<lambda>i. bnd now (\<lambda>ts. modify (\<lambda>w. w\<lparr>aw_events := aw_events w @
       [\<lparr>ge_id = i, ge_task_id = ag_id s, ge_event_type = t, ge_data = d, ge_created_at = ts\<rparr>]\<rparr>)))"

definition events_for :: "uuid \<Rightarrow> 'm agent_w_scheme \<Rightarrow> agent_event list" where
  "events_for i w = filter (\<lambda>e. ge_task_id e = i) (aw_events w)"

section \<open>Life of a task\<close>

definition new_task ::
    "uuid \<Rightarrow> string \<Rightarrow> string \<Rightarrow> string option \<Rightarrow> string option \<Rightarrow> uuid option \<Rightarrow> string \<Rightarrow> string list \<Rightarrow>
     time \<Rightarrow> time \<Rightarrow> time \<Rightarrow> agent_task" where
  "new_task i objective user_request target target_type target_id authorization scope started_at created updated =
     \<lparr>ag_id = i, ag_objective = objective, ag_user_request = user_request, ag_target = target,
      ag_target_type = target_type, ag_authorization_status = authorization, ag_target_id = target_id,
      ag_scope = scope, ag_phase = Ph_UNDERSTANDING, ag_current_subtask_id = None, ag_subtasks = [],
      ag_selected_tools = [], ag_tool_capabilities = [], ag_installation_state = [],
      ag_execution_state = ''idle'', ag_actions = [], ag_observations = [], ag_findings = [],
      ag_evidence = [], ag_outputs = [], ag_errors = [], ag_recovery_attempts = [],
      ag_verification_results = [], ag_confidence = 0, ag_assumptions = [], ag_unknowns = [],
      ag_next_action = None, ag_approval_state = Appr_NOT_REQUIRED, ag_pending_action_id = None,
      ag_cancellation_state = Canc_NONE, ag_clarification_question = None, ag_action_count = 0,
      ag_model_call_count = 0, ag_installation_count = 0, ag_retry_count_by_action = [],
      ag_last_error_signature = None, ag_created_at = created, ag_updated_at = updated,
      ag_started_at = Some started_at, ag_completed_at = None\<rparr>"

definition create_task ::
    "string \<Rightarrow> string \<Rightarrow> string option \<Rightarrow> string option \<Rightarrow> uuid option \<Rightarrow> string \<Rightarrow> string list \<Rightarrow>
     ('m agent_w_scheme, agent_task) prog" where
  "create_task objective user_request target target_type target_id authorization scope =
     bnd (gets (\<lambda>w. (count_active w, bc_max_concurrent_tasks (aw_budget w)))) (\<lambda>(active, most).
     if most \<le> active then
       raise (ConcurrentTaskLimitError (''Maximum concurrent agent tasks reached ('' @ show_nat most @ '').''))
     else
       bnd now (\<lambda>started_at. bnd uuid4 (\<lambda>i. bnd now (\<lambda>created. bnd now (\<lambda>updated.
       let s = new_task i objective user_request target target_type target_id authorization scope
             started_at created updated
       in sq (task_create s)
          (sq (agent_emit s ''AGENT_STARTED'' [(''objective'', PStr objective)])
          (sq (agent_emit s ''OBJECTIVE_PARSED'' [(''objective'', PStr objective)])
          (sq (if truthy target then agent_emit s ''TARGET_IDENTIFIED'' [(''target'', p_ostr target)] else ret ())
          (sq (agent_emit s ''AUTHORIZATION_CHECK'' [(''status'', PStr authorization)])
          (task_save (s\<lparr>ag_phase := (if authorization \<noteq> ''AUTHORIZED''
             then Ph_WAITING_FOR_AUTHORIZATION else Ph_PLANNING)\<rparr>)))))))))))"

definition invalid_task :: "uuid \<Rightarrow> string \<Rightarrow> ('w, 'a) prog" where
  "invalid_task i what = raise (InvalidStateTransitionError (''Task '' @ uuid_str i @ what))"

definition pause_task :: "uuid \<Rightarrow> ('m agent_w_scheme, agent_task) prog" where
  "pause_task i =
     bnd (task_get i) (\<lambda>s.
     if ag_is_terminal s then invalid_task i '' is already in a terminal state.''
     else bnd (task_save (s\<lparr>ag_phase := Ph_PAUSED\<rparr>)) (\<lambda>s'.
       sq (agent_emit s' ''TASK_PAUSED'' []) (ret s')))"

definition resume_task :: "uuid \<Rightarrow> ('m agent_w_scheme, agent_task) prog" where
  "resume_task i =
     bnd (task_get i) (\<lambda>s.
     if ag_phase s \<noteq> Ph_PAUSED then invalid_task i '' is not paused.''
     else bnd (task_save (s\<lparr>ag_phase := Ph_PLANNING\<rparr>)) (\<lambda>s'.
       sq (agent_emit s' ''TASK_RESUMED'' []) (ret s')))"

definition cancel_task :: "uuid \<Rightarrow> ('m agent_w_scheme, agent_task) prog" where
  "cancel_task i =
     bnd (task_get i) (\<lambda>s.
     if ag_is_terminal s then ret s
     else bnd now (\<lambda>t. task_save (s\<lparr>ag_cancellation_state := Canc_CANCELLED, ag_phase := Ph_CANCELLED,
            ag_completed_at := Some t\<rparr>)))"

definition provide_clarification :: "uuid \<Rightarrow> string \<Rightarrow> ('m agent_w_scheme, agent_task) prog" where
  "provide_clarification i answer =
     bnd (task_get i) (\<lambda>s.
     if ag_phase s \<noteq> Ph_WAITING_FOR_AUTHORIZATION then invalid_task i '' is not awaiting clarification.''
     else bnd (new_evidence EK_OBSERVATION None (''User clarification: '' @ answer)) (\<lambda>e.
       task_save (s\<lparr>ag_observations := ag_observations s @ [e], ag_clarification_question := None,
         ag_unknowns := filter (\<lambda>u. \<not> str_in (lower u) (lower answer)) (ag_unknowns s),
         ag_phase := Ph_PLANNING\<rparr>)))"

text \<open>\<open>_find_action\<close>: the position of the first action with the identifier.\<close>

fun action_index :: "uuid \<Rightarrow> agent_action list \<Rightarrow> nat option" where
  "action_index i [] = None"
| "action_index i (a # as) = (if aa_id a = i then Some 0 else map_option Suc (action_index i as))"

definition find_action :: "agent_task \<Rightarrow> uuid \<Rightarrow> exn + nat" where
  "find_action s i = (case action_index i (ag_actions s) of
     Some k \<Rightarrow> Inr k
   | None \<Rightarrow> Inl (InvalidStateTransitionError (''Action '' @ uuid_str i @ '' not found on task '' @
       uuid_str (ag_id s) @ ''.'')))"

definition upd_action :: "nat \<Rightarrow> (agent_action \<Rightarrow> agent_action) \<Rightarrow> agent_task \<Rightarrow> agent_task" where
  "upd_action k f s = s\<lparr>ag_actions := (ag_actions s)[k := f (ag_actions s ! k)]\<rparr>"

definition not_waiting :: "uuid \<Rightarrow> ('w, 'a) prog" where
  "not_waiting i = raise (NotWaitingForApprovalError (''Task '' @ uuid_str i @ '' has no action awaiting approval.''))"

definition approve_action :: "uuid \<Rightarrow> string \<Rightarrow> ('m agent_w_scheme, agent_task) prog" where
  "approve_action i approved_by =
     bnd (task_get i) (\<lambda>s.
     case ag_pending_action_id s of
       None \<Rightarrow> not_waiting i
     | Some p \<Rightarrow>
         if ag_phase s \<noteq> Ph_WAITING_FOR_APPROVAL then not_waiting i
         else
           bnd (liftS (find_action s p)) (\<lambda>k.
           let s1 = (upd_action k (\<lambda>a. a\<lparr>aa_approval_state := Appr_APPROVED\<rparr>) s)
                 \<lparr>ag_approval_state := Appr_APPROVED, ag_phase := Ph_PREPARING\<rparr>
           in bnd (task_save s1) (\<lambda>s2.
              sq (agent_emit s2 ''APPROVAL_RECEIVED''
                   [(''actionId'', PStr (uuid_str p)), (''approvedBy'', PStr approved_by)])
              (ret s2))))"

definition reject_action :: "uuid \<Rightarrow> string \<Rightarrow> ('m agent_w_scheme, agent_task) prog" where
  "reject_action i reason =
     bnd (task_get i) (\<lambda>s.
     case ag_pending_action_id s of
       None \<Rightarrow> not_waiting i
     | Some p \<Rightarrow>
         if ag_phase s \<noteq> Ph_WAITING_FOR_APPROVAL then not_waiting i
         else
           bnd (liftS (find_action s p)) (\<lambda>k. bnd now (\<lambda>t.
           task_save ((upd_action k (\<lambda>a. a\<lparr>aa_approval_state := Appr_REJECTED,
                aa_result_summary := Some (''Rejected: '' @ reason)\<rparr>) s)
              \<lparr>ag_approval_state := Appr_REJECTED, ag_pending_action_id := None,
               ag_phase := Ph_BLOCKED, ag_completed_at := Some t\<rparr>))))"

section \<open>Actions\<close>

text \<open>An action ends, or fails with a category and a message; the task as it is then.\<close>

datatype act_result =
    Act_Done agent_task
  | Act_Failure agent_task string string

definition set_result :: "nat \<Rightarrow> string \<Rightarrow> agent_task \<Rightarrow> agent_task" where
  "set_result k summary s = upd_action k (\<lambda>a. a\<lparr>aa_result_summary := Some summary\<rparr>) s"

text \<open>\<open>state.observations.append(observe(...)); action.result_summary = summary\<close>.\<close>

definition note_observation ::
    "agent_task \<Rightarrow> nat \<Rightarrow> string \<Rightarrow> ('m runtime_scheme, act_result) prog" where
  "note_observation s k summary =
     bnd (observe (aa_id (ag_actions s ! k)) summary) (\<lambda>e.
     ret (Act_Done (set_result k summary (s\<lparr>ag_observations := ag_observations s @ [e]\<rparr>))))"

definition do_check_environment :: "agent_task \<Rightarrow> nat \<Rightarrow> ('m os_w_scheme, act_result) prog" where
  "do_check_environment s k =
     bnd (gets os) (\<lambda>e.
     let env = inspect e None
     in note_observation s k (''Platform '' @ en_platform env @ '', package managers: '' @
          show_list (map pm_value (en_available env)) @ ''.''))"

definition do_discover_target :: "agent_task \<Rightarrow> nat \<Rightarrow> ('m runtime_scheme, act_result) prog" where
  "do_discover_target s k =
     (if \<not> truthy (ag_target s) then
        ret (Act_Failure s ''invalid_argument'' ''No target is known yet.'')
      else note_observation s k (''Target confirmed: '' @ the (ag_target s) @ '' ('' @
             ostr_or (ag_target_type s) ''unknown type'' @ '').''))"

definition do_research_tool :: "agent_task \<Rightarrow> nat \<Rightarrow> ('m agent_w_scheme, act_result) prog" where
  "do_research_tool s k =
     (let capability = ostr_or (aa_capability (ag_actions s ! k)) []
      in bnd (gets (\<lambda>w. (aw_catalog_at w, aw_discovery w))) (\<lambda>(t0, cfg).
         bnd (discover (curated_search t0) cfg capability) (\<lambda>candidates.
         if candidates = [] then
           ret (Act_Failure s ''tool_unavailable'' (''No candidates found for '' @ quoted capability @ ''.''))
         else note_observation
           (s\<lparr>ag_tool_capabilities := dset capability (map cd_name candidates) (ag_tool_capabilities s)\<rparr>) k
           (''Found '' @ show_nat (length candidates) @ '' candidate(s) for '' @ quoted capability @ '': '' @
            join '', '' (map cd_name candidates)))))"

text \<open>From a request that has been made to the end of its installation.\<close>

definition finish_install ::
    "agent_task \<Rightarrow> nat \<Rightarrow> tool_record \<Rightarrow> target_scope \<Rightarrow> installation_request \<Rightarrow>
     ('m agent_w_scheme, act_result) prog" where
  "finish_install s k tool ts request =
     bnd (create_session (Some (''agent-install-'' @ uuid_str (ag_id s))) None) (\<lambda>session.
     bnd (start_installation (ir_id request) (se_id session) ts) (\<lambda>finished.
     let s1 = s\<lparr>ag_installation_count := Suc (ag_installation_count s),
                ag_installation_state := dset (tl_name tool) (is_value (ir_state finished))
                  (ag_installation_state s)\<rparr>
     in if ir_state finished \<noteq> IS_INSTALLED then
          ret (Act_Failure s1 ''tool_unavailable'' (ostr_or (ir_error_message finished)
            (''Installation ended in '' @ is_value (ir_state finished) @ ''.'')))
        else note_observation (s1\<lparr>ag_selected_tools := ag_selected_tools s1 @ [tl_name tool]\<rparr>) k
          (''Installed and verified '' @ quoted (tl_name tool) @ ''.'')))"

definition do_install_tool ::
    "agent_task \<Rightarrow> nat \<Rightarrow> target_scope option \<Rightarrow> string \<Rightarrow> ('m agent_w_scheme, act_result) prog" where
  "do_install_tool s k target_scope platform =
     (case aa_tool (ag_actions s ! k) of
        None \<Rightarrow> ret (Act_Failure s ''invalid_argument'' ''No tool name specified.'')
      | Some name \<Rightarrow>
          if name = [] then ret (Act_Failure s ''invalid_argument'' ''No tool name specified.'')
          else
            bnd (gets aw_budget) (\<lambda>c.
            bnd (liftS (check_installation_budget c s)) (\<lambda>_.
            bnd (tool_get_by_name name) (\<lambda>found.
            case found of
              None \<Rightarrow> ret (Act_Failure s ''tool_unavailable'' (''Tool '' @ quoted name @ '' is not registered.''))
            | Some tool \<Rightarrow>
                (case target_scope of
                   None \<Rightarrow> ret (Act_Failure s ''policy_restriction''
                     ''No target scope available for installation.'')
                 | Some ts \<Rightarrow>
                     bnd (request_installation (tl_id tool) ts platform (Some ''agent'')) (\<lambda>request.
                     if ir_state request = IS_BLOCKED then
                       ret (Act_Failure s ''policy_restriction''
                         (ostr_or (ir_error_message request) ''Installation blocked.''))
                     else
                       bnd (if ir_state request = IS_WAITING_FOR_APPROVAL
                            then approve_request (ir_id request) ''agent(user-approved)''
                            else ret request)
                         (finish_install s k tool ts)))))))"

definition DIAGNOSTIC_ACTION_TYPE :: string where
  "DIAGNOSTIC_ACTION_TYPE = ''diagnostics.echo_test''"

definition diagnostic_request ::
    "uuid \<Rightarrow> uuid \<Rightarrow> string list \<Rightarrow> policy_decision \<Rightarrow> command_request" where
  "diagnostic_request i session_id command decision =
     \<lparr>rq_session_id = session_id, rq_command = command, rq_authorization_context = decision,
      rq_task_id = None, rq_id = i, rq_working_directory = None, rq_environment = [],
      rq_timeout_seconds = None, rq_approved_by_user = (pd_verdict decision = ALLOW)\<rparr>"

definition diagnostic_result ::
    "agent_task \<Rightarrow> nat \<Rightarrow> command_result \<Rightarrow> ('m runtime_scheme, act_result) prog" where
  "diagnostic_result s k result =
     (if cr_status result \<noteq> Cmd_COMPLETED then
        ret (Act_Failure s
          (failure_value (classify (cr_status result = Cmd_TIMEOUT) (cr_status result = Cmd_REJECTED)
             (cr_exit_code result) (cr_stderr result)))
          (ostr_or (cr_error_message result) ''Diagnostic failed.''))
      else
        let stdout_preview = (if truthy (cr_stdout result) then strip (the (cr_stdout result))
                              else ''(no output)'')
        in note_observation (s\<lparr>ag_outputs := ag_outputs s @ [ostr_or (cr_stdout result) []]\<rparr>) k
             (''Diagnostic completed: '' @ stdout_preview))"

text \<open>The one registered diagnostic: its template and its risk tier are in the tables.\<close>

definition do_run_diagnostic ::
    "agent_task \<Rightarrow> nat \<Rightarrow> target_scope option \<Rightarrow> ('m agent_w_scheme, act_result) prog" where
  "do_run_diagnostic s k target_scope =
     (case target_scope of
        None \<Rightarrow> ret (Act_Failure s ''policy_restriction'' ''No target scope available for execution.'')
      | Some ts \<Rightarrow>
          bnd uuid4 (\<lambda>i. bnd now (\<lambda>t.
          let decision = policy_evaluate t \<lparr>ar_action_id = i, ar_action_type = DIAGNOSTIC_ACTION_TYPE,
                ar_risk_tier = the (map_of ACTION_RISK_TIERS DIAGNOSTIC_ACTION_TYPE), ar_target = ts\<rparr>
          in if pd_verdict decision = DENY then
               ret (Act_Failure s ''policy_restriction'' (join ''; '' (pd_reasons decision)))
             else
               bnd (gets os) (\<lambda>e.
               let command = the (resolve_command (os_python e) DIAGNOSTIC_ACTION_TYPE)
               in bnd (create_session (Some (''agent-diag-'' @ uuid_str (ag_id s))) None) (\<lambda>session.
                  bnd uuid4 (\<lambda>cid.
                  bnd (execute (diagnostic_request cid (se_id session) command decision))
                    (diagnostic_result s k)))))))"

definition do_analyze :: "agent_task \<Rightarrow> nat \<Rightarrow> ('m runtime_scheme, act_result) prog" where
  "do_analyze s k =
     (if ag_observations s = [] then
        ret (Act_Failure s ''unexpected_output'' ''Nothing to analyze yet.'')
      else
        bnd (propose_finding (aa_id (ag_actions s ! k))
               (''Based on: '' @ evd_summary (last (ag_observations s)))) (\<lambda>finding.
        ret (Act_Done (set_result k (evd_summary finding)
          (s\<lparr>ag_findings := ag_findings s @ [finding], ag_evidence := ag_evidence s @ [finding]\<rparr>)))))"

definition do_verify :: "agent_task \<Rightarrow> nat \<Rightarrow> ('m runtime_scheme, act_result) prog" where
  "do_verify s k =
     (let pending = filter (\<lambda>f. evd_kind f = EK_FINDING) (ag_findings s)
      in if pending = [] then ret (Act_Failure s ''unexpected_output'' ''No finding to verify.'')
         else
           let finding = last pending;
               corroboration = map evd_summary (take_last 3 (ag_observations s))
           in bnd (verify_evidence finding corroboration) (\<lambda>verified.
              ret (Act_Done (set_result k (evd_summary verified)
                (s\<lparr>ag_findings := map (\<lambda>f. if evd_id f = evd_id finding then verified else f) (ag_findings s),
                   ag_evidence := ag_evidence s @ [verified],
                   ag_verification_results := dset (uuid_str (evd_id finding))
                     (evd_kind verified = EK_VERIFIED_FINDING) (ag_verification_results s)\<rparr>)))))"

definition do_ask_user :: "agent_task \<Rightarrow> nat \<Rightarrow> agent_task" where
  "do_ask_user s k = set_result k ''Awaiting user clarification.''
     (s\<lparr>ag_clarification_question := Some (aa_expected_result (ag_actions s ! k)),
        ag_phase := Ph_WAITING_FOR_AUTHORIZATION\<rparr>)"

definition do_complete :: "agent_task \<Rightarrow> nat \<Rightarrow> ('m agent_w_scheme, agent_task) prog" where
  "do_complete s k =
     bnd now (\<lambda>t1. bnd now (\<lambda>t2.
     let s1 = (upd_action k (\<lambda>a. a\<lparr>aa_result_summary := Some ''Task marked complete.'',
                 aa_completed_at := Some t1\<rparr>) s)\<lparr>ag_phase := Ph_COMPLETED, ag_completed_at := Some t2\<rparr>
     in sq (agent_emit s1 ''TASK_COMPLETED'' [(''report'', PDict (build_report s1))]) (ret s1)))"

section \<open>Failures\<close>

definition new_recovery ::
    "uuid \<Rightarrow> string \<Rightarrow> string \<Rightarrow> ('m runtime_scheme, recovery_attempt) prog" where
  "new_recovery action_id category kind =
     bnd uuid4 (\<lambda>i. bnd now (\<lambda>t. ret \<lparr>ra_action_id = action_id, ra_error_category = category,
       ra_strategy = kind, ra_id = i, ra_outcome = ''pending'', ra_created_at = t\<rparr>))"

definition add_recovery ::
    "agent_task \<Rightarrow> uuid \<Rightarrow> string \<Rightarrow> string \<Rightarrow> ('m runtime_scheme, agent_task) prog" where
  "add_recovery s action_id category kind =
     bnd (new_recovery action_id category kind) (\<lambda>r.
     ret (s\<lparr>ag_recovery_attempts := ag_recovery_attempts s @ [r]\<rparr>))"

definition new_agent_error ::
    "uuid option \<Rightarrow> string \<Rightarrow> string \<Rightarrow> ('m runtime_scheme, agent_error) prog" where
  "new_agent_error action_id category message =
     bnd uuid4 (\<lambda>i. bnd now (\<lambda>t. ret \<lparr>ae_id = i, ae_action_id = action_id, ae_category = category,
       ae_message = message, ae_created_at = t\<rparr>))"

text \<open>The hint of the self-healing engine, when there is one.\<close>

definition consult_healing ::
    "agent_task \<Rightarrow> uuid \<Rightarrow> string \<Rightarrow> string \<Rightarrow> ('m agent_w_scheme, agent_task) prog" where
  "consult_healing s action_id category message =
     bnd (gets aw_healing) (\<lambda>healing. case healing of
       None \<Rightarrow> ret s
     | Some (c, h) \<Rightarrow>
         bnd (heal c (ag_id s) (Some action_id)
           \<lparr>fs_stderr = Some message, fs_stdout = None, fs_exit_code = None, fs_timed_out = False,
            fs_policy_denied = (category = ''policy_restriction''),
            fs_error_category = Some category\<rparr> h) (\<lambda>(p, h').
         sq (modify (\<lambda>w. w\<lparr>aw_healing := Some (c, h')\<rparr>))
            (add_recovery s action_id category (''proposed:'' @ strategy_value (hs_kind (hp_strategy p))))))"

definition adapt ::
    "agent_task \<Rightarrow> uuid \<Rightarrow> string \<Rightarrow> string \<Rightarrow> ('m agent_w_scheme, agent_task) prog" where
  "adapt s action_id action_key category =
     bnd (gets aw_budget) (\<lambda>c.
     let decision = decide_adaptation c s action_key category;
         hint = (\<lambda>strategy. [(''strategy'', PStr strategy), (''reason'', PStr (an_reason decision))])
     in case an_strategy decision of
       Adapt_RETRY \<Rightarrow>
         bnd (add_recovery (s\<lparr>ag_retry_count_by_action :=
                dset action_key (Suc (retries_of s action_key)) (ag_retry_count_by_action s),
              ag_last_error_signature := Some (error_signature action_key category)\<rparr>)
              action_id category ''retry'') (\<lambda>s1.
         sq (agent_emit s1 ''RECOVERY_STARTED'' (hint ''retry''))
            (task_save (s1\<lparr>ag_phase := Ph_RECOVERING\<rparr>)))
     | Adapt_ASK_USER \<Rightarrow>
         bnd (add_recovery s action_id category ''ask_user'') (\<lambda>s1.
         let s2 = s1\<lparr>ag_clarification_question := Some (an_reason decision),
                     ag_phase := Ph_WAITING_FOR_AUTHORIZATION\<rparr>
         in sq (agent_emit s2 ''RECOVERY_STARTED'' (hint ''ask_user'')) (task_save s2))
     | Adapt_FAIL \<Rightarrow>
         bnd now (\<lambda>t.
         let s1 = s\<lparr>ag_phase := Ph_FAILED, ag_completed_at := Some t\<rparr>
         in sq (agent_emit s1 ''TASK_FAILED'' [(''reason'', PStr (an_reason decision))]) (task_save s1)))"

definition handle_failure ::
    "agent_task \<Rightarrow> nat \<Rightarrow> string \<Rightarrow> string \<Rightarrow> ('m agent_w_scheme, agent_task) prog" where
  "handle_failure s k category message =
     (let a = ag_actions s ! k;
          s1 = upd_action k (\<lambda>a. a\<lparr>aa_error_category := Some category,
                 aa_result_summary := Some message\<rparr>) s
      in bnd (new_agent_error (Some (aa_id a)) category message) (\<lambda>e.
         bnd (consult_healing (s1\<lparr>ag_errors := ag_errors s1 @ [e]\<rparr>) (aa_id a) category message) (\<lambda>s2.
         adapt s2 (aa_id a) (action_value (aa_action_type a)) category)))"

section \<open>The step\<close>

definition POST_ACTION_PHASE :: "(action_type \<times> agent_phase) list" where
  "POST_ACTION_PHASE =
     [(ANALYZE_OUTPUT, Ph_ANALYZING), (VERIFY_FINDING, Ph_VERIFYING), (INSTALL_TOOL, Ph_OBSERVING),
      (RESEARCH_TOOL, Ph_RESEARCHING)]"

definition post_phase :: "action_type \<Rightarrow> agent_phase" where
  "post_phase t = (case map_of POST_ACTION_PHASE t of None \<Rightarrow> Ph_OBSERVING | Some p \<Rightarrow> p)"

definition finish_action :: "nat \<Rightarrow> act_result \<Rightarrow> ('m agent_w_scheme, agent_task) prog" where
  "finish_action k outcome =
     (case outcome of
        Act_Failure s category message \<Rightarrow> handle_failure s k category message
      | Act_Done s \<Rightarrow>
          bnd now (\<lambda>t.
          let s1 = upd_action k (\<lambda>a. a\<lparr>aa_completed_at := Some t\<rparr>) s;
              a = ag_actions s1 ! k;
              s2 = s1\<lparr>ag_confidence := aa_confidence a\<rparr>
          in sq (agent_emit s2 ''ACTION_OUTPUT''
               [(''actionId'', PStr (uuid_str (aa_id a))), (''summary'', p_ostr (aa_result_summary a))])
             (task_save (s2\<lparr>ag_phase := post_phase (aa_action_type a)\<rparr>))))"

definition execute_action ::
    "agent_task \<Rightarrow> nat \<Rightarrow> target_scope option \<Rightarrow> string \<Rightarrow> ('m agent_w_scheme, agent_task) prog" where
  "execute_action s0 k target_scope platform =
     bnd (task_save (s0\<lparr>ag_phase := Ph_EXECUTING\<rparr>)) (\<lambda>s.
     case aa_action_type (ag_actions s ! k) of
       CHECK_ENVIRONMENT \<Rightarrow> bnd (do_check_environment s k) (finish_action k)
     | DISCOVER_TARGET \<Rightarrow> bnd (do_discover_target s k) (finish_action k)
     | RESEARCH_TOOL \<Rightarrow> bnd (do_research_tool s k) (finish_action k)
     | INSTALL_TOOL \<Rightarrow> bnd (do_install_tool s k target_scope platform) (finish_action k)
     | RUN_DIAGNOSTIC \<Rightarrow> bnd (do_run_diagnostic s k target_scope) (finish_action k)
     | COLLECT_INFORMATION \<Rightarrow> bnd (do_run_diagnostic s k target_scope) (finish_action k)
     | ANALYZE_OUTPUT \<Rightarrow> bnd (do_analyze s k) (finish_action k)
     | VERIFY_FINDING \<Rightarrow> bnd (do_verify s k) (finish_action k)
     | ASK_USER \<Rightarrow> task_save (do_ask_user s k)
     | WAIT_FOR_APPROVAL \<Rightarrow>
         task_save (s\<lparr>ag_phase := Ph_WAITING_FOR_APPROVAL,
           ag_pending_action_id := Some (aa_id (ag_actions s ! k))\<rparr>)
     | GENERATE_REPORT \<Rightarrow> bnd (do_complete s k) task_save
     | COMPLETE_TASK \<Rightarrow> bnd (do_complete s k) task_save)"

definition block_task :: "agent_task \<Rightarrow> string \<Rightarrow> ('m agent_w_scheme, agent_task) prog" where
  "block_task s reason =
     bnd now (\<lambda>t. task_save (s\<lparr>ag_phase := Ph_BLOCKED, ag_next_action := Some reason,
       ag_completed_at := Some t\<rparr>))"

definition reasoning_context_of :: "agent_task \<Rightarrow> 'm agent_w_scheme \<Rightarrow> reasoning_context" where
  "reasoning_context_of s w =
     \<lparr>rx_available_capabilities = sorted_set (concat (map tl_capabilities
        (tool_list None None None None (dvalues (tr_tools w))))),
      rx_platform = Some (en_platform (inspect (os w) None)), rx_policy_constraints = [],
      rx_budget_remaining = budget_status (aw_budget w) s\<rparr>"

text \<open>\<open>AgentReasoner.decide\<close>: one call of the provider; \<open>Inl\<close> is an \<open>AgentReasoningError\<close>.\<close>

definition decide ::
    "agent_task \<Rightarrow> reasoning_context \<Rightarrow> ('m agent_w_scheme, string + agent_decision) prog" where
  "decide s c =
     bnd (gets (\<lambda>w. (aw_generate w (length (aw_prompts w)), aw_validate w))) (\<lambda>(answer, validate).
     sq (modify (\<lambda>w. w\<lparr>aw_prompts := aw_prompts w @ [decide_messages (build_agent_context_block s c)]\<rparr>))
     (case answer of
        Inl (AIProviderError code m) \<Rightarrow> ret (Inl (''AI provider failed: '' @ m))
      | Inl exc \<Rightarrow> raise exc
      | Inr payload \<Rightarrow> ret (parse_agent_decision validate payload)))"

definition check_budgets :: "agent_task \<Rightarrow> ('m agent_w_scheme, unit) prog" where
  "check_budgets s =
     bnd (gets aw_budget) (\<lambda>c.
     sq (check_action_budget c s) (liftS (check_model_call_budget c s)))"

definition add_error :: "agent_task \<Rightarrow> string \<Rightarrow> string \<Rightarrow> ('m runtime_scheme, agent_task) prog" where
  "add_error s category message =
     bnd (new_agent_error None category message) (\<lambda>e. ret (s\<lparr>ag_errors := ag_errors s @ [e]\<rparr>))"

text \<open>From a validated decision to its action.\<close>

definition act_on ::
    "agent_task \<Rightarrow> agent_decision \<Rightarrow> target_scope option \<Rightarrow> string \<Rightarrow> ('m agent_w_scheme, agent_task) prog" where
  "act_on s d target_scope platform =
     (case gate_evaluate s d of
        Inl exc \<Rightarrow>
          bnd (add_error s ''out_of_scope'' (exn_str exc)) (\<lambda>s1. block_task s1 (exn_str exc))
      | Inr g \<Rightarrow>
          bnd (build_action d g) (\<lambda>a.
          let k = length (ag_actions s);
              s1 = s\<lparr>ag_actions := ag_actions s @ [a], ag_action_count := Suc (ag_action_count s)\<rparr>
          in sq (agent_emit s1 ''ACTION_STARTED''
               [(''actionId'', PStr (uuid_str (aa_id a))),
                (''actionType'', PStr (action_value (aa_action_type a)))])
             (if \<not> gd_allowed g then
                task_save ((set_result k (join ''; '' (gd_reasons g)) s1)
                  \<lparr>ag_phase := Ph_WAITING_FOR_AUTHORIZATION,
                   ag_clarification_question :=
                     (if gd_reasons g \<noteq> [] then Some (hd (gd_reasons g)) else None)\<rparr>)
              else if aa_requires_approval a \<and> aa_approval_state a = Appr_PENDING then
                let s2 = s1\<lparr>ag_phase := Ph_WAITING_FOR_APPROVAL, ag_pending_action_id := Some (aa_id a),
                           ag_approval_state := Appr_PENDING\<rparr>
                in sq (agent_emit s2 ''APPROVAL_REQUIRED'' [(''actionId'', PStr (uuid_str (aa_id a)))])
                   (task_save s2)
              else execute_action s1 k target_scope platform)))"

definition reason_and_act ::
    "agent_task \<Rightarrow> target_scope option \<Rightarrow> string \<Rightarrow> ('m agent_w_scheme, agent_task) prog" where
  "reason_and_act s target_scope platform =
     bnd (gets (reasoning_context_of s)) (\<lambda>c.
     bnd (decide s c) (\<lambda>answer.
     case answer of
       Inl m \<Rightarrow>
         bnd (add_error s ''invalid_decision'' m) (\<lambda>s1. block_task s1 (''Reasoning failed: '' @ m))
     | Inr d \<Rightarrow>
         act_on (s\<lparr>ag_model_call_count := Suc (ag_model_call_count s)\<rparr>) d target_scope platform))"

definition agent_step :: "uuid \<Rightarrow> target_scope option \<Rightarrow> string \<Rightarrow> ('m agent_w_scheme, agent_task) prog" where
  "agent_step i target_scope platform =
     bnd (task_get i) (\<lambda>s.
     if ag_is_terminal s \<or>
        ag_phase s \<in> {Ph_PAUSED, Ph_WAITING_FOR_APPROVAL, Ph_WAITING_FOR_AUTHORIZATION}
     then ret s
     else case (if ag_phase s = Ph_PREPARING then ag_pending_action_id s else None) of
       Some p \<Rightarrow>
         bnd (liftS (find_action s p)) (\<lambda>k.
         execute_action (s\<lparr>ag_pending_action_id := None\<rparr>) k target_scope platform)
     | None \<Rightarrow>
         bnd (try_except (sq (check_budgets s) (ret None))
                (\<lambda>exc. case exc of
                   AgentOrchestratorError code m \<Rightarrow>
                     if code = AE_BUDGET_EXCEEDED then ret (Some m) else raise exc
                 | _ \<Rightarrow> raise exc)) (\<lambda>exhausted.
         case exhausted of
           Some m \<Rightarrow> block_task s m
         | None \<Rightarrow> reason_and_act s target_scope platform))"

end
