(* ===== verification/Iso_Time.thy ===== *)
theory Iso_Time
  imports Pystd Errors
begin

text \<open>
  \<^verbatim>\<open>datetime.fromisoformat\<close> on the texts \<^verbatim>\<open>isoformat\<close> writes for a time in UTC, which are
  all the stored snapshots hold, and the round trip of the two.
\<close>

section \<open>Days and dates\<close>

definition days_from_civil :: "int \<Rightarrow> int \<Rightarrow> int \<Rightarrow> int" where
  "days_from_civil year m d =
     (let y = (if m \<le> 2 then year - 1 else year);
          era = y div 400;
          yoe = y mod 400;
          mp = (if m \<le> 2 then m + 9 else m - 3);
          doy = (153 * mp + 2) div 5 + d - 1;
          doe = yoe * 365 + yoe div 4 - yoe div 100 + doy
      in era * 146097 + doe - 719468)"

text \<open>
  The year of an era, from its day: centuries of 36524 days, the last with one more, then four years of
  1461 days, then years of 365 days, the last of the four with one more.
\<close>

lemma year_of_era:
  fixes doe :: int
  assumes "0 \<le> doe" and "doe < 146097"
  shows "\<exists>q s u v. doe = 36524 * q + 1461 * s + u \<and> 0 \<le> q \<and> q \<le> 3 \<and> 0 \<le> s \<and> s \<le> 24 \<and> 0 \<le> u \<and> u \<le> 1460 \<and>
    v = (u - (24 * q + s + u) div 1460) div 365 \<and> 0 \<le> v \<and> v \<le> 3 \<and> 0 \<le> u - 365 * v \<and> u - 365 * v \<le> 365 \<and>
    (doe - doe div 1460 + doe div 36524 - doe div 146096) div 365 = 100 * q + 4 * s + v"
proof -
  define q where "q = (if doe = 146096 then 3 else doe div 36524)"
  define r where "r = doe - 36524 * q"
  define s where "s = r div 1461"
  define u where "u = r mod 1461"
  define e where "e = (24 * q + s + u) div 1460"
  define v where "v = (u - e) div 365"
  have q: "0 \<le> q" "q \<le> 3" "0 \<le> r" "r \<le> 36524" using assms by (auto simp: q_def r_def)
  have su: "r = 1461 * s + u" "0 \<le> u" "u \<le> 1460" "0 \<le> s" "s \<le> 24"
    using q by (auto simp: s_def u_def)
  have doe: "doe = 36524 * q + 1461 * s + u" using su(1) by (simp add: r_def)
  have e: "e = 0 \<and> u < 1460 \<or> e = 1 \<and> 1364 \<le> u" using q su by (auto simp: e_def)
  have v: "0 \<le> v" "v \<le> 3" "0 \<le> u - 365 * v" "u - 365 * v \<le> 365" using e su by (auto simp: v_def)
  have "doe = 1460 * (25 * q + s) + (24 * q + s + u)" using doe by simp
  then have a: "doe div 1460 = 25 * q + s + e" unfolding e_def by (simp only: div_mult_self4)
  have b: "doe div 36524 - doe div 146096 = q" using assms by (auto simp: q_def)
  have "doe - doe div 1460 + doe div 36524 - doe div 146096 = 365 * (100 * q + 4 * s) + (u - e)"
    using a b doe by simp
  then have "(doe - doe div 1460 + doe div 36524 - doe div 146096) div 365 = 100 * q + 4 * s + v"
    unfolding v_def by (simp only: div_mult_self4)
  then show ?thesis using q su doe v unfolding v_def e_def by blast
qed

lemma civil_days:
  assumes "civil z = (y, m, d)"
  shows "days_from_civil y m d = z" and "1 \<le> m" and "m \<le> 12" and "1 \<le> d" and "d \<le> 31"
proof -
  define era where "era = (z + 719468) div 146097"
  define doe where "doe = (z + 719468) mod 146097"
  define yoe where "yoe = (doe - doe div 1460 + doe div 36524 - doe div 146096) div 365"
  define doy where "doy = doe - (365 * yoe + yoe div 4 - yoe div 100)"
  define mp where "mp = (5 * doy + 2) div 153"
  have z: "z = era * 146097 + doe - 719468" by (simp add: era_def doe_def)
  have "0 \<le> doe" "doe < 146097" by (simp_all add: doe_def)
  from year_of_era [OF this] obtain q s u v where f: "doe = 36524 * q + 1461 * s + u" "0 \<le> q" "q \<le> 3" "0 \<le> s"
    "s \<le> 24" "0 \<le> v" "v \<le> 3" "0 \<le> u - 365 * v" "u - 365 * v \<le> 365" "yoe = 100 * q + 4 * s + v"
    unfolding yoe_def by blast
  have "yoe div 4 = 25 * q + s" "yoe div 100 = q" using f by auto
  then have doy: "0 \<le> doy" "doy \<le> 365" using f by (auto simp: doy_def)
  have yoe: "0 \<le> yoe" "yoe < 400" using f by auto
  have mp: "0 \<le> mp" "mp \<le> 11" using doy by (auto simp: mp_def)
  have "civil z = (yoe + era * 400 + (if (if mp < 10 then mp + 3 else mp - 9) \<le> 2 then 1 else 0),
      if mp < 10 then mp + 3 else mp - 9, doy - (153 * mp + 2) div 5 + 1)"
    unfolding civil_def Let_def era_def doe_def yoe_def doy_def mp_def by (rule refl)
  then have c: "y = yoe + era * 400 + (if m \<le> 2 then 1 else 0)" "d = doy - (153 * mp + 2) div 5 + 1"
    "m = (if mp < 10 then mp + 3 else mp - 9)"
    using assms by simp_all
  have m: "(if m \<le> 2 then m + 9 else m - 3) = mp" using mp c(3) by auto
  have y: "(if m \<le> 2 then y - 1 else y) = yoe + era * 400" using c(1) by simp
  have "(yoe + era * 400) div 400 = era" "(yoe + era * 400) mod 400 = yoe" using yoe by auto
  then show "days_from_civil y m d = z"
    unfolding days_from_civil_def Let_def m y c(2) z by (simp add: doy_def)
  show "1 \<le> m" "m \<le> 12" using mp c(3) by auto
  have "153 * mp \<le> 5 * doy + 2" "5 * doy + 2 < 153 * mp + 153" by (simp_all add: mp_def)
  then show "1 \<le> d" "d \<le> 31" unfolding c(2) by simp_all
qed

section \<open>Numbers of a fixed width\<close>

definition digit_val :: "char \<Rightarrow> nat option" where
  "digit_val c = (if 48 \<le> byte c \<and> byte c \<le> 57 then Some (byte c - 48) else None)"

fun read_digits :: "nat \<Rightarrow> string \<Rightarrow> nat option" where
  "read_digits n [] = Some n"
| "read_digits n (c # s) = (case digit_val c of None \<Rightarrow> None | Some d \<Rightarrow> read_digits (10 * n + d) s)"

lemma read_digits_append:
  "read_digits n (s @ t) = (case read_digits n s of None \<Rightarrow> None | Some m \<Rightarrow> read_digits m t)"
  by (induction s arbitrary: n) (auto split: option.splits)

lemma digit_val_char: "d < 10 \<Longrightarrow> digit_val (char_of (48 + d :: nat)) = Some d"
  by (simp add: digit_val_def)

lemma read_show_nat: "read_digits 0 (show_nat n) = Some n"
proof (induction n rule: show_nat.induct)
  case (1 n)
  show ?case
  proof (cases "n < 10")
    case True
    then show ?thesis by (simp add: show_nat.simps [of n] digit_val_char)
  next
    case False
    then have "read_digits 0 (show_nat (n div 10)) = Some (n div 10)" using 1 by blast
    then show ?thesis using False
      by (simp add: show_nat.simps [of n] read_digits_append digit_val_char)
  qed
qed

lemma read_zeros: "read_digits 0 (zeros k @ s) = read_digits 0 s"
  by (induction k) (simp_all add: zeros_def digit_val_def)

lemma length_show_nat: "n < 10 ^ k \<Longrightarrow> 0 < k \<Longrightarrow> length (show_nat n) \<le> k"
proof (induction k arbitrary: n)
  case (Suc k)
  show ?case
  proof (cases "n < 10")
    case False
    have "n div 10 < 10 ^ k" using Suc.prems(1) by (simp add: less_mult_imp_div_less mult.commute)
    moreover have "0 < k" using Suc.prems(1) False by (cases k) simp_all
    ultimately show ?thesis using False Suc.IH [of "n div 10"] by (simp add: show_nat.simps [of n])
  qed (simp add: show_nat.simps [of n])
qed simp

lemma pad_text:
  assumes "0 \<le> i" and "i < 10 ^ k" and "0 < k"
  shows "length (pad k i) = k" and "read_digits 0 (pad k i) = Some (nat i)"
proof -
  have "nat i < 10 ^ k" using assms by (simp add: nat_less_iff)
  then have "length (show_int i) \<le> k" using assms by (simp add: show_int_def length_show_nat)
  then show "length (pad k i) = k" by (simp add: pad_def zeros_def Let_def)
  show "read_digits 0 (pad k i) = Some (nat i)"
    using assms(1) by (simp add: pad_def Let_def read_zeros show_int_def read_show_nat)
qed

section \<open>Texts of times\<close>

text \<open>A field of the text: the number in \<open>n\<close> characters from the \<open>a\<close>-th.\<close>

definition field_at :: "string \<Rightarrow> nat \<Rightarrow> nat \<Rightarrow> int option" where
  "field_at s a n = map_option int (read_digits 0 (take n (drop a s)))"

definition invalid_iso :: "string \<Rightarrow> exn" where
  "invalid_iso s = ValueError (''Invalid isoformat string: '' @ py_repr s)"

definition time_of :: "int \<Rightarrow> int \<Rightarrow> int \<Rightarrow> int \<Rightarrow> int \<Rightarrow> int \<Rightarrow> int \<Rightarrow> int" where
  "time_of y m d h mi se us =
     (((days_from_civil y m d * 24 + h) * 60 + mi) * 60 + se) * 1000000 + us"

definition fromisoformat :: "string \<Rightarrow> exn + int" where
  "fromisoformat s =
     (let us = (if length s = 25 then Some 0 else field_at s 20 6) in
      if (length s = 25 \<or> length s = 32 \<and> s ! 19 = CHR ''.'') \<and> drop (length s - 6) s = ''+00:00'' \<and>
         s ! 4 = CHR ''-'' \<and> s ! 7 = CHR ''-'' \<and> s ! 10 = CHR ''T'' \<and> s ! 13 = CHR '':'' \<and> s ! 16 = CHR '':''
      then (case (field_at s 0 4, field_at s 5 2, field_at s 8 2, field_at s 11 2, field_at s 14 2, field_at s 17 2, us) of
              (Some y, Some m, Some d, Some h, Some mi, Some se, Some us) \<Rightarrow> Inr (time_of y m d h mi se us)
            | _ \<Rightarrow> Inl (invalid_iso s))
      else Inl (invalid_iso s))"

text \<open>The times Python's \<^verbatim>\<open>datetime\<close> has: the years 1 to 9999.\<close>

definition datetime_range :: "int \<Rightarrow> bool" where
  "datetime_range t \<longleftrightarrow> (case civil (t div 86400000000) of (y, _, _) \<Rightarrow> 1 \<le> y \<and> y \<le> 9999)"

lemma day_parts:
  fixes us :: int
  assumes "0 \<le> us" and "us < 86400000000"
  shows "(((us div 3600000000) * 60 + us div 60000000 mod 60) * 60 + us div 1000000 mod 60) * 1000000 + us mod 1000000 = us"
    and "0 \<le> us div 3600000000" and "us div 3600000000 < 10 ^ 2" and "0 \<le> us div 60000000 mod 60"
    and "us div 60000000 mod 60 < 10 ^ 2" and "0 \<le> us div 1000000 mod 60" and "us div 1000000 mod 60 < 10 ^ 2"
    and "0 \<le> us mod 1000000" and "us mod 1000000 < 10 ^ 6"
proof -
  define q where "q = us div 1000000"
  have "us div 60000000 = q div 60" "us div 3600000000 = q div 60 div 60"
    unfolding q_def by (simp_all add: zdiv_zmult2_eq [symmetric])
  moreover have "us = q * 1000000 + us mod 1000000" by (simp add: q_def)
  moreover have "q = q div 60 * 60 + q mod 60" "q div 60 = q div 60 div 60 * 60 + q div 60 mod 60" by simp_all
  ultimately show "(((us div 3600000000) * 60 + us div 60000000 mod 60) * 60 + us div 1000000 mod 60) * 1000000 +
      us mod 1000000 = us" by (simp add: q_def [symmetric])
  show "0 \<le> us div 3600000000" using assms(1) by (simp add: pos_imp_zdiv_nonneg_iff)
  show "us div 3600000000 < 10 ^ 2" using assms(2) by simp
  show "us div 60000000 mod 60 < 10 ^ 2" using pos_mod_bound [of 60 "us div 60000000"] by simp
  show "us div 1000000 mod 60 < 10 ^ 2" using pos_mod_bound [of 60 "us div 1000000"] by simp
qed simp_all

lemma iso_roundtrip:
  assumes "datetime_range t"
  shows "fromisoformat (isoformat t) = Inr t"
proof -
  let ?us = "t mod 86400000000"
  obtain y m d where c: "civil (t div 86400000000) = (y, m, d)" by (cases "civil (t div 86400000000)")
  have y: "1 \<le> y" "y \<le> 9999" using assms c by (simp_all add: datetime_range_def)
  note md = civil_days [OF c]
  have us: "0 \<le> ?us" "?us < 86400000000" by simp_all
  define h where "h = ?us div 3600000000"
  define mi where "mi = ?us div 60000000 mod 60"
  define se where "se = ?us div 1000000 mod 60"
  define f where "f = ?us mod 1000000"
  have time: "((h * 60 + mi) * 60 + se) * 1000000 + f = ?us"
    unfolding h_def mi_def se_def f_def by (rule day_parts(1) [OF us])
  have r: "0 \<le> h" "h < 10 ^ 2" "0 \<le> mi" "mi < 10 ^ 2" "0 \<le> se" "se < 10 ^ 2" "0 \<le> f" "f < 10 ^ 6"
    unfolding h_def mi_def se_def f_def by (rule day_parts(2-9) [OF us])+
  have r': "0 \<le> y" "y < 10 ^ 4" "0 \<le> m" "m < 10 ^ 2" "0 \<le> d" "d < 10 ^ 2" using y md by simp_all
  define Y where "Y = pad 4 y"
  define M where "M = pad 2 m"
  define D where "D = pad 2 d"
  define H where "H = pad 2 h"
  define I where "I = pad 2 mi"
  define S where "S = pad 2 se"
  define U where "U = pad 6 f"
  have len: "length Y = 4" "length M = 2" "length D = 2" "length H = 2" "length I = 2" "length S = 2" "length U = 6"
    unfolding Y_def M_def D_def H_def I_def S_def U_def using r r' by (simp_all add: pad_text(1) del: power_numeral)
  have val: "read_digits 0 Y = Some (nat y)" "read_digits 0 M = Some (nat m)" "read_digits 0 D = Some (nat d)"
    "read_digits 0 H = Some (nat h)" "read_digits 0 I = Some (nat mi)" "read_digits 0 S = Some (nat se)"
    "read_digits 0 U = Some (nat f)"
    unfolding Y_def M_def D_def H_def I_def S_def U_def using r r' by (simp_all add: pad_text(2) del: power_numeral)
  have iso: "isoformat t = Y @ ''-'' @ M @ ''-'' @ D @ ''T'' @ H @ '':'' @ I @ '':'' @ S @
      (if f = 0 then [] else ''.'' @ U) @ ''+00:00''"
    by (simp add: isoformat_def Let_def c Y_def M_def D_def H_def I_def S_def U_def h_def mi_def se_def f_def)
  have t: "time_of y m d h mi se f = t"
  proof -
    have sum: "(((a * 24 + h) * 60 + mi) * 60 + se) * 1000000 + f = T"
      if "T = a * 86400000000 + b" "((h * 60 + mi) * 60 + se) * 1000000 + f = b" for a b T :: int
      using that by simp
    show ?thesis unfolding time_of_def md(1) by (rule sum [OF _ time]) simp
  qed
  have field: "field_at (A @ B) (length A) n = map_option int (read_digits 0 (take n B))" for A B n
    by (simp add: field_at_def)
  show ?thesis
  proof (cases "f = 0")
    case True
    then show ?thesis using t r r'
      by (simp add: iso fromisoformat_def Let_def field_at_def len val nth_append)
  next
    case False
    then show ?thesis using t r r'
      by (simp add: iso fromisoformat_def Let_def field_at_def len val nth_append)
  qed
qed

end
