(* ===== verification/Agent_Store.thy ===== *)
theory Agent_Store
  imports Agent Termux Iso_Time
begin

text \<open>
  \<^verbatim>\<open>apps/api/app/db/agent_repository.py\<close>: a task as the JSON snapshot that is stored, and the
  registry on the database.  The table is a parameter of the model: a lookup, the commit of a
  new or changed row, which the database may refuse, and the list of its rows.  A field of a snapshot that is of another type than
  the task declares, which the code would carry along, is a TypeError here; the code never writes one.
\<close>

section \<open>Reading JSON\<close>

definition rb :: "exn + 'a \<Rightarrow> ('a \<Rightarrow> exn + 'b) \<Rightarrow> exn + 'b" where
  "rb r f = (case r of Inl e \<Rightarrow> Inl e | Inr x \<Rightarrow> f x)"

fun rmap :: "('a \<Rightarrow> exn + 'b) \<Rightarrow> 'a list \<Rightarrow> exn + 'b list" where
  "rmap f [] = Inr []"
| "rmap f (x # xs) = rb (f x) (\<lambda>y. rb (rmap f xs) (\<lambda>ys. Inr (y # ys)))"

definition wrong_type :: "pyval \<Rightarrow> exn + 'a" where
  "wrong_type v = Inl (TypeError (''unexpected '' @ pytype v))"

text \<open>\<^verbatim>\<open>data[k]\<close>, and \<^verbatim>\<open>data.get(k) or default\<close>.\<close>

definition need :: "string \<Rightarrow> (string \<times> pyval) list \<Rightarrow> exn + pyval" where
  "need k d = (case map_of d k of None \<Rightarrow> Inl (KeyError k) | Some v \<Rightarrow> Inr v)"

definition get_else :: "string \<Rightarrow> pyval \<Rightarrow> (string \<times> pyval) list \<Rightarrow> pyval" where
  "get_else k v d = (let x = dget_or k PNone d in if p_truthy x then x else v)"

definition as_str :: "pyval \<Rightarrow> exn + string" where
  "as_str v = (case v of PStr s \<Rightarrow> Inr s | _ \<Rightarrow> wrong_type v)"

definition as_ostr :: "pyval \<Rightarrow> exn + string option" where
  "as_ostr v = (case v of PNone \<Rightarrow> Inr None | PStr s \<Rightarrow> Inr (Some s) | _ \<Rightarrow> wrong_type v)"

definition as_bool :: "pyval \<Rightarrow> exn + bool" where
  "as_bool v = (case v of PBool b \<Rightarrow> Inr b | _ \<Rightarrow> wrong_type v)"

definition as_nat :: "pyval \<Rightarrow> exn + nat" where
  "as_nat v = (case v of PInt i \<Rightarrow> if 0 \<le> i then Inr (nat i) else wrong_type v | _ \<Rightarrow> wrong_type v)"

definition as_float :: "pyval \<Rightarrow> exn + rat" where
  "as_float v = (case v of PFloat r \<Rightarrow> Inr r | PInt i \<Rightarrow> Inr (of_int i) | _ \<Rightarrow> wrong_type v)"

definition as_list :: "(pyval \<Rightarrow> exn + 'a) \<Rightarrow> pyval \<Rightarrow> exn + 'a list" where
  "as_list f v = (case v of PList xs \<Rightarrow> rmap f xs | _ \<Rightarrow> wrong_type v)"

definition as_dict :: "(pyval \<Rightarrow> exn + 'a) \<Rightarrow> pyval \<Rightarrow> exn + (string \<times> 'a) list" where
  "as_dict f v = (case v of PDict d \<Rightarrow> rmap (\<lambda>(k, x). rb (f x) (\<lambda>y. Inr (k, y))) d | _ \<Rightarrow> wrong_type v)"

definition as_obj :: "((string \<times> pyval) list \<Rightarrow> exn + 'a) \<Rightarrow> pyval \<Rightarrow> exn + 'a" where
  "as_obj f v = (case v of PDict d \<Rightarrow> f d | _ \<Rightarrow> wrong_type v)"

definition as_ouuid :: "pyval \<Rightarrow> exn + uuid option" where
  "as_ouuid v = (if p_truthy v then rb (uuid_of v) (\<lambda>u. Inr (Some u)) else Inr None)"

definition dt :: "pyval \<Rightarrow> exn + time option" where
  "dt v = (if p_truthy v then rb (as_str v) (\<lambda>s. rb (fromisoformat s) (\<lambda>t. Inr (Some t))) else Inr None)"

definition as_time :: "pyval \<Rightarrow> exn + time" where
  "as_time v = rb (dt v) (\<lambda>t. case t of None \<Rightarrow> wrong_type v | Some t \<Rightarrow> Inr t)"

text \<open>A member of a \<^verbatim>\<open>StrEnum\<close> from its value.\<close>

definition of_value :: "string \<Rightarrow> ('a \<Rightarrow> string) \<Rightarrow> 'a list \<Rightarrow> pyval \<Rightarrow> exn + 'a" where
  "of_value cls val members v =
     (case v of
        PStr s \<Rightarrow> (case find (\<lambda>x. val x = s) members of Some x \<Rightarrow> Inr x
                  | None \<Rightarrow> Inl (ValueError (py_repr s @ '' is not a valid '' @ cls)))
      | _ \<Rightarrow> Inl (ValueError (py_repr_val v @ '' is not a valid '' @ cls)))"

fun cancellation_value :: "cancellation_state \<Rightarrow> string" where
  "cancellation_value Canc_NONE = ''NONE''"
| "cancellation_value Canc_REQUESTED = ''REQUESTED''"
| "cancellation_value Canc_CANCELLED = ''CANCELLED''"

fun subtask_value :: "subtask_status \<Rightarrow> string" where
  "subtask_value Sub_PENDING = ''PENDING''"
| "subtask_value Sub_IN_PROGRESS = ''IN_PROGRESS''"
| "subtask_value Sub_COMPLETED = ''COMPLETED''"
| "subtask_value Sub_BLOCKED = ''BLOCKED''"
| "subtask_value Sub_FAILED = ''FAILED''"

definition read_phase :: "pyval \<Rightarrow> exn + agent_phase" where
  "read_phase = of_value ''AgentPhase'' phase_value
     [Ph_CREATED, Ph_UNDERSTANDING, Ph_RESEARCHING, Ph_PLANNING, Ph_WAITING_FOR_AUTHORIZATION,
      Ph_WAITING_FOR_APPROVAL, Ph_PREPARING, Ph_EXECUTING, Ph_OBSERVING, Ph_ANALYZING, Ph_VERIFYING,
      Ph_RECOVERING, Ph_PAUSED, Ph_CANCELLED, Ph_COMPLETED, Ph_FAILED, Ph_BLOCKED]"

definition read_approval :: "pyval \<Rightarrow> exn + approval_state" where
  "read_approval = of_value ''ApprovalState'' approval_value
     [Appr_NOT_REQUIRED, Appr_PENDING, Appr_APPROVED, Appr_REJECTED]"

definition read_cancellation :: "pyval \<Rightarrow> exn + cancellation_state" where
  "read_cancellation = of_value ''CancellationState'' cancellation_value
     [Canc_NONE, Canc_REQUESTED, Canc_CANCELLED]"

definition read_subtask_status :: "pyval \<Rightarrow> exn + subtask_status" where
  "read_subtask_status = of_value ''SubtaskStatus'' subtask_value
     [Sub_PENDING, Sub_IN_PROGRESS, Sub_COMPLETED, Sub_BLOCKED, Sub_FAILED]"

definition read_evidence_kind :: "pyval \<Rightarrow> exn + evidence_kind" where
  "read_evidence_kind = of_value ''EvidenceKind'' evidence_value
     [EK_FACT, EK_OBSERVATION, EK_ASSUMPTION, EK_UNKNOWN, EK_FINDING, EK_VERIFIED_FINDING]"

definition read_action_type :: "pyval \<Rightarrow> exn + action_type" where
  "read_action_type = of_value ''ActionType'' action_value
     [DISCOVER_TARGET, CHECK_ENVIRONMENT, RESEARCH_TOOL, INSTALL_TOOL, RUN_DIAGNOSTIC, COLLECT_INFORMATION,
      ANALYZE_OUTPUT, VERIFY_FINDING, GENERATE_REPORT, ASK_USER, WAIT_FOR_APPROVAL, COMPLETE_TASK]"

section \<open>The parts of a task\<close>

definition p_uuid :: "uuid \<Rightarrow> pyval" where
  "p_uuid u = PStr (uuid_str u)"

definition p_ouuid :: "uuid option \<Rightarrow> pyval" where
  "p_ouuid u = (case u of None \<Rightarrow> PNone | Some u \<Rightarrow> p_uuid u)"

definition p_time :: "time \<Rightarrow> pyval" where
  "p_time t = PStr (isoformat t)"

definition evidence_to_json :: "evidence \<Rightarrow> pyval" where
  "evidence_to_json e = PDict
     [(''id'', p_uuid (evd_id e)), (''kind'', PStr (evidence_value (evd_kind e))),
      (''summary'', PStr (evd_summary e)), (''sourceActionId'', p_ouuid (evd_source_action_id e)),
      (''createdAt'', p_time (evd_created_at e))]"

definition evidence_from_json :: "(string \<times> pyval) list \<Rightarrow> exn + evidence" where
  "evidence_from_json d =
     rb (rb (need ''id'' d) uuid_of) (\<lambda>i.
     rb (rb (need ''kind'' d) read_evidence_kind) (\<lambda>k.
     rb (rb (need ''summary'' d) as_str) (\<lambda>s.
     rb (as_ouuid (dget_or ''sourceActionId'' PNone d)) (\<lambda>a.
     rb (rb (need ''createdAt'' d) as_time) (\<lambda>t.
     Inr \<lparr>evd_id = i, evd_kind = k, evd_summary = s, evd_source_action_id = a, evd_created_at = t\<rparr>)))))"

definition action_to_json :: "agent_action \<Rightarrow> pyval" where
  "action_to_json a = PDict
     [(''id'', p_uuid (aa_id a)), (''actionType'', PStr (action_value (aa_action_type a))),
      (''target'', aa_target a), (''capability'', p_ostr (aa_capability a)), (''tool'', p_ostr (aa_tool a)),
      (''parameters'', PDict (aa_parameters a)), (''requiresApproval'', PBool (aa_requires_approval a)),
      (''approvalState'', PStr (approval_value (aa_approval_state a))),
      (''expectedResult'', PStr (aa_expected_result a)),
      (''verificationRequirement'', PStr (aa_verification_requirement a)),
      (''reasoningSummary'', PStr (aa_reasoning_summary a)), (''confidence'', PFloat (aa_confidence a)),
      (''resultSummary'', p_ostr (aa_result_summary a)), (''errorCategory'', p_ostr (aa_error_category a)),
      (''createdAt'', p_time (aa_created_at a)), (''completedAt'', p_otime (aa_completed_at a))]"

definition action_from_json :: "(string \<times> pyval) list \<Rightarrow> exn + agent_action" where
  "action_from_json d =
     rb (rb (need ''id'' d) uuid_of) (\<lambda>i.
     rb (rb (need ''actionType'' d) read_action_type) (\<lambda>ty.
     rb (as_ostr (dget_or ''capability'' PNone d)) (\<lambda>cap.
     rb (as_ostr (dget_or ''tool'' PNone d)) (\<lambda>tool.
     rb (as_dict Inr (get_else ''parameters'' (PDict []) d)) (\<lambda>params.
     rb (as_bool (dget_or ''requiresApproval'' (PBool False) d)) (\<lambda>req.
     rb (read_approval (dget_or ''approvalState'' (PStr ''NOT_REQUIRED'') d)) (\<lambda>appr.
     rb (as_str (dget_or ''expectedResult'' (PStr []) d)) (\<lambda>expected.
     rb (as_str (dget_or ''verificationRequirement'' (PStr []) d)) (\<lambda>ver.
     rb (as_str (dget_or ''reasoningSummary'' (PStr []) d)) (\<lambda>reason.
     rb (as_float (dget_or ''confidence'' (PFloat 0) d)) (\<lambda>conf.
     rb (as_ostr (dget_or ''resultSummary'' PNone d)) (\<lambda>result.
     rb (as_ostr (dget_or ''errorCategory'' PNone d)) (\<lambda>err.
     rb (rb (need ''createdAt'' d) as_time) (\<lambda>created.
     rb (dt (dget_or ''completedAt'' PNone d)) (\<lambda>completed.
     Inr \<lparr>aa_id = i, aa_action_type = ty, aa_target = dget_or ''target'' PNone d, aa_capability = cap,
       aa_tool = tool, aa_parameters = params, aa_requires_approval = req, aa_approval_state = appr,
       aa_expected_result = expected, aa_verification_requirement = ver, aa_reasoning_summary = reason,
       aa_confidence = conf, aa_result_summary = result, aa_error_category = err,
       aa_created_at = created, aa_completed_at = completed\<rparr>)))))))))))))))"

definition subtask_to_json :: "subtask \<Rightarrow> pyval" where
  "subtask_to_json s = PDict
     [(''id'', p_uuid (sub_id s)), (''description'', PStr (sub_description s)),
      (''category'', PStr (sub_category s)), (''status'', PStr (subtask_value (sub_status s))),
      (''dependsOn'', PList (map p_uuid (sub_depends_on s)))]"

definition subtask_from_json :: "(string \<times> pyval) list \<Rightarrow> exn + subtask" where
  "subtask_from_json d =
     rb (rb (need ''id'' d) uuid_of) (\<lambda>i.
     rb (as_str (dget_or ''description'' (PStr []) d)) (\<lambda>desc.
     rb (as_str (dget_or ''category'' (PStr []) d)) (\<lambda>cat.
     rb (read_subtask_status (dget_or ''status'' (PStr ''PENDING'') d)) (\<lambda>status.
     rb (as_list uuid_of (dget_or ''dependsOn'' (PList []) d)) (\<lambda>deps.
     Inr \<lparr>sub_id = i, sub_description = desc, sub_category = cat, sub_status = status,
       sub_depends_on = deps\<rparr>)))))"

definition error_to_json :: "agent_error \<Rightarrow> pyval" where
  "error_to_json e = PDict
     [(''id'', p_uuid (ae_id e)), (''actionId'', p_ouuid (agent_error.ae_action_id e)),
      (''category'', PStr (ae_category e)), (''message'', PStr (ae_message e)),
      (''createdAt'', p_time (ae_created_at e))]"

definition error_from_json :: "(string \<times> pyval) list \<Rightarrow> exn + agent_error" where
  "error_from_json d =
     rb (rb (need ''id'' d) uuid_of) (\<lambda>i.
     rb (as_ouuid (dget_or ''actionId'' PNone d)) (\<lambda>a.
     rb (as_str (dget_or ''category'' (PStr ''unknown'') d)) (\<lambda>cat.
     rb (as_str (dget_or ''message'' (PStr []) d)) (\<lambda>m.
     rb (rb (need ''createdAt'' d) as_time) (\<lambda>t.
     Inr (agent_error.make i a cat m t))))))"

definition recovery_to_json :: "recovery_attempt \<Rightarrow> pyval" where
  "recovery_to_json r = PDict
     [(''id'', p_uuid (ra_id r)), (''actionId'', p_uuid (ra_action_id r)),
      (''errorCategory'', PStr (ra_error_category r)), (''strategy'', PStr (ra_strategy r)),
      (''outcome'', PStr (ra_outcome r)), (''createdAt'', p_time (ra_created_at r))]"

definition recovery_from_json :: "(string \<times> pyval) list \<Rightarrow> exn + recovery_attempt" where
  "recovery_from_json d =
     rb (rb (need ''id'' d) uuid_of) (\<lambda>i.
     rb (rb (need ''actionId'' d) uuid_of) (\<lambda>a.
     rb (rb (need ''errorCategory'' d) as_str) (\<lambda>cat.
     rb (rb (need ''strategy'' d) as_str) (\<lambda>strategy.
     rb (as_str (dget_or ''outcome'' (PStr ''pending'') d)) (\<lambda>outcome.
     rb (rb (need ''createdAt'' d) as_time) (\<lambda>t.
     Inr \<lparr>ra_action_id = a, ra_error_category = cat, ra_strategy = strategy, ra_id = i, ra_outcome = outcome,
       ra_created_at = t\<rparr>))))))"

section \<open>A task\<close>

definition state_to_snapshot :: "agent_task \<Rightarrow> (string \<times> pyval) list" where
  "state_to_snapshot s =
     [(''id'', p_uuid (ag_id s)), (''objective'', PStr (ag_objective s)),
      (''userRequest'', PStr (ag_user_request s)), (''target'', p_ostr (ag_target s)),
      (''targetType'', p_ostr (ag_target_type s)), (''authorizationStatus'', PStr (ag_authorization_status s)),
      (''targetId'', p_ouuid (ag_target_id s)), (''scope'', p_strs (ag_scope s)),
      (''phase'', PStr (phase_value (ag_phase s))), (''currentSubtaskId'', p_ouuid (ag_current_subtask_id s)),
      (''subtasks'', PList (map subtask_to_json (ag_subtasks s))),
      (''selectedTools'', p_strs (ag_selected_tools s)),
      (''toolCapabilities'', PDict (map (\<lambda>(k, v). (k, p_strs v)) (ag_tool_capabilities s))),
      (''installationState'', PDict (map (\<lambda>(k, v). (k, PStr v)) (ag_installation_state s))),
      (''executionState'', PStr (ag_execution_state s)),
      (''actions'', PList (map action_to_json (ag_actions s))),
      (''observations'', PList (map evidence_to_json (ag_observations s))),
      (''findings'', PList (map evidence_to_json (ag_findings s))),
      (''evidence'', PList (map evidence_to_json (ag_evidence s))), (''outputs'', p_strs (ag_outputs s)),
      (''errors'', PList (map error_to_json (ag_errors s))),
      (''recoveryAttempts'', PList (map recovery_to_json (ag_recovery_attempts s))),
      (''verificationResults'', PDict (map (\<lambda>(k, v). (k, PBool v)) (ag_verification_results s))),
      (''confidence'', PFloat (ag_confidence s)), (''assumptions'', p_strs (ag_assumptions s)),
      (''unknowns'', p_strs (ag_unknowns s)), (''nextAction'', p_ostr (ag_next_action s)),
      (''approvalState'', PStr (approval_value (ag_approval_state s))),
      (''pendingActionId'', p_ouuid (ag_pending_action_id s)),
      (''cancellationState'', PStr (cancellation_value (ag_cancellation_state s))),
      (''clarificationQuestion'', p_ostr (ag_clarification_question s)),
      (''actionCount'', PInt (int (ag_action_count s))), (''modelCallCount'', PInt (int (ag_model_call_count s))),
      (''installationCount'', PInt (int (ag_installation_count s))),
      (''retryCountByAction'', PDict (map (\<lambda>(k, v). (k, PInt (int v))) (ag_retry_count_by_action s))),
      (''lastErrorSignature'', p_ostr (ag_last_error_signature s)),
      (''createdAt'', p_time (ag_created_at s)), (''updatedAt'', p_time (ag_updated_at s)),
      (''startedAt'', p_otime (ag_started_at s)), (''completedAt'', p_otime (ag_completed_at s))]"

definition snapshot_to_state :: "(string \<times> pyval) list \<Rightarrow> exn + agent_task" where
  "snapshot_to_state d =
     rb (rb (need ''id'' d) uuid_of) (\<lambda>i.
     rb (rb (need ''objective'' d) as_str) (\<lambda>objective.
     rb (as_str (dget_or ''userRequest'' (PStr []) d)) (\<lambda>user_request.
     rb (as_ostr (dget_or ''target'' PNone d)) (\<lambda>target.
     rb (as_ostr (dget_or ''targetType'' PNone d)) (\<lambda>target_type.
     rb (as_str (dget_or ''authorizationStatus'' (PStr ''UNKNOWN'') d)) (\<lambda>authorization.
     rb (as_ouuid (dget_or ''targetId'' PNone d)) (\<lambda>target_id.
     rb (as_list as_str (get_else ''scope'' (PList []) d)) (\<lambda>scope.
     rb (rb (need ''phase'' d) read_phase) (\<lambda>phase.
     rb (as_ouuid (dget_or ''currentSubtaskId'' PNone d)) (\<lambda>current.
     rb (as_list (as_obj subtask_from_json) (dget_or ''subtasks'' (PList []) d)) (\<lambda>subtasks.
     rb (as_list as_str (get_else ''selectedTools'' (PList []) d)) (\<lambda>selected.
     rb (as_dict (as_list as_str) (get_else ''toolCapabilities'' (PDict []) d)) (\<lambda>tool_capabilities.
     rb (as_dict as_str (get_else ''installationState'' (PDict []) d)) (\<lambda>installation.
     rb (as_str (dget_or ''executionState'' (PStr ''idle'') d)) (\<lambda>execution.
     rb (as_list (as_obj action_from_json) (dget_or ''actions'' (PList []) d)) (\<lambda>actions.
     rb (as_list (as_obj evidence_from_json) (dget_or ''observations'' (PList []) d)) (\<lambda>observations.
     rb (as_list (as_obj evidence_from_json) (dget_or ''findings'' (PList []) d)) (\<lambda>findings.
     rb (as_list (as_obj evidence_from_json) (dget_or ''evidence'' (PList []) d)) (\<lambda>evidence.
     rb (as_list as_str (get_else ''outputs'' (PList []) d)) (\<lambda>outputs.
     rb (as_list (as_obj error_from_json) (dget_or ''errors'' (PList []) d)) (\<lambda>errors.
     rb (as_list (as_obj recovery_from_json) (dget_or ''recoveryAttempts'' (PList []) d)) (\<lambda>recoveries.
     rb (as_dict as_bool (get_else ''verificationResults'' (PDict []) d)) (\<lambda>results.
     rb (as_float (dget_or ''confidence'' (PFloat 0) d)) (\<lambda>confidence.
     rb (as_list as_str (get_else ''assumptions'' (PList []) d)) (\<lambda>assumptions.
     rb (as_list as_str (get_else ''unknowns'' (PList []) d)) (\<lambda>unknowns.
     rb (as_ostr (dget_or ''nextAction'' PNone d)) (\<lambda>next_action.
     rb (read_approval (dget_or ''approvalState'' (PStr ''NOT_REQUIRED'') d)) (\<lambda>approval.
     rb (as_ouuid (dget_or ''pendingActionId'' PNone d)) (\<lambda>pending.
     rb (read_cancellation (dget_or ''cancellationState'' (PStr ''NONE'') d)) (\<lambda>cancellation.
     rb (as_ostr (dget_or ''clarificationQuestion'' PNone d)) (\<lambda>question.
     rb (as_nat (dget_or ''actionCount'' (PInt 0) d)) (\<lambda>action_count.
     rb (as_nat (dget_or ''modelCallCount'' (PInt 0) d)) (\<lambda>model_calls.
     rb (as_nat (dget_or ''installationCount'' (PInt 0) d)) (\<lambda>installations.
     rb (as_dict as_nat (get_else ''retryCountByAction'' (PDict []) d)) (\<lambda>retries.
     rb (as_ostr (dget_or ''lastErrorSignature'' PNone d)) (\<lambda>signature.
     rb (rb (need ''createdAt'' d) as_time) (\<lambda>created.
     rb (rb (need ''updatedAt'' d) as_time) (\<lambda>updated.
     rb (dt (dget_or ''startedAt'' PNone d)) (\<lambda>started.
     rb (dt (dget_or ''completedAt'' PNone d)) (\<lambda>completed.
     Inr \<lparr>ag_id = i, ag_objective = objective, ag_user_request = user_request, ag_target = target,
       ag_target_type = target_type, ag_authorization_status = authorization, ag_target_id = target_id,
       ag_scope = scope, ag_phase = phase, ag_current_subtask_id = current, ag_subtasks = subtasks,
       ag_selected_tools = selected, ag_tool_capabilities = tool_capabilities,
       ag_installation_state = installation, ag_execution_state = execution, ag_actions = actions,
       ag_observations = observations, ag_findings = findings, ag_evidence = evidence, ag_outputs = outputs,
       ag_errors = errors, ag_recovery_attempts = recoveries, ag_verification_results = results,
       ag_confidence = confidence, ag_assumptions = assumptions, ag_unknowns = unknowns,
       ag_next_action = next_action, ag_approval_state = approval, ag_pending_action_id = pending,
       ag_cancellation_state = cancellation, ag_clarification_question = question,
       ag_action_count = action_count, ag_model_call_count = model_calls,
       ag_installation_count = installations, ag_retry_count_by_action = retries,
       ag_last_error_signature = signature, ag_created_at = created, ag_updated_at = updated,
       ag_started_at = started, ag_completed_at = completed\<rparr>))))))))))))))))))))))))))))))))))))))))"

section \<open>The registry\<close>

record task_row =
  tr_id :: uuid
  tr_objective :: string
  tr_target :: "string option"
  tr_target_id :: "uuid option"
  tr_phase :: agent_phase
  tr_state_snapshot :: "(string \<times> pyval) list"
  tr_updated_at :: "time option"

text \<open>
  The table: the rows by key, the targets a row may refer to, the commit of a new row and of a changed one,
  which the database may refuse, and the rows.
\<close>

record 'db task_table =
  tb_get :: "'db \<Rightarrow> uuid \<Rightarrow> task_row option"
  tb_target :: "'db \<Rightarrow> uuid \<Rightarrow> bool"
  tb_insert :: "task_row \<Rightarrow> 'db \<Rightarrow> exn + 'db"
  tb_update :: "task_row \<Rightarrow> 'db \<Rightarrow> exn + 'db"
  tb_rows :: "'db \<Rightarrow> task_row list"

record 'db sql_w = runtime +
  sw_db :: 'db

definition sql_not_found :: "uuid \<Rightarrow> exn" where
  "sql_not_found i = TaskNotFoundError (''Agent task '' @ uuid_str i @ '' was not found.'')"

definition row_to_state :: "task_row \<Rightarrow> exn + agent_task" where
  "row_to_state row = snapshot_to_state (tr_state_snapshot row)"

text \<open>\<^verbatim>\<open>commit()\<close>: what the database refuses raises its exception and leaves the rows as they were.\<close>

definition commit_db :: "('db \<Rightarrow> exn + 'db) \<Rightarrow> 'db sql_w \<Rightarrow> (exn + unit) \<times> 'db sql_w" where
  "commit_db f w = (case f (sw_db w) of Inl e \<Rightarrow> (Inl e, w) | Inr db \<Rightarrow> (Inr (), w\<lparr>sw_db := db\<rparr>))"

definition sql_create :: "'db task_table \<Rightarrow> agent_task \<Rightarrow> 'db sql_w \<Rightarrow> (exn + agent_task) \<times> 'db sql_w" where
  "sql_create T s =
     bnd (liftS (read_phase (PStr (phase_value (ag_phase s))))) (\<lambda>phase.
     let row = \<lparr>tr_id = ag_id s, tr_objective = ag_objective s, tr_target = ag_target s,
           tr_target_id = ag_target_id s, tr_phase = phase, tr_state_snapshot = state_to_snapshot s,
           tr_updated_at = None\<rparr>
     in sq (commit_db (tb_insert T row)) (liftS (row_to_state row)))"

definition sql_get :: "'db task_table \<Rightarrow> uuid \<Rightarrow> 'db sql_w \<Rightarrow> (exn + agent_task) \<times> 'db sql_w" where
  "sql_get T i =
     bnd (gets (\<lambda>w. tb_get T (sw_db w) i)) (\<lambda>row. case row of
       None \<Rightarrow> raise (sql_not_found i)
     | Some row \<Rightarrow> liftS (row_to_state row))"

definition sql_save :: "'db task_table \<Rightarrow> agent_task \<Rightarrow> 'db sql_w \<Rightarrow> (exn + agent_task) \<times> 'db sql_w" where
  "sql_save T s =
     bnd (gets (\<lambda>w. tb_get T (sw_db w) (ag_id s))) (\<lambda>row. case row of
       None \<Rightarrow> raise (sql_not_found (ag_id s))
     | Some row \<Rightarrow>
         bnd (liftS (read_phase (PStr (phase_value (ag_phase s))))) (\<lambda>phase.
         bnd now (\<lambda>t.
         let row' = row\<lparr>tr_phase := phase, tr_state_snapshot := state_to_snapshot s, tr_updated_at := Some t\<rparr>
         in sq (commit_db (tb_update T row')) (liftS (row_to_state row')))))"

definition sql_list_all :: "'db task_table \<Rightarrow> 'db sql_w \<Rightarrow> (exn + agent_task list) \<times> 'db sql_w" where
  "sql_list_all T = bnd (gets (\<lambda>w. tb_rows T (sw_db w))) (\<lambda>rows. liftS (rmap row_to_state rows))"

definition sql_count_active :: "'db task_table \<Rightarrow> 'db sql_w \<Rightarrow> nat" where
  "sql_count_active T w = length (filter (\<lambda>row. phase_value (tr_phase row) \<notin>
     {''CANCELLED'', ''COMPLETED'', ''FAILED'', ''BLOCKED''}) (tb_rows T (sw_db w)))"

end
