(* ===== verification/Registry_Store.thy ===== *)
theory Registry_Store
  imports Agent_Store
begin

text \<open>
  \<^verbatim>\<open>apps/api/app/db/tool_repository.py\<close> and \<^verbatim>\<open>installation_repository.py\<close>: the registries of tools and
  of installation requests on the database.  A table is a parameter of the model: a lookup by key, an
  insertion that fails when a constraint of the table does (an \<^verbatim>\<open>IntegrityError\<close>), an update, the
  list of its rows, and the clock of the database, which fills in the times a row does not give.  The
  attempts of a request are a relationship that is loaded when it is read: what reading it raises on an
  asynchronous session, which does no such implicit I/O, is a parameter too.
\<close>

section \<open>Members of enumerations\<close>

fun category_value :: "tool_category \<Rightarrow> string" where
  "category_value NETWORK_DIAGNOSTICS = ''network_diagnostics''"
| "category_value WEB_API_TESTING = ''web_api_testing''"
| "category_value VULNERABILITY_ASSESSMENT = ''vulnerability_assessment''"
| "category_value DNS_DOMAIN_ANALYSIS = ''dns_domain_analysis''"
| "category_value INFRASTRUCTURE_DIAGNOSTICS = ''infrastructure_diagnostics''"
| "category_value CLOUD_SECURITY = ''cloud_security''"
| "category_value MOBILE_SECURITY = ''mobile_security''"
| "category_value WIRELESS_DIAGNOSTICS = ''wireless_diagnostics''"
| "category_value PACKET_TRAFFIC_ANALYSIS = ''packet_traffic_analysis''"
| "category_value LOG_ANALYSIS = ''log_analysis''"
| "category_value SYSTEM_DIAGNOSTICS = ''system_diagnostics''"
| "category_value DEFENSIVE_MONITORING = ''defensive_monitoring''"
| "category_value OSINT = ''osint''"
| "category_value DEVELOPER_UTILITIES = ''developer_utilities''"

fun stage_value :: "verification_stage \<Rightarrow> string" where
  "stage_value COLLECT_METADATA = ''collect_metadata''"
| "stage_value VERIFY_SOURCE = ''verify_source''"
| "stage_value VERIFY_VERSION = ''verify_version''"
| "stage_value CHECK_PLATFORM = ''check_platform''"
| "stage_value CHECK_LICENSE = ''check_license''"
| "stage_value CHECK_DEPENDENCIES = ''check_dependencies''"
| "stage_value SECURITY_POLICY_REVIEW = ''security_policy_review''"

fun dependency_value :: "dependency_status \<Rightarrow> string" where
  "dependency_value SATISFIED = ''satisfied''"
| "dependency_value MISSING = ''missing''"
| "dependency_value CONFLICTING = ''conflicting''"
| "dependency_value DEP_UNKNOWN = ''unknown''"

definition read_stage :: "pyval \<Rightarrow> exn + verification_stage" where
  "read_stage = of_value ''VerificationStage'' stage_value
     [COLLECT_METADATA, VERIFY_SOURCE, VERIFY_VERSION, CHECK_PLATFORM, CHECK_LICENSE, CHECK_DEPENDENCIES,
      SECURITY_POLICY_REVIEW]"

definition read_verification_result :: "pyval \<Rightarrow> exn + verification_result" where
  "read_verification_result = of_value ''VerificationResult'' verification_value
     [VERIFIED, UNVERIFIED, FAILED, UNKNOWN]"

text \<open>A dictionary comprehension over the items of a JSON object, which may be absent.\<close>

definition read_items ::
    "(pyval \<Rightarrow> exn + 'k) \<Rightarrow> (pyval \<Rightarrow> exn + 'v) \<Rightarrow> pyval \<Rightarrow> exn + ('k \<times> 'v) list" where
  "read_items f g v =
     (case v of
        PDict d \<Rightarrow> rmap (\<lambda>(k, x). rb (f (PStr k)) (\<lambda>a. rb (g x) (\<lambda>b. Inr (a, b)))) d
      | _ \<Rightarrow> wrong_type v)"

section \<open>Tools\<close>

definition report_to_json :: "verification_report \<Rightarrow> pyval" where
  "report_to_json r = PDict
     [(''results'', PDict (map (\<lambda>(s, x). (stage_value s, PStr (verification_value x))) (vr_results r))),
      (''notes'', PDict (map (\<lambda>(s, n). (stage_value s, PStr n)) (vr_notes r))),
      (''completed_at'', p_otime (vr_completed_at r))]"

definition report_from_json :: "pyval \<Rightarrow> exn + verification_report" where
  "report_from_json data =
     (let d = (case data of PDict d \<Rightarrow> d | _ \<Rightarrow> []) in
      rb (read_items read_stage read_verification_result (get_else ''results'' (PDict []) d)) (\<lambda>results.
      rb (read_items read_stage as_str (get_else ''notes'' (PDict []) d)) (\<lambda>notes.
      rb (dt (dget_or ''completed_at'' PNone d)) (\<lambda>completed.
      Inr \<lparr>vr_results = results, vr_notes = notes, vr_completed_at = completed\<rparr>))))"

record tool_row =
  tw_id :: uuid
  tw_name :: string
  tw_display_name :: string
  tw_description :: string
  tw_category :: tool_category
  tw_capabilities :: "string list"
  tw_supported_platforms :: "string list"
  tw_source_type :: source_type
  tw_source_url :: "string option"
  tw_documentation_url :: "string option"
  tw_repository_url :: "string option"
  tw_publisher :: "string option"
  tw_version :: "string option"
  tw_license :: "string option"
  tw_installation_method :: "string option"
  tw_entrypoint :: "string option"
  tw_dependencies :: "string list"
  tw_required_permissions :: "string list"
  tw_risk_level :: risk_tier
  tw_approval_requirement :: approval_requirement
  tw_trust_status :: trust_status
  tw_verification_report :: pyval
  tw_discovered_version :: "string option"
  tw_discovered_at :: time
  tw_created_at :: time
  tw_updated_at :: time

definition row_to_record :: "tool_row \<Rightarrow> exn + tool_record" where
  "row_to_record row =
     rb (report_from_json (tw_verification_report row)) (\<lambda>report.
     Inr \<lparr>tl_id = tw_id row, tl_name = tw_name row, tl_display_name = tw_display_name row,
       tl_description = tw_description row, tl_category = tw_category row,
       tl_capabilities = tw_capabilities row, tl_supported_platforms = tw_supported_platforms row,
       tl_provenance = \<lparr>pv_source_type = tw_source_type row, pv_source_url = tw_source_url row,
         pv_repository_url = tw_repository_url row, pv_documentation_url = tw_documentation_url row,
         pv_publisher = tw_publisher row, pv_discovered_version = tw_discovered_version row,
         pv_discovered_at = tw_discovered_at row\<rparr>,
       tl_version = tw_version row, tl_license = tw_license row,
       tl_installation_method = tw_installation_method row, tl_entrypoint = tw_entrypoint row,
       tl_dependencies = tw_dependencies row, tl_required_permissions = tw_required_permissions row,
       tl_risk_level = tw_risk_level row, tl_approval_requirement = USER_APPROVAL,
       tl_trust_status = tw_trust_status row, tl_verification = report,
       tl_created_at = tw_created_at row, tl_updated_at = tw_updated_at row\<rparr>)"

text \<open>The columns the row does not give: the default of the approval requirement and the times.\<close>

definition record_to_row :: "time \<Rightarrow> tool_record \<Rightarrow> tool_row" where
  "record_to_row t r =
     \<lparr>tw_id = tl_id r, tw_name = tl_name r, tw_display_name = tl_display_name r,
      tw_description = tl_description r, tw_category = tl_category r, tw_capabilities = tl_capabilities r,
      tw_supported_platforms = tl_supported_platforms r,
      tw_source_type = pv_source_type (tl_provenance r), tw_source_url = pv_source_url (tl_provenance r),
      tw_documentation_url = pv_documentation_url (tl_provenance r),
      tw_repository_url = pv_repository_url (tl_provenance r),
      tw_publisher = pv_publisher (tl_provenance r), tw_version = tl_version r, tw_license = tl_license r,
      tw_installation_method = tl_installation_method r, tw_entrypoint = tl_entrypoint r,
      tw_dependencies = tl_dependencies r, tw_required_permissions = tl_required_permissions r,
      tw_risk_level = tl_risk_level r, tw_approval_requirement = USER_APPROVAL,
      tw_trust_status = tl_trust_status r, tw_verification_report = report_to_json (tl_verification r),
      tw_discovered_version = pv_discovered_version (tl_provenance r),
      tw_discovered_at = pv_discovered_at (tl_provenance r), tw_created_at = t, tw_updated_at = t\<rparr>"

record 'db tool_table =
  tt_get :: "'db \<Rightarrow> uuid \<Rightarrow> tool_row option"
  tt_by_name :: "'db \<Rightarrow> string \<Rightarrow> tool_row option"
  tt_add :: "tool_row \<Rightarrow> 'db \<Rightarrow> 'db option"
  tt_put :: "tool_row \<Rightarrow> 'db \<Rightarrow> 'db"
  tt_rows :: "'db \<Rightarrow> tool_row list"
  tt_now :: "'db \<Rightarrow> time"

definition tsql_create :: "'db tool_table \<Rightarrow> tool_record \<Rightarrow> 'db sql_w \<Rightarrow> (exn + tool_record) \<times> 'db sql_w" where
  "tsql_create T tool =
     bnd (gets sw_db) (\<lambda>db.
     let row = record_to_row (tt_now T db) tool in
     case tt_add T row db of
       None \<Rightarrow> raise (DuplicateToolError (''A tool named '' @ quoted (tl_name tool) @ '' is already registered.''))
     | Some db' \<Rightarrow> sq (modify (\<lambda>w. w\<lparr>sw_db := db'\<rparr>)) (liftS (row_to_record row)))"

definition tsql_row :: "'db tool_table \<Rightarrow> uuid \<Rightarrow> 'db sql_w \<Rightarrow> (exn + tool_row) \<times> 'db sql_w" where
  "tsql_row T i =
     bnd (gets (\<lambda>w. tt_get T (sw_db w) i)) (\<lambda>row. case row of
       None \<Rightarrow> raise (ToolNotFoundError (''Tool '' @ uuid_str i @ '' was not found.''))
     | Some row \<Rightarrow> ret row)"

definition tsql_get :: "'db tool_table \<Rightarrow> uuid \<Rightarrow> 'db sql_w \<Rightarrow> (exn + tool_record) \<times> 'db sql_w" where
  "tsql_get T i = bnd (tsql_row T i) (\<lambda>row. liftS (row_to_record row))"

definition tsql_get_by_name ::
    "'db tool_table \<Rightarrow> string \<Rightarrow> 'db sql_w \<Rightarrow> (exn + tool_record option) \<times> 'db sql_w" where
  "tsql_get_by_name T name =
     bnd (gets (\<lambda>w. tt_by_name T (sw_db w) name)) (\<lambda>row. case row of
       None \<Rightarrow> ret None
     | Some row \<Rightarrow> bnd (liftS (row_to_record row)) (\<lambda>t. ret (Some t)))"

definition tsql_list ::
    "'db tool_table \<Rightarrow> tool_category option \<Rightarrow> string option \<Rightarrow> trust_status option \<Rightarrow> string option \<Rightarrow>
     'db sql_w \<Rightarrow> (exn + tool_record list) \<times> 'db sql_w" where
  "tsql_list T category platform trust search =
     bnd (gets (\<lambda>w. opt_filter trust (\<lambda>s row. tw_trust_status row = s)
       (opt_filter category (\<lambda>c row. tw_category row = c) (tt_rows T (sw_db w))))) (\<lambda>rows.
     bnd (liftS (rmap row_to_record rows)) (\<lambda>records.
     let r1 = opt_filter platform (\<lambda>p t. p \<in> set (tl_supported_platforms t)) records
     in ret (case search of None \<Rightarrow> r1 | Some s \<Rightarrow> if s = [] then r1 else filter (matches_search s) r1)))"

definition tsql_update ::
    "'db tool_table \<Rightarrow> uuid \<Rightarrow> (tool_row \<Rightarrow> tool_row) \<Rightarrow> 'db sql_w \<Rightarrow> (exn + tool_record) \<times> 'db sql_w" where
  "tsql_update T i f =
     bnd (tsql_row T i) (\<lambda>row. bnd now (\<lambda>t.
     let row' = (f row)\<lparr>tw_updated_at := t\<rparr>
     in sq (modify (\<lambda>w. w\<lparr>sw_db := tt_put T row' (sw_db w)\<rparr>)) (liftS (row_to_record row'))))"

definition tsql_update_trust_status ::
    "'db tool_table \<Rightarrow> uuid \<Rightarrow> trust_status \<Rightarrow> 'db sql_w \<Rightarrow> (exn + tool_record) \<times> 'db sql_w" where
  "tsql_update_trust_status T i status = tsql_update T i (\<lambda>row. row\<lparr>tw_trust_status := status\<rparr>)"

definition tsql_record_verification ::
    "'db tool_table \<Rightarrow> uuid \<Rightarrow> verification_report \<Rightarrow> 'db sql_w \<Rightarrow> (exn + tool_record) \<times> 'db sql_w" where
  "tsql_record_verification T i report =
     tsql_update T i (\<lambda>row. row\<lparr>tw_verification_report := report_to_json report\<rparr>)"

section \<open>Installation requests\<close>

definition p_obool :: "bool option \<Rightarrow> pyval" where
  "p_obool x = (case x of None \<Rightarrow> PNone | Some b \<Rightarrow> PBool b)"

definition as_obool :: "pyval \<Rightarrow> exn + bool option" where
  "as_obool v = (case v of PNone \<Rightarrow> Inr None | PBool b \<Rightarrow> Inr (Some b) | _ \<Rightarrow> wrong_type v)"

definition plan_to_json :: "installation_plan option \<Rightarrow> pyval" where
  "plan_to_json plan = (case plan of None \<Rightarrow> PNone | Some p \<Rightarrow> PDict
     [(''toolId'', p_uuid (pn_tool_id p)), (''toolName'', PStr (pn_tool_name p)),
      (''platform'', PStr (pn_platform p)), (''architecture'', PStr (pn_architecture p)),
      (''version'', p_ostr (pn_version p)), (''packageManager'', PStr (pm_value (pn_package_manager p))),
      (''dependencies'', PList (map (\<lambda>d. PDict [(''name'', PStr (dp_name d)),
         (''status'', PStr (dependency_value (dp_status d))), (''note'', PStr (dp_note d))]) (pn_dependencies p))),
      (''prerequisites'', p_strs (pn_prerequisites p)),
      (''requiredPermissions'', p_strs (pn_required_permissions p)),
      (''installationSteps'', PList (map (\<lambda>s. PDict [(''description'', PStr (st_description s)),
         (''packageManager'', PStr (pm_value (st_package_manager s))), (''actionType'', PStr (st_action_type s)),
         (''packageName'', PStr (st_package_name s)), (''version'', p_ostr (st_version s))])
         (pn_installation_steps p))),
      (''verificationSteps'', p_strs (pn_verification_steps p)),
      (''riskLevel'', PStr (risk_value (pn_risk_level p))),
      (''approvalRequired'', PBool (pn_approval_required p)),
      (''estimatedChanges'', p_strs (pn_estimated_changes p)),
      (''rollbackInformation'', PStr (pn_rollback_information p)),
      (''generatedAt'', p_time (pn_generated_at p))])"

definition verification_to_json :: "installation_verification option \<Rightarrow> pyval" where
  "verification_to_json x = (case x of None \<Rightarrow> PNone | Some v \<Rightarrow> PDict
     [(''executableFound'', p_obool (vf_executable_found v)), (''versionOutput'', p_ostr (vf_version_output v)),
      (''checks'', PDict (map (\<lambda>(k, c). (k, PStr c)) (vf_checks v))), (''verified'', PBool (vf_verified v))])"

definition verification_from_json :: "pyval \<Rightarrow> exn + installation_verification option" where
  "verification_from_json data =
     (if \<not> p_truthy data then Inr None
      else as_obj (\<lambda>d.
        rb (as_obool (dget_or ''executableFound'' PNone d)) (\<lambda>found.
        rb (as_ostr (dget_or ''versionOutput'' PNone d)) (\<lambda>output.
        rb (as_dict as_str (get_else ''checks'' (PDict []) d)) (\<lambda>checks.
        rb (as_bool (dget_or ''verified'' (PBool False) d)) (\<lambda>verified.
        Inr (Some \<lparr>vf_executable_found = found, vf_version_output = output, vf_checks = checks,
          vf_verified = verified\<rparr>)))))) data)"

record request_row =
  rw_id :: uuid
  rw_tool_id :: uuid
  rw_target_id :: "uuid option"
  rw_session_id :: "uuid option"
  rw_requested_by :: "string option"
  rw_state :: installation_state
  rw_plan :: pyval
  rw_approved_by :: "string option"
  rw_approved_at :: "time option"
  rw_rejection_reason :: "string option"
  rw_verification :: pyval
  rw_error_message :: "string option"
  rw_attempts :: "installation_attempt list"
  rw_created_at :: time
  rw_updated_at :: time

record installed_row =
  iw_tool_id :: uuid
  iw_request_id :: uuid
  iw_platform :: string
  iw_package_manager :: string
  iw_installed_version :: "string option"
  iw_verification :: pyval

text \<open>
  The tables: the requests by key, the tools and the targets a request may refer to, the commit of a new
  request, and of a changed one with its new attempts and the row of an installed tool, both of which the
  database may refuse; what reading the attempts of a row raises, if anything; the rows; the rows of
  installed tools; and the clock.
\<close>

record 'db request_table =
  rt_get :: "'db \<Rightarrow> uuid \<Rightarrow> request_row option"
  rt_tool :: "'db \<Rightarrow> uuid \<Rightarrow> bool"
  rt_target :: "'db \<Rightarrow> uuid \<Rightarrow> bool"
  rt_insert :: "request_row \<Rightarrow> 'db \<Rightarrow> exn + 'db"
  rt_update :: "request_row \<Rightarrow> installed_row option \<Rightarrow> 'db \<Rightarrow> exn + 'db"
  rt_lazy :: "exn option"
  rt_rows :: "'db \<Rightarrow> request_row list"
  rt_installed :: "'db \<Rightarrow> uuid \<Rightarrow> installed_row option"
  rt_now :: "'db \<Rightarrow> time"

text \<open>\<^verbatim>\<open>row.attempts\<close>.\<close>

definition read_attempts :: "'db request_table \<Rightarrow> request_row \<Rightarrow> exn + installation_attempt list" where
  "read_attempts T row = (case rt_lazy T of Some e \<Rightarrow> Inl e | None \<Rightarrow> Inr (rw_attempts row))"

definition row_to_request :: "'db request_table \<Rightarrow> request_row \<Rightarrow> exn + installation_request" where
  "row_to_request T row =
     rb (verification_from_json (rw_verification row)) (\<lambda>v.
     rb (read_attempts T row) (\<lambda>attempts.
     Inr \<lparr>ir_id = rw_id row, ir_tool_id = rw_tool_id row, ir_target_id = rw_target_id row,
       ir_session_id = rw_session_id row, ir_requested_by = rw_requested_by row, ir_plan = None,
       ir_state = rw_state row, ir_approved_by = rw_approved_by row, ir_approved_at = rw_approved_at row,
       ir_rejection_reason = rw_rejection_reason row, ir_attempts = sort_key at_number attempts,
       ir_verification = v, ir_error_message = rw_error_message row, ir_created_at = rw_created_at row,
       ir_updated_at = rw_updated_at row\<rparr>))"

definition new_request_row :: "time \<Rightarrow> installation_request \<Rightarrow> request_row" where
  "new_request_row t r =
     \<lparr>rw_id = ir_id r, rw_tool_id = ir_tool_id r, rw_target_id = ir_target_id r,
      rw_session_id = ir_session_id r, rw_requested_by = ir_requested_by r, rw_state = ir_state r,
      rw_plan = plan_to_json (ir_plan r), rw_approved_by = ir_approved_by r,
      rw_approved_at = ir_approved_at r, rw_rejection_reason = ir_rejection_reason r,
      rw_verification = verification_to_json (ir_verification r),
      rw_error_message = ir_error_message r, rw_attempts = [], rw_created_at = t, rw_updated_at = t\<rparr>"

definition isql_create ::
    "'db request_table \<Rightarrow> installation_request \<Rightarrow> 'db sql_w \<Rightarrow> (exn + installation_request) \<times> 'db sql_w" where
  "isql_create T r =
     bnd (gets sw_db) (\<lambda>db.
     let row = new_request_row (rt_now T db) r
     in sq (commit_db (rt_insert T row)) (liftS (row_to_request T row)))"

definition isql_row :: "'db request_table \<Rightarrow> uuid \<Rightarrow> 'db sql_w \<Rightarrow> (exn + request_row) \<times> 'db sql_w" where
  "isql_row T i =
     bnd (gets (\<lambda>w. rt_get T (sw_db w) i)) (\<lambda>row. case row of
       None \<Rightarrow> raise (InstallationNotFoundError (''Installation request '' @ uuid_str i @ '' was not found.''))
     | Some row \<Rightarrow> ret row)"

definition isql_get ::
    "'db request_table \<Rightarrow> uuid \<Rightarrow> 'db sql_w \<Rightarrow> (exn + installation_request) \<times> 'db sql_w" where
  "isql_get T i = bnd (isql_row T i) (\<lambda>row. liftS (row_to_request T row))"

text \<open>The attempts of a request that have no row yet are added.\<close>

definition merged_attempts :: "installation_attempt list \<Rightarrow> installation_attempt list \<Rightarrow> installation_attempt list" where
  "merged_attempts stored attempts =
     stored @ filter (\<lambda>a. at_number a \<notin> set (map at_number stored)) attempts"

text \<open>The row of an installed tool to add, if there is none and the plan is at hand.\<close>

definition record_installed ::
    "'db request_table \<Rightarrow> installation_request \<Rightarrow> 'db \<Rightarrow> installed_row option" where
  "record_installed T r db =
     (if ir_state r = IS_INSTALLED then
        (case (rt_installed T db (ir_id r), ir_plan r) of
           (None, Some plan) \<Rightarrow> Some
             \<lparr>iw_tool_id = ir_tool_id r, iw_request_id = ir_id r, iw_platform = pn_platform plan,
              iw_package_manager = pm_value (pn_package_manager plan),
              iw_installed_version = pn_version plan,
              iw_verification = (let v = verification_to_json (ir_verification r)
                                 in if p_truthy v then v else PDict [])\<rparr>
         | _ \<Rightarrow> None)
      else None)"

definition isql_save ::
    "'db request_table \<Rightarrow> installation_request \<Rightarrow> 'db sql_w \<Rightarrow> (exn + installation_request) \<times> 'db sql_w" where
  "isql_save T r =
     bnd (isql_row T (ir_id r)) (\<lambda>row. bnd now (\<lambda>t.
     bnd (liftS (read_attempts T row)) (\<lambda>stored.
     let row' = row\<lparr>rw_session_id := ir_session_id r, rw_state := ir_state r,
           rw_plan := plan_to_json (ir_plan r), rw_approved_by := ir_approved_by r,
           rw_approved_at := ir_approved_at r, rw_rejection_reason := ir_rejection_reason r,
           rw_verification := verification_to_json (ir_verification r),
           rw_error_message := ir_error_message r, rw_updated_at := t,
           rw_attempts := merged_attempts stored (ir_attempts r)\<rparr>
     in bnd (gets (\<lambda>w. record_installed T r (sw_db w))) (\<lambda>installed.
        sq (commit_db (rt_update T row' installed)) (liftS (row_to_request T row'))))))"

definition isql_list_for_tool ::
    "'db request_table \<Rightarrow> uuid \<Rightarrow> 'db sql_w \<Rightarrow> (exn + installation_request list) \<times> 'db sql_w" where
  "isql_list_for_tool T i =
     bnd (gets (\<lambda>w. filter (\<lambda>row. rw_tool_id row = i) (rt_rows T (sw_db w)))) (\<lambda>rows.
     liftS (rmap (row_to_request T) rows))"

definition isql_list_installed ::
    "'db request_table \<Rightarrow> 'db sql_w \<Rightarrow> (exn + installation_request list) \<times> 'db sql_w" where
  "isql_list_installed T =
     bnd (gets (\<lambda>w. filter (\<lambda>row. rw_state row = IS_INSTALLED) (rt_rows T (sw_db w)))) (\<lambda>rows.
     liftS (rmap (row_to_request T) rows))"

definition isql_list_all ::
    "'db request_table \<Rightarrow> 'db sql_w \<Rightarrow> (exn + installation_request list) \<times> 'db sql_w" where
  "isql_list_all T = bnd (gets (\<lambda>w. rt_rows T (sw_db w))) (\<lambda>rows. liftS (rmap (row_to_request T) rows))"

end
