(* ===== verification/Agent_Lifecycle.thy ===== *)
theory Agent_Lifecycle
  imports Agent
begin

text \<open>
  What holds of every reachable agent task: its budgets, the approval and the authorization behind each
  process it starts, the finality of its terminal phases, and that stepping it comes to rest.
\<close>

section \<open>What an action leaves alone\<close>

text \<open>The parts of the world that only the handlers of the orchestrator write.\<close>

definition agent_kept :: "agent_w \<Rightarrow> agent_w \<Rightarrow> bool" where
  "agent_kept w w' \<longleftrightarrow> aw_budget w' = aw_budget w \<and> aw_generate w' = aw_generate w \<and>
     aw_validate w' = aw_validate w \<and> aw_tasks w' = aw_tasks w"

text \<open>The same, and no process is created.\<close>

definition agent_quiet :: "agent_w \<Rightarrow> agent_w \<Rightarrow> bool" where
  "agent_quiet w w' \<longleftrightarrow> agent_kept w w' \<and> os_calls w' = os_calls w"

interpretation akp: step_rel agent_kept
  by unfold_locales (auto simp: agent_kept_def)

interpretation aqt: step_rel agent_quiet
  by unfold_locales (auto simp: agent_quiet_def agent_kept_def)

lemma quiet_prims:
  "keeps agent_quiet now" "keeps agent_quiet uuid4" "keeps agent_quiet (audit_emit t sid cid tid d)"
  "keeps agent_quiet (session_emit t se)" "keeps agent_quiet (set_session i se)"
  "keeps agent_quiet resolve_adapter" "keeps agent_quiet monotonic" "keeps agent_quiet (sleep n)"
  "keeps agent_quiet note_call" "keeps agent_quiet (upd_session j f)"
  "keeps agent_quiet (agent_emit s t d)" "keeps agent_quiet (ir_save r)" "keeps agent_quiet (ir_create r)"
  "keeps agent_quiet (install_emit t r d)" "keeps agent_quiet (tool_emit t d)"
  "keeps agent_quiet (modify (\<lambda>w. w\<lparr>td_last_provider_call_at := t1, td_cache := g w\<rparr>))"
  "keeps agent_quiet (modify (\<lambda>w. w\<lparr>aw_healing := h\<rparr>))"
  "keeps agent_quiet (modify (\<lambda>w. w\<lparr>aw_prompts := g2 w\<rparr>))"
  by (auto simp: keeps_def agent_quiet_def agent_kept_def now_def uuid4_def session_emit_def
      set_session_def resolve_adapter_def monotonic_def sleep_def note_call_def upd_session_def modify_def
      agent_emit_def ir_save_def ir_create_def install_emit_def tool_emit_def ret_def Let_def)

lemmas quiet_intros = aqt.keeps_intros quiet_prims

lemma reap_expired_quiet: "keeps agent_quiet reap_expired"
  unfolding reap_expired_def reap_one_def by (intro quiet_intros)

lemma create_session_quiet: "keeps agent_quiet (create_session tid wd)"
  unfolding create_session_def sm_create_session_def Let_def
  by (intro quiet_intros reap_expired_quiet)

lemma collect_matches_quiet: "keeps agent_quiet (collect_matches capability needle es)"
  by (induction capability needle es rule: collect_matches.induct) (auto intro!: quiet_intros)

lemma discover_quiet: "keeps agent_quiet (discover (curated_search t0) cfg capability)"
  unfolding discover_def query_provider_def curated_search_def emit_discovered_def Let_def
  by (intro quiet_intros collect_matches_quiet)

lemma check_readiness_quiet: "keeps agent_quiet (check_readiness tool_id ts platform)"
  unfolding check_readiness_def by (intro quiet_intros)

lemma block_request_quiet: "keeps agent_quiet (block_request r m)"
  unfolding block_request_def Let_def by (intro quiet_intros)

lemma request_installation_quiet: "keeps agent_quiet (request_installation tool_id ts platform by)"
  unfolding request_installation_def Let_def settle_request_def build_plan_def
  by (intro quiet_intros check_readiness_quiet block_request_quiet)

lemma approve_request_quiet: "keeps agent_quiet (approve_request i by)"
  unfolding approve_request_def ir_get_def by (intro quiet_intros)

lemma quiet_kept: "keeps agent_quiet m \<Longrightarrow> keeps agent_kept m"
  by (simp add: keeps_def agent_quiet_def)

lemma execute_kept: "keeps agent_kept (execute rq)"
proof (rule keeps_mono [OF execute_frame])
  show "agent_kept w w'" if "term_frame w w'" for w w' :: agent_w
    using that by (cases w; cases w') (simp add: term_frame_def agent_kept_def)
qed

lemmas kept_prims = quiet_prims [THEN quiet_kept]

lemma kept_running: "keeps agent_kept (modify (\<lambda>w. w\<lparr>in_running_commands := g w\<rparr>))"
  by (simp add: keeps_def modify_def agent_kept_def)

lemmas kept_intros = akp.keeps_intros kept_prims kept_running execute_kept

lemma run_attempt_kept: "keeps agent_kept (run_attempt r st plan session_id ts n)"
  unfolding run_attempt_def Let_def by (intro kept_intros)

lemma attempt_loop_kept: "keeps agent_kept (attempt_loop k r st plan session_id ts n err)"
proof (induction k arbitrary: r n err)
  case (Suc k)
  show ?case
    unfolding attempt_loop.simps
    by (rule akp.keeps_bnd [OF run_attempt_kept])
      (auto split: attempt_outcome.split intro: kept_intros Suc)
qed (auto intro: kept_intros)

lemma conclude_attempts_kept: "keeps agent_kept (conclude_attempts tool st session_id ts outcome)"
  unfolding conclude_attempts_def verify_installation_def Let_def
  by (cases outcome) (auto intro!: kept_intros)

lemma start_installation_kept: "keeps agent_kept (start_installation i session_id ts)"
  unfolding start_installation_def run_installation_def Let_def ir_get_def tool_get_def
  by (intro kept_intros attempt_loop_kept conclude_attempts_kept)

lemma heal_quiet: "keeps agent_quiet (heal c i a s h)"
  unfolding heal_def diagnose_def new_diagnosis_def propose_def strategy_def Let_def
  by (intro quiet_intros)

section \<open>What an action returns\<close>

definition returns :: "('a \<Rightarrow> bool) \<Rightarrow> ('w \<Rightarrow> ('e + 'a) \<times> 'w) \<Rightarrow> bool" where
  "returns P m \<longleftrightarrow> (\<forall>w x. fst (m w) = Inr x \<longrightarrow> P x)"

lemma returns_ret: "P x \<Longrightarrow> returns P (ret x)"
  by (simp add: returns_def ret_def)

lemma returns_raise: "returns P (raise e)"
  by (simp add: returns_def raise_def)

lemma returns_liftS: "(\<And>x. r = Inr x \<Longrightarrow> P x) \<Longrightarrow> returns P (liftS r)"
  by (simp add: returns_def liftS_def)

lemma returns_bnd: "returns Q m \<Longrightarrow> (\<And>x. Q x \<Longrightarrow> returns P (f x)) \<Longrightarrow> returns P (bnd m f)"
  unfolding returns_def bnd_def by (auto split: prod.splits sum.splits) (metis fst_conv)

lemma returns_any: "returns (\<lambda>_. True) m"
  by (simp add: returns_def)

lemma returns_bnd': "(\<And>x. returns P (f x)) \<Longrightarrow> returns P (bnd m f)"
  by (rule returns_bnd [OF returns_any])

lemma returns_sq: "returns P k \<Longrightarrow> returns P (sq m k)"
  unfolding sq_def by (rule returns_bnd')

lemma returns_if: "(b \<Longrightarrow> returns P m) \<Longrightarrow> (\<not> b \<Longrightarrow> returns P n) \<Longrightarrow> returns P (if b then m else n)"
  by simp

lemma returns_option:
  "(x = None \<Longrightarrow> returns P m) \<Longrightarrow> (\<And>y. x = Some y \<Longrightarrow> returns P (f y)) \<Longrightarrow>
   returns P (case x of None \<Rightarrow> m | Some y \<Rightarrow> f y)"
  by (cases x) auto

lemma returns_prod: "(\<And>a b. x = (a, b) \<Longrightarrow> returns P (f a b)) \<Longrightarrow> returns P (case x of (a, b) \<Rightarrow> f a b)"
  by (cases x) auto

lemmas returns_intros = returns_ret returns_raise returns_if returns_option returns_prod

lemma wp_keeps_returns:
  "keeps R m \<Longrightarrow> returns P m \<Longrightarrow> (\<And>x w'. R w w' \<Longrightarrow> (\<And>y. x = Inr y \<Longrightarrow> P y) \<Longrightarrow> Q x w') \<Longrightarrow> wp m Q w"
  by (auto simp: wp_def keeps_def returns_def)

text \<open>The part of an action that nothing changes once it has been built and approved.\<close>

definition act_key :: "agent_action \<Rightarrow> uuid \<times> action_type \<times> pyval \<times> bool \<times> approval_state" where
  "act_key a = (aa_id a, aa_action_type a, aa_target a, aa_requires_approval a, aa_approval_state a)"

definition task_kept :: "agent_task \<Rightarrow> agent_task \<Rightarrow> bool" where
  "task_kept s s' \<longleftrightarrow> ag_id s' = ag_id s \<and> ag_authorization_status s' = ag_authorization_status s \<and>
     ag_target s' = ag_target s \<and> ag_phase s' = ag_phase s \<and>
     ag_pending_action_id s' = ag_pending_action_id s \<and> ag_action_count s' = ag_action_count s \<and>
     ag_model_call_count s' = ag_model_call_count s \<and>
     ag_retry_count_by_action s' = ag_retry_count_by_action s \<and>
     map act_key (ag_actions s') = map act_key (ag_actions s)"

lemma task_kept_refl: "task_kept s s"
  by (simp add: task_kept_def)

lemma map_key_update:
  "act_key a = act_key (xs ! k) \<Longrightarrow> map act_key (xs[k := a]) = map act_key xs"
  by (cases "k < length xs") (simp_all add: map_update list_update_same_conv list_update_beyond)

fun task_of :: "act_result \<Rightarrow> agent_task" where
  "task_of (Act_Done s) = s"
| "task_of (Act_Failure s c m) = s"

definition act_ok :: "nat \<Rightarrow> agent_task \<Rightarrow> act_result \<Rightarrow> bool" where
  "act_ok n s x \<longleftrightarrow> task_kept s (task_of x) \<and> ag_installation_count (task_of x) \<le> max (ag_installation_count s) n"

lemma act_ok_failure: "act_ok n s (Act_Failure s c m)"
  by (simp add: act_ok_def task_kept_refl)

lemma returns_note:
  assumes "k < length (ag_actions s0)" and "task_kept s s0"
    and "ag_installation_count s0 \<le> max (ag_installation_count s) n"
  shows "returns (act_ok n s) (note_observation s0 k summary)"
  unfolding note_observation_def
  using assms
  by (intro returns_bnd' returns_ret)
    (auto simp: act_ok_def task_kept_def set_result_def upd_action_def map_key_update act_key_def)

lemma kept_length: "task_kept s s' \<Longrightarrow> length (ag_actions s') = length (ag_actions s)"
  by (metis length_map task_kept_def)

lemma do_check_environment_ok:
  "k < length (ag_actions s) \<Longrightarrow> returns (act_ok n s) (do_check_environment s k)"
  unfolding do_check_environment_def Let_def
  by (intro returns_bnd' returns_note) (auto simp: task_kept_refl)

lemma do_discover_target_ok:
  "k < length (ag_actions s) \<Longrightarrow> returns (act_ok n s) (do_discover_target s k)"
  unfolding do_discover_target_def
  by (intro returns_intros returns_note act_ok_failure) (auto simp: task_kept_refl)

lemma do_research_tool_ok:
  "k < length (ag_actions s) \<Longrightarrow> returns (act_ok n s) (do_research_tool s k)"
  unfolding do_research_tool_def Let_def
  by (intro returns_intros returns_bnd' returns_note act_ok_failure) (auto simp: task_kept_def)

lemma do_run_diagnostic_ok:
  "k < length (ag_actions s) \<Longrightarrow> returns (act_ok n s) (do_run_diagnostic s k ts)"
  unfolding do_run_diagnostic_def diagnostic_result_def Let_def
  by (intro returns_intros returns_bnd' returns_note act_ok_failure) (auto simp: task_kept_def)

lemma act_ok_done:
  "k < length (ag_actions s) \<Longrightarrow> task_kept s s1 \<Longrightarrow> ag_installation_count s1 = ag_installation_count s \<Longrightarrow>
   act_ok n s (Act_Done (set_result k m s1))"
  using kept_length [of s s1]
  by (auto simp: act_ok_def task_kept_def set_result_def upd_action_def map_key_update act_key_def)

lemma do_analyze_ok: "k < length (ag_actions s) \<Longrightarrow> returns (act_ok n s) (do_analyze s k)"
  unfolding do_analyze_def
  by (intro returns_intros returns_bnd' act_ok_failure act_ok_done) (auto simp: task_kept_def)

lemma do_verify_ok: "k < length (ag_actions s) \<Longrightarrow> returns (act_ok n s) (do_verify s k)"
  unfolding do_verify_def Let_def
  by (intro returns_intros returns_bnd' act_ok_failure act_ok_done) (auto simp: task_kept_def)

lemma finish_install_ok:
  assumes "k < length (ag_actions s)" and "ag_installation_count s < n"
  shows "returns (act_ok n s) (finish_install s k tool ts request)"
  unfolding finish_install_def Let_def
  by (intro returns_intros returns_bnd' returns_note)
    (use assms in \<open>auto simp: act_ok_def task_kept_def\<close>)

section \<open>One action, from start to save\<close>

lemma wp_task_save [wps]:
  "wp (task_save s) Q w = Q (Inr (s\<lparr>ag_updated_at := rt_clock w (rt_ticks w)\<rparr>))
     (w\<lparr>rt_ticks := Suc (rt_ticks w),
        aw_tasks := dset (ag_id s) (s\<lparr>ag_updated_at := rt_clock w (rt_ticks w)\<rparr>) (aw_tasks w)\<rparr>)"
  by (simp add: wp_def task_save_def ret_def Let_def)

lemma wp_agent_emit [wps]:
  "wp (agent_emit s t d) Q w = Q (Inr ()) (w\<lparr>rt_uuids := Suc (rt_uuids w), rt_ticks := Suc (rt_ticks w),
     aw_events := aw_events w @ [\<lparr>ge_id = rt_uuid w (rt_uuids w), ge_task_id = ag_id s, ge_event_type = t,
       ge_data = d, ge_created_at = rt_clock w (rt_ticks w)\<rparr>]\<rparr>)"
  by (simp add: wp_def agent_emit_def modify_def)

lemma wp_add_recovery [wps]:
  "wp (add_recovery s i c k) Q w = Q (Inr (s\<lparr>ag_recovery_attempts := ag_recovery_attempts s @
     [\<lparr>ra_action_id = i, ra_error_category = c, ra_strategy = k, ra_id = rt_uuid w (rt_uuids w),
       ra_outcome = ''pending'', ra_created_at = rt_clock w (rt_ticks w)\<rparr>]\<rparr>))
     (w\<lparr>rt_uuids := Suc (rt_uuids w), rt_ticks := Suc (rt_ticks w)\<rparr>)"
  by (simp add: add_recovery_def new_recovery_def wps)

lemma wp_new_agent_error:
  "wp (new_agent_error i c m) Q w = Q (Inr \<lparr>ae_id = rt_uuid w (rt_uuids w), ae_action_id = i,
     ae_category = c, ae_message = m, ae_created_at = rt_clock w (rt_ticks w)\<rparr>)
     (w\<lparr>rt_uuids := Suc (rt_uuids w), rt_ticks := Suc (rt_ticks w)\<rparr>)"
  by (simp add: new_agent_error_def wps)

text \<open>
  How a task stands after an action: \<open>moved n s w w' s'\<close> says that only it changed, and that it is now
  \<open>s'\<close>, the same task as \<open>s\<close> up to what an action may record.
\<close>

definition same_task :: "budget_config \<Rightarrow> agent_task \<Rightarrow> agent_task \<Rightarrow> bool" where
  "same_task c s s' \<longleftrightarrow> ag_id s' = ag_id s \<and> ag_authorization_status s' = ag_authorization_status s \<and>
     ag_target s' = ag_target s \<and> ag_action_count s' = ag_action_count s \<and>
     ag_model_call_count s' = ag_model_call_count s \<and>
     map act_key (ag_actions s') = map act_key (ag_actions s) \<and>
     ag_installation_count s' \<le> max (ag_installation_count s) (bc_max_tool_installations c) \<and>
     (\<forall>k. retries_of s' k \<le> max (retries_of s k) (bc_max_retries_per_action c))"

definition only_task :: "uuid \<Rightarrow> agent_w \<Rightarrow> agent_w \<Rightarrow> bool" where
  "only_task i w w' \<longleftrightarrow> aw_budget w' = aw_budget w \<and> aw_generate w' = aw_generate w \<and>
     aw_validate w' = aw_validate w \<and>
     (\<forall>j. j \<noteq> i \<longrightarrow> map_of (aw_tasks w') j = map_of (aw_tasks w) j)"

definition moved :: "agent_task \<Rightarrow> agent_w \<Rightarrow> agent_w \<Rightarrow> agent_task \<Rightarrow> bool" where
  "moved s w w' s' \<longleftrightarrow> only_task (ag_id s) w w' \<and> map_of (aw_tasks w') (ag_id s) = Some s' \<and>
     same_task (aw_budget w) s s'"

lemma kept_only: "agent_kept w w' \<Longrightarrow> only_task i w w'"
  by (simp add: agent_kept_def only_task_def)

lemma only_trans: "only_task i w w1 \<Longrightarrow> only_task i w1 w2 \<Longrightarrow> only_task i w w2"
  by (simp add: only_task_def)

lemma kept_same: "task_kept s s' \<Longrightarrow> ag_installation_count s' \<le> max (ag_installation_count s) (bc_max_tool_installations c) \<Longrightarrow>
  same_task c s s'"
  by (simp add: task_kept_def same_task_def retries_of_def)

lemma same_trans: "same_task c s s1 \<Longrightarrow> same_task c s1 s2 \<Longrightarrow> same_task c s s2"
proof -
  have le: "x \<le> max y n \<Longrightarrow> y \<le> max z n \<Longrightarrow> x \<le> max z n" for x y z n :: nat
    by (auto simp: max_def split: if_splits)
  assume "same_task c s s1" and "same_task c s1 s2"
  then show ?thesis unfolding same_task_def by (auto intro: le)
qed

lemma retries_of_set:
  "retries_of (s\<lparr>ag_retry_count_by_action := dset k n d\<rparr>) j =
     (if j = k then n else retries_of (s\<lparr>ag_retry_count_by_action := d\<rparr>) j)"
  by (simp add: retries_of_def map_of_update)

text \<open>The phases an action can leave a task in.\<close>

definition settled :: "agent_task \<Rightarrow> bool" where
  "settled s \<longleftrightarrow> ag_phase s \<noteq> Ph_PREPARING"

lemma adapt_post:
  "wp (adapt s i key category) (\<lambda>x w'. os_calls w' = os_calls w \<and>
     (\<exists>s'. moved s w w' s' \<and> settled s' \<and> ag_pending_action_id s' = ag_pending_action_id s)) w"
proof (cases "an_strategy (decide_adaptation (aw_budget w) s key category)")
  case Adapt_RETRY
  then have le: "retries_of s key < bc_max_retries_per_action (aw_budget w)"
    by (auto simp: decide_adaptation_def check_retry_budget_def split: if_splits sum.splits)
  show ?thesis
    unfolding adapt_def
    by (simp add: wps Let_def Adapt_RETRY) (use le in
        \<open>auto simp: moved_def only_task_def same_task_def settled_def map_of_update retries_of_def\<close>)
next
  case Adapt_ASK_USER
  show ?thesis
    unfolding adapt_def
    by (simp add: wps Let_def Adapt_ASK_USER)
      (auto simp: moved_def only_task_def same_task_def settled_def map_of_update retries_of_def)
next
  case Adapt_FAIL
  show ?thesis
    unfolding adapt_def
    by (simp add: wps Let_def Adapt_FAIL)
      (auto simp: moved_def only_task_def same_task_def settled_def map_of_update retries_of_def)
qed

lemma consult_healing_quiet: "keeps agent_quiet (consult_healing s i c m)"
  unfolding consult_healing_def add_recovery_def new_recovery_def
  by (intro quiet_intros heal_quiet)

lemma consult_healing_returns:
  "returns (\<lambda>s'. task_kept s s' \<and> ag_installation_count s' = ag_installation_count s) (consult_healing s i c m)"
  unfolding consult_healing_def add_recovery_def
  by (intro returns_intros returns_bnd' returns_sq) (auto simp: task_kept_def)

text \<open>An exception that escapes leaves the stored task as it was.\<close>

definition ended :: "agent_task \<Rightarrow> agent_w \<Rightarrow> agent_w \<Rightarrow> bool" where
  "ended s w w' \<longleftrightarrow> os_calls w' = os_calls w \<and>
     (agent_kept w w' \<or> (\<exists>s'. moved s w w' s' \<and> settled s' \<and> ag_pending_action_id s' = ag_pending_action_id s))"

lemma moved_after:
  "agent_kept w w1 \<Longrightarrow> same_task (aw_budget w) s s1 \<Longrightarrow> moved s1 w1 w2 s2 \<Longrightarrow> moved s w w2 s2"
  unfolding moved_def
  by (auto simp: agent_kept_def only_task_def same_task_def dest: same_trans intro: order_trans)

lemma handle_failure_post:
  assumes "k < length (ag_actions s)"
  shows "wp (handle_failure s k category message) (\<lambda>x w'. ended s w w') w"
proof -
  have step: "wp (bnd (consult_healing s1 i category message) (\<lambda>s2. adapt s2 i key category))
      (\<lambda>x w'. ended s w w') w0"
    if w0: "agent_quiet w w0" and s1: "task_kept s s1" "ag_installation_count s1 = ag_installation_count s"
    for s1 i key w0
    unfolding wp_bnd
  proof (rule wp_keeps_returns [OF consult_healing_quiet consult_healing_returns])
    fix x w1
    assume w1: "agent_quiet w0 w1"
      and x: "\<And>y. x = Inr y \<Longrightarrow> task_kept s1 y \<and> ag_installation_count y = ag_installation_count s1"
    have q: "agent_quiet w w1" using w0 w1 by (rule aqt.R_trans)
    show "on_value (\<lambda>x w'. ended s w w') (\<lambda>s2. wp (adapt s2 i key category) (\<lambda>x w'. ended s w w')) x w1"
    proof (cases x)
      case (Inl e)
      then show ?thesis using q by (simp add: ended_def agent_quiet_def)
    next
      case (Inr s2)
      then have same: "same_task (aw_budget w) s s2" "ag_pending_action_id s2 = ag_pending_action_id s"
        using x [OF Inr] s1 by (auto simp: same_task_def task_kept_def retries_of_def)
      have "wp (adapt s2 i key category) (\<lambda>x w'. ended s w w') w1"
      proof (rule wp_mono [OF adapt_post])
        fix y w2
        assume "os_calls w2 = os_calls w1 \<and> (\<exists>s'. moved s2 w1 w2 s' \<and> settled s' \<and>
          ag_pending_action_id s' = ag_pending_action_id s2)"
        then show "ended s w w2"
          using moved_after [OF _ same(1)] same(2) q by (auto simp: ended_def agent_quiet_def)
      qed
      then show ?thesis using Inr by simp
    qed
  qed
  show ?thesis
    unfolding handle_failure_def Let_def wp_bnd [of "new_agent_error _ _ _"] wp_new_agent_error on_value_simps
    by (rule step) (use assms in \<open>auto simp: agent_quiet_def agent_kept_def task_kept_def upd_action_def
        map_key_update act_key_def\<close>)
qed

lemma finish_action_post:
  assumes "k < length (ag_actions s)" and "agent_kept w w0"
    and "act_ok (bc_max_tool_installations (aw_budget w)) s outcome"
  shows "wp (finish_action k outcome) (\<lambda>x w'. os_calls w' = os_calls w0 \<and>
     (agent_kept w w' \<or> (\<exists>s'. moved s w w' s' \<and> settled s' \<and> ag_pending_action_id s' = ag_pending_action_id s))) w0"
proof (cases outcome)
  case (Act_Failure s1 c m)
  then have s1: "same_task (aw_budget w) s s1" "k < length (ag_actions s1)"
      "ag_pending_action_id s1 = ag_pending_action_id s"
    using assms kept_length [of s s1] by (auto simp: act_ok_def kept_same task_kept_def)
  have "wp (handle_failure s1 k c m) (\<lambda>x w'. os_calls w' = os_calls w0 \<and>
     (agent_kept w w' \<or> (\<exists>s'. moved s w w' s' \<and> settled s' \<and> ag_pending_action_id s' = ag_pending_action_id s))) w0"
    by (rule wp_mono [OF handle_failure_post [OF s1(2)]])
      (use moved_after [OF assms(2) s1(1)] s1(3) akp.R_trans [OF assms(2)] in \<open>auto simp: ended_def\<close>)
  then show ?thesis using Act_Failure by (simp add: finish_action_def)
next
  case (Act_Done s1)
  then have s1: "same_task (aw_budget w) s s1" "k < length (ag_actions s1)"
      "ag_pending_action_id s1 = ag_pending_action_id s"
    using assms kept_length [of s s1] by (auto simp: act_ok_def kept_same task_kept_def)
  show ?thesis
    using Act_Done s1 assms(2)
    by (simp add: finish_action_def wps Let_def)
      (auto simp: moved_def only_task_def agent_kept_def same_task_def retries_of_def map_of_update
        settled_def post_phase_def POST_ACTION_PHASE_def upd_action_def map_key_update act_key_def)
qed

text \<open>An action after which the task is saved, or which leaves it as it was when it began.\<close>

definition saved :: "agent_task \<Rightarrow> agent_w \<Rightarrow> agent_w \<Rightarrow> bool" where
  "saved s w w' \<longleftrightarrow> (\<exists>s'. moved s w w' s' \<and> settled s' \<and> ag_pending_action_id s' = ag_pending_action_id s)"

lemma act_post:
  assumes "keeps agent_kept m"
    and "\<And>y. fst (m w) = Inr y \<Longrightarrow> act_ok (bc_max_tool_installations (aw_budget w)) s y"
    and "b \<or> keeps agent_quiet m" and "k < length (ag_actions s)"
    and "map_of (aw_tasks w) (ag_id s) = Some s" and "settled s"
  shows "wp (bnd m (finish_action k)) (\<lambda>x w'. saved s w w' \<and> (b \<or> os_calls w' = os_calls w)) w"
proof -
  have stay: "saved s w w1" if "agent_kept w w1" for w1
    using that assms(5,6) by (auto simp: saved_def moved_def agent_kept_def only_task_def same_task_def
        intro!: exI [of _ s])
  obtain x w1 where m: "m w = (x, w1)" by (cases "m w")
  have k: "agent_kept w w1" using assms(1) m by (rule keepsD)
  have q: "b \<or> os_calls w1 = os_calls w"
    using assms(3) keepsD [of agent_quiet m w x w1] m by (auto simp: agent_quiet_def)
  show ?thesis
  proof (cases x)
    case (Inl e)
    then show ?thesis using m stay [OF k] q by (simp add: wp_def bnd_eq)
  next
    case (Inr y)
    then have "act_ok (bc_max_tool_installations (aw_budget w)) s y"
      using assms(2) m by simp
    from finish_action_post [OF assms(4) k this]
    have "wp (finish_action k y) (\<lambda>x w'. saved s w w' \<and> (b \<or> os_calls w' = os_calls w)) w1"
      by (rule wp_mono) (use q stay in \<open>auto simp: saved_def\<close>)
    then show ?thesis using Inr m by (simp add: wp_def bnd_eq)
  qed
qed

text \<open>What may create a process: a diagnostic or an installation, and only for a given scope.\<close>

definition may_run :: "target_scope option \<Rightarrow> agent_action \<Rightarrow> bool" where
  "may_run ts a \<longleftrightarrow> ts \<noteq> None \<and> aa_action_type a \<in> {INSTALL_TOOL, RUN_DIAGNOSTIC, COLLECT_INFORMATION}"

lemma note_observation_quiet: "keeps agent_quiet (note_observation s k m)"
  unfolding note_observation_def observe_def new_evidence_def by (intro quiet_intros)

lemma do_quiet:
  "keeps agent_quiet (do_check_environment s k)" "keeps agent_quiet (do_discover_target s k)"
  "keeps agent_quiet (do_research_tool s k)" "keeps agent_quiet (do_analyze s k)"
  "keeps agent_quiet (do_verify s k)" "keeps agent_quiet (do_run_diagnostic s k None)"
  "keeps agent_quiet (do_install_tool s k None platform)"
  unfolding do_check_environment_def do_discover_target_def do_research_tool_def do_analyze_def
    propose_finding_def new_evidence_def do_verify_def verify_evidence_def do_run_diagnostic_def
    do_install_tool_def tool_get_by_name_def Let_def
  by (intro quiet_intros note_observation_quiet discover_quiet; simp)+

lemma do_kept:
  "keeps agent_kept (do_run_diagnostic s k ts)" "keeps agent_kept (do_install_tool s k ts platform)"
  unfolding do_run_diagnostic_def do_install_tool_def diagnostic_result_def finish_install_def
    tool_get_by_name_def Let_def
  by (intro kept_intros note_observation_quiet [THEN quiet_kept] create_session_quiet [THEN quiet_kept]
      request_installation_quiet [THEN quiet_kept] approve_request_quiet [THEN quiet_kept]
      start_installation_kept; simp)+

lemma install_budget: "check_installation_budget c s = Inr x \<Longrightarrow> ag_installation_count s < bc_max_tool_installations c"
  by (simp add: check_installation_budget_def split: if_splits)

lemma do_install_tool_ok:
  assumes "k < length (ag_actions s)" and "fst (do_install_tool s k ts platform w) = Inr x"
  shows "act_ok (bc_max_tool_installations (aw_budget w)) s x"
proof (cases "truthy (aa_tool (ag_actions s ! k))")
  case False
  then show ?thesis using assms(2) act_ok_failure
    by (auto simp: do_install_tool_def truthy_def ret_def split: option.splits)
next
  case True
  then obtain name where name: "aa_tool (ag_actions s ! k) = Some name" "name \<noteq> []"
    by (auto simp: truthy_def split: option.splits)
  let ?n = "bc_max_tool_installations (aw_budget w)"
  let ?rest = "\<lambda>found. case found of
       None \<Rightarrow> ret (Act_Failure s ''tool_unavailable'' (''Tool '' @ quoted name @ '' is not registered.''))
     | Some tool \<Rightarrow>
         (case ts of
            None \<Rightarrow> ret (Act_Failure s ''policy_restriction'' ''No target scope available for installation.'')
          | Some ts \<Rightarrow>
              bnd (request_installation (tl_id tool) ts platform (Some ''agent'')) (\<lambda>request.
              if ir_state request = IS_BLOCKED then
                ret (Act_Failure s ''policy_restriction''
                  (ostr_or (ir_error_message request) ''Installation blocked.''))
              else
                bnd (if ir_state request = IS_WAITING_FOR_APPROVAL
                     then approve_request (ir_id request) ''agent(user-approved)''
                     else ret request)
                  (finish_install s k tool ts)))"
  have eq: "do_install_tool s k ts platform w = bnd (liftS (check_installation_budget (aw_budget w) s))
      (\<lambda>_. bnd (tool_get_by_name name) ?rest) w"
    by (simp only: do_install_tool_def name option.case if_False bnd_gets)
  have "returns (act_ok ?n s) (bnd (liftS (check_installation_budget (aw_budget w) s))
      (\<lambda>_. bnd (tool_get_by_name name) ?rest))"
    by (rule returns_bnd [where Q = "\<lambda>_. ag_installation_count s < ?n"])
      (auto intro!: returns_liftS install_budget returns_intros returns_bnd' act_ok_failure
        finish_install_ok [OF assms(1)])
  from this [unfolded returns_def] assms(2) [unfolded eq] show ?thesis by blast
qed

definition executed ::
    "target_scope option \<Rightarrow> agent_action \<Rightarrow> agent_task \<Rightarrow> agent_w \<Rightarrow> agent_w \<Rightarrow> bool" where
  "executed ts a s0 w w' \<longleftrightarrow> (\<exists>s'. moved s0 w w' s' \<and> settled s' \<and>
     (ag_pending_action_id s' = ag_pending_action_id s0 \<or>
      ag_pending_action_id s' = Some (aa_id a) \<and> ag_phase s' = Ph_WAITING_FOR_APPROVAL)) \<and>
     (os_calls w' = os_calls w \<or> may_run ts a)"

lemma execute_action_post:
  assumes k: "k < length (ag_actions s0)"
  shows "wp (execute_action s0 k ts platform) (\<lambda>x w'. executed ts (ag_actions s0 ! k) s0 w w') w"
proof -
  define w1 where "w1 = w\<lparr>rt_ticks := Suc (rt_ticks w), aw_tasks := dset (ag_id s0)
     (s0\<lparr>ag_phase := Ph_EXECUTING, ag_updated_at := rt_clock w (rt_ticks w)\<rparr>) (aw_tasks w)\<rparr>"
  define s where "s = s0\<lparr>ag_phase := Ph_EXECUTING, ag_updated_at := rt_clock w (rt_ticks w)\<rparr>"
  have s: "map_of (aw_tasks w1) (ag_id s) = Some s" "settled s" "k < length (ag_actions s)"
      "ag_actions s = ag_actions s0" "ag_pending_action_id s = ag_pending_action_id s0"
    using k by (auto simp: s_def w1_def settled_def map_of_update)
  have same: "only_task (ag_id s0) w w1" "same_task c s0 s" "ag_id s = ag_id s0" "aw_budget w1 = aw_budget w"
      "os_calls w1 = os_calls w" for c
    by (auto simp: s_def w1_def only_task_def same_task_def retries_of_def map_of_update)
  have moved: "moved s0 w w2 s2" if "moved s w1 w2 s2" for w2 s2
    using that same same_trans [OF same(2)] only_trans [OF same(1)] by (auto simp: moved_def)
  have act: "wp (bnd m (finish_action k)) (\<lambda>x w'. executed ts (ag_actions s0 ! k) s0 w w') w1"
    if "keeps agent_kept m"
      "\<And>y. fst (m w1) = Inr y \<Longrightarrow> act_ok (bc_max_tool_installations (aw_budget w1)) s y"
      "may_run ts (ag_actions s0 ! k) \<or> keeps agent_quiet m" for m
    by (rule wp_mono [OF act_post [OF that s(3,1,2)]])
      (use moved s(5) same(5) in \<open>auto simp: executed_def saved_def\<close>)
  have ret: "fst (m w1) = Inr y \<Longrightarrow> act_ok n s y" if "returns (act_ok n s) m" for m n y
    using that by (simp add: returns_def)
  have save: "wp (task_save s2) (\<lambda>x w'. executed ts (ag_actions s0 ! k) s0 w w') w2"
    if "same_task (aw_budget w) s0 s2" "settled s2" "only_task (ag_id s0) w w2" "os_calls w2 = os_calls w"
      "ag_pending_action_id s2 = ag_pending_action_id s0 \<or>
       ag_pending_action_id s2 = Some (aa_id (ag_actions s0 ! k)) \<and> ag_phase s2 = Ph_WAITING_FOR_APPROVAL"
    for s2 w2
    using that by (auto simp: wps executed_def moved_def only_task_def same_task_def settled_def
        map_of_update retries_of_def)
  have quiet_act: "wp (bnd m (finish_action k)) (\<lambda>x w'. executed ts (ag_actions s0 ! k) s0 w w') w1"
    if "keeps agent_quiet m" "\<And>n. returns (act_ok n s) m" for m
    by (rule act [OF quiet_kept [OF that(1)]]) (use that in \<open>auto simp: returns_def\<close>)
  note quiet = quiet_act [OF do_quiet(1) do_check_environment_ok [OF s(3)]]
    quiet_act [OF do_quiet(2) do_discover_target_ok [OF s(3)]]
    quiet_act [OF do_quiet(3) do_research_tool_ok [OF s(3)]]
    quiet_act [OF do_quiet(4) do_analyze_ok [OF s(3)]]
    quiet_act [OF do_quiet(5) do_verify_ok [OF s(3)]]
  have diag: "wp (bnd (do_run_diagnostic s k ts) (finish_action k))
      (\<lambda>x w'. executed ts (ag_actions s0 ! k) s0 w w') w1"
    if "aa_action_type (ag_actions s0 ! k) \<in> {RUN_DIAGNOSTIC, COLLECT_INFORMATION}"
  proof -
    have q: "may_run ts (ag_actions s0 ! k) \<or> keeps agent_quiet (do_run_diagnostic s k ts)"
      using that do_quiet(6) by (cases ts) (auto simp: may_run_def)
    show ?thesis by (rule act [OF do_kept(1) ret [OF do_run_diagnostic_ok [OF s(3)]] q])
  qed
  have inst: "wp (bnd (do_install_tool s k ts platform) (finish_action k))
      (\<lambda>x w'. executed ts (ag_actions s0 ! k) s0 w w') w1"
    if "aa_action_type (ag_actions s0 ! k) = INSTALL_TOOL"
  proof -
    have q: "may_run ts (ag_actions s0 ! k) \<or> keeps agent_quiet (do_install_tool s k ts platform)"
      using that do_quiet(7) by (cases ts) (auto simp: may_run_def)
    show ?thesis by (rule act [OF do_kept(2) do_install_tool_ok [OF s(3)] q])
  qed
  have complete: "wp (bnd (do_complete s k) task_save) (\<lambda>x w'. executed ts (ag_actions s0 ! k) s0 w w') w1"
    unfolding do_complete_def Let_def
    by (simp add: wps) (use same s k in \<open>auto simp: executed_def moved_def only_task_def same_task_def
      settled_def map_of_update retries_of_def upd_action_def map_key_update act_key_def\<close>)
  have ask: "wp (task_save (do_ask_user s k)) (\<lambda>x w'. executed ts (ag_actions s0 ! k) s0 w w') w1"
    by (rule save) (use same s in \<open>auto simp: do_ask_user_def set_result_def same_task_def upd_action_def
      map_key_update act_key_def settled_def retries_of_def\<close>)
  have wait: "wp (task_save (s\<lparr>ag_phase := Ph_WAITING_FOR_APPROVAL,
        ag_pending_action_id := Some (aa_id (ag_actions s ! k))\<rparr>))
      (\<lambda>x w'. executed ts (ag_actions s0 ! k) s0 w w') w1"
    by (rule save) (use same s in \<open>auto simp: same_task_def settled_def retries_of_def\<close>)
  have w1: "w\<lparr>rt_ticks := Suc (rt_ticks w), aw_tasks := dset (ag_id (s0\<lparr>ag_phase := Ph_EXECUTING\<rparr>)) s
      (aw_tasks w)\<rparr> = w1"
    by (simp add: w1_def s_def)
  have s1: "s0\<lparr>ag_phase := Ph_EXECUTING\<rparr>\<lparr>ag_updated_at := rt_clock w (rt_ticks w)\<rparr> = s"
    by (simp add: s_def)
  show ?thesis
    unfolding execute_action_def wp_bnd [of "task_save _"] wp_task_save on_value_simps
    unfolding s1 w1
    by (cases "aa_action_type (ag_actions s ! k)")
      (use quiet diag inst complete ask wait s(4) in \<open>simp_all only: action_type.case insert_iff empty_iff simp_thms\<close>)
qed

section \<open>Sound tasks\<close>

definition in_scope :: "agent_task \<Rightarrow> agent_action \<Rightarrow> bool" where
  "in_scope s a \<longleftrightarrow> (p_truthy (aa_target a) \<and> truthy (ag_target s) \<longrightarrow>
     normalized (py_str (aa_target a)) = normalized (the (ag_target s)))"

text \<open>What the gate lets through.\<close>

definition allowed :: "agent_task \<Rightarrow> agent_action \<Rightarrow> bool" where
  "allowed s a \<longleftrightarrow> in_scope s a \<and>
     (aa_action_type a \<in> {RUN_DIAGNOSTIC, INSTALL_TOOL} \<longrightarrow> ag_authorization_status s = ''AUTHORIZED'')"

definition in_budget :: "budget_config \<Rightarrow> agent_task \<Rightarrow> bool" where
  "in_budget c s \<longleftrightarrow> ag_action_count s = length (ag_actions s) \<and> ag_action_count s \<le> bc_max_actions c \<and>
     ag_model_call_count s \<le> bc_max_model_calls c \<and>
     ag_installation_count s \<le> bc_max_tool_installations c \<and>
     (\<forall>k. retries_of s k \<le> bc_max_retries_per_action c)"

definition pending_ok :: "agent_task \<Rightarrow> bool" where
  "pending_ok s \<longleftrightarrow> (\<forall>p. ag_pending_action_id s = Some p \<longrightarrow>
     (\<exists>k. action_index p (ag_actions s) = Some k \<and> allowed s (ag_actions s ! k)))"

definition approved_ok :: "agent_task \<Rightarrow> bool" where
  "approved_ok s \<longleftrightarrow> (ag_phase s = Ph_PREPARING \<longrightarrow>
     (\<exists>p k. ag_pending_action_id s = Some p \<and> action_index p (ag_actions s) = Some k \<and>
        aa_approval_state (ag_actions s ! k) = Appr_APPROVED))"

definition task_sound :: "budget_config \<Rightarrow> agent_task \<Rightarrow> bool" where
  "task_sound c s \<longleftrightarrow> in_budget c s \<and> pending_ok s \<and> approved_ok s"

lemma action_index_lt: "action_index p xs = Some k \<Longrightarrow> k < length xs \<and> aa_id (xs ! k) = p"
  by (induction xs arbitrary: k) (auto split: if_splits)

lemma action_index_append: "action_index p xs = Some k \<Longrightarrow> action_index p (xs @ ys) = Some k"
  by (induction xs arbitrary: k) (auto split: if_splits)

lemma action_index_new: "p \<notin> aa_id ` set xs \<Longrightarrow> aa_id a = p \<Longrightarrow> action_index p (xs @ [a]) = Some (length xs)"
  by (induction xs) auto

lemma action_index_keys: "map act_key xs = map act_key ys \<Longrightarrow> action_index p xs = action_index p ys"
proof (induction xs arbitrary: ys)
  case (Cons x xs)
  then obtain y ys' where ys: "ys = y # ys'" "act_key x = act_key y" "map act_key xs = map act_key ys'"
    by auto
  then have "aa_id x = aa_id y" by (simp add: act_key_def)
  with ys Cons.IH [OF ys(3)] show ?case by simp
qed simp

lemma key_nth:
  "map act_key xs = map act_key ys \<Longrightarrow> k < length ys \<Longrightarrow> act_key (xs ! k) = act_key (ys ! k)"
  by (metis length_map nth_map)

lemma allowed_key:
  "ag_authorization_status s' = ag_authorization_status s \<Longrightarrow> ag_target s' = ag_target s \<Longrightarrow>
   act_key a' = act_key a \<Longrightarrow> allowed s a \<Longrightarrow> allowed s' a'"
  by (simp add: allowed_def in_scope_def act_key_def)

lemma in_budget_same: "in_budget c s \<Longrightarrow> same_task c s s' \<Longrightarrow> in_budget c s'"
proof -
  assume s: "in_budget c s" and same: "same_task c s s'"
  from same have "length (ag_actions s') = length (ag_actions s)"
    by (metis length_map same_task_def)
  then show ?thesis using s same
    by (auto simp: in_budget_def same_task_def)
qed

lemma pending_ok_same:
  assumes "pending_ok s" and "same_task c s s'" and "ag_pending_action_id s' = ag_pending_action_id s"
  shows "pending_ok s'"
  unfolding pending_ok_def
proof (intro allI impI)
  fix p
  assume "ag_pending_action_id s' = Some p"
  then obtain k where k: "action_index p (ag_actions s) = Some k" "allowed s (ag_actions s ! k)"
    using assms by (auto simp: pending_ok_def)
  have keys: "map act_key (ag_actions s') = map act_key (ag_actions s)"
    using assms(2) by (simp add: same_task_def)
  have "allowed s' (ag_actions s' ! k)"
    by (rule allowed_key [OF _ _ key_nth [OF keys] k(2)])
      (use assms(2) action_index_lt [OF k(1)] in \<open>auto simp: same_task_def\<close>)
  then show "\<exists>k. action_index p (ag_actions s') = Some k \<and> allowed s' (ag_actions s' ! k)"
    using k(1) action_index_keys [OF keys] by auto
qed

lemma executed_ok:
  assumes "in_budget c s" and "pending_ok s" and "same_task c s s'" and "settled s'"
    and "action_index (aa_id a) (ag_actions s) = Some k" and "a = ag_actions s ! k" and "allowed s a"
    and "ag_pending_action_id s' = ag_pending_action_id s \<or> ag_pending_action_id s' = Some (aa_id a)"
  shows "task_sound c s'"
proof -
  have "pending_ok s'"
  proof (cases "ag_pending_action_id s' = ag_pending_action_id s")
    case True
    then show ?thesis using pending_ok_same assms by blast
  next
    case False
    have "pending_ok (s\<lparr>ag_pending_action_id := Some (aa_id a)\<rparr>)"
      using assms(5-7) by (auto simp: pending_ok_def allowed_def in_scope_def)
    moreover have "same_task c (s\<lparr>ag_pending_action_id := Some (aa_id a)\<rparr>) s'"
      using assms(3) by (simp add: same_task_def retries_of_def)
    ultimately show ?thesis using pending_ok_same False assms(8) by simp
  qed
  then show ?thesis
    using in_budget_same assms(1,3,4) by (simp add: task_sound_def approved_ok_def settled_def)
qed

definition agents_ok :: "agent_w \<Rightarrow> bool" where
  "agents_ok w \<longleftrightarrow> (\<forall>i s. map_of (aw_tasks w) i = Some s \<longrightarrow> ag_id s = i \<and> task_sound (aw_budget w) s)"

definition ends_kept :: "agent_w \<Rightarrow> agent_w \<Rightarrow> bool" where
  "ends_kept w w' \<longleftrightarrow> (\<forall>i s. map_of (aw_tasks w) i = Some s \<and> ag_is_terminal s \<longrightarrow>
     map_of (aw_tasks w') i = Some s)"

definition agent_good :: "agent_w \<Rightarrow> agent_w \<Rightarrow> bool" where
  "agent_good w w' \<longleftrightarrow> agents_ok w' \<and> ends_kept w w' \<and> aw_budget w' = aw_budget w"

lemma agent_good_idle: "agents_ok w \<Longrightarrow> aw_tasks w' = aw_tasks w \<Longrightarrow> aw_budget w' = aw_budget w \<Longrightarrow> agent_good w w'"
  by (simp add: agent_good_def agents_ok_def ends_kept_def)

lemma agent_good_store:
  assumes "agents_ok w" and "only_task i w w'" and "map_of (aw_tasks w') i = Some s'"
    and "ag_id s' = i" and "task_sound (aw_budget w) s'"
    and "\<And>s. map_of (aw_tasks w) i = Some s \<Longrightarrow> \<not> ag_is_terminal s"
  shows "agent_good w w'"
proof -
  have b: "aw_budget w' = aw_budget w" using assms(2) by (simp add: only_task_def)
  have "ag_id s = j \<and> task_sound (aw_budget w) s" if "map_of (aw_tasks w') j = Some s" for j s
    using that assms by (cases "j = i") (auto simp: only_task_def agents_ok_def)
  moreover have "map_of (aw_tasks w') j = Some s"
    if "map_of (aw_tasks w) j = Some s" "ag_is_terminal s" for j s
    using that assms by (cases "j = i") (auto simp: only_task_def)
  ultimately show ?thesis using b by (simp add: agent_good_def agents_ok_def ends_kept_def)
qed

section \<open>One step\<close>

definition at_rest :: "agent_task \<Rightarrow> bool" where
  "at_rest s \<longleftrightarrow> ag_is_terminal s \<or>
     ag_phase s \<in> {Ph_PAUSED, Ph_WAITING_FOR_APPROVAL, Ph_WAITING_FOR_AUTHORIZATION}"

text \<open>How many steps a task has left: one for each action it may still record, and one to resume.\<close>

definition steps_left :: "budget_config \<Rightarrow> agent_task \<Rightarrow> nat" where
  "steps_left c s = (if at_rest s then 0
     else Suc (bc_max_actions c - ag_action_count s) + (if ag_phase s = Ph_PREPARING then 1 else 0))"

definition pending_in :: "agent_task \<Rightarrow> bool" where
  "pending_in s \<longleftrightarrow> (\<forall>p. ag_pending_action_id s = Some p \<longrightarrow> action_index p (ag_actions s) \<noteq> None)"

definition fresh_action :: "agent_task \<Rightarrow> agent_w \<Rightarrow> bool" where
  "fresh_action s w \<longleftrightarrow> rt_uuid w (rt_uuids w) \<notin> aa_id ` set (ag_actions s)"

text \<open>The action a step takes up: the pending one, once it is approved, or the one the step records.\<close>

definition resumed :: "agent_task \<Rightarrow> nat \<Rightarrow> bool" where
  "resumed s k \<longleftrightarrow> ag_phase s = Ph_PREPARING \<and>
     (\<exists>p. ag_pending_action_id s = Some p \<and> action_index p (ag_actions s) = Some k)"

definition took_up :: "agent_task \<Rightarrow> agent_task \<Rightarrow> nat \<Rightarrow> bool" where
  "took_up s s' k \<longleftrightarrow>
     (if length (ag_actions s') = length (ag_actions s) then resumed s k
      else k = length (ag_actions s) \<and> length (ag_actions s') = Suc k)"

text \<open>That action may create a process: it is within scope, and was approved where it has to be.\<close>

definition may_have_run :: "target_scope option \<Rightarrow> agent_task \<Rightarrow> agent_task \<Rightarrow> bool" where
  "may_have_run ts s s' \<longleftrightarrow> (\<exists>k. took_up s s' k \<and> k < length (ag_actions s') \<and>
     may_run ts (ag_actions s' ! k) \<and> allowed s' (ag_actions s' ! k) \<and>
     (aa_action_type (ag_actions s' ! k) \<in> {RUN_DIAGNOSTIC, INSTALL_TOOL} \<longrightarrow>
        resumed s k \<and> aa_approval_state (ag_actions s' ! k) = Appr_APPROVED))"

definition approved_ids :: "agent_task \<Rightarrow> uuid set" where
  "approved_ids s = {aa_id a | a. a \<in> set (ag_actions s) \<and> aa_approval_state a = Appr_APPROVED}"

lemma approved_ids_keys:
  "map act_key (ag_actions s') = map act_key (ag_actions s) \<Longrightarrow> approved_ids s' = approved_ids s"
proof -
  have eq: "x \<in> approved_ids t \<longleftrightarrow>
      (\<exists>k \<in> set (map act_key (ag_actions t)). fst k = x \<and> snd (snd (snd (snd k))) = Appr_APPROVED)" for x t
    by (auto simp: approved_ids_def act_key_def)
  assume "map act_key (ag_actions s') = map act_key (ag_actions s)"
  then show ?thesis by (simp only: set_eq_iff eq) blast
qed

definition stepped :: "target_scope option \<Rightarrow> agent_task \<Rightarrow> agent_w \<Rightarrow> agent_w \<Rightarrow> bool" where
  "stepped ts s w w' \<longleftrightarrow> only_task (ag_id s) w w' \<and>
     (\<exists>s'. map_of (aw_tasks w') (ag_id s) = Some s' \<and> ag_id s' = ag_id s \<and> in_budget (aw_budget w) s' \<and>
        settled s' \<and> pending_in s' \<and> steps_left (aw_budget w) s' < steps_left (aw_budget w) s \<and>
        (fresh_action s w \<and> pending_ok s \<longrightarrow> pending_ok s') \<and> approved_ids s' \<subseteq> approved_ids s \<and>
        (os_calls w' = os_calls w \<or> (pending_ok s \<longrightarrow> may_have_run ts s s')))"

lemma steppedI:
  assumes "only_task (ag_id s) w w'" and "map_of (aw_tasks w') (ag_id s) = Some s'" and "ag_id s' = ag_id s"
    and "in_budget (aw_budget w) s'" and "settled s'" and "pending_in s'"
    and "steps_left (aw_budget w) s' < steps_left (aw_budget w) s"
    and "fresh_action s w \<Longrightarrow> pending_ok s \<Longrightarrow> pending_ok s'"
    and "os_calls w' \<noteq> os_calls w \<Longrightarrow> pending_ok s \<Longrightarrow> may_have_run ts s s'"
    and "approved_ids s' \<subseteq> approved_ids s"
  shows "stepped ts s w w'"
  using assms unfolding stepped_def by blast

lemma pending_in_same:
  "pending_in s \<Longrightarrow> map act_key (ag_actions s') = map act_key (ag_actions s) \<Longrightarrow>
   ag_pending_action_id s' = ag_pending_action_id s \<Longrightarrow> pending_in s'"
  using action_index_keys [of "ag_actions s'" "ag_actions s"] by (simp add: pending_in_def)

lemma action_index_in: "a \<in> set xs \<Longrightarrow> action_index (aa_id a) xs \<noteq> None"
  by (induction xs) auto

lemma executed_stepped:
  assumes x: "executed ts a s0 w1 w'" and a: "a = ag_actions s0 ! k" "k < length (ag_actions s0)"
    and w1: "only_task (ag_id s) w w1" "os_calls w1 = os_calls w" and s0: "ag_id s0 = ag_id s"
    and budget: "in_budget (aw_budget w) s0" and pend: "pending_in s0"
    and left: "Suc (bc_max_actions (aw_budget w) - ag_action_count s0) < steps_left (aw_budget w) s"
    and fresh: "fresh_action s w \<Longrightarrow> pending_ok s \<Longrightarrow>
      pending_ok s0 \<and> action_index (aa_id a) (ag_actions s0) = Some k"
    and ok: "pending_ok s \<Longrightarrow> allowed s0 a"
      "aa_action_type a \<in> {RUN_DIAGNOSTIC, INSTALL_TOOL} \<Longrightarrow> resumed s k \<and> aa_approval_state a = Appr_APPROVED"
    and took: "took_up s s0 k"
    and appr: "approved_ids s0 \<subseteq> approved_ids s"
  shows "stepped ts s w w'"
proof -
  from x obtain s' where s': "moved s0 w1 w' s'" "settled s'"
    and p: "ag_pending_action_id s' = ag_pending_action_id s0 \<or> ag_pending_action_id s' = Some (aa_id a)"
    and ran: "os_calls w' = os_calls w1 \<or> may_run ts a"
    by (auto simp: executed_def)
  have b: "aw_budget w1 = aw_budget w" using w1(1) by (simp add: only_task_def)
  have same: "same_task (aw_budget w) s0 s'" using s'(1) b by (simp add: moved_def)
  then have keys: "map act_key (ag_actions s') = map act_key (ag_actions s0)" and n: "ag_id s' = ag_id s0"
    "ag_action_count s' = ag_action_count s0"
    by (simp_all add: same_task_def)
  show ?thesis
  proof (rule steppedI)
    show "only_task (ag_id s) w w'" using s'(1) w1(1) s0 only_trans by (simp add: moved_def)
    show "map_of (aw_tasks w') (ag_id s) = Some s'" using s'(1) s0 by (simp add: moved_def)
    show "ag_id s' = ag_id s" using n s0 by simp
    show "in_budget (aw_budget w) s'" using budget same by (rule in_budget_same)
    show "settled s'" by fact
    show "approved_ids s' \<subseteq> approved_ids s" using approved_ids_keys [OF keys] appr by simp
    show "pending_in s'"
      using p pending_in_same [OF pend keys] action_index_in [of a "ag_actions s0"] a
        action_index_keys [OF keys] by (auto simp: pending_in_def)
    show "steps_left (aw_budget w) s' < steps_left (aw_budget w) s"
    proof -
      have "steps_left (aw_budget w) s' \<le> Suc (bc_max_actions (aw_budget w) - ag_action_count s0)"
        using s'(2) n by (simp add: steps_left_def settled_def)
      also note left
      finally show ?thesis .
    qed
    show "pending_ok s'" if "fresh_action s w" "pending_ok s"
      using executed_ok [OF budget _ same s'(2) _ a(1) ok(1) p] fresh [OF that] that
      by (simp add: task_sound_def)
    show "may_have_run ts s s'" if "os_calls w' \<noteq> os_calls w" "pending_ok s"
    proof -
      have key: "act_key (ag_actions s' ! k) = act_key a" using key_nth [OF keys a(2)] a(1) by simp
      have "allowed s' (ag_actions s' ! k)"
        by (rule allowed_key [OF _ _ key ok(1)]) (use same that in \<open>auto simp: same_task_def\<close>)
      moreover have "k < length (ag_actions s')" using keys a(2) by (metis length_map)
      moreover have "may_run ts (ag_actions s' ! k)"
        using that ran w1(2) key by (simp add: may_run_def act_key_def)
      moreover have "took_up s s' k"
        using took map_eq_imp_length_eq [OF keys] by (simp only: took_up_def)
      ultimately show ?thesis
        using key ok(2) unfolding may_have_run_def
        by (intro exI [of _ k]) (simp add: act_key_def)
    qed
  qed
qed

text \<open>A step that ends without an action stores a task at rest.\<close>

lemma rested_stepped:
  assumes "only_task (ag_id s) w w'" and "map_of (aw_tasks w') (ag_id s) = Some s'" and "ag_id s' = ag_id s"
    and "in_budget (aw_budget w) s'" and "at_rest s'" and "pending_in s'" and "\<not> at_rest s"
    and "fresh_action s w \<Longrightarrow> pending_ok s \<Longrightarrow> pending_ok s'" and "os_calls w' = os_calls w"
    and "approved_ids s' \<subseteq> approved_ids s"
  shows "stepped ts s w w'"
proof (rule steppedI [OF assms(1-4) _ assms(6) _ assms(8)])
  show "settled s'" using assms(5)
    by (auto simp: settled_def at_rest_def ag_is_terminal_def TERMINAL_PHASES_def)
  show "steps_left (aw_budget w) s' < steps_left (aw_budget w) s" using assms(5,7) by (simp add: steps_left_def)
qed (use assms(9,10) in simp_all)

lemma wp_add_error [wps]:
  "wp (add_error s c m) Q w = Q (Inr (s\<lparr>ag_errors := ag_errors s @ [\<lparr>ae_id = rt_uuid w (rt_uuids w),
     ae_action_id = None, ae_category = c, ae_message = m, ae_created_at = rt_clock w (rt_ticks w)\<rparr>]\<rparr>))
     (w\<lparr>rt_uuids := Suc (rt_uuids w), rt_ticks := Suc (rt_ticks w)\<rparr>)"
  by (simp add: add_error_def wps wp_new_agent_error)

definition same_plan :: "agent_task \<Rightarrow> agent_task \<Rightarrow> bool" where
  "same_plan s s1 \<longleftrightarrow> ag_id s1 = ag_id s \<and> ag_authorization_status s1 = ag_authorization_status s \<and>
     ag_target s1 = ag_target s \<and> ag_actions s1 = ag_actions s \<and> ag_pending_action_id s1 = ag_pending_action_id s"

lemma same_plan_pending:
  "same_plan s s1 \<Longrightarrow> pending_in s1 = pending_in s \<and> pending_ok s1 = pending_ok s"
  by (simp add: same_plan_def pending_in_def pending_ok_def allowed_def in_scope_def)

lemma block_task_post:
  assumes "same_plan s s1" and "in_budget (aw_budget w) s1" and "pending_in s" and "\<not> at_rest s"
    and "only_task (ag_id s) w w1" and "os_calls w1 = os_calls w"
  shows "wp (block_task s1 m) (\<lambda>x w'. stepped ts s w w') w1"
proof -
  have "stepped ts s w (w1\<lparr>rt_ticks := Suc (Suc (rt_ticks w1)), aw_tasks := dset (ag_id s) s' (aw_tasks w1)\<rparr>)"
    if "s' = s1\<lparr>ag_phase := Ph_BLOCKED, ag_next_action := n, ag_completed_at := t, ag_updated_at := u\<rparr>"
    for s' n t u
  proof (rule rested_stepped)
    have plan: "same_plan s s'" using assms(1) that by (simp add: same_plan_def)
    from same_plan_pending [OF this] assms(3) show "pending_in s'" by simp
    from same_plan_pending [OF plan] show "pending_ok s'" if "pending_ok s" using that by simp
    show "ag_id s' = ag_id s" using plan by (simp add: same_plan_def)
    show "approved_ids s' \<subseteq> approved_ids s" using plan by (simp add: same_plan_def approved_ids_def)
  qed (use assms that in \<open>auto simp: only_task_def map_of_update in_budget_def retries_of_def at_rest_def
      ag_is_terminal_def TERMINAL_PHASES_def\<close>)
  then show ?thesis
    using assms(1) by (simp add: block_task_def wps same_plan_def)
qed

text \<open>A recorded action: the task with one more.\<close>

lemma with_action:
  assumes s1: "s1 = s0\<lparr>ag_actions := ag_actions s0 @ [a], ag_action_count := Suc (ag_action_count s0)\<rparr>"
    and "same_plan s s0" and "in_budget c s0" and "ag_action_count s0 < bc_max_actions c" and "pending_in s"
  shows "in_budget c s1" and "pending_in s1" and "pending_ok s \<Longrightarrow> pending_ok s1"
    and "aa_id a \<notin> aa_id ` set (ag_actions s) \<Longrightarrow> action_index (aa_id a) (ag_actions s1) = Some (length (ag_actions s))"
    and "ag_actions s1 ! length (ag_actions s) = a" and "length (ag_actions s) < length (ag_actions s1)"
proof -
  show "in_budget c s1" using assms(3,4) by (simp add: s1 in_budget_def retries_of_def)
  show "pending_in s1"
    using assms(2,5) action_index_append by (fastforce simp: s1 pending_in_def same_plan_def)
  show "pending_ok s1" if ok: "pending_ok s"
    unfolding pending_ok_def
  proof (intro allI impI)
    fix p assume "ag_pending_action_id s1 = Some p"
    then have "ag_pending_action_id s = Some p" using assms(2) by (simp add: s1 same_plan_def)
    then obtain k where k: "action_index p (ag_actions s) = Some k" "allowed s (ag_actions s ! k)"
      using ok by (auto simp: pending_ok_def)
    then have "ag_actions s1 ! k = ag_actions s ! k" "action_index p (ag_actions s1) = Some k"
      using action_index_lt [OF k(1)] action_index_append [OF k(1)] assms(2)
      by (simp_all add: s1 nth_append same_plan_def)
    moreover have "allowed s1 (ag_actions s ! k)"
      using k(2) assms(2) by (simp add: s1 allowed_def in_scope_def same_plan_def)
    ultimately show "\<exists>k. action_index p (ag_actions s1) = Some k \<and> allowed s1 (ag_actions s1 ! k)" by metis
  qed
  show "action_index (aa_id a) (ag_actions s1) = Some (length (ag_actions s))"
    if "aa_id a \<notin> aa_id ` set (ag_actions s)"
    using action_index_new [OF that] assms(2) by (simp add: s1 same_plan_def)
  show "ag_actions s1 ! length (ag_actions s) = a" "length (ag_actions s) < length (ag_actions s1)"
    using assms(2) by (simp_all add: s1 same_plan_def)
qed

lemma save_rests:
  assumes "only_task (ag_id s) w w1" and "os_calls w1 = os_calls w" and "ag_id s1 = ag_id s"
    and "in_budget (aw_budget w) s1" and "at_rest s1" and "pending_in s1" and "\<not> at_rest s"
    and "fresh_action s w \<Longrightarrow> pending_ok s \<Longrightarrow> pending_ok s1" and "approved_ids s1 \<subseteq> approved_ids s"
  shows "wp (task_save s1) (\<lambda>x w'. stepped ts s w w') w1"
  unfolding wp_task_save assms(3)
  by (rule rested_stepped [of s w _ "s1\<lparr>ag_updated_at := rt_clock w1 (rt_ticks w1)\<rparr>"])
    (use assms in \<open>simp_all add: only_task_def map_of_update in_budget_def retries_of_def at_rest_def
      ag_is_terminal_def pending_in_def pending_ok_def allowed_def in_scope_def approved_ids_def\<close>)

lemma wp_build_action [wps]:
  "wp (build_action d g) Q w = Q (Inr
     \<lparr>aa_id = rt_uuid w (rt_uuids w), aa_action_type = ad_action_type d, aa_target = dget ''target'' (ad_arguments d),
      aa_capability = ad_required_capability d, aa_tool = ad_tool d, aa_parameters = ad_arguments d,
      aa_requires_approval = gd_requires_approval g,
      aa_approval_state = (if gd_requires_approval g then Appr_PENDING else Appr_NOT_REQUIRED),
      aa_expected_result = ad_next_action d,
      aa_verification_requirement = join ''; '' (ad_verification_plan d),
      aa_reasoning_summary = ad_reasoning_summary d, aa_confidence = ad_confidence d,
      aa_result_summary = None, aa_error_category = None, aa_created_at = rt_clock w (rt_ticks w),
      aa_completed_at = None\<rparr>)
     (w\<lparr>rt_uuids := Suc (rt_uuids w), rt_ticks := Suc (rt_ticks w)\<rparr>)"
  by (simp add: build_action_def wps)

lemma gate_allows:
  assumes "gate_evaluate s d = Inr g" and "gd_allowed g" and "aa_action_type a = ad_action_type d"
    and "aa_target a = dget ''target'' (ad_arguments d)"
  shows "allowed s a" and "ad_action_type d \<in> {RUN_DIAGNOSTIC, INSTALL_TOOL} \<Longrightarrow> gd_requires_approval g"
proof -
  have g: "\<not> (ad_action_type d \<in> set EXECUTION_ACTION_TYPES \<and> ag_authorization_status s \<noteq> ''AUTHORIZED'') \<and>
      (p_truthy (dget ''target'' (ad_arguments d)) \<and> truthy (ag_target s) \<longrightarrow>
        normalized (py_str (dget ''target'' (ad_arguments d))) = normalized (the (ag_target s))) \<and>
      (ad_action_type d \<in> {RUN_DIAGNOSTIC, INSTALL_TOOL} \<longrightarrow> gd_requires_approval g)"
  proof (cases "ad_action_type d \<in> set EXECUTION_ACTION_TYPES \<and> ag_authorization_status s \<noteq> ''AUTHORIZED''")
    case True
    then show ?thesis using assms(1,2) unfolding gate_evaluate_def by auto
  next
    case False
    show ?thesis
      using assms(1) unfolding gate_evaluate_def Let_def if_not_P [OF False]
      by (simp only: False split: if_splits) auto
  qed
  then show "allowed s a" using assms(3,4)
    by (auto simp: allowed_def in_scope_def EXECUTION_ACTION_TYPES_def)
  show "gd_requires_approval g" if "ad_action_type d \<in> {RUN_DIAGNOSTIC, INSTALL_TOOL}"
    using g that by blast
qed

lemma act_on_post:
  assumes plan: "same_plan s s0" and budget: "in_budget (aw_budget w) s0"
    and room: "ag_action_count s0 < bc_max_actions (aw_budget w)" "ag_action_count s0 = ag_action_count s"
    and pend: "pending_in s" and work: "\<not> at_rest s"
    and w1: "only_task (ag_id s) w w1" "os_calls w1 = os_calls w"
      "rt_uuid w1 (rt_uuids w1) = rt_uuid w (rt_uuids w)"
  shows "wp (act_on s0 d ts platform) (\<lambda>x w'. stepped ts s w w') w1"
proof (cases "gate_evaluate s0 d")
  case (Inl e)
  show ?thesis
    unfolding act_on_def Inl sum.case wp_bnd wp_add_error on_value_simps
    by (rule block_task_post)
      (use assms in \<open>auto simp: same_plan_def in_budget_def retries_of_def only_task_def\<close>)
next
  case (Inr g)
  define a where "a =
     \<lparr>aa_id = rt_uuid w1 (rt_uuids w1), aa_action_type = ad_action_type d, aa_target = dget ''target'' (ad_arguments d),
      aa_capability = ad_required_capability d, aa_tool = ad_tool d, aa_parameters = ad_arguments d,
      aa_requires_approval = gd_requires_approval g,
      aa_approval_state = (if gd_requires_approval g then Appr_PENDING else Appr_NOT_REQUIRED),
      aa_expected_result = ad_next_action d,
      aa_verification_requirement = join ''; '' (ad_verification_plan d),
      aa_reasoning_summary = ad_reasoning_summary d, aa_confidence = ad_confidence d,
      aa_result_summary = None, aa_error_category = None, aa_created_at = rt_clock w1 (rt_ticks w1),
      aa_completed_at = None\<rparr>"
  define s1 where "s1 = s0\<lparr>ag_actions := ag_actions s0 @ [a], ag_action_count := Suc (ag_action_count s0)\<rparr>"
  note s1 = with_action [OF s1_def plan budget room(1) pend]
  have id: "ag_id s1 = ag_id s" "ag_actions s0 = ag_actions s" "ag_actions s1 = ag_actions s @ [a]"
    "ag_target s1 = ag_target s0" "ag_authorization_status s1 = ag_authorization_status s0"
    using plan by (simp_all add: s1_def same_plan_def)
  have appr: "approved_ids s1 \<subseteq> approved_ids s"
    using id(2,3) by (auto simp: approved_ids_def a_def split: if_splits)
  have fresh: "pending_ok s1 \<and> action_index (aa_id a) (ag_actions s1) = Some (length (ag_actions s))"
    if "fresh_action s w" "pending_ok s"
    using that s1(3,4) w1(3) by (simp add: fresh_action_def a_def)
  have a: "allowed s1 a" "aa_action_type a \<in> {RUN_DIAGNOSTIC, INSTALL_TOOL} \<Longrightarrow> aa_requires_approval a"
    if "gd_allowed g"
  proof -
    have t: "aa_action_type a = ad_action_type d" "aa_target a = dget ''target'' (ad_arguments d)"
      "aa_requires_approval a = gd_requires_approval g" by (simp_all add: a_def)
    show "allowed s1 a" by (rule allowed_key [OF id(5,4) refl gate_allows(1) [OF Inr that t(1,2)]])
    show "aa_requires_approval a" if "aa_action_type a \<in> {RUN_DIAGNOSTIC, INSTALL_TOOL}"
      using gate_allows(2) [OF Inr \<open>gd_allowed g\<close> t(1,2)] that t(1,3) by simp
  qed
  have exec: "wp (execute_action s1 (length (ag_actions s)) ts platform) (\<lambda>x w'. stepped ts s w w') w2"
    if "gd_allowed g" "\<not> (aa_requires_approval a \<and> aa_approval_state a = Appr_PENDING)"
      "only_task (ag_id s) w w2" "os_calls w2 = os_calls w" for w2
  proof (rule wp_mono [OF execute_action_post [OF s1(6)]])
    fix x w'
    assume x: "executed ts (ag_actions s1 ! length (ag_actions s)) s1 w2 w'"
    have no: "aa_action_type a \<notin> {RUN_DIAGNOSTIC, INSTALL_TOOL}"
      using a(2) [OF that(1)] that(2) by (auto simp: a_def)
    show "stepped ts s w w'"
      by (rule executed_stepped [OF x [unfolded s1(5)] s1(5) [symmetric] s1(6) that(3,4) id(1) s1(1,2)])
        (use fresh a(1) [OF that(1)] no room work appr id(2) in \<open>auto simp: s1_def steps_left_def took_up_def\<close>)
  qed
  let ?w2 = "w1\<lparr>rt_uuids := Suc (rt_uuids w1), rt_ticks := Suc (rt_ticks w1)\<rparr>"
  have start: "wp (act_on s0 d ts platform) Q w1 \<longleftrightarrow> wp (sq (agent_emit s1 ''ACTION_STARTED''
         [(''actionId'', PStr (uuid_str (aa_id a))), (''actionType'', PStr (action_value (aa_action_type a)))])
       (if \<not> gd_allowed g then
          task_save ((set_result (length (ag_actions s)) (join ''; '' (gd_reasons g)) s1)
            \<lparr>ag_phase := Ph_WAITING_FOR_AUTHORIZATION,
             ag_clarification_question := (if gd_reasons g \<noteq> [] then Some (hd (gd_reasons g)) else None)\<rparr>)
        else if aa_requires_approval a \<and> aa_approval_state a = Appr_PENDING then
          sq (agent_emit (s1\<lparr>ag_phase := Ph_WAITING_FOR_APPROVAL, ag_pending_action_id := Some (aa_id a),
                ag_approval_state := Appr_PENDING\<rparr>) ''APPROVAL_REQUIRED'' [(''actionId'', PStr (uuid_str (aa_id a)))])
             (task_save (s1\<lparr>ag_phase := Ph_WAITING_FOR_APPROVAL, ag_pending_action_id := Some (aa_id a),
                ag_approval_state := Appr_PENDING\<rparr>))
        else execute_action s1 (length (ag_actions s)) ts platform)) Q ?w2" for Q
    unfolding act_on_def Inr sum.case wp_bnd wp_build_action on_value_simps Let_def a_def [symmetric] id(2)
      s1_def [unfolded id(2), symmetric] ..
  let ?X = "(set_result (length (ag_actions s)) (join ''; '' (gd_reasons g)) s1)
      \<lparr>ag_phase := Ph_WAITING_FOR_AUTHORIZATION,
       ag_clarification_question := (if gd_reasons g \<noteq> [] then Some (hd (gd_reasons g)) else None)\<rparr>"
  let ?Y = "s1\<lparr>ag_phase := Ph_WAITING_FOR_APPROVAL, ag_pending_action_id := Some (aa_id a),
      ag_approval_state := Appr_PENDING\<rparr>"
  have X: "same_task c s1 ?X" "ag_pending_action_id ?X = ag_pending_action_id s1" for c
    by (simp_all add: same_task_def set_result_def upd_action_def map_key_update act_key_def retries_of_def)
  have Y: "in_budget c ?Y = in_budget c s1" for c
    by (simp add: in_budget_def retries_of_def)
  show ?thesis
  proof (cases "gd_allowed g")
    case False
    show ?thesis
      unfolding start if_P [OF False] wp_sq wp_agent_emit on_value_simps
    proof (rule save_rests)
      show "in_budget (aw_budget w) ?X" using s1(1) X(1) by (rule in_budget_same)
      show "pending_in ?X" by (rule pending_in_same [OF s1(2) _ X(2)]) (use X(1) in \<open>simp add: same_task_def\<close>)
      show "pending_ok ?X" if "fresh_action s w" "pending_ok s"
        using fresh [OF that] pending_ok_same [OF _ X(1) X(2)] by blast
      show "approved_ids ?X \<subseteq> approved_ids s"
        using approved_ids_keys [of ?X s1] X(1) appr by (simp add: same_task_def)
      show "ag_id ?X = ag_id s" using X(1) id(1) by (simp add: same_task_def)
    qed (use w1 work in \<open>simp_all add: only_task_def at_rest_def\<close>)
  next
    case True
    then have no: "\<not> \<not> gd_allowed g" by simp
    show ?thesis
    proof (cases "aa_requires_approval a \<and> aa_approval_state a = Appr_PENDING")
      case wait: True
      show ?thesis
        unfolding start if_not_P [OF no] if_P [OF wait] wp_sq wp_agent_emit on_value_simps
      proof (rule save_rests)
        show "in_budget (aw_budget w) ?Y" using s1(1) Y by simp
        show "pending_in ?Y"
          using action_index_in [of a "ag_actions s1"] id(3) by (simp add: pending_in_def)
        show "pending_ok ?Y" if "fresh_action s w" "pending_ok s"
          using fresh [OF that] a(1) [OF True] s1(5) by (simp add: pending_ok_def allowed_def in_scope_def)
        show "approved_ids ?Y \<subseteq> approved_ids s" using appr by (simp add: approved_ids_def)
      qed (use w1 work id(1) in \<open>simp_all add: only_task_def at_rest_def\<close>)
    next
      case run: False
      show ?thesis
        unfolding start if_not_P [OF no] if_not_P [OF run] wp_sq wp_agent_emit on_value_simps
        by (rule exec [OF True run]) (use w1 in \<open>simp_all add: only_task_def\<close>)
    qed
  qed
qed

definition provider_ok :: "(nat \<Rightarrow> exn + pyval) \<Rightarrow> bool" where
  "provider_ok g \<longleftrightarrow> (\<forall>n e. g n = Inl e \<longrightarrow> (\<exists>c m. e = AIProviderError c m))"

lemma wp_decide:
  assumes "\<And>answer. Q (Inr answer) (w\<lparr>aw_prompts := aw_prompts w @ [decide_messages (build_agent_context_block s c)]\<rparr>)"
    and "\<And>e n. aw_generate w n = Inl e \<Longrightarrow> \<nexists>c m. e = AIProviderError c m \<Longrightarrow>
      Q (Inl e) (w\<lparr>aw_prompts := aw_prompts w @ [decide_messages (build_agent_context_block s c)]\<rparr>)"
  shows "wp (decide s c) Q w"
proof (cases "aw_generate w (length (aw_prompts w))")
  case (Inl e)
  then show ?thesis using assms(1) assms(2) [OF Inl]
    by (cases e) (simp_all add: decide_def wps)
qed (simp add: decide_def wps assms(1))

lemma reason_and_act_post:
  assumes budget: "in_budget (aw_budget w) s"
    and room: "ag_action_count s < bc_max_actions (aw_budget w)" "ag_model_call_count s < bc_max_model_calls (aw_budget w)"
    and pend: "pending_in s" and work: "\<not> at_rest s"
    and w1: "agent_quiet w w1" "rt_uuid w1 (rt_uuids w1) = rt_uuid w (rt_uuids w)"
  shows "wp (reason_and_act s ts platform) (\<lambda>x w'. stepped ts s w w' \<or>
     \<not> provider_ok (aw_generate w) \<and> agent_quiet w w') w1"
proof -
  have only: "only_task (ag_id s) w w1" "os_calls w1 = os_calls w" "aw_generate w1 = aw_generate w"
    using w1(1) by (simp_all add: agent_quiet_def agent_kept_def only_task_def)
  define prompts where "prompts = aw_prompts w1 @ [decide_messages
    (build_agent_context_block s (reasoning_context_of s w1))]"
  let ?w2 = "w1\<lparr>aw_prompts := prompts\<rparr>"
  have only2: "only_task (ag_id s) w ?w2" using only(1) by (simp add: only_task_def)
  have failed: "wp (block_task (s\<lparr>ag_errors := es\<rparr>) m) (\<lambda>x w'. stepped ts s w w' \<or>
     \<not> provider_ok (aw_generate w) \<and> agent_quiet w w')
     (?w2\<lparr>rt_uuids := n, rt_ticks := t\<rparr>)" for es m n t
    by (rule wp_mono [OF block_task_post [where ts = ts and w = w, OF _ _ pend work]])
      (use budget only in \<open>simp_all add: same_plan_def in_budget_def retries_of_def only_task_def\<close>)
  have acted: "wp (act_on (s\<lparr>ag_model_call_count := Suc (ag_model_call_count s)\<rparr>) d ts platform)
     (\<lambda>x w'. stepped ts s w w' \<or> \<not> provider_ok (aw_generate w) \<and> agent_quiet w w') ?w2" for d
    by (rule wp_mono [OF act_on_post [OF _ _ _ _ pend work only2]])
      (use budget room only w1 in \<open>simp_all add: same_plan_def in_budget_def retries_of_def\<close>)
  let ?rest = "\<lambda>answer. case answer of
       Inl m \<Rightarrow> bnd (add_error s ''invalid_decision'' m) (\<lambda>s1. block_task s1 (''Reasoning failed: '' @ m))
     | Inr d \<Rightarrow> act_on (s\<lparr>ag_model_call_count := Suc (ag_model_call_count s)\<rparr>) d ts platform"
  let ?Q = "\<lambda>x w'. stepped ts s w w' \<or> \<not> provider_ok (aw_generate w) \<and> agent_quiet w w'"
  have rest: "wp (?rest answer) ?Q ?w2" for answer
  proof (cases answer)
    case (Inl m)
    then show ?thesis using failed by (simp add: wp_bnd wp_add_error)
  next
    case (Inr d)
    then show ?thesis using acted by simp
  qed
  have quiet: "agent_quiet w ?w2" using w1(1) by (simp add: agent_quiet_def agent_kept_def)
  show ?thesis
    unfolding reason_and_act_def wp_bnd wp_gets on_value_simps
  proof (rule wp_decide, unfold prompts_def [symmetric])
    fix answer
    show "on_value ?Q (\<lambda>answer. wp (?rest answer) ?Q) (Inr answer) ?w2"
      using rest by simp
  next
    fix e n
    assume "aw_generate w1 n = Inl e" and "\<nexists>c m. e = AIProviderError c m"
    then have "\<not> provider_ok (aw_generate w)" using only(3) unfolding provider_ok_def by metis
    then show "on_value ?Q (\<lambda>answer. wp (?rest answer) ?Q) (Inl e) ?w2"
      using quiet by simp
  qed
qed

lemma check_budgets_quiet: "keeps agent_quiet (check_budgets s)"
  unfolding check_budgets_def check_action_budget_def by (intro quiet_intros)

lemma check_budgets_uuid: "wp (check_budgets s) (\<lambda>x w'. rt_uuids w' = rt_uuids w \<and> rt_uuid w' = rt_uuid w \<and>
    (x = Inr () \<longrightarrow> ag_action_count s < bc_max_actions (aw_budget w) \<and>
      ag_model_call_count s < bc_max_model_calls (aw_budget w)) \<and>
    (\<forall>e. x = Inl e \<longrightarrow> (\<exists>m. e = BudgetExceededError m))) w"
  unfolding check_budgets_def check_action_budget_def check_model_call_budget_def
  by (simp add: wps on_value_def split: option.split)

text \<open>The whole of \<open>step\<close>, for a task whose pending action is in its list.\<close>

lemma agent_step_post:
  assumes s: "map_of (aw_tasks w) i = Some s" "ag_id s = i" and budget: "in_budget (aw_budget w) s"
    and pend: "pending_in s" and appr: "approved_ok s"
  shows "wp (agent_step i ts platform) (\<lambda>x w'. stepped ts s w w' \<or>
     (at_rest s \<or> \<not> provider_ok (aw_generate w)) \<and> agent_quiet w w') w"
    (is "wp _ ?Q w")
proof (cases "at_rest s")
  case True
  have "agent_quiet w w" by (rule aqt.R_refl)
  then show ?thesis
    using True s by (simp add: agent_step_def task_get_def wps at_rest_def)
next
  case False
  have get: "wp (bnd (task_get i) f) ?Q w \<longleftrightarrow> wp (f s) ?Q w" for f
    using s by (simp add: task_get_def wps)
  have open_step: "\<not> (ag_is_terminal s \<or>
        ag_phase s \<in> {Ph_PAUSED, Ph_WAITING_FOR_APPROVAL, Ph_WAITING_FOR_AUTHORIZATION})"
    using False by (simp add: at_rest_def)
  show ?thesis
  proof (cases "ag_phase s = Ph_PREPARING")
    case True
    with appr obtain p k where p: "ag_pending_action_id s = Some p" "action_index p (ag_actions s) = Some k"
        "aa_approval_state (ag_actions s ! k) = Appr_APPROVED"
      by (auto simp: approved_ok_def)
    let ?s0 = "s\<lparr>ag_pending_action_id := None\<rparr>"
    note k = action_index_lt [OF p(2)]
    have "wp (execute_action ?s0 k ts platform) ?Q w"
    proof (rule wp_mono [OF execute_action_post])
      show "k < length (ag_actions ?s0)" using k by simp
      fix x w'
      assume x: "executed ts (ag_actions ?s0 ! k) ?s0 w w'"
      have "stepped ts s w w'"
      proof (rule executed_stepped [OF x refl])
        show "in_budget (aw_budget w) ?s0" using budget by (simp add: in_budget_def retries_of_def)
        show "allowed ?s0 (ag_actions ?s0 ! k)" if "pending_ok s"
          using that p by (auto simp: pending_ok_def allowed_def in_scope_def)
        show "resumed s k \<and> aa_approval_state (ag_actions ?s0 ! k) = Appr_APPROVED"
          using p True by (simp add: resumed_def)
        show "took_up s ?s0 k" using p True by (simp add: took_up_def resumed_def)
        show "Suc (bc_max_actions (aw_budget w) - ag_action_count ?s0) < steps_left (aw_budget w) s"
          using False True by (simp add: steps_left_def)
      qed (use k p in \<open>simp_all add: only_task_def pending_in_def pending_ok_def approved_ids_def\<close>)
      then show "?Q x w'" by simp
    qed
    then show ?thesis
      unfolding agent_step_def get if_not_P [OF open_step] if_P [OF True] p(1) option.case
      using p(2) by (simp add: find_action_def wps)
  next
    case no: False
    let ?h = "\<lambda>exc. case exc of
        AgentOrchestratorError code m \<Rightarrow> if code = AE_BUDGET_EXCEEDED then ret (Some m) else raise exc
      | _ \<Rightarrow> raise exc"
    have checked: "wp (try_except (sq (check_budgets s) (ret None)) ?h)
        (on_value ?Q (\<lambda>exhausted. wp (case exhausted of Some m \<Rightarrow> block_task s m
           | None \<Rightarrow> reason_and_act s ts platform) ?Q)) w"
    proof -
      obtain x w1 where c: "check_budgets s w = (x, w1)" by (cases "check_budgets s w")
      have q: "agent_quiet w w1" using check_budgets_quiet c by (rule keepsD)
      from check_budgets_uuid [of s w] c
      have u: "rt_uuid w1 (rt_uuids w1) = rt_uuid w (rt_uuids w)"
        "x = Inr () \<Longrightarrow> ag_action_count s < bc_max_actions (aw_budget w) \<and>
          ag_model_call_count s < bc_max_model_calls (aw_budget w)"
        "\<And>e. x = Inl e \<Longrightarrow> \<exists>m. e = BudgetExceededError m"
        by (simp_all add: wp_def)
      have blocked: "wp (block_task s m) ?Q w1" for m
        by (rule wp_mono [OF block_task_post [where ts = ts, OF _ budget pend False]])
          (use q in \<open>auto simp: same_plan_def agent_quiet_def kept_only\<close>)
      show ?thesis
      proof (cases x)
        case (Inl e)
        with u(3) obtain m where "e = BudgetExceededError m" by blast
        then have "try_except (sq (check_budgets s) (ret None)) ?h w = (Inr (Some m), w1)"
          using c Inl by (simp add: try_except_def sq_def bnd_def ret_def)
        then show ?thesis using blocked [of m] by (simp add: wp_def)
      next
        case (Inr v)
        then have "try_except (sq (check_budgets s) (ret None)) ?h w = (Inr None, w1)"
          using c by (simp add: try_except_def sq_def bnd_def ret_def)
        moreover have "wp (reason_and_act s ts platform) ?Q w1"
          by (rule wp_mono [OF reason_and_act_post [where ts = ts, OF budget _ _ pend False q u(1)]])
            (use u(2) Inr in auto)
        ultimately show ?thesis by (simp add: wp_def)
      qed
    qed
    then show ?thesis
      unfolding agent_step_def get if_not_P [OF open_step] if_not_P [OF no] option.case wp_bnd [of "try_except _ _"] .
  qed
qed

section \<open>The other operations\<close>

definition was_approved :: "agent_w \<Rightarrow> uuid \<Rightarrow> uuid \<Rightarrow> bool" where
  "was_approved w i p \<longleftrightarrow> (\<exists>s. map_of (aw_tasks w) i = Some s \<and> p \<in> approved_ids s)"

definition approvals_kept :: "agent_w \<Rightarrow> agent_w \<Rightarrow> bool" where
  "approvals_kept w w' \<longleftrightarrow> (\<forall>i p. was_approved w' i p \<longrightarrow> was_approved w i p)"

definition agent_safe :: "agent_w \<Rightarrow> agent_w \<Rightarrow> bool" where
  "agent_safe w w' \<longleftrightarrow> agent_good w w' \<and> approvals_kept w w'"

lemma agent_safe_idle:
  "agents_ok w \<Longrightarrow> aw_tasks w' = aw_tasks w \<Longrightarrow> aw_budget w' = aw_budget w \<Longrightarrow> agent_safe w w'"
  by (auto simp: agent_safe_def approvals_kept_def was_approved_def agent_good_idle)

lemma agent_safe_store:
  assumes "agents_ok w" and "map_of (aw_tasks w) i = Some s" and "only_task i w w'"
    and "map_of (aw_tasks w') i = Some s'" and "ag_id s' = i" and "task_sound (aw_budget w) s'"
    and "\<not> ag_is_terminal s" and "approved_ids s' \<subseteq> approved_ids s"
  shows "agent_safe w w'"
proof -
  have "agent_good w w'"
    by (rule agent_good_store [OF assms(1,3-6)]) (use assms(2,7) in auto)
  moreover have "approvals_kept w w'"
    unfolding approvals_kept_def was_approved_def
  proof (intro allI impI)
    fix j p assume t: "\<exists>t. map_of (aw_tasks w') j = Some t \<and> p \<in> approved_ids t"
    show "\<exists>s. map_of (aw_tasks w) j = Some s \<and> p \<in> approved_ids s"
      using t assms by (cases "j = i") (auto simp: only_task_def)
  qed
  ultimately show ?thesis by (simp add: agent_safe_def)
qed

lemma stored_ok: "agents_ok w \<Longrightarrow> map_of (aw_tasks w) i = Some s \<Longrightarrow> ag_id s = i \<and> task_sound (aw_budget w) s"
  by (simp add: agents_ok_def)

text \<open>A task saved in another phase.\<close>

lemma save_phase:
  assumes "agents_ok w" and "map_of (aw_tasks w) i = Some s" and "aw_tasks w' = dset i s' (aw_tasks w)"
    and "aw_budget w' = aw_budget w" "aw_generate w' = aw_generate w" "aw_validate w' = aw_validate w"
    and "same_plan s s'" and "ag_action_count s' = ag_action_count s" "ag_model_call_count s' = ag_model_call_count s"
      "ag_installation_count s' = ag_installation_count s"
      "ag_retry_count_by_action s' = ag_retry_count_by_action s"
    and "ag_phase s' \<noteq> Ph_PREPARING" and "\<not> ag_is_terminal s"
  shows "agent_safe w w'"
proof -
  note s = stored_ok [OF assms(1,2)]
  have "pending_ok s'" using same_plan_pending [OF assms(7)] s by (simp add: task_sound_def)
  then have "task_sound (aw_budget w) s'" using s assms(7-12)
    by (simp add: task_sound_def in_budget_def retries_of_def approved_ok_def same_plan_def)
  then show ?thesis using assms s
    by (intro agent_safe_store [of w i s w' s'])
      (auto simp: only_task_def map_of_update same_plan_def approved_ids_def)
qed

lemma wp_task_get:
  "wp (task_get i) Q w = (case map_of (aw_tasks w) i of
     None \<Rightarrow> Q (Inl (TaskNotFoundError (''Agent task '' @ uuid_str i @ '' was not found.''))) w
   | Some s \<Rightarrow> Q (Inr s) w)"
  by (simp add: task_get_def wps split: option.split)

lemma wp_invalid_task [wps]: "wp (invalid_task i m) Q w = Q (Inl (InvalidStateTransitionError (''Task '' @ uuid_str i @ m))) w"
  by (simp add: invalid_task_def wps)

lemma pause_task_safe: "agents_ok w \<Longrightarrow> wp (pause_task i) (\<lambda>x w'. agent_safe w w') w"
  by (auto simp: pause_task_def wp_task_get wps agent_safe_idle stored_ok same_plan_def
      intro!: save_phase split: option.split)

lemma resume_task_safe: "agents_ok w \<Longrightarrow> wp (resume_task i) (\<lambda>x w'. agent_safe w w') w"
  by (auto simp: resume_task_def wp_task_get wps agent_safe_idle stored_ok same_plan_def ag_is_terminal_def
      TERMINAL_PHASES_def intro!: save_phase split: option.split)

lemma cancel_task_safe: "agents_ok w \<Longrightarrow> wp (cancel_task i) (\<lambda>x w'. agent_safe w w') w"
  by (auto simp: cancel_task_def wp_task_get wps agent_safe_idle stored_ok same_plan_def
      intro!: save_phase split: option.split)

lemma provide_clarification_safe: "agents_ok w \<Longrightarrow> wp (provide_clarification i answer) (\<lambda>x w'. agent_safe w w') w"
  by (auto simp: provide_clarification_def new_evidence_def wp_task_get wps agent_safe_idle stored_ok
      same_plan_def ag_is_terminal_def TERMINAL_PHASES_def intro!: save_phase split: option.split)

lemma action_index_ids: "map aa_id xs = map aa_id ys \<Longrightarrow> action_index p xs = action_index p ys"
proof (induction xs arbitrary: ys)
  case (Cons x xs)
  then obtain y ys' where ys: "ys = y # ys'" "aa_id x = aa_id y" "map aa_id xs = map aa_id ys'" by auto
  with Cons.IH [OF ys(3)] show ?case by simp
qed simp

text \<open>The user's answer to a pending action: what it sets on the action is not what the gate looked at.\<close>

lemma answered_sound:
  assumes ok: "task_sound c s" and p: "ag_pending_action_id s = Some p" "action_index p (ag_actions s) = Some k"
    and f: "\<And>a. aa_id (f a) = aa_id a" "\<And>a. aa_action_type (f a) = aa_action_type a"
      "\<And>a. aa_target (f a) = aa_target a"
    and acts: "ag_actions s' = (ag_actions s)[k := f (ag_actions s ! k)]"
    and s': "ag_authorization_status s' = ag_authorization_status s" "ag_target s' = ag_target s"
      "ag_action_count s' = ag_action_count s" "ag_model_call_count s' = ag_model_call_count s"
      "ag_installation_count s' = ag_installation_count s"
      "ag_retry_count_by_action s' = ag_retry_count_by_action s"
    and q: "ag_pending_action_id s' = Some p \<or> ag_pending_action_id s' = None \<and> ag_phase s' \<noteq> Ph_PREPARING"
      "ag_phase s' = Ph_PREPARING \<Longrightarrow> aa_approval_state (f (ag_actions s ! k)) = Appr_APPROVED"
  shows "task_sound c s'"
proof -
  note k = action_index_lt [OF p(2)]
  have "map aa_id (ag_actions s') = map aa_id (ag_actions s)"
    using k by (simp add: acts map_update f list_update_same_conv)
  from action_index_ids [OF this] p(2) have i: "action_index p (ag_actions s') = Some k" by simp
  have a: "ag_actions s' ! k = f (ag_actions s ! k)" using k by (simp add: acts)
  have "allowed s (ag_actions s ! k)" using ok p by (auto simp: task_sound_def pending_ok_def)
  then have al: "allowed s' (ag_actions s' ! k)"
    by (simp add: a allowed_def in_scope_def f s')
  have "in_budget c s'" using ok by (simp add: task_sound_def in_budget_def retries_of_def s' acts)
  moreover have "pending_ok s'" using i al q(1) by (auto simp: pending_ok_def)
  moreover have "approved_ok s'"
    using q i a by (auto simp: approved_ok_def)
  ultimately show ?thesis by (simp add: task_sound_def)
qed

lemma wp_not_waiting [wps]: "wp (not_waiting i) Q w =
  Q (Inl (NotWaitingForApprovalError (''Task '' @ uuid_str i @ '' has no action awaiting approval.''))) w"
  by (simp add: not_waiting_def wps)

lemma pending_found:
  "agents_ok w \<Longrightarrow> map_of (aw_tasks w) i = Some s \<Longrightarrow> ag_pending_action_id s = Some p \<Longrightarrow>
   \<exists>k. action_index p (ag_actions s) = Some k"
  using stored_ok [of w i s] by (auto simp: task_sound_def pending_ok_def)

lemma reject_action_safe:
  assumes "agents_ok w"
  shows "wp (reject_action i reason) (\<lambda>x w'. agent_safe w w') w"
proof (cases "map_of (aw_tasks w) i")
  case None
  then show ?thesis using assms by (simp add: reject_action_def wps wp_task_get agent_safe_idle)
next
  case (Some s)
  note s = stored_ok [OF assms Some]
  show ?thesis
  proof (cases "ag_pending_action_id s \<noteq> None \<and> ag_phase s = Ph_WAITING_FOR_APPROVAL")
    case False
    then show ?thesis using assms Some
      by (auto simp: reject_action_def wps wp_task_get agent_safe_idle split: option.split)
  next
    case True
    then obtain p k where p: "ag_pending_action_id s = Some p" "action_index p (ag_actions s) = Some k"
      using pending_found [OF assms Some] by blast
    let ?f = "\<lambda>a. a\<lparr>aa_approval_state := Appr_REJECTED, aa_result_summary := Some (''Rejected: '' @ reason)\<rparr>"
    let ?s' = "(upd_action k ?f s)\<lparr>ag_approval_state := Appr_REJECTED, ag_pending_action_id := None,
        ag_phase := Ph_BLOCKED, ag_completed_at := Some (rt_clock w (rt_ticks w)),
        ag_updated_at := rt_clock w (Suc (rt_ticks w))\<rparr>"
    let ?w' = "w\<lparr>rt_ticks := Suc (Suc (rt_ticks w)), aw_tasks := dset i ?s' (aw_tasks w)\<rparr>"
    have "task_sound (aw_budget w) ?s'"
      by (rule answered_sound [OF conjunct2 [OF s] p, where f = ?f]) (simp_all add: upd_action_def)
    moreover have "approved_ids ?s' \<subseteq> approved_ids s"
      using set_update_subset_insert [of "ag_actions s" k "?f (ag_actions s ! k)"]
      by (auto simp: approved_ids_def upd_action_def)
    ultimately have "agent_safe w ?w'"
      using True s by (intro agent_safe_store [OF assms Some, of ?w' ?s'])
        (auto simp: only_task_def map_of_update upd_action_def ag_is_terminal_def TERMINAL_PHASES_def)
    then show ?thesis using Some True p s
      by (simp add: reject_action_def wps wp_task_get find_action_def upd_action_def)
  qed
qed

text \<open>Approving is the one operation that sets an approval, and it sets it on the action its task waits for.\<close>

definition awaits :: "agent_w \<Rightarrow> uuid \<Rightarrow> uuid \<Rightarrow> bool" where
  "awaits w i p \<longleftrightarrow> (\<exists>s. map_of (aw_tasks w) i = Some s \<and> ag_phase s = Ph_WAITING_FOR_APPROVAL \<and>
     ag_pending_action_id s = Some p)"

definition approved_only :: "uuid \<Rightarrow> agent_w \<Rightarrow> agent_w \<Rightarrow> bool" where
  "approved_only i w w' \<longleftrightarrow> (\<forall>j p. was_approved w' j p \<longrightarrow> was_approved w j p \<or> j = i \<and> awaits w i p)"

lemma approve_action_good:
  assumes "agents_ok w"
  shows "wp (approve_action i by) (\<lambda>x w'. agent_good w w' \<and> approved_only i w w') w"
proof (cases "map_of (aw_tasks w) i")
  case None
  then show ?thesis using assms
    by (simp add: approve_action_def wps wp_task_get agent_good_idle approved_only_def was_approved_def)
next
  case (Some s)
  note s = stored_ok [OF assms Some]
  show ?thesis
  proof (cases "ag_pending_action_id s \<noteq> None \<and> ag_phase s = Ph_WAITING_FOR_APPROVAL")
    case False
    then show ?thesis using assms Some
      by (auto simp: approve_action_def wps wp_task_get agent_good_idle approved_only_def was_approved_def split: option.split)
  next
    case True
    then obtain p k where p: "ag_pending_action_id s = Some p" "action_index p (ag_actions s) = Some k"
      using pending_found [OF assms Some] by blast
    let ?f = "\<lambda>a. a\<lparr>aa_approval_state := Appr_APPROVED\<rparr>"
    let ?s' = "(upd_action k ?f s)\<lparr>ag_approval_state := Appr_APPROVED, ag_phase := Ph_PREPARING,
        ag_updated_at := rt_clock w (rt_ticks w)\<rparr>"
    have ok: "task_sound (aw_budget w) ?s'"
      by (rule answered_sound [OF conjunct2 [OF s] p, where f = ?f])
        (simp_all add: upd_action_def p)
    have good: "agent_good w w' \<and> approved_only i w w'"
      if "aw_tasks w' = dset i ?s' (aw_tasks w)" "aw_budget w' = aw_budget w" "aw_generate w' = aw_generate w"
        "aw_validate w' = aw_validate w" for w'
    proof -
      have "agent_good w w'"
        by (rule agent_good_store [OF assms _ _ _ ok, of i])
          (use that s Some True in \<open>auto simp: only_task_def map_of_update upd_action_def
            ag_is_terminal_def TERMINAL_PHASES_def\<close>)
      moreover have "approved_only i w w'"
        using that(1) Some True p action_index_lt [OF p(2)]
          set_update_subset_insert [of "ag_actions s" k "?f (ag_actions s ! k)"]
        by (fastforce simp: approved_only_def was_approved_def awaits_def map_of_update approved_ids_def
            upd_action_def split: if_splits)
      ultimately show ?thesis by simp
    qed
    then show ?thesis using Some True p s
      by (simp add: approve_action_def wps wp_task_get find_action_def upd_action_def)
  qed
qed

lemma agent_safe_new:
  assumes "agents_ok w" and "map_of (aw_tasks w) i = None" and "only_task i w w'"
    and "map_of (aw_tasks w') i = Some s'" and "ag_id s' = i" and "task_sound (aw_budget w) s'"
    and "approved_ids s' = {}"
  shows "agent_safe w w'"
proof -
  have "agent_good w w'" by (rule agent_good_store [OF assms(1,3-6)]) (use assms(2) in auto)
  moreover have "approvals_kept w w'"
    unfolding approvals_kept_def was_approved_def
  proof (intro allI impI)
    fix j p assume t: "\<exists>t. map_of (aw_tasks w') j = Some t \<and> p \<in> approved_ids t"
    show "\<exists>s. map_of (aw_tasks w) j = Some s \<and> p \<in> approved_ids s"
      using t assms by (cases "j = i") (auto simp: only_task_def)
  qed
  ultimately show ?thesis by (simp add: agent_safe_def)
qed

lemma new_task_sound: "task_sound c ((new_task i obj ur tg tt ti au sc t1 t2 t3)\<lparr>ag_phase := p, ag_updated_at := u\<rparr>)"
  if "p \<noteq> Ph_PREPARING"
  using that by (simp add: task_sound_def in_budget_def pending_ok_def approved_ok_def retries_of_def new_task_def)

lemma create_task_safe:
  assumes "agents_ok w" and "map_of (aw_tasks w) (rt_uuid w (rt_uuids w)) = None"
  shows "wp (create_task obj ur tg tt ti au sc) (\<lambda>x w'. agent_safe w w') w"
proof -
  let ?i = "rt_uuid w (rt_uuids w)"
  have new: "agent_safe w (w\<lparr>rt_uuids := n, aw_events := es, rt_ticks := t, aw_tasks := dset ?i
      ((new_task ?i obj ur tg tt ti au sc t1 t2 t3)\<lparr>ag_phase := p, ag_updated_at := u\<rparr>) (aw_tasks w)\<rparr>)"
    if "p \<noteq> Ph_PREPARING" for n es t t1 t2 t3 u p
    by (rule agent_safe_new [OF assms, of _
          "(new_task ?i obj ur tg tt ti au sc t1 t2 t3)\<lparr>ag_phase := p, ag_updated_at := u\<rparr>"])
      (use that new_task_sound in \<open>auto simp: only_task_def map_of_update new_task_def approved_ids_def\<close>)
  have idle: "agent_safe w w" using agent_safe_idle [OF assms(1)] by simp
  have id: "ag_id (new_task i obj ur tg tt ti au sc t1 t2 t3) = i" for i t1 t2 t3
    by (simp add: new_task_def)
  show ?thesis
    unfolding create_task_def task_create_def Let_def
    by (simp add: wps id idle new)
qed

lemma agent_step_safe:
  assumes "agents_ok w" and "\<And>s. map_of (aw_tasks w) i = Some s \<Longrightarrow> fresh_action s w"
  shows "wp (agent_step i ts platform) (\<lambda>x w'. agent_safe w w') w"
proof (cases "map_of (aw_tasks w) i")
  case None
  then show ?thesis using assms by (simp add: agent_step_def wps wp_task_get agent_safe_idle)
next
  case (Some s)
  note s = stored_ok [OF assms(1) Some]
  then have pend: "pending_ok s" "pending_in s" by (auto simp: task_sound_def pending_ok_def pending_in_def)
  have "agent_safe w w'" if st: "stepped ts s w w'" for w'
  proof -
    from st obtain s' where s': "only_task i w w'" "map_of (aw_tasks w') i = Some s'" "ag_id s' = i"
      "in_budget (aw_budget w) s'" "settled s'" "pending_ok s'" "approved_ids s' \<subseteq> approved_ids s"
      "steps_left (aw_budget w) s' < steps_left (aw_budget w) s"
      using assms(2) [OF Some] pend(1) s unfolding stepped_def by auto
    then have "task_sound (aw_budget w) s'"
      by (simp add: task_sound_def approved_ok_def settled_def)
    moreover have "\<not> ag_is_terminal s" using s'(8) by (auto simp: steps_left_def at_rest_def split: if_splits)
    ultimately show ?thesis using agent_safe_store [OF assms(1) Some s'(1-3)] s'(7) by blast
  qed
  moreover have "agent_safe w w'" if "agent_quiet w w'" for w'
    using that assms(1) by (intro agent_safe_idle) (auto simp: agent_quiet_def agent_kept_def)
  moreover note agent_step_post [OF Some _ _ pend(2), where ts = ts and platform = platform]
  ultimately show ?thesis
    using s by (auto simp: task_sound_def elim!: wp_mono)
qed

section \<open>Runs\<close>

datatype task_event =
    Task_Created
  | Task_Paused uuid
  | Task_Resumed uuid
  | Task_Cancelled uuid
  | Task_Clarified uuid string
  | Action_Approved uuid string
  | Action_Rejected uuid string
  | Task_Stepped uuid "target_scope option" string
  | Other_Work

text \<open>
  One call of the orchestrator, or work elsewhere that leaves the tasks alone.  The identifiers the
  runtime draws are new: the one of a new task, and the one of the action that a step may record.
\<close>

inductive task_event_step :: "agent_w \<Rightarrow> task_event \<Rightarrow> agent_w \<Rightarrow> bool" where
  created: "map_of (aw_tasks w) (rt_uuid w (rt_uuids w)) = None \<Longrightarrow>
    create_task obj ur tg tt ti au sc w = (x, w') \<Longrightarrow> task_event_step w Task_Created w'"
| paused: "pause_task i w = (x, w') \<Longrightarrow> task_event_step w (Task_Paused i) w'"
| resumed: "resume_task i w = (x, w') \<Longrightarrow> task_event_step w (Task_Resumed i) w'"
| cancelled: "cancel_task i w = (x, w') \<Longrightarrow> task_event_step w (Task_Cancelled i) w'"
| clarified: "provide_clarification i m w = (x, w') \<Longrightarrow> task_event_step w (Task_Clarified i m) w'"
| approved: "approve_action i by w = (x, w') \<Longrightarrow> task_event_step w (Action_Approved i by) w'"
| rejected: "reject_action i reason w = (x, w') \<Longrightarrow> task_event_step w (Action_Rejected i reason) w'"
| stepping: "(\<And>s. map_of (aw_tasks w) i = Some s \<Longrightarrow> fresh_action s w) \<Longrightarrow>
    agent_step i ts platform w = (x, w') \<Longrightarrow> task_event_step w (Task_Stepped i ts platform) w'"
| other_work: "agent_kept w w' \<Longrightarrow> task_event_step w Other_Work w'"

inductive task_run :: "agent_w \<Rightarrow> task_event list \<Rightarrow> agent_w \<Rightarrow> bool" where
  no_task_event: "task_run w [] w"
| task_event: "task_run w evs w1 \<Longrightarrow> task_event_step w1 e w2 \<Longrightarrow> task_run w (evs @ [e]) w2"

lemma task_event_step_good:
  assumes "task_event_step w e w'" and "agents_ok w"
  shows "agent_good w w' \<and> (\<forall>i p. was_approved w' i p \<longrightarrow>
    was_approved w i p \<or> (\<exists>by. e = Action_Approved i by \<and> awaits w i p))"
  using assms
proof (induction rule: task_event_step.induct)
  case created
  then show ?case using create_task_safe [THEN wpD] by (auto simp: agent_safe_def approvals_kept_def)
next
  case paused
  then show ?case using pause_task_safe [THEN wpD] by (auto simp: agent_safe_def approvals_kept_def)
next
  case resumed
  then show ?case using resume_task_safe [THEN wpD] by (auto simp: agent_safe_def approvals_kept_def)
next
  case cancelled
  then show ?case using cancel_task_safe [THEN wpD] by (auto simp: agent_safe_def approvals_kept_def)
next
  case clarified
  then show ?case using provide_clarification_safe [THEN wpD]
    by (auto simp: agent_safe_def approvals_kept_def)
next
  case (approved i "by" w x w')
  then show ?case using approve_action_good [THEN wpD]
    by (fastforce simp: approved_only_def)
next
  case rejected
  then show ?case using reject_action_safe [THEN wpD] by (auto simp: agent_safe_def approvals_kept_def)
next
  case (stepping w i ts platform x w')
  then have "agent_safe w w'" using agent_step_safe [THEN wpD, of w i ts platform x w'] by blast
  then show ?case by (auto simp: agent_safe_def approvals_kept_def)
next
  case other_work
  then show ?case using agent_good_idle by (auto simp: agent_kept_def was_approved_def)
qed

lemma agent_good_trans: "agent_good w w1 \<Longrightarrow> agent_good w1 w2 \<Longrightarrow> agent_good w w2"
  by (simp add: agent_good_def ends_kept_def)

text \<open>
  Where an approval comes from: an event that approved it, at a moment when its task waited for the
  approval of that very action.
\<close>

definition approval_traced :: "agent_w \<Rightarrow> task_event list \<Rightarrow> agent_w \<Rightarrow> uuid \<Rightarrow> uuid \<Rightarrow> bool" where
  "approval_traced w0 evs w i p \<longleftrightarrow> (\<exists>evs1 by evs2 w1.
     evs = evs1 @ Action_Approved i by # evs2 \<and> task_run w0 evs1 w1 \<and> awaits w1 i p \<and>
     task_run w1 (Action_Approved i by # evs2) w)"

lemma traced_later:
  assumes "approval_traced w0 evs w i p" and "task_event_step w e w'"
  shows "approval_traced w0 (evs @ [e]) w' i p"
proof -
  obtain evs1 b evs2 w1 where t: "evs = evs1 @ Action_Approved i b # evs2" "task_run w0 evs1 w1" "awaits w1 i p"
    "task_run w1 (Action_Approved i b # evs2) w"
    using assms(1) by (auto simp: approval_traced_def)
  have "task_run w1 (Action_Approved i b # (evs2 @ [e])) w'" using task_event [OF t(4) assms(2)] by simp
  then show ?thesis using t(1-3) unfolding approval_traced_def by (metis append.assoc append_Cons)
qed

lemma traced_now:
  assumes "task_run w0 evs w" and "awaits w i p" and "task_event_step w (Action_Approved i b) w'"
  shows "approval_traced w0 (evs @ [Action_Approved i b]) w' i p"
proof -
  have "task_run w [Action_Approved i b] w'" using task_event [OF no_task_event assms(3)] by simp
  then show ?thesis using assms(1,2) unfolding approval_traced_def by blast
qed

lemma task_run_good:
  assumes "task_run w evs w'" and "agents_ok w"
  shows "agent_good w w' \<and> (\<forall>i p. was_approved w' i p \<longrightarrow> was_approved w i p \<or> approval_traced w evs w' i p)"
  using assms
proof (induction rule: task_run.induct)
  case (no_task_event w)
  then show ?case by (auto intro: agent_good_idle)
next
  case (task_event w evs w1 e w2)
  then have 1: "agent_good w w1" "\<And>i p. was_approved w1 i p \<Longrightarrow> was_approved w i p \<or> approval_traced w evs w1 i p"
    by blast+
  from 1(1) task_event_step_good [OF task_event.hyps(2)]
  have 2: "agent_good w1 w2" "\<And>i p. was_approved w2 i p \<Longrightarrow>
      was_approved w1 i p \<or> (\<exists>by. e = Action_Approved i by \<and> awaits w1 i p)"
    by (auto simp: agent_good_def)
  show ?case
  proof (intro conjI allI impI)
    show "agent_good w w2" using 1(1) 2(1) by (rule agent_good_trans)
    fix i p assume "was_approved w2 i p"
    then consider "was_approved w1 i p" | b where "e = Action_Approved i b" "awaits w1 i p" using 2(2) by blast
    then show "was_approved w i p \<or> approval_traced w (evs @ [e]) w2 i p"
    proof cases
      case 1
      then show ?thesis using \<open>\<And>i p. was_approved w1 i p \<Longrightarrow> _\<close> traced_later task_event.hyps(2) by blast
    next
      case 2
      then show ?thesis using traced_now [OF task_event.hyps(1)] task_event.hyps(2) by blast
    qed
  qed
qed

lemma agents_ok_empty: "aw_tasks w = [] \<Longrightarrow> agents_ok w"
  by (simp add: agents_ok_def)

lemma run_sound:
  assumes "task_run w0 evs w" and "aw_tasks w0 = []" and "map_of (aw_tasks w) i = Some s"
  shows "agents_ok w" and "ag_id s = i" and "task_sound (aw_budget w0) s" and "aw_budget w = aw_budget w0"
    and "p \<in> approved_ids s \<Longrightarrow> approval_traced w0 evs w i p"
proof -
  note g = task_run_good [OF assms(1) agents_ok_empty [OF assms(2)]]
  then show ok: "agents_ok w" and b: "aw_budget w = aw_budget w0" by (auto simp: agent_good_def)
  from stored_ok [OF ok assms(3)] b show "ag_id s = i" "task_sound (aw_budget w0) s" by simp_all
  show "approval_traced w0 evs w i p" if "p \<in> approved_ids s"
    using g that assms(2,3) by (auto simp: was_approved_def)
qed

text \<open>
  C11.  Tasks stay within their budgets: in every registry reached from an empty one, whatever the model
  answers and however the actions end, a task has recorded as many actions as it has counted and no
  more than the configuration allows, and its model calls, its installations and the retries of each
  kind of action are bounded likewise.
\<close>

theorem agent_budgets:
  assumes "task_run w0 evs w" and "aw_tasks w0 = []" and "map_of (aw_tasks w) i = Some s"
  shows "ag_action_count s = length (ag_actions s) \<and> length (ag_actions s) \<le> bc_max_actions (aw_budget w0) \<and>
    ag_model_call_count s \<le> bc_max_model_calls (aw_budget w0) \<and>
    ag_installation_count s \<le> bc_max_tool_installations (aw_budget w0) \<and>
    retries_of s k \<le> bc_max_retries_per_action (aw_budget w0)"
  using run_sound(3) [OF assms] by (auto simp: task_sound_def in_budget_def)

text \<open>
  C21.  CANCELLED, COMPLETED, FAILED and BLOCKED are ends: whatever operation begins on a task in one of
  them, in whatever registry, changes nothing at all and creates no process.  A step and a cancellation
  return the task as it is; pausing, resuming, clarifying, approving and rejecting are refused with the
  error of the operation.  An operation that began before the task ended is another matter, shown next.
\<close>

theorem terminal_tasks_final:
  fixes w :: agent_w
  assumes "map_of (aw_tasks w) i = Some s" and "ag_is_terminal s"
  shows "agent_step i ts platform w = (Inr s, w) \<and> cancel_task i w = (Inr s, w) \<and>
    (\<exists>m. pause_task i w = (Inl (InvalidStateTransitionError m), w)) \<and>
    (\<exists>m. resume_task i w = (Inl (InvalidStateTransitionError m), w)) \<and>
    (\<exists>m. provide_clarification i answer w = (Inl (InvalidStateTransitionError m), w)) \<and>
    (\<exists>m. approve_action i by w = (Inl (NotWaitingForApprovalError m), w)) \<and>
    (\<exists>m. reject_action i reason w = (Inl (NotWaitingForApprovalError m), w))"
proof -
  have get: "bnd (task_get i) f w = f s w" for f :: "agent_task \<Rightarrow> (agent_w, 'b) prog"
    using assms(1) by (simp add: task_get_def bnd_bnd)
  have phase: "ag_phase s \<noteq> Ph_PAUSED" "ag_phase s \<noteq> Ph_WAITING_FOR_AUTHORIZATION"
    "ag_phase s \<noteq> Ph_WAITING_FOR_APPROVAL"
    using assms(2) by (auto simp: ag_is_terminal_def TERMINAL_PHASES_def)
  have "agent_step i ts platform w = (Inr s, w)" "cancel_task i w = (Inr s, w)"
    using assms(2) by (simp_all add: agent_step_def cancel_task_def get ret_def)
  moreover have "\<exists>m. pause_task i w = (Inl (InvalidStateTransitionError m), w)"
    using assms(2) by (simp add: pause_task_def get invalid_task_def raise_def)
  moreover have "\<exists>m. resume_task i w = (Inl (InvalidStateTransitionError m), w)"
    "\<exists>m. provide_clarification i answer w = (Inl (InvalidStateTransitionError m), w)"
    using phase by (simp_all add: resume_task_def provide_clarification_def get invalid_task_def raise_def)
  moreover have "\<exists>m. approve_action i by w = (Inl (NotWaitingForApprovalError m), w)"
    "\<exists>m. reject_action i reason w = (Inl (NotWaitingForApprovalError m), w)"
    using phase by (auto simp: approve_action_def reject_action_def get not_waiting_def raise_def split: option.split)
  ultimately show ?thesis by blast
qed

text \<open>
  A step that was waiting for the provider when its task ended goes on with the task it had read, and saves
  it over the end: here with a decision that the gate does not allow.
\<close>

theorem suspended_step_overwrites:
  fixes w :: agent_w
  assumes "map_of (aw_tasks w) i = Some c" and "ag_phase c = Ph_CANCELLED"
    and "ag_id s = i" and "gate_evaluate s d = Inr g" and "\<not> gd_allowed g"
  shows "wp (act_on s d ts platform) (\<lambda>x w'. \<exists>s'. map_of (aw_tasks w') i = Some s' \<and>
    ag_phase s' = Ph_WAITING_FOR_AUTHORIZATION) w"
  using assms(3-5)
  by (simp add: act_on_def wps Let_def set_result_def upd_action_def map_of_update)

text \<open>What a step may have run, and what came before it.\<close>

definition rightly_ran :: "target_scope option \<Rightarrow> agent_task \<Rightarrow> agent_task \<Rightarrow> bool" where
  "rightly_ran ts s s' \<longleftrightarrow> may_have_run ts s s' \<and> approved_ids s' \<subseteq> approved_ids s"

lemma step_runs:
  assumes "task_run w0 evs w" and "aw_tasks w0 = []" and "agent_step i ts platform w = (x, w')"
  shows "os_calls w' = os_calls w \<or>
    (\<exists>s s'. map_of (aw_tasks w) i = Some s \<and> map_of (aw_tasks w') i = Some s' \<and> rightly_ran ts s s')"
proof (cases "map_of (aw_tasks w) i")
  case None
  then have "agent_step i ts platform w = (Inl (TaskNotFoundError (''Agent task '' @ uuid_str i @ '' was not found.'')), w)"
    by (simp add: agent_step_def task_get_def bnd_gets raise_def bnd_def gets_def)
  then show ?thesis using assms(3) by simp
next
  case (Some s)
  note s = run_sound [OF assms(1,2) Some]
  have p: "pending_ok s" "pending_in s" "approved_ok s" "in_budget (aw_budget w) s"
    using s(3,4) by (auto simp: task_sound_def pending_ok_def pending_in_def)
  from agent_step_post [OF Some s(2) p(4,2,3), THEN wpD, OF assms(3)]
  consider "stepped ts s w w'" | "agent_quiet w w'" by blast
  then show ?thesis
  proof cases
    case 1
    then obtain s' where s': "map_of (aw_tasks w') i = Some s'" "approved_ids s' \<subseteq> approved_ids s"
        "os_calls w' = os_calls w \<or> may_have_run ts s s'"
      using p(1) s(2) by (auto simp: stepped_def)
    then show ?thesis using Some unfolding rightly_ran_def by blast
  qed (simp add: agent_quiet_def)
qed

lemma approved_nth: "k < length (ag_actions s) \<Longrightarrow> aa_approval_state (ag_actions s ! k) = Appr_APPROVED \<Longrightarrow>
    aa_id (ag_actions s ! k) \<in> approved_ids s"
  by (auto simp: approved_ids_def)

lemma rightly_ran_cases:
  assumes "rightly_ran ts s s'"
  obtains k a where "took_up s s' k" "a = ag_actions s' ! k" "ts \<noteq> None" "in_scope s' a"
    "aa_action_type a = COLLECT_INFORMATION \<or>
     aa_action_type a \<in> {RUN_DIAGNOSTIC, INSTALL_TOOL} \<and> ag_authorization_status s' = ''AUTHORIZED'' \<and>
       resumed s k \<and> aa_approval_state a = Appr_APPROVED \<and> aa_id a \<in> approved_ids s"
proof -
  from assms obtain k where k: "took_up s s' k" "k < length (ag_actions s')" "may_run ts (ag_actions s' ! k)"
      "allowed s' (ag_actions s' ! k)"
      "aa_action_type (ag_actions s' ! k) \<in> {RUN_DIAGNOSTIC, INSTALL_TOOL} \<Longrightarrow>
        resumed s k \<and> aa_approval_state (ag_actions s' ! k) = Appr_APPROVED"
      "approved_ids s' \<subseteq> approved_ids s"
    unfolding rightly_ran_def may_have_run_def by blast
  show thesis
    by (rule that [OF k(1) refl]) (use k approved_nth [OF k(2)] in \<open>auto simp: may_run_def allowed_def\<close>)
qed

text \<open>
  C4.  Which action may run, and on whose word.  In every registry reached from an empty one, a step
  either creates no process, or it was given a target scope and the very action it takes up, the pending
  one or the one it records, is aimed at the target of the task if it names one.  That action only collects
  information, or it is a diagnostic or an installation; then the task is AUTHORIZED, the action is the one
  that was pending, it is APPROVED, and the user approved it while the task waited for the approval of that
  very action.  Collecting information asks for no approval.  The operations run one after the other.
\<close>

theorem execution_needs_approval:
  assumes "task_run w0 evs w" and "aw_tasks w0 = []" and "agent_step i ts platform w = (x, w')"
  shows "os_calls w' = os_calls w \<or>
    (\<exists>s s' k a. map_of (aw_tasks w) i = Some s \<and> map_of (aw_tasks w') i = Some s' \<and>
       took_up s s' k \<and> a = ag_actions s' ! k \<and> ts \<noteq> None \<and> in_scope s' a \<and>
       (aa_action_type a = COLLECT_INFORMATION \<or>
        aa_action_type a \<in> {RUN_DIAGNOSTIC, INSTALL_TOOL} \<and> ag_authorization_status s' = ''AUTHORIZED'' \<and>
          resumed s k \<and> aa_approval_state a = Appr_APPROVED \<and> approval_traced w0 evs w i (aa_id a)))"
  using step_runs [OF assms]
proof (elim disjE exE conjE)
  fix s s'
  assume s: "map_of (aw_tasks w) i = Some s" "map_of (aw_tasks w') i = Some s'" and "rightly_ran ts s s'"
  from this(3) show ?thesis
    by (rule rightly_ran_cases) (use s run_sound(5) [OF assms(1,2) s(1)] in blast)
qed simp

section \<open>Coming to rest\<close>

text \<open>The caller's loop: step after step, whatever each returns.\<close>

fun drive :: "uuid \<Rightarrow> (target_scope option \<times> string) list \<Rightarrow> agent_w \<Rightarrow> agent_w" where
  "drive i [] w = w"
| "drive i ((ts, platform) # inputs) w = drive i inputs (snd (agent_step i ts platform w))"

definition resumable :: "uuid \<Rightarrow> agent_w \<Rightarrow> agent_task \<Rightarrow> bool" where
  "resumable i w s \<longleftrightarrow> map_of (aw_tasks w) i = Some s \<and> ag_id s = i \<and> in_budget (aw_budget w) s \<and>
     pending_in s \<and> approved_ok s"

lemma step_resumable:
  assumes "resumable i w s" and "provider_ok (aw_generate w)"
  obtains s' where "resumable i (snd (agent_step i ts platform w)) s'"
    and "provider_ok (aw_generate (snd (agent_step i ts platform w)))"
    and "aw_budget (snd (agent_step i ts platform w)) = aw_budget w"
    and "at_rest s \<and> s' = s \<or> steps_left (aw_budget w) s' < steps_left (aw_budget w) s"
proof -
  obtain x w' where w': "agent_step i ts platform w = (x, w')" by (cases "agent_step i ts platform w")
  from agent_step_post [THEN wpD, OF _ _ _ _ _ w', of s] assms
  consider "stepped ts s w w'" | "at_rest s" "agent_quiet w w'" by (auto simp: resumable_def)
  then show thesis
  proof cases
    case 1
    then obtain s' where "resumable i w' s'" "only_task i w w'"
        "steps_left (aw_budget w) s' < steps_left (aw_budget w) s"
      using assms(1) unfolding stepped_def resumable_def only_task_def
      by (auto simp: approved_ok_def settled_def)
    then show thesis using that [of s'] w' assms(2) by (simp add: only_task_def)
  next
    case 2
    then show thesis using that [of s] w' assms by (simp add: resumable_def agent_quiet_def agent_kept_def)
  qed
qed

lemma drive_rests:
  assumes "resumable i w s" and "provider_ok (aw_generate w)" and "steps_left (aw_budget w) s \<le> length inputs"
  shows "\<exists>s'. map_of (aw_tasks (drive i inputs w)) i = Some s' \<and> at_rest s'"
  using assms
proof (induction inputs arbitrary: w s)
  case Nil
  then show ?case by (auto simp: resumable_def steps_left_def split: if_splits)
next
  case (Cons inp inputs)
  obtain ts platform where inp: "inp = (ts, platform)" by (cases inp)
  from step_resumable [OF Cons.prems(1,2), of ts platform] obtain s' where
    s': "resumable i (snd (agent_step i ts platform w)) s'"
      "provider_ok (aw_generate (snd (agent_step i ts platform w)))"
      "aw_budget (snd (agent_step i ts platform w)) = aw_budget w"
      "at_rest s \<and> s' = s \<or> steps_left (aw_budget w) s' < steps_left (aw_budget w) s" by blast
  then have "steps_left (aw_budget w) s' \<le> length inputs"
    using Cons.prems(3) by (auto simp: steps_left_def)
  then show ?case using Cons.IH [OF s'(1,2)] s'(3) inp by simp
qed

lemma steps_left_le: "steps_left c s \<le> bc_max_actions c + 2"
  by (auto simp: steps_left_def intro: le_SucI)

text \<open>
  C20.  Stepping comes to rest.  If the provider answers or fails as a provider, two steps more than the
  configured number of actions, with any scopes, bring a task of any reachable registry to a terminal
  phase or to one that waits for the user.
\<close>

theorem steps_come_to_rest:
  assumes "task_run w0 evs w" and "aw_tasks w0 = []" and "map_of (aw_tasks w) i = Some s"
    and "provider_ok (aw_generate w)" and "bc_max_actions (aw_budget w0) + 2 \<le> length inputs"
  shows "\<exists>s'. map_of (aw_tasks (drive i inputs w)) i = Some s' \<and>
    ag_phase s' \<in> {Ph_CANCELLED, Ph_COMPLETED, Ph_FAILED, Ph_BLOCKED, Ph_PAUSED,
      Ph_WAITING_FOR_APPROVAL, Ph_WAITING_FOR_AUTHORIZATION}"
proof -
  note s = run_sound [OF assms(1-3)]
  have "resumable i w s"
    using s(2-4) assms(3) by (auto simp: resumable_def task_sound_def pending_ok_def pending_in_def)
  moreover have "steps_left (aw_budget w) s \<le> length inputs"
    using steps_left_le [of "aw_budget w" s] assms(5) s(4) by simp
  ultimately obtain s' where "map_of (aw_tasks (drive i inputs w)) i = Some s'" "at_rest s'"
    using drive_rests assms(4) by blast
  then show ?thesis by (auto simp: at_rest_def ag_is_terminal_def TERMINAL_PHASES_def)
qed

section \<open>What the phases do not say\<close>

text \<open>
  A finding is verified by what it was drawn from: analysing a task's only observation and then
  verifying the finding marks it as a VERIFIED_FINDING, with that observation as the evidence.
\<close>

theorem verification_not_independent:
  assumes "ag_observations s = [e]" and "ag_findings s = []"
  shows "\<exists>s1 s2 f w1 w2. do_analyze s k w = (Inr (Act_Done s1), w1) \<and>
    do_verify s1 k w1 = (Inr (Act_Done s2), w2) \<and> ag_findings s2 = [f] \<and>
    evd_kind f = EK_VERIFIED_FINDING \<and>
    evd_summary f = ''Based on: '' @ evd_summary e @ '' | verified by: '' @ evd_summary e"
  using assms
  by (simp add: do_analyze_def do_verify_def propose_finding_def new_evidence_def verify_evidence_def
      bnd_eq ret_def uuid4_def now_def set_result_def upd_action_def take_last_def Let_def)

text \<open>
  Approving an action that asks for approval asks again: the step that runs it leaves the task
  waiting for the same action, which is approved already.
\<close>

theorem approval_loop:
  assumes "map_of (aw_tasks w) i = Some s" and "ag_id s = i" and "ag_phase s = Ph_WAITING_FOR_APPROVAL"
    and "ag_pending_action_id s = Some p" and "action_index p (ag_actions s) = Some k"
    and "aa_action_type (ag_actions s ! k) = WAIT_FOR_APPROVAL"
  shows "\<exists>s'. map_of (aw_tasks (snd (agent_step i ts platform (snd (approve_action i by w))))) i = Some s' \<and>
    ag_phase s' = Ph_WAITING_FOR_APPROVAL \<and> ag_pending_action_id s' = Some p \<and>
    aa_approval_state (ag_actions s' ! k) = Appr_APPROVED"
proof -
  note k = action_index_lt [OF assms(5)]
  let ?acts = "(ag_actions s)[k := (ag_actions s ! k)\<lparr>aa_approval_state := Appr_APPROVED\<rparr>]"
  have "map aa_id ?acts = map aa_id (ag_actions s)"
    using k by (simp add: map_update list_update_same_conv)
  from action_index_ids [OF this] have i: "action_index p ?acts = Some k" using assms(5) by simp
  have "wp (approve_action i by) (\<lambda>x w1. wp (agent_step i ts platform) (\<lambda>x w'. \<exists>s'.
      map_of (aw_tasks w') i = Some s' \<and> ag_phase s' = Ph_WAITING_FOR_APPROVAL \<and>
      ag_pending_action_id s' = Some p \<and> aa_approval_state (ag_actions s' ! k) = Appr_APPROVED) w1) w"
    using assms k i
    by (simp add: approve_action_def agent_step_def execute_action_def find_action_def upd_action_def
        wp_task_get wps map_of_update ag_is_terminal_def TERMINAL_PHASES_def)
  then show ?thesis by (simp add: wp_def)
qed

text \<open>
  A clarification lifts a missing authorization: answering a task that waits because it is not
  AUTHORIZED puts it to PLANNING with its status unchanged.
\<close>

theorem clarification_resumes_unauthorized:
  assumes "map_of (aw_tasks w) i = Some s" and "ag_id s = i" and "ag_phase s = Ph_WAITING_FOR_AUTHORIZATION"
    and "ag_authorization_status s \<noteq> ''AUTHORIZED''"
  shows "\<exists>s' w'. provide_clarification i answer w = (Inr s', w') \<and> map_of (aw_tasks w') i = Some s' \<and>
    ag_phase s' = Ph_PLANNING \<and> ag_authorization_status s' \<noteq> ''AUTHORIZED'' \<and> \<not> at_rest s'"
proof -
  have "wp (provide_clarification i answer) (\<lambda>x w'. \<exists>s'. x = Inr s' \<and> map_of (aw_tasks w') i = Some s' \<and>
    ag_phase s' = Ph_PLANNING \<and> ag_authorization_status s' \<noteq> ''AUTHORIZED'' \<and> \<not> at_rest s') w"
    using assms by (simp add: provide_clarification_def new_evidence_def wp_task_get wps map_of_update
        at_rest_def ag_is_terminal_def TERMINAL_PHASES_def)
  then show ?thesis by (cases "provide_clarification i answer w") (auto simp: wp_def)
qed

section \<open>A sample task\<close>

definition sample_decision :: "action_type \<Rightarrow> agent_decision" where
  "sample_decision t = \<lparr>ad_reasoning_summary = ''Look first.'', ad_intent = CONTINUE,
     ad_next_action = ''Inspect'', ad_action_type = t, ad_required_capability = None, ad_tool = None,
     ad_arguments = [], ad_requires_approval = False, ad_missing_information = [],
     ad_expected_evidence = [], ad_verification_plan = [], ad_confidence = 1/2\<rparr>"

definition sample_agent_w :: "action_type \<Rightarrow> agent_w" where
  "sample_agent_w t = inst_w.extend (sample_inst_w APPROVED)
     \<lparr>aw_budget = default_budget, aw_catalog_at = 0, aw_discovery = default_discovery_config, aw_healing = None,
      aw_generate = (\<lambda>_. Inr PNone), aw_prompts = [], aw_validate = (\<lambda>_. Inr (sample_decision t)),
      aw_tasks = [], aw_events = []\<rparr>"

abbreviation sample_created :: "action_type \<Rightarrow> agent_w" where
  "sample_created t \<equiv> snd (create_task ''Check'' ''Check it'' (Some ''host'') None None ''AUTHORIZED'' []
     (sample_agent_w t))"

definition sample_task :: agent_task where
  "sample_task = (new_task 200 ''Check'' ''Check it'' (Some ''host'') None None ''AUTHORIZED'' [] 0 1 2)
     \<lparr>ag_phase := Ph_PLANNING, ag_updated_at := 7\<rparr>"

lemma sample_created:
  "aw_tasks (sample_created t) = [(200, sample_task)]" "aw_generate (sample_created t) = (\<lambda>_. Inr PNone)"
  "task_run (sample_agent_w t) [Task_Created] (sample_created t)"
proof -
  have w: "aw_tasks (sample_agent_w t) = []" "rt_uuids (sample_agent_w t) = 0"
      "rt_uuid (sample_agent_w t) 0 = 200" "aw_generate (sample_agent_w t) = (\<lambda>_. Inr PNone)"
    by (simp_all add: sample_agent_w_def sample_inst_w_def inst_w.extend_def)
  have "wp (create_task ''Check'' ''Check it'' (Some ''host'') None None ''AUTHORIZED'' [])
      (\<lambda>x w'. aw_tasks w' = [(200, sample_task)] \<and> aw_generate w' = (\<lambda>_. Inr PNone)) (sample_agent_w t)"
    by (simp add: create_task_def task_create_def wps Let_def count_active_def dvalues_def new_task_def sample_task_def
        sample_agent_w_def sample_inst_w_def inst_w.extend_def default_budget_def truthy_def)
  then show "aw_tasks (sample_created t) = [(200, sample_task)]" "aw_generate (sample_created t) = (\<lambda>_. Inr PNone)"
    by (simp_all add: wp_def)
  have "task_event_step (sample_agent_w t) Task_Created (sample_created t)"
    by (rule created [of _ "''Check''" "''Check it''" "Some ''host''" None None "''AUTHORIZED''" "[]"])
      (simp_all add: w prod_eq_iff)
  from task_event [OF no_task_event this] show "task_run (sample_agent_w t) [Task_Created] (sample_created t)"
    by simp
qed

lemma sample_agent_empty: "aw_tasks (sample_agent_w t) = []" "aw_budget (sample_agent_w t) = default_budget"
  by (simp_all add: sample_agent_w_def inst_w.extend_def)

theorem agent_budgets_witness:
  "ag_action_count sample_task = length (ag_actions sample_task) \<and> retries_of sample_task ''INSTALL_TOOL'' \<le> 2"
  using agent_budgets [OF sample_created(3) [of RUN_DIAGNOSTIC] sample_agent_empty(1), of 200 sample_task "''INSTALL_TOOL''"]
  by (simp add: sample_created(1) sample_agent_empty(2) default_budget_def)

theorem terminal_tasks_final_witness:
  "\<exists>s w. cancel_task 200 (sample_created RUN_DIAGNOSTIC) = (Inr s, w) \<and> ag_phase s = Ph_CANCELLED \<and>
     agent_step 200 (Some sample_target) ''LINUX'' w = (Inr s, w) \<and>
     (\<exists>m. approve_action 200 ''ann'' w = (Inl (NotWaitingForApprovalError m), w))"
proof -
  obtain x w where c: "cancel_task 200 (sample_created RUN_DIAGNOSTIC) = (x, w)"
    by (cases "cancel_task 200 (sample_created RUN_DIAGNOSTIC)")
  have "wp (cancel_task 200) (\<lambda>x w'. \<exists>s. x = Inr s \<and> ag_phase s = Ph_CANCELLED \<and> map_of (aw_tasks w') 200 = Some s)
      (sample_created RUN_DIAGNOSTIC)"
    by (simp add: cancel_task_def wp_task_get wps sample_created(1))
      (simp add: sample_task_def new_task_def ag_is_terminal_def TERMINAL_PHASES_def)
  then obtain s where s: "x = Inr s" "ag_phase s = Ph_CANCELLED" "map_of (aw_tasks w) 200 = Some s"
    using c by (auto simp: wp_def)
  from terminal_tasks_final [OF s(3)] s(1,2) c show ?thesis
    by (auto simp: ag_is_terminal_def TERMINAL_PHASES_def)
qed

theorem execution_needs_approval_witness:
  "os_calls (snd (agent_step 200 None ''LINUX'' (sample_created RUN_DIAGNOSTIC))) =
   os_calls (sample_created RUN_DIAGNOSTIC)"
proof -
  obtain x w' where s: "agent_step 200 None ''LINUX'' (sample_created RUN_DIAGNOSTIC) = (x, w')"
    by (cases "agent_step 200 None ''LINUX'' (sample_created RUN_DIAGNOSTIC)")
  show ?thesis
    using execution_needs_approval [OF sample_created(3) sample_agent_empty(1) s] s by auto
qed

theorem steps_come_to_rest_witness:
  "\<exists>s'. map_of (aw_tasks (drive 200 (replicate 42 (None, ''LINUX'')) (sample_created CHECK_ENVIRONMENT))) 200 = Some s' \<and>
    ag_phase s' \<noteq> Ph_EXECUTING"
proof -
  have "provider_ok (aw_generate (sample_created CHECK_ENVIRONMENT))"
    by (simp add: sample_created(2) provider_ok_def)
  from steps_come_to_rest [OF sample_created(3) sample_agent_empty(1) _ this, of 200 sample_task
      "replicate 42 (None, ''LINUX'')"]
  show ?thesis by (auto simp: sample_created(1) sample_agent_empty(2) default_budget_def)
qed

definition sample_observation :: evidence where
  "sample_observation = \<lparr>evd_id = 300, evd_kind = EK_OBSERVATION, evd_summary = ''Port 22 is open'',
     evd_source_action_id = None, evd_created_at = 0\<rparr>"

theorem verification_not_independent_witness:
  "\<exists>s1 s2 f w1 w2. do_analyze (sample_task\<lparr>ag_observations := [sample_observation]\<rparr>) 0
       (sample_agent_w ANALYZE_OUTPUT) = (Inr (Act_Done s1), w1) \<and>
     do_verify s1 0 w1 = (Inr (Act_Done s2), w2) \<and> ag_findings s2 = [f] \<and>
     evd_summary f = ''Based on: Port 22 is open | verified by: Port 22 is open''"
  using verification_not_independent [of "sample_task\<lparr>ag_observations := [sample_observation]\<rparr>"
      sample_observation 0 "sample_agent_w ANALYZE_OUTPUT"]
  by (fastforce simp: sample_task_def new_task_def sample_observation_def)

definition sample_waiting_action :: agent_action where
  "sample_waiting_action = \<lparr>aa_id = 300, aa_action_type = WAIT_FOR_APPROVAL, aa_target = PNone,
     aa_capability = None, aa_tool = None, aa_parameters = [], aa_requires_approval = False,
     aa_approval_state = Appr_NOT_REQUIRED, aa_expected_result = ''Ask'', aa_verification_requirement = [],
     aa_reasoning_summary = ''Ask first.'', aa_confidence = 1, aa_result_summary = None,
     aa_error_category = None, aa_created_at = 0, aa_completed_at = None\<rparr>"

definition sample_waiting_w :: agent_w where
  "sample_waiting_w = (sample_agent_w WAIT_FOR_APPROVAL)\<lparr>aw_tasks := [(200, sample_task
     \<lparr>ag_phase := Ph_WAITING_FOR_APPROVAL, ag_actions := [sample_waiting_action],
      ag_pending_action_id := Some 300\<rparr>)]\<rparr>"

theorem approval_loop_witness:
  "\<exists>s'. map_of (aw_tasks (snd (agent_step 200 None ''LINUX'' (snd (approve_action 200 ''ana'' sample_waiting_w))))) 200 =
       Some s' \<and> ag_phase s' = Ph_WAITING_FOR_APPROVAL"
  using approval_loop [of sample_waiting_w 200 _ 300 0 None "''LINUX''" "''ana''"]
  by (fastforce simp: sample_waiting_w_def sample_waiting_action_def sample_task_def new_task_def)

definition sample_unauthorized_w :: agent_w where
  "sample_unauthorized_w = (sample_agent_w ASK_USER)\<lparr>aw_tasks := [(200, sample_task
     \<lparr>ag_phase := Ph_WAITING_FOR_AUTHORIZATION, ag_authorization_status := ''UNKNOWN''\<rparr>)]\<rparr>"

theorem clarification_resumes_unauthorized_witness:
  "\<exists>s' w'. provide_clarification 200 ''yes'' sample_unauthorized_w = (Inr s', w') \<and> ag_phase s' = Ph_PLANNING \<and>
     ag_authorization_status s' \<noteq> ''AUTHORIZED''"
  using clarification_resumes_unauthorized [of sample_unauthorized_w 200 _ "''yes''"]
  by (fastforce simp: sample_unauthorized_w_def sample_task_def new_task_def)

end
