(* ===== verification/Agent_Storage.thy ===== *)
theory Agent_Storage
  imports Agent_Store Agent_Lifecycle
begin

text \<open>
  Snapshots lose nothing, and the registry on the database does what the one in memory does, but for the
  time of the last update.
\<close>

section \<open>Values\<close>

lemma rb_simps [simp]: "rb (Inr x) f = f x" "rb (Inl e) f = Inl e"
  by (simp_all add: rb_def)

definition uuid_ok :: "uuid \<Rightarrow> bool" where
  "uuid_ok u \<longleftrightarrow> u < 2 ^ 128"

lemma isoformat_nonempty: "isoformat t \<noteq> []"
  by (cases "civil (t div 86400000000)") (simp add: isoformat_def Let_def)

lemma read_uuid: "uuid_ok u \<Longrightarrow> uuid_of (p_uuid u) = Inr u"
  by (simp add: uuid_of_def p_uuid_def uuid_ok_def uuid_roundtrip)

lemma uuid_text: "uuid_str u \<noteq> []"
  by (simp add: uuid_str_def Let_def)

lemma read_ouuid: "pred_option uuid_ok x \<Longrightarrow> as_ouuid (p_ouuid x) = Inr x"
  by (cases x) (simp_all add: as_ouuid_def p_ouuid_def read_uuid, simp add: p_uuid_def uuid_text)

lemma read_time: "datetime_range t \<Longrightarrow> as_time (p_time t) = Inr t"
  by (simp add: as_time_def dt_def p_time_def isoformat_nonempty as_str_def iso_roundtrip)

lemma read_otime: "pred_option datetime_range x \<Longrightarrow> dt (p_otime x) = Inr x"
  by (cases x) (simp_all add: dt_def p_otime_def isoformat_nonempty as_str_def iso_roundtrip)

lemma read_ostr: "as_ostr (p_ostr x) = Inr x"
  by (cases x) (simp_all add: as_ostr_def p_ostr_def)

lemma rmap_map: "(\<And>x. x \<in> set xs \<Longrightarrow> f (g x) = Inr x) \<Longrightarrow> rmap f (map g xs) = Inr xs"
  by (induction xs) auto

lemma read_strs: "as_list as_str (p_strs xs) = Inr xs"
  unfolding as_list_def p_strs_def by (simp add: rmap_map as_str_def)

lemma read_list: "(\<And>x. x \<in> set xs \<Longrightarrow> f (g x) = Inr x) \<Longrightarrow> as_list f (PList (map g xs)) = Inr xs"
  unfolding as_list_def by (simp add: rmap_map)

lemma read_dict:
  assumes "\<And>k v. (k, v) \<in> set d \<Longrightarrow> f (g v) = Inr v"
  shows "as_dict f (PDict (map (\<lambda>(k, v). (k, g v)) d)) = Inr d"
  unfolding as_dict_def pyval.case using assms by (auto intro!: rmap_map)

lemma read_plain_dict: "as_dict Inr (PDict d) = Inr d"
  using read_dict [of d Inr id] by (simp add: case_prod_unfold)

lemma get_else_list: "dget_or k PNone d = PList xs \<Longrightarrow> get_else k (PList []) d = PList xs"
  by (simp add: get_else_def Let_def)

lemma get_else_strs: "dget_or k PNone d = p_strs xs \<Longrightarrow> get_else k (PList []) d = p_strs xs"
  by (simp add: p_strs_def get_else_list)

lemma get_else_dict: "dget_or k PNone d = PDict xs \<Longrightarrow> get_else k (PDict []) d = PDict xs"
  by (simp add: get_else_def Let_def)

lemma read_enums:
  "read_phase (PStr (phase_value p)) = Inr p"
  "read_approval (PStr (approval_value ap)) = Inr ap"
  "read_cancellation (PStr (cancellation_value c)) = Inr c"
  "read_subtask_status (PStr (subtask_value st)) = Inr st"
  "read_evidence_kind (PStr (evidence_value k)) = Inr k"
  "read_action_type (PStr (action_value ty)) = Inr ty"
proof -
  show "read_phase (PStr (phase_value p)) = Inr p" by (cases p) (simp_all add: read_phase_def of_value_def)
  show "read_approval (PStr (approval_value ap)) = Inr ap" by (cases ap) (simp_all add: read_approval_def of_value_def)
  show "read_cancellation (PStr (cancellation_value c)) = Inr c"
    by (cases c) (simp_all add: read_cancellation_def of_value_def)
  show "read_subtask_status (PStr (subtask_value st)) = Inr st"
    by (cases st) (simp_all add: read_subtask_status_def of_value_def)
  show "read_evidence_kind (PStr (evidence_value k)) = Inr k"
    by (cases k) (simp_all add: read_evidence_kind_def of_value_def)
  show "read_action_type (PStr (action_value ty)) = Inr ty"
    by (cases ty) (simp_all add: read_action_type_def of_value_def)
qed

lemma read_numbers: "as_nat (PInt (int n)) = Inr n" "as_float (PFloat r) = Inr r" "as_bool (PBool b) = Inr b"
    "as_str (PStr t) = Inr t"
  by (simp_all add: as_nat_def as_float_def as_bool_def as_str_def)

lemmas reads_back = read_uuid read_ouuid read_time read_otime read_ostr read_strs read_plain_dict read_enums read_numbers

section \<open>The parts\<close>

definition evidence_ok :: "evidence \<Rightarrow> bool" where
  "evidence_ok e \<longleftrightarrow> uuid_ok (evd_id e) \<and> pred_option uuid_ok (evd_source_action_id e) \<and>
     datetime_range (evd_created_at e)"

definition action_ok :: "agent_action \<Rightarrow> bool" where
  "action_ok a \<longleftrightarrow> uuid_ok (aa_id a) \<and> datetime_range (aa_created_at a) \<and>
     pred_option datetime_range (aa_completed_at a)"

definition error_ok :: "agent_error \<Rightarrow> bool" where
  "error_ok e \<longleftrightarrow> uuid_ok (ae_id e) \<and> pred_option uuid_ok (agent_error.ae_action_id e) \<and>
     datetime_range (ae_created_at e)"

definition recovery_ok :: "recovery_attempt \<Rightarrow> bool" where
  "recovery_ok r \<longleftrightarrow> uuid_ok (ra_id r) \<and> uuid_ok (ra_action_id r) \<and> datetime_range (ra_created_at r)"

definition subtask_ok :: "subtask \<Rightarrow> bool" where
  "subtask_ok s \<longleftrightarrow> uuid_ok (sub_id s) \<and> list_all uuid_ok (sub_depends_on s)"

lemma evidence_roundtrip: "evidence_ok e \<Longrightarrow> as_obj evidence_from_json (evidence_to_json e) = Inr e"
  by (simp add: evidence_ok_def as_obj_def evidence_to_json_def evidence_from_json_def need_def dget_or_def reads_back)

lemma action_roundtrip: "action_ok a \<Longrightarrow> as_obj action_from_json (action_to_json a) = Inr a"
  by (simp add: action_ok_def as_obj_def action_to_json_def action_from_json_def need_def dget_or_def reads_back
      get_else_dict)

lemma error_roundtrip: "error_ok e \<Longrightarrow> as_obj error_from_json (error_to_json e) = Inr e"
  by (simp add: error_ok_def as_obj_def error_to_json_def error_from_json_def need_def dget_or_def reads_back
      agent_error.defs)

lemma recovery_roundtrip: "recovery_ok r \<Longrightarrow> as_obj recovery_from_json (recovery_to_json r) = Inr r"
  by (simp add: recovery_ok_def as_obj_def recovery_to_json_def recovery_from_json_def need_def dget_or_def reads_back)

lemma subtask_roundtrip: "subtask_ok s \<Longrightarrow> as_obj subtask_from_json (subtask_to_json s) = Inr s"
  by (simp add: subtask_ok_def as_obj_def subtask_to_json_def subtask_from_json_def need_def dget_or_def reads_back
      read_list list_all_iff)

section \<open>The whole task\<close>

text \<open>A task whose identifiers are of 128 bits and whose times are those of \<^verbatim>\<open>datetime\<close>.\<close>

definition storable :: "agent_task \<Rightarrow> bool" where
  "storable s \<longleftrightarrow>
     uuid_ok (ag_id s) \<and> pred_option uuid_ok (ag_target_id s) \<and> pred_option uuid_ok (ag_current_subtask_id s) \<and>
     pred_option uuid_ok (ag_pending_action_id s) \<and> list_all subtask_ok (ag_subtasks s) \<and>
     list_all action_ok (ag_actions s) \<and> list_all evidence_ok (ag_observations s) \<and>
     list_all evidence_ok (ag_findings s) \<and> list_all evidence_ok (ag_evidence s) \<and>
     list_all error_ok (ag_errors s) \<and> list_all recovery_ok (ag_recovery_attempts s) \<and>
     datetime_range (ag_created_at s) \<and> datetime_range (ag_updated_at s) \<and>
     pred_option datetime_range (ag_started_at s) \<and> pred_option datetime_range (ag_completed_at s)"

lemma dicts_back:
  "as_dict (as_list as_str) (PDict (map (\<lambda>(k, v). (k, p_strs v)) d1)) = Inr d1"
  "as_dict as_str (PDict (map (\<lambda>(k, v). (k, PStr v)) d2)) = Inr d2"
  "as_dict as_bool (PDict (map (\<lambda>(k, v). (k, PBool v)) d3)) = Inr d3"
  "as_dict as_nat (PDict (map (\<lambda>(k, v). (k, PInt (int v))) d4)) = Inr d4"
  by (rule read_dict, simp add: read_strs read_numbers)+

lemma lists_back:
  "list_all subtask_ok ts \<Longrightarrow> as_list (as_obj subtask_from_json) (PList (map subtask_to_json ts)) = Inr ts"
  "list_all action_ok as \<Longrightarrow> as_list (as_obj action_from_json) (PList (map action_to_json as)) = Inr as"
  "list_all evidence_ok es \<Longrightarrow> as_list (as_obj evidence_from_json) (PList (map evidence_to_json es)) = Inr es"
  "list_all error_ok rs \<Longrightarrow> as_list (as_obj error_from_json) (PList (map error_to_json rs)) = Inr rs"
  "list_all recovery_ok vs \<Longrightarrow> as_list (as_obj recovery_from_json) (PList (map recovery_to_json vs)) = Inr vs"
  by (rule read_list, simp add: list_all_iff subtask_roundtrip action_roundtrip evidence_roundtrip error_roundtrip
      recovery_roundtrip)+

lemma snapshot_fields_1:
  "need ''id'' (state_to_snapshot s) = Inr (p_uuid (ag_id s))"
  "need ''objective'' (state_to_snapshot s) = Inr (PStr (ag_objective s))"
  "dget_or ''userRequest'' (PStr []) (state_to_snapshot s) = PStr (ag_user_request s)"
  "dget_or ''target'' PNone (state_to_snapshot s) = p_ostr (ag_target s)"
  "dget_or ''targetType'' PNone (state_to_snapshot s) = p_ostr (ag_target_type s)"
  "dget_or ''authorizationStatus'' (PStr ''UNKNOWN'') (state_to_snapshot s) = PStr (ag_authorization_status s)"
  by (simp_all add: state_to_snapshot_def need_def dget_or_def)

lemma snapshot_fields_2:
  "dget_or ''targetId'' PNone (state_to_snapshot s) = p_ouuid (ag_target_id s)"
  "need ''phase'' (state_to_snapshot s) = Inr (PStr (phase_value (ag_phase s)))"
  "dget_or ''currentSubtaskId'' PNone (state_to_snapshot s) = p_ouuid (ag_current_subtask_id s)"
  "dget_or ''subtasks'' (PList []) (state_to_snapshot s) = PList (map subtask_to_json (ag_subtasks s))"
  "dget_or ''executionState'' (PStr ''idle'') (state_to_snapshot s) = PStr (ag_execution_state s)"
  "dget_or ''actions'' (PList []) (state_to_snapshot s) = PList (map action_to_json (ag_actions s))"
  by (simp_all add: state_to_snapshot_def need_def dget_or_def)

lemma snapshot_fields_3:
  "dget_or ''observations'' (PList []) (state_to_snapshot s) = PList (map evidence_to_json (ag_observations s))"
  "dget_or ''findings'' (PList []) (state_to_snapshot s) = PList (map evidence_to_json (ag_findings s))"
  "dget_or ''evidence'' (PList []) (state_to_snapshot s) = PList (map evidence_to_json (ag_evidence s))"
  "dget_or ''errors'' (PList []) (state_to_snapshot s) = PList (map error_to_json (ag_errors s))"
  "dget_or ''recoveryAttempts'' (PList []) (state_to_snapshot s) = PList (map recovery_to_json (ag_recovery_attempts s))"
  "dget_or ''confidence'' (PFloat 0) (state_to_snapshot s) = PFloat (ag_confidence s)"
  by (simp_all add: state_to_snapshot_def need_def dget_or_def)

lemma snapshot_fields_4:
  "dget_or ''nextAction'' PNone (state_to_snapshot s) = p_ostr (ag_next_action s)"
  "dget_or ''approvalState'' (PStr ''NOT_REQUIRED'') (state_to_snapshot s) = PStr (approval_value (ag_approval_state s))"
  "dget_or ''pendingActionId'' PNone (state_to_snapshot s) = p_ouuid (ag_pending_action_id s)"
  "dget_or ''cancellationState'' (PStr ''NONE'') (state_to_snapshot s) = PStr (cancellation_value (ag_cancellation_state s))"
  "dget_or ''clarificationQuestion'' PNone (state_to_snapshot s) = p_ostr (ag_clarification_question s)"
  "dget_or ''actionCount'' (PInt 0) (state_to_snapshot s) = PInt (int (ag_action_count s))"
  by (simp_all add: state_to_snapshot_def need_def dget_or_def)

lemma snapshot_fields_5:
  "dget_or ''modelCallCount'' (PInt 0) (state_to_snapshot s) = PInt (int (ag_model_call_count s))"
  "dget_or ''installationCount'' (PInt 0) (state_to_snapshot s) = PInt (int (ag_installation_count s))"
  "dget_or ''lastErrorSignature'' PNone (state_to_snapshot s) = p_ostr (ag_last_error_signature s)"
  "need ''createdAt'' (state_to_snapshot s) = Inr (p_time (ag_created_at s))"
  "need ''updatedAt'' (state_to_snapshot s) = Inr (p_time (ag_updated_at s))"
  "dget_or ''startedAt'' PNone (state_to_snapshot s) = p_otime (ag_started_at s)"
  by (simp_all add: state_to_snapshot_def need_def dget_or_def)

lemma snapshot_fields_6:
  "dget_or ''completedAt'' PNone (state_to_snapshot s) = p_otime (ag_completed_at s)"
  by (simp_all add: state_to_snapshot_def need_def dget_or_def)

lemmas snapshot_fields = snapshot_fields_1 snapshot_fields_2 snapshot_fields_3 snapshot_fields_4 snapshot_fields_5 snapshot_fields_6

lemma snapshot_lists:
  "get_else ''scope'' (PList []) (state_to_snapshot s) = p_strs (ag_scope s)"
  "get_else ''selectedTools'' (PList []) (state_to_snapshot s) = p_strs (ag_selected_tools s)"
  "get_else ''outputs'' (PList []) (state_to_snapshot s) = p_strs (ag_outputs s)"
  "get_else ''assumptions'' (PList []) (state_to_snapshot s) = p_strs (ag_assumptions s)"
  "get_else ''unknowns'' (PList []) (state_to_snapshot s) = p_strs (ag_unknowns s)"
  by (rule get_else_strs; simp add: state_to_snapshot_def dget_or_def)+

lemma snapshot_dicts:
  "get_else ''toolCapabilities'' (PDict []) (state_to_snapshot s) = PDict (map (\<lambda>(k, v). (k, p_strs v)) (ag_tool_capabilities s))"
  "get_else ''installationState'' (PDict []) (state_to_snapshot s) = PDict (map (\<lambda>(k, v). (k, PStr v)) (ag_installation_state s))"
  "get_else ''verificationResults'' (PDict []) (state_to_snapshot s) = PDict (map (\<lambda>(k, v). (k, PBool v)) (ag_verification_results s))"
  "get_else ''retryCountByAction'' (PDict []) (state_to_snapshot s) = PDict (map (\<lambda>(k, v). (k, PInt (int v))) (ag_retry_count_by_action s))"
  by (rule get_else_dict; simp add: state_to_snapshot_def dget_or_def)+

lemma snapshot_back:
  assumes "storable s"
  shows "snapshot_to_state (state_to_snapshot s) = Inr s"
  using assms
  by (simp add: storable_def snapshot_to_state_def snapshot_fields snapshot_lists snapshot_dicts reads_back dicts_back
      lists_back)

text \<open>
  C12.  A snapshot loses nothing: reading back the JSON that was written for a task gives exactly that
  task, every action, piece of evidence, error, counter and approval included, so a restart resumes
  where the task stood.
\<close>

theorem snapshot_roundtrip:
  "storable s \<Longrightarrow> snapshot_to_state (state_to_snapshot s) = Inr s"
  by (rule snapshot_back)

section \<open>The registry on a table\<close>

text \<open>
  What the code relies on of a table: a new row is accepted only under a key that is not taken and with a
  target that is known, and an accepted row is found; the rows are those that are found.  What else the
  database refuses, or that it is out of reach, is its own affair.
\<close>

definition table_laws :: "'db task_table \<Rightarrow> bool" where
  "table_laws T \<longleftrightarrow>
     (\<forall>row db db'. tb_insert T row db = Inr db' \<longrightarrow>
        tb_get T db (tr_id row) = None \<and> (\<forall>t. tr_target_id row = Some t \<longrightarrow> tb_target T db t) \<and>
        (\<forall>j. tb_get T db' j = (if j = tr_id row then Some row else tb_get T db j))) \<and>
     (\<forall>row db db' j. tb_update T row db = Inr db' \<longrightarrow>
        tb_get T db' j = (if j = tr_id row then Some row else tb_get T db j)) \<and>
     (\<forall>db. distinct (tb_rows T db)) \<and>
     (\<forall>row db. row \<in> set (tb_rows T db) \<longleftrightarrow> tb_get T db (tr_id row) = Some row)"

lemma table_lawsD:
  assumes "table_laws T"
  shows "tb_update T row db = Inr db' \<Longrightarrow> tb_get T db' j = (if j = tr_id row then Some row else tb_get T db j)"
    and "distinct (tb_rows T db)" and "row \<in> set (tb_rows T db) \<longleftrightarrow> tb_get T db (tr_id row) = Some row"
    and "tb_insert T row db = Inr db' \<Longrightarrow> tb_get T db' j = (if j = tr_id row then Some row else tb_get T db j)"
    and "tb_insert T row db = Inr db' \<Longrightarrow> tb_get T db (tr_id row) = None"
    and "tb_insert T row db = Inr db' \<Longrightarrow> tr_target_id row = Some t \<Longrightarrow> tb_target T db t"
  using assms unfolding table_laws_def by blast+

lemma storable_updated: "storable s \<Longrightarrow> datetime_range u \<Longrightarrow> storable (s\<lparr>ag_updated_at := u\<rparr>)"
  by (simp add: storable_def)

text \<open>Row and task agree, but for the time of the last update.\<close>

definition row_of_task :: "agent_task \<Rightarrow> task_row \<Rightarrow> bool" where
  "row_of_task s row \<longleftrightarrow> tr_id row = ag_id s \<and> tr_phase row = ag_phase s \<and>
     (\<exists>u. datetime_range u \<and> tr_state_snapshot row = state_to_snapshot (s\<lparr>ag_updated_at := u\<rparr>))"

definition agree :: "'db task_table \<Rightarrow> agent_w \<Rightarrow> 'db sql_w \<Rightarrow> bool" where
  "agree T m w \<longleftrightarrow> wf_dict (aw_tasks m) \<and> (\<forall>i. case map_of (aw_tasks m) i of
       None \<Rightarrow> tb_get T (sw_db w) i = None
     | Some s \<Rightarrow> ag_id s = i \<and> storable s \<and> (\<exists>row. tb_get T (sw_db w) i = Some row \<and> row_of_task s row))"

lemma agree_None: "agree T m w \<Longrightarrow> map_of (aw_tasks m) i = None \<Longrightarrow> tb_get T (sw_db w) i = None"
  unfolding agree_def by (elim conjE allE [of _ i]) simp

lemma agree_Some:
  "agree T m w \<Longrightarrow> map_of (aw_tasks m) i = Some s \<Longrightarrow>
     ag_id s = i \<and> storable s \<and> (\<exists>row. tb_get T (sw_db w) i = Some row \<and> row_of_task s row)"
  unfolding agree_def by (elim conjE allE [of _ i]) simp

lemma row_state:
  assumes "row_of_task s row" and "storable s"
  shows "\<exists>u. datetime_range u \<and> row_to_state row = Inr (s\<lparr>ag_updated_at := u\<rparr>)"
proof -
  obtain u where u: "datetime_range u" "tr_state_snapshot row = state_to_snapshot (s\<lparr>ag_updated_at := u\<rparr>)"
    using assms(1) by (auto simp: row_of_task_def)
  then show ?thesis using snapshot_back [OF storable_updated [OF assms(2) u(1)]] by (auto simp: row_to_state_def)
qed

lemma agree_get:
  assumes "agree T m w"
  shows "case fst (task_get i m) of Inl e \<Rightarrow> fst (sql_get T i w) = Inl e
    | Inr s \<Rightarrow> \<exists>u. fst (sql_get T i w) = Inr (s\<lparr>ag_updated_at := u\<rparr>)"
proof (cases "map_of (aw_tasks m) i")
  case None
  from agree_None [OF assms this] None show ?thesis
    by (simp add: task_get_def sql_get_def bnd_eq gets_def raise_def sql_not_found_def)
next
  case (Some s)
  then obtain row where row: "storable s" "tb_get T (sw_db w) i = Some row" "row_of_task s row"
    using agree_Some [OF assms] by blast
  then obtain u where "row_to_state row = Inr (s\<lparr>ag_updated_at := u\<rparr>)" using row_state by blast
  with Some row(2) show ?thesis
    by (auto simp: task_get_def sql_get_def bnd_eq gets_def ret_def liftS_def)
qed

lemma agree_put:
  assumes "agree T m w" and "aw_tasks m' = dset (ag_id s) s (aw_tasks m)" and "storable s"
    and "\<And>j. tb_get T (sw_db w') j = (if j = ag_id s then Some row else tb_get T (sw_db w) j)"
    and "row_of_task s row"
  shows "agree T m' w'"
proof -
  have "case map_of (aw_tasks m') i of None \<Rightarrow> tb_get T (sw_db w') i = None
     | Some s \<Rightarrow> ag_id s = i \<and> storable s \<and> (\<exists>row. tb_get T (sw_db w') i = Some row \<and> row_of_task s row)" for i
  proof (cases "i = ag_id s")
    case True
    then show ?thesis using assms(2-5) by (simp add: map_of_update)
  next
    case False
    then show ?thesis using assms(2,4) agree_None [OF assms(1), of i] agree_Some [OF assms(1), of i]
      by (cases "map_of (aw_tasks m) i") (simp_all add: map_of_update)
  qed
  moreover have "wf_dict (aw_tasks m')" using assms(1,2) by (simp add: agree_def wf_dict_update)
  ultimately show ?thesis by (simp add: agree_def)
qed

text \<open>The row of a new task.\<close>

abbreviation new_task_row :: "agent_task \<Rightarrow> task_row" where
  "new_task_row s \<equiv> \<lparr>tr_id = ag_id s, tr_objective = ag_objective s, tr_target = ag_target s,
     tr_target_id = ag_target_id s, tr_phase = ag_phase s, tr_state_snapshot = state_to_snapshot s,
     tr_updated_at = None\<rparr>"

lemma sql_create_run:
  assumes "storable s"
  shows "sql_create T s w = (case tb_insert T (new_task_row s) (sw_db w) of
     Inl e \<Rightarrow> (Inl e, w) | Inr db \<Rightarrow> (Inr s, w\<lparr>sw_db := db\<rparr>))"
  using snapshot_back [OF assms]
  by (simp add: sql_create_def read_enums commit_db_def liftS_def bnd_def sq_def Let_def row_to_state_def
      split: sum.split)

lemma agree_create:
  assumes "table_laws T" and "agree T m w" and "storable s"
  shows "case sql_create T s w of
      (Inl e, w') \<Rightarrow> w' = w
    | (Inr s', w') \<Rightarrow> s' = s \<and> agree T (snd (task_create s m)) w' \<and> map_of (aw_tasks m) (ag_id s) = None \<and>
        (\<forall>t. ag_target_id s = Some t \<longrightarrow> tb_target T (sw_db w) t)"
proof (cases "tb_insert T (new_task_row s) (sw_db w)")
  case (Inl e)
  then show ?thesis by (simp add: sql_create_run [OF assms(3)])
next
  case (Inr db)
  have "row_of_task s (new_task_row s)"
    using assms(3) by (auto simp: row_of_task_def storable_def intro!: exI [of _ "ag_updated_at s"])
  then have "agree T (snd (task_create s m)) (w\<lparr>sw_db := db\<rparr>)"
    using assms(3) table_lawsD(4) [OF assms(1) Inr]
    by (intro agree_put [OF assms(2)]) (simp_all add: task_create_def modify_def)
  moreover have "tb_get T (sw_db w) (ag_id s) = None" using table_lawsD(5) [OF assms(1) Inr] by simp
  then have "map_of (aw_tasks m) (ag_id s) = None"
    using agree_Some [OF assms(2), of "ag_id s"] by (metis not_Some_eq option.simps(3))
  ultimately show ?thesis using table_lawsD(6) [OF assms(1) Inr] Inr by (simp add: sql_create_run [OF assms(3)])
qed

lemma agree_save:
  assumes "table_laws T" and "agree T m w" and "storable s" and "map_of (aw_tasks m) (ag_id s) \<noteq> None"
    and "datetime_range (rt_clock m (rt_ticks m))"
  shows "case sql_save T s w of
      (Inl e, w') \<Rightarrow> sw_db w' = sw_db w
    | (Inr s', w') \<Rightarrow> s' = s \<and> agree T (snd (task_save s m)) w'"
proof -
  obtain s0 where "map_of (aw_tasks m) (ag_id s) = Some s0" using assms(4) by blast
  from agree_Some [OF assms(2) this] obtain row where row: "tb_get T (sw_db w) (ag_id s) = Some row"
    "tr_id row = ag_id s" by (auto simp: row_of_task_def)
  let ?s = "s\<lparr>ag_updated_at := rt_clock m (rt_ticks m)\<rparr>"
  let ?row = "row\<lparr>tr_phase := ag_phase s, tr_state_snapshot := state_to_snapshot s,
     tr_updated_at := Some (rt_clock w (rt_ticks w))\<rparr>"
  let ?w = "w\<lparr>rt_ticks := Suc (rt_ticks w)\<rparr>"
  have run: "sql_save T s w = (case tb_update T ?row (sw_db w) of
     Inl e \<Rightarrow> (Inl e, ?w) | Inr db \<Rightarrow> (Inr s, ?w\<lparr>sw_db := db\<rparr>))"
    using row snapshot_back [OF assms(3)]
    by (simp add: sql_save_def read_enums commit_db_def liftS_def bnd_def gets_def now_def sq_def Let_def
        row_to_state_def split: sum.split)
  show ?thesis
  proof (cases "tb_update T ?row (sw_db w)")
    case (Inl e)
    then show ?thesis by (simp add: run)
  next
    case (Inr db)
    have "row_of_task ?s ?row"
      using assms(3) row by (auto simp: row_of_task_def storable_def intro!: exI [of _ "ag_updated_at s"])
    then have "agree T (snd (task_save s m)) (?w\<lparr>sw_db := db\<rparr>)"
      using storable_updated [OF assms(3,5)] table_lawsD(1) [OF assms(1) Inr] row(2)
      by (intro agree_put [OF assms(2), where s = ?s])
        (simp_all add: task_save_def modify_def ret_def sq_def Let_def)
    then show ?thesis using Inr by (simp add: run)
  qed
qed

lemma length_card: "distinct xs \<Longrightarrow> inj_on f (set xs) \<Longrightarrow> length xs = card (f ` set xs)"
  by (simp add: card_image distinct_card)

lemma agree_count:
  assumes "table_laws T" and "agree T m w"
  shows "sql_count_active T w = count_active m"
proof -
  let ?rows = "filter (\<lambda>row. phase_value (tr_phase row) \<notin> {''CANCELLED'', ''COMPLETED'', ''FAILED'', ''BLOCKED''})
     (tb_rows T (sw_db w))"
  let ?tasks = "filter (\<lambda>s. \<not> ag_is_terminal s) (dvalues (aw_tasks m))"
  have phase: "phase_value p \<notin> {''CANCELLED'', ''COMPLETED'', ''FAILED'', ''BLOCKED''} \<longleftrightarrow> p \<notin> set TERMINAL_PHASES" for p
    by (cases p) (simp_all add: TERMINAL_PHASES_def)
  note rows = table_lawsD(3) [OF assms(1)]
  note task = agree_Some [OF assms(2)] and none = agree_None [OF assms(2)]
  have vals: "s \<in> set (dvalues (aw_tasks m)) \<longleftrightarrow> map_of (aw_tasks m) (ag_id s) = Some s" for s
  proof
    assume "s \<in> set (dvalues (aw_tasks m))"
    then obtain i where "(i, s) \<in> set (aw_tasks m)" by (auto simp: dvalues_def)
    then have "map_of (aw_tasks m) i = Some s" using assms(2) by (simp add: agree_def wf_dict_def)
    then show "map_of (aw_tasks m) (ag_id s) = Some s" using task by blast
  qed (rule map_of_values)
  have ids: "tr_id ` set ?rows = ag_id ` set ?tasks"
  proof (intro equalityI subsetI)
    fix i assume "i \<in> tr_id ` set ?rows"
    then obtain row where row: "row \<in> set ?rows" "i = tr_id row" by blast
    then have g: "tb_get T (sw_db w) i = Some row" by (simp add: rows)
    then obtain s where s: "map_of (aw_tasks m) i = Some s" using none [of i] by (cases "map_of (aw_tasks m) i") auto
    with task [OF s] g have "ag_id s = i" "tr_phase row = ag_phase s" by (auto simp: row_of_task_def)
    moreover have "tr_phase row \<notin> set TERMINAL_PHASES" using row(1) phase by simp
    ultimately have "s \<in> set ?tasks" using s by (simp add: vals ag_is_terminal_def)
    then show "i \<in> ag_id ` set ?tasks" using \<open>ag_id s = i\<close> by blast
  next
    fix i assume "i \<in> ag_id ` set ?tasks"
    then obtain s where s: "s \<in> set ?tasks" "i = ag_id s" by blast
    then have "map_of (aw_tasks m) i = Some s" by (simp add: vals)
    then obtain row where row: "tb_get T (sw_db w) i = Some row" "row_of_task s row" using task by blast
    moreover have "tr_id row = i" using row(2) s(2) by (simp add: row_of_task_def)
    moreover have "tr_phase row \<notin> set TERMINAL_PHASES"
      using s(1) row(2) by (simp add: row_of_task_def ag_is_terminal_def)
    then have "phase_value (tr_phase row) \<notin> {''CANCELLED'', ''COMPLETED'', ''FAILED'', ''BLOCKED''}"
      using phase [of "tr_phase row"] by blast
    ultimately have "row \<in> set ?rows" unfolding set_filter mem_Collect_eq rows by simp
    then show "i \<in> tr_id ` set ?rows" using \<open>tr_id row = i\<close> by blast
  qed
  have "inj_on tr_id (set ?rows)"
  proof (rule inj_onI)
    fix x y assume "x \<in> set ?rows" "y \<in> set ?rows" "tr_id x = tr_id y"
    moreover from this(1,2) have "tb_get T (sw_db w) (tr_id x) = Some x" "tb_get T (sw_db w) (tr_id y) = Some y"
      by (simp_all add: rows)
    ultimately show "x = y" by (metis option.inject)
  qed
  moreover have "distinct ?rows" using table_lawsD(2) [OF assms(1)] by simp
  ultimately have "length ?rows = card (tr_id ` set ?rows)" by (intro length_card)
  moreover have "inj_on ag_id (set ?tasks)"
  proof (rule inj_onI)
    fix x y assume xy: "x \<in> set ?tasks" "y \<in> set ?tasks" "ag_id x = ag_id y"
    from xy(1,2) have "map_of (aw_tasks m) (ag_id x) = Some x" "map_of (aw_tasks m) (ag_id y) = Some y"
      by (simp_all add: vals)
    with xy(3) show "x = y" by (metis option.inject)
  qed
  moreover have "distinct ?tasks"
  proof -
    have "distinct (map fst (aw_tasks m))" using assms(2) by (simp add: agree_def wf_dict_def)
    moreover have "map ag_id (dvalues (aw_tasks m)) = map fst (aw_tasks m)"
      using task by (auto simp: dvalues_def intro!: map_cong dest!: map_of_is_SomeI [OF calculation])
    ultimately have "distinct (dvalues (aw_tasks m))" by (metis distinct_map)
    then show ?thesis by simp
  qed
  ultimately have "length ?tasks = card (ag_id ` set ?tasks)" by (intro length_card)
  then show ?thesis
    using \<open>length ?rows = card (tr_id ` set ?rows)\<close> ids by (simp add: sql_count_active_def count_active_def)
qed

text \<open>
  C13.  The registry on the database does what the registry in memory does, or refuses.  While the two are
  in step, looking up returns the same task or the same error, and the number of active tasks is the same;
  only the time of the last update may differ.  A create that the database accepts returns the task that
  was given and leaves the two in step, and its identifier was new and its target known; a create that it
  refuses raises and writes nothing, and one with an identifier that is taken or a target that is not
  known, which the registry in memory accepts, is always refused.  A save of a known task returns it and
  leaves the two in step, or is refused and writes nothing.
\<close>

theorem sql_registry_refines:
  assumes "table_laws T" and "agree T m w"
  shows "(case fst (task_get i m) of Inl e \<Rightarrow> fst (sql_get T i w) = Inl e
      | Inr s \<Rightarrow> \<exists>u. fst (sql_get T i w) = Inr (s\<lparr>ag_updated_at := u\<rparr>)) \<and>
    sql_count_active T w = count_active m \<and>
    (storable s \<longrightarrow>
      (case sql_create T s w of
         (Inl e, w') \<Rightarrow> w' = w
       | (Inr s', w') \<Rightarrow> s' = s \<and> agree T (snd (task_create s m)) w' \<and> map_of (aw_tasks m) (ag_id s) = None \<and>
           (\<forall>t. ag_target_id s = Some t \<longrightarrow> tb_target T (sw_db w) t)) \<and>
      (map_of (aw_tasks m) (ag_id s) \<noteq> None \<or>
       (\<exists>t. ag_target_id s = Some t \<and> \<not> tb_target T (sw_db w) t) \<longrightarrow>
         (\<exists>e. sql_create T s w = (Inl e, w)))) \<and>
    (storable s \<longrightarrow> map_of (aw_tasks m) (ag_id s) \<noteq> None \<longrightarrow> datetime_range (rt_clock m (rt_ticks m)) \<longrightarrow>
      (case sql_save T s w of
         (Inl e, w') \<Rightarrow> sw_db w' = sw_db w
       | (Inr s', w') \<Rightarrow> s' = s \<and> agree T (snd (task_save s m)) w'))"
proof (intro conjI impI)
  assume s: "storable s"
  then show "case sql_create T s w of
         (Inl e, w') \<Rightarrow> w' = w
       | (Inr s', w') \<Rightarrow> s' = s \<and> agree T (snd (task_create s m)) w' \<and> map_of (aw_tasks m) (ag_id s) = None \<and>
           (\<forall>t. ag_target_id s = Some t \<longrightarrow> tb_target T (sw_db w) t)"
    by (rule agree_create [OF assms])
  assume "map_of (aw_tasks m) (ag_id s) \<noteq> None \<or> (\<exists>t. ag_target_id s = Some t \<and> \<not> tb_target T (sw_db w) t)"
  then show "\<exists>e. sql_create T s w = (Inl e, w)"
    using agree_create [OF assms s]
    by (cases "sql_create T s w"; cases "fst (sql_create T s w)") auto
qed (use agree_get [OF assms(2)] agree_save [OF assms] agree_count [OF assms] in simp_all)

section \<open>A sample table\<close>

text \<open>A table with the one target 3.\<close>

definition list_table :: "(uuid \<times> task_row) list task_table" where
  "list_table = \<lparr>tb_get = map_of, tb_target = (\<lambda>_ t. t = 3),
     tb_insert = (\<lambda>row d.
       if map_of d (tr_id row) \<noteq> None then Inl (DatabaseError ''duplicate key'')
       else if (case tr_target_id row of None \<Rightarrow> False | Some t \<Rightarrow> t \<noteq> 3) then Inl (DatabaseError ''unknown target'')
       else Inr (AList.update (tr_id row) row d)),
     tb_update = (\<lambda>row d. Inr (AList.update (tr_id row) row d)),
     tb_rows = (\<lambda>d. remdups (filter (\<lambda>row. map_of d (tr_id row) = Some row) (dvalues d)))\<rparr>"

lemma list_table_laws: "table_laws list_table"
  by (auto simp: table_laws_def list_table_def map_of_update intro: map_of_values split: if_splits option.splits)

lemma sample_empty_agree:
  "agree list_table (sample_agent_w CHECK_ENVIRONMENT)
     \<lparr>rt_clock = int, rt_ticks = 0, rt_uuid = id, rt_uuids = 0, sw_db = []\<rparr>"
  by (simp add: agree_def list_table_def sample_agent_w_def sample_inst_w_def inst_w.extend_def)

lemma civil_epoch: "civil 0 = (1970, 1, 1)"
  unfolding civil_def by (simp only: Let_def) simp

lemma sample_storable: "storable sample_task"
  by (simp add: storable_def sample_task_def new_task_def uuid_ok_def datetime_range_def civil_epoch)

theorem snapshot_roundtrip_witness: "snapshot_to_state (state_to_snapshot sample_task) = Inr sample_task"
  by (rule snapshot_roundtrip [OF sample_storable])

lemma sample_create:
  "sql_create list_table sample_task
     \<lparr>rt_clock = int, rt_ticks = 0, rt_uuid = id, rt_uuids = 0, sw_db = []\<rparr> =
   (Inr sample_task, \<lparr>rt_clock = int, rt_ticks = 0, rt_uuid = id, rt_uuids = 0,
      sw_db = [(ag_id sample_task, new_task_row sample_task)]\<rparr>)"
  using sample_storable by (simp add: sql_create_run list_table_def sample_task_def new_task_def)

text \<open>A task is created; the same task once more is refused, and so is one with an unknown target.\<close>

theorem sql_registry_refines_witness:
  "let w = \<lparr>rt_clock = int, rt_ticks = 0, rt_uuid = id, rt_uuids = 0, sw_db = []\<rparr>
   in \<exists>w' e e'. sql_create list_table sample_task w = (Inr sample_task, w') \<and>
     agree list_table (snd (task_create sample_task (sample_agent_w CHECK_ENVIRONMENT))) w' \<and>
     sql_create list_table sample_task w' = (Inl e, w') \<and>
     sql_create list_table (sample_task\<lparr>ag_target_id := Some 4\<rparr>) w = (Inl e', w)"
proof -
  let ?w = "\<lparr>rt_clock = int, rt_ticks = 0, rt_uuid = id, rt_uuids = 0, sw_db = [] :: (uuid \<times> task_row) list\<rparr>"
  let ?m = "snd (task_create sample_task (sample_agent_w CHECK_ENVIRONMENT))"
  note first = sql_registry_refines [OF list_table_laws sample_empty_agree, of 0]
  obtain w' where w': "sql_create list_table sample_task ?w = (Inr sample_task, w')" using sample_create by blast
  then have a: "agree list_table ?m w'" using first [of sample_task] sample_storable by simp
  have "map_of (aw_tasks ?m) (ag_id sample_task) \<noteq> None" by (simp add: task_create_def modify_def map_of_update)
  then have "\<exists>e. sql_create list_table sample_task w' = (Inl e, w')"
    using sql_registry_refines [OF list_table_laws a, of 0 sample_task] sample_storable by blast
  moreover have "storable (sample_task\<lparr>ag_target_id := Some 4\<rparr>)"
    using sample_storable by (simp add: storable_def uuid_ok_def)
  then have "\<exists>e. sql_create list_table (sample_task\<lparr>ag_target_id := Some 4\<rparr>) ?w = (Inl e, ?w)"
    using first [of "sample_task\<lparr>ag_target_id := Some 4\<rparr>"] by (simp add: list_table_def)
  ultimately show ?thesis unfolding Let_def using w' a by blast
qed

end
