(* ===== verification/Registry_Storage.thy ===== *)
theory Registry_Storage
  imports Registry_Store Agent_Storage Install_Lifecycle
begin

text \<open>
  The registry of tools on the database does what the one in memory does, but for the times and for the
  approval a tool asks for, which it never stores.  The registry of installation requests does not: it
  writes the plan of a request and never reads it back.
\<close>

section \<open>Tools\<close>

lemma read_items_back:
  assumes "\<And>k v. (k, v) \<in> set d \<Longrightarrow> f (PStr (kv k)) = Inr k \<and> g (h v) = Inr v"
  shows "read_items f g (PDict (map (\<lambda>(k, v). (kv k, h v)) d)) = Inr d"
  unfolding read_items_def pyval.case using assms by (auto intro!: rmap_map)

lemma read_stages:
  "read_stage (PStr (stage_value st)) = Inr st"
  "read_verification_result (PStr (verification_value x)) = Inr x"
proof -
  show "read_stage (PStr (stage_value st)) = Inr st" by (cases st) (simp_all add: read_stage_def of_value_def)
  show "read_verification_result (PStr (verification_value x)) = Inr x"
    by (cases x) (simp_all add: read_verification_result_def of_value_def)
qed

definition report_ok :: "verification_report \<Rightarrow> bool" where
  "report_ok r \<longleftrightarrow> pred_option datetime_range (vr_completed_at r)"

lemma report_roundtrip: "report_ok r \<Longrightarrow> report_from_json (report_to_json r) = Inr r"
  by (simp add: report_ok_def report_from_json_def report_to_json_def Let_def dget_or_def get_else_dict read_otime
      read_items_back read_stages as_str_def)

text \<open>What the table does not keep of a tool.\<close>

definition forgets :: "tool_record \<Rightarrow> tool_record" where
  "forgets t = t\<lparr>tl_approval_requirement := USER_APPROVAL, tl_created_at := 0, tl_updated_at := 0\<rparr>"

lemma record_roundtrip:
  "report_ok (tl_verification t) \<Longrightarrow>
     row_to_record (record_to_row u t) =
       Inr (t\<lparr>tl_approval_requirement := USER_APPROVAL, tl_created_at := u, tl_updated_at := u\<rparr>)"
  by (simp add: row_to_record_def record_to_row_def report_roundtrip)

lemma forgets_eligible: "forgets t' = forgets t \<Longrightarrow> tool_policy_evaluate t' p = tool_policy_evaluate t p"
proof -
  assume e: "forgets t' = forgets t"
  have "tl_trust_status (forgets x) = tl_trust_status x" "tl_capabilities (forgets x) = tl_capabilities x"
    "tl_supported_platforms (forgets x) = tl_supported_platforms x" "tl_verification (forgets x) = tl_verification x"
    for x by (simp_all add: forgets_def)
  then have "tool_policy_evaluate (forgets x) p = tool_policy_evaluate x p" for x
    unfolding tool_policy_evaluate_def by presburger
  with e show ?thesis by metis
qed

definition tool_like :: "tool_row \<Rightarrow> tool_record \<Rightarrow> bool" where
  "tool_like row t \<longleftrightarrow> tw_id row = tl_id t \<and> tw_name row = tl_name t \<and>
     (\<exists>t'. row_to_record row = Inr t' \<and> forgets t' = forgets t)"

text \<open>What the code relies on of the table of tools, whose names are unique.\<close>

definition tool_table_laws :: "'db tool_table \<Rightarrow> bool" where
  "tool_table_laws T \<longleftrightarrow>
     (\<forall>row db j. tt_get T (tt_put T row db) j = (if j = tw_id row then Some row else tt_get T db j)) \<and>
     (\<forall>row db. tt_add T row db = None \<longleftrightarrow>
        (\<exists>j r. tt_get T db j = Some r \<and> (j = tw_id row \<or> tw_name r = tw_name row))) \<and>
     (\<forall>row db db' j. tt_add T row db = Some db' \<longrightarrow>
        tt_get T db' j = (if j = tw_id row then Some row else tt_get T db j))"

lemma tool_table_lawsD:
  assumes "tool_table_laws T"
  shows "tt_get T (tt_put T row db) j = (if j = tw_id row then Some row else tt_get T db j)"
    and "tt_add T row db = None \<longleftrightarrow> (\<exists>j r. tt_get T db j = Some r \<and> (j = tw_id row \<or> tw_name r = tw_name row))"
    and "tt_add T row db = Some db' \<Longrightarrow> tt_get T db' j = (if j = tw_id row then Some row else tt_get T db j)"
  using assms unfolding tool_table_laws_def by blast+

definition tools_agree :: "'db tool_table \<Rightarrow> tools_w \<Rightarrow> 'db sql_w \<Rightarrow> bool" where
  "tools_agree T m w \<longleftrightarrow> wf_dict (tr_tools m) \<and> (\<forall>i. case map_of (tr_tools m) i of
       None \<Rightarrow> tt_get T (sw_db w) i = None
     | Some t \<Rightarrow> tl_id t = i \<and> (\<exists>row. tt_get T (sw_db w) i = Some row \<and> tool_like row t))"

lemma tools_agree_None: "tools_agree T m w \<Longrightarrow> map_of (tr_tools m) i = None \<Longrightarrow> tt_get T (sw_db w) i = None"
  unfolding tools_agree_def by (elim conjE allE [of _ i]) simp

lemma tools_agree_Some:
  "tools_agree T m w \<Longrightarrow> map_of (tr_tools m) i = Some t \<Longrightarrow>
     tl_id t = i \<and> (\<exists>row. tt_get T (sw_db w) i = Some row \<and> tool_like row t)"
  unfolding tools_agree_def by (elim conjE allE [of _ i]) simp

lemma tools_agree_put:
  assumes "tools_agree T m w" and "tr_tools m' = dset (tl_id t) t (tr_tools m)" and "tool_like row t"
    and "\<And>j. tt_get T (sw_db w') j = (if j = tl_id t then Some row else tt_get T (sw_db w) j)"
  shows "tools_agree T m' w'"
proof -
  have "case map_of (tr_tools m') i of None \<Rightarrow> tt_get T (sw_db w') i = None
     | Some t \<Rightarrow> tl_id t = i \<and> (\<exists>row. tt_get T (sw_db w') i = Some row \<and> tool_like row t)" for i
  proof (cases "i = tl_id t")
    case True
    then show ?thesis using assms(2-4) by (simp add: map_of_update)
  next
    case False
    then show ?thesis
      using assms(2,4) tools_agree_None [OF assms(1), of i] tools_agree_Some [OF assms(1), of i]
      by (cases "map_of (tr_tools m) i") (simp_all add: map_of_update)
  qed
  moreover have "wf_dict (tr_tools m')" using assms(1,2) by (simp add: tools_agree_def wf_dict_update)
  ultimately show ?thesis by (simp add: tools_agree_def)
qed

lemma bnd_tsql_row: "bnd (tsql_row T i) f w = (case tt_get T (sw_db w) i of
     None \<Rightarrow> (Inl (ToolNotFoundError (''Tool '' @ uuid_str i @ '' was not found.'')), w)
   | Some row \<Rightarrow> f row w)"
  by (simp add: tsql_row_def bnd_bnd split: option.splits)

lemma tools_agree_get:
  assumes "tools_agree T m w"
  shows "case fst (tool_get i m) of Inl e \<Rightarrow> fst (tsql_get T i w) = Inl e
    | Inr t \<Rightarrow> \<exists>t'. fst (tsql_get T i w) = Inr t' \<and> forgets t' = forgets t"
proof (cases "map_of (tr_tools m) i")
  case None
  from tools_agree_None [OF assms this] None show ?thesis
    by (simp add: tool_get_def tsql_get_def bnd_tsql_row raise_def)
next
  case (Some t)
  then obtain row where "tt_get T (sw_db w) i = Some row" "tool_like row t"
    using tools_agree_Some [OF assms] by blast
  with Some show ?thesis
    by (auto simp: tool_get_def tsql_get_def bnd_tsql_row ret_def liftS_def tool_like_def)
qed

lemma tools_agree_names:
  assumes "tools_agree T m w"
  shows "find_by_name n (dvalues (tr_tools m)) = None \<longleftrightarrow>
    (\<nexists>j r. tt_get T (sw_db w) j = Some r \<and> tw_name r = n)"
proof -
  have wf: "wf_dict (tr_tools m)" using assms by (simp add: tools_agree_def)
  have name: "tw_name r = tl_name t" if "map_of (tr_tools m) j = Some t" "tt_get T (sw_db w) j = Some r" for j t r
    using tools_agree_Some [OF assms that(1)] that(2) by (auto simp: tool_like_def)
  have vals: "t \<in> set (dvalues (tr_tools m)) \<longleftrightarrow> (\<exists>j. map_of (tr_tools m) j = Some t)" for t
    using wf by (force simp: dvalues_def wf_dict_def map_of_eq_Some_iff)
  have "n \<in> tl_name ` set (dvalues (tr_tools m)) \<longleftrightarrow> (\<exists>j t. map_of (tr_tools m) j = Some t \<and> tl_name t = n)"
    unfolding image_iff Bex_def vals by blast
  also have "\<dots> \<longleftrightarrow> (\<exists>j r. tt_get T (sw_db w) j = Some r \<and> tw_name r = n)"
  proof
    assume "\<exists>j t. map_of (tr_tools m) j = Some t \<and> tl_name t = n"
    then obtain j t where jt: "map_of (tr_tools m) j = Some t" "tl_name t = n" by blast
    then obtain r where "tt_get T (sw_db w) j = Some r" using tools_agree_Some [OF assms jt(1)] by blast
    then show "\<exists>j r. tt_get T (sw_db w) j = Some r \<and> tw_name r = n" using name [OF jt(1)] jt(2) by metis
  next
    assume "\<exists>j r. tt_get T (sw_db w) j = Some r \<and> tw_name r = n"
    then obtain j r where jr: "tt_get T (sw_db w) j = Some r" "tw_name r = n" by blast
    then obtain t where "map_of (tr_tools m) j = Some t"
      using tools_agree_None [OF assms, of j] by (cases "map_of (tr_tools m) j") auto
    then show "\<exists>j t. map_of (tr_tools m) j = Some t \<and> tl_name t = n" using name jr by metis
  qed
  finally show ?thesis unfolding find_by_name_None by blast
qed

lemma tools_agree_create:
  assumes T: "tool_table_laws T" and a: "tools_agree T m w" and new: "map_of (tr_tools m) (tl_id t) = None"
    and ok: "report_ok (tl_verification t)"
  shows "(case fst (tool_create t m) of Inl e \<Rightarrow> fst (tsql_create T t w) = Inl e
      | Inr x \<Rightarrow> \<exists>t'. fst (tsql_create T t w) = Inr t' \<and> forgets t' = forgets x) \<and>
    tools_agree T (snd (tool_create t m)) (snd (tsql_create T t w))"
proof -
  let ?row = "record_to_row (tt_now T (sw_db w)) t"
  have id: "tw_id ?row = tl_id t" "tw_name ?row = tl_name t" by (simp_all add: record_to_row_def)
  have like: "tool_like ?row t" using id ok by (simp add: tool_like_def record_roundtrip forgets_def)
  have none: "tt_get T (sw_db w) (tl_id t) = None" using tools_agree_None [OF a new] .
  have none_iff: "tt_add T ?row (sw_db w) = None \<longleftrightarrow> find_by_name (tl_name t) (dvalues (tr_tools m)) \<noteq> None"
    using tools_agree_names [OF a, of "tl_name t"] none by (auto simp: tool_table_lawsD(2) [OF T] id)
  show ?thesis
  proof (cases "tt_add T ?row (sw_db w)")
    case None
    then have "find_by_name (tl_name t) (dvalues (tr_tools m)) \<noteq> None" using none_iff by simp
    then show ?thesis using None a
      by (auto simp: tool_create_def tool_get_by_name_def tsql_create_def raise_def Let_def)
  next
    case (Some db')
    then have f: "find_by_name (tl_name t) (dvalues (tr_tools m)) = None" using none_iff by simp
    have "tools_agree T (m\<lparr>tr_tools := dset (tl_id t) t (tr_tools m)\<rparr>) (w\<lparr>sw_db := db'\<rparr>)"
      by (rule tools_agree_put [OF a _ like]) (simp_all add: tool_table_lawsD(3) [OF T Some] id)
    then show ?thesis using Some f like
      by (auto simp: tool_create_def tool_get_by_name_def tsql_create_def ret_def liftS_def Let_def tool_like_def)
  qed
qed

lemma tools_agree_update:
  assumes T: "tool_table_laws T" and a: "tools_agree T m w"
    and like: "\<And>row t u v. tool_like row t \<Longrightarrow> tool_like ((g row)\<lparr>tw_updated_at := u\<rparr>) ((f t)\<lparr>tl_updated_at := v\<rparr>)"
    and ids: "\<And>t. tl_id (f t) = tl_id t" "\<And>row. tw_id (g row) = tw_id row"
  shows "(case fst (upd_tool i f m) of Inl e \<Rightarrow> fst (tsql_update T i g w) = Inl e
      | Inr x \<Rightarrow> \<exists>t'. fst (tsql_update T i g w) = Inr t' \<and> forgets t' = forgets x) \<and>
    tools_agree T (snd (upd_tool i f m)) (snd (tsql_update T i g w))"
proof (cases "map_of (tr_tools m) i")
  case None
  from tools_agree_None [OF a this] None a show ?thesis
    by (simp add: upd_tool_missing tsql_update_def bnd_tsql_row)
next
  case (Some t)
  then obtain row where row: "tl_id t = i" "tt_get T (sw_db w) i = Some row" "tool_like row t"
    using tools_agree_Some [OF a] by blast
  let ?t = "(f t)\<lparr>tl_updated_at := rt_clock m (rt_ticks m)\<rparr>"
  let ?row = "(g row)\<lparr>tw_updated_at := rt_clock w (rt_ticks w)\<rparr>"
  have like': "tool_like ?row ?t" by (rule like [OF row(3)])
  have id: "tw_id ?row = i" "tl_id ?t = i" using row(1,3) ids by (simp_all add: tool_like_def)
  have "tools_agree T (m\<lparr>rt_ticks := Suc (rt_ticks m), tr_tools := dset i ?t (tr_tools m)\<rparr>)
      (w\<lparr>rt_ticks := Suc (rt_ticks w), sw_db := tt_put T ?row (sw_db w)\<rparr>)"
    by (rule tools_agree_put [OF a _ like']) (use id in \<open>simp_all add: tool_table_lawsD(1) [OF T]\<close>)
  then show ?thesis using Some row(2) like'
    by (auto simp: upd_tool_run tsql_update_def bnd_tsql_row liftS_def Let_def tool_like_def)
qed

lemma like_status:
  "tool_like row t \<Longrightarrow>
     tool_like ((row\<lparr>tw_trust_status := s\<rparr>)\<lparr>tw_updated_at := u\<rparr>) ((t\<lparr>tl_trust_status := s\<rparr>)\<lparr>tl_updated_at := v\<rparr>)"
  by (cases t; cases "report_from_json (tw_verification_report row)")
    (auto simp: tool_like_def row_to_record_def forgets_def)

lemma like_report:
  "report_ok r \<Longrightarrow> tool_like row t \<Longrightarrow>
     tool_like ((row\<lparr>tw_verification_report := report_to_json r\<rparr>)\<lparr>tw_updated_at := u\<rparr>)
       ((t\<lparr>tl_verification := r\<rparr>)\<lparr>tl_updated_at := v\<rparr>)"
  by (cases t; cases "report_from_json (tw_verification_report row)")
    (auto simp: tool_like_def row_to_record_def forgets_def report_roundtrip)

text \<open>
  C28.  The registry of tools on the database does what the registry in memory does.  As long as the table
  keeps its rows and refuses a second row of the same name, the two stay in step: looking up, registering
  a tool of a new identifier, changing the trust of a tool and recording a verification return the same
  tool or the same error, but for the times and the approval the tool asks for, and what the policy gate
  decides about a tool is the same.
\<close>

theorem sql_tools_refine:
  assumes "tool_table_laws T" and "tools_agree T m w"
  shows "(case fst (tool_get i m) of Inl e \<Rightarrow> fst (tsql_get T i w) = Inl e
      | Inr t \<Rightarrow> \<exists>t'. fst (tsql_get T i w) = Inr t' \<and> forgets t' = forgets t \<and>
          tool_policy_evaluate t' p = tool_policy_evaluate t p) \<and>
    (map_of (tr_tools m) (tl_id t) = None \<longrightarrow> report_ok (tl_verification t) \<longrightarrow>
      (case fst (tool_create t m) of Inl e \<Rightarrow> fst (tsql_create T t w) = Inl e
        | Inr x \<Rightarrow> \<exists>t'. fst (tsql_create T t w) = Inr t' \<and> forgets t' = forgets x) \<and>
      tools_agree T (snd (tool_create t m)) (snd (tsql_create T t w))) \<and>
    (case fst (update_trust_status i s m) of Inl e \<Rightarrow> fst (tsql_update_trust_status T i s w) = Inl e
      | Inr x \<Rightarrow> \<exists>t'. fst (tsql_update_trust_status T i s w) = Inr t' \<and> forgets t' = forgets x) \<and>
    tools_agree T (snd (update_trust_status i s m)) (snd (tsql_update_trust_status T i s w)) \<and>
    (report_ok r \<longrightarrow>
      (case fst (record_verification i r m) of Inl e \<Rightarrow> fst (tsql_record_verification T i r w) = Inl e
        | Inr x \<Rightarrow> \<exists>t'. fst (tsql_record_verification T i r w) = Inr t' \<and> forgets t' = forgets x) \<and>
      tools_agree T (snd (record_verification i r m)) (snd (tsql_record_verification T i r w)))"
proof -
  have "case fst (tool_get i m) of Inl e \<Rightarrow> fst (tsql_get T i w) = Inl e
      | Inr t \<Rightarrow> \<exists>t'. fst (tsql_get T i w) = Inr t' \<and> forgets t' = forgets t \<and>
          tool_policy_evaluate t' p = tool_policy_evaluate t p"
  proof (cases "fst (tool_get i m)")
    case (Inl e)
    with tools_agree_get [OF assms(2), of i] show ?thesis by simp
  next
    case (Inr x)
    with tools_agree_get [OF assms(2), of i] obtain t' where "fst (tsql_get T i w) = Inr t'" "forgets t' = forgets x"
      by auto
    with forgets_eligible [of t' x p] Inr show ?thesis by simp
  qed
  moreover note tools_agree_create [OF assms, of t]
    tools_agree_update [OF assms, where f = "\<lambda>t. t\<lparr>tl_trust_status := s\<rparr>" and i = i, OF like_status]
    tools_agree_update [OF assms, where f = "\<lambda>t. t\<lparr>tl_verification := r\<rparr>" and i = i, OF like_report]
  ultimately show ?thesis
    unfolding update_trust_status_def record_verification_def tsql_update_trust_status_def
      tsql_record_verification_def by simp
qed

section \<open>Installation requests\<close>

lemma obool_back: "as_obool (p_obool x) = Inr x"
  by (cases x) (simp_all add: as_obool_def p_obool_def)

lemma verification_roundtrip: "verification_from_json (verification_to_json v) = Inr v"
proof (cases v)
  case None
  then show ?thesis by (simp add: verification_from_json_def verification_to_json_def)
next
  case (Some x)
  let ?d = "[(''executableFound'', p_obool (vf_executable_found x)), (''versionOutput'', p_ostr (vf_version_output x)),
      (''checks'', PDict (map (\<lambda>(k, c). (k, PStr c)) (vf_checks x))), (''verified'', PBool (vf_verified x))]"
  have fields: "dget_or ''executableFound'' PNone ?d = p_obool (vf_executable_found x)"
      "dget_or ''versionOutput'' PNone ?d = p_ostr (vf_version_output x)"
      "dget_or ''checks'' PNone ?d = PDict (map (\<lambda>(k, c). (k, PStr c)) (vf_checks x))"
      "dget_or ''verified'' (PBool False) ?d = PBool (vf_verified x)"
    by (simp_all add: dget_or_def)
  have json: "verification_to_json v = PDict ?d" using Some by (simp add: verification_to_json_def)
  show ?thesis
    unfolding json verification_from_json_def as_obj_def pyval.case fields get_else_dict [OF fields(3)]
      obool_back read_ostr dicts_back(2) read_numbers rb_simps using Some by simp
qed

text \<open>
  What the code relies on of the table of requests: a new row is accepted only under a key that is not
  taken, for a tool and a target that are known; an accepted row is found; and a row is found by its key.
\<close>

definition request_table_laws :: "'db request_table \<Rightarrow> bool" where
  "request_table_laws T \<longleftrightarrow>
     (\<forall>row db db'. rt_insert T row db = Inr db' \<longrightarrow>
        rt_get T db (rw_id row) = None \<and> rt_tool T db (rw_tool_id row) \<and>
        (\<forall>t. rw_target_id row = Some t \<longrightarrow> rt_target T db t) \<and>
        (\<forall>j. rt_get T db' j = (if j = rw_id row then Some row else rt_get T db j))) \<and>
     (\<forall>row x db db' j. rt_update T row x db = Inr db' \<longrightarrow>
        rt_get T db' j = (if j = rw_id row then Some row else rt_get T db j)) \<and>
     (\<forall>row db j. rt_get T db j = Some row \<longrightarrow> rw_id row = j)"

lemma request_table_lawsD:
  assumes "request_table_laws T"
  shows "rt_insert T row db = Inr db' \<Longrightarrow> rt_get T db' (rw_id row) = Some row"
    and "rt_update T row x db = Inr db' \<Longrightarrow> rt_get T db' (rw_id row) = Some row"
    and "rt_get T db j = Some row \<Longrightarrow> rw_id row = j"
    and "rt_insert T row db = Inr db' \<Longrightarrow> rt_get T db (rw_id row) = None"
    and "rt_insert T row db = Inr db' \<Longrightarrow> rt_tool T db (rw_tool_id row)"
    and "rt_insert T row db = Inr db' \<Longrightarrow> rw_target_id row = Some t \<Longrightarrow> rt_target T db t"
  using assms unfolding request_table_laws_def by simp_all

lemma bnd_isql_row: "bnd (isql_row T i) f w = (case rt_get T (sw_db w) i of
     None \<Rightarrow> (Inl (InstallationNotFoundError (''Installation request '' @ uuid_str i @ '' was not found.'')), w)
   | Some row \<Rightarrow> f row w)"
  by (simp add: isql_row_def bnd_bnd split: option.splits)

lemma no_plan_read: "row_to_request T row = Inr r \<Longrightarrow> ir_plan r = None \<and> rt_lazy T = None"
  by (cases "verification_from_json (rw_verification row)")
    (auto simp: row_to_request_def read_attempts_def split: option.splits)

lemma no_plan_get: "fst (isql_get T i w) = Inr r \<Longrightarrow> ir_plan r = None \<and> rt_lazy T = None"
  by (auto simp: isql_get_def bnd_isql_row liftS_def no_plan_read split: option.splits)

lemma merged_all:
  assumes "map at_number xs = [1..<Suc n]"
  shows "sort_key at_number (merged_attempts (take k xs) xs) = xs"
proof -
  have d: "distinct (map at_number xs)" using assms by (metis distinct_upt)
  have "at_number a \<notin> set (map at_number (take k xs))" if "a \<in> set (drop k xs)" for a
    using d that by (metis append_take_drop_id distinct_append image_eqI map_append set_map disjoint_iff)
  then have "filter (\<lambda>a. at_number a \<notin> set (map at_number (take k xs))) (drop k xs) = drop k xs"
    by (intro filter_True) blast
  moreover have "filter (\<lambda>a. at_number a \<notin> set (map at_number (take k xs))) (take k xs) = []"
    by (intro filter_False) auto
  ultimately have "merged_attempts (take k xs) xs = take k xs @ drop k xs"
    unfolding merged_attempts_def by (metis append_Nil append_take_drop_id filter_append)
  moreover have "sorted (map at_number xs)" unfolding assms by (rule sorted_upt)
  ultimately show ?thesis by (simp add: sort_key_id_if_sorted)
qed

definition row_matches :: "request_row \<Rightarrow> installation_request \<Rightarrow> bool" where
  "row_matches row r \<longleftrightarrow> rw_id row = ir_id r \<and> rw_tool_id row = ir_tool_id r \<and>
     rw_target_id row = ir_target_id r \<and> rw_requested_by row = ir_requested_by r \<and>
     (\<exists>k. rw_attempts row = take k (ir_attempts r))"

lemma read_new_row:
  "row_to_request T (new_request_row t r) = (case rt_lazy T of Some e \<Rightarrow> Inl e
     | None \<Rightarrow> Inr (r\<lparr>ir_plan := None, ir_attempts := [], ir_created_at := t, ir_updated_at := t\<rparr>))"
  by (simp add: row_to_request_def new_request_row_def read_attempts_def verification_roundtrip rb_simps
      split: option.split)

lemma isql_create_run:
  "isql_create T r w = (case rt_insert T (new_request_row (rt_now T (sw_db w)) r) (sw_db w) of
     Inl e \<Rightarrow> (Inl e, w)
   | Inr db \<Rightarrow> (row_to_request T (new_request_row (rt_now T (sw_db w)) r), w\<lparr>sw_db := db\<rparr>))"
  by (simp add: isql_create_def commit_db_def liftS_def bnd_def gets_def sq_def Let_def split: sum.split)

lemma isql_create_stored:
  assumes T: "request_table_laws T"
    and "rt_insert T (new_request_row (rt_now T (sw_db w)) r) (sw_db w) = Inr db"
  shows "isql_create T r w = (row_to_request T (new_request_row (rt_now T (sw_db w)) r), w\<lparr>sw_db := db\<rparr>) \<and>
    isql_get T (ir_id r) (w\<lparr>sw_db := db\<rparr>) = isql_create T r w"
proof -
  have "rt_get T db (ir_id r) = Some (new_request_row (rt_now T (sw_db w)) r)"
    using request_table_lawsD(1) [OF assms] by (simp add: new_request_row_def)
  then show ?thesis using assms(2) by (simp add: isql_create_run isql_get_def bnd_isql_row liftS_def)
qed

lemma isql_create_refused:
  assumes T: "request_table_laws T"
    and "rt_get T (sw_db w) (ir_id r) \<noteq> None \<or> \<not> rt_tool T (sw_db w) (ir_tool_id r) \<or>
      (\<exists>t. ir_target_id r = Some t \<and> \<not> rt_target T (sw_db w) t)"
  shows "\<exists>e. isql_create T r w = (Inl e, w)"
proof (cases "rt_insert T (new_request_row (rt_now T (sw_db w)) r) (sw_db w)")
  case (Inl e)
  then show ?thesis by (simp add: isql_create_run)
next
  case (Inr db)
  from request_table_lawsD(4-6) [OF T this] assms(2) show ?thesis by (auto simp: new_request_row_def)
qed

lemma isql_lazy:
  assumes "rt_lazy T = Some e"
  shows "\<exists>e'. isql_get T i w = (Inl e', w)" and "\<exists>e' w'. isql_save T y w = (Inl e', w') \<and> sw_db w' = sw_db w"
proof -
  have "\<exists>e'. row_to_request T row = Inl e'" for row
    using no_plan_read [of T row] assms by (cases "row_to_request T row") auto
  then show "\<exists>e'. isql_get T i w = (Inl e', w)"
    by (auto simp: isql_get_def bnd_isql_row liftS_def split: option.split)
  show "\<exists>e' w'. isql_save T y w = (Inl e', w') \<and> sw_db w' = sw_db w"
  proof (cases "rt_get T (sw_db w) (ir_id y)")
    case None
    then show ?thesis by (simp add: isql_save_def bnd_isql_row)
  next
    case (Some row)
    then have "isql_save T y w = (Inl e, w\<lparr>rt_ticks := Suc (rt_ticks w)\<rparr>)"
      using assms by (simp add: isql_save_def bnd_isql_row read_attempts_def liftS_def)
    then show ?thesis by simp
  qed
qed

text \<open>The row of a saved request.\<close>

definition saved_row :: "time \<Rightarrow> installation_request \<Rightarrow> request_row \<Rightarrow> request_row" where
  "saved_row t r row = row\<lparr>rw_session_id := ir_session_id r, rw_state := ir_state r,
     rw_plan := plan_to_json (ir_plan r), rw_approved_by := ir_approved_by r,
     rw_approved_at := ir_approved_at r, rw_rejection_reason := ir_rejection_reason r,
     rw_verification := verification_to_json (ir_verification r),
     rw_error_message := ir_error_message r, rw_updated_at := t,
     rw_attempts := merged_attempts (rw_attempts row) (ir_attempts r)\<rparr>"

lemma isql_save_run:
  assumes "rt_lazy T = None" and "rt_get T (sw_db w) (ir_id r) = Some row"
  shows "isql_save T r w =
    (case rt_update T (saved_row (rt_clock w (rt_ticks w)) r row) (record_installed T r (sw_db w)) (sw_db w) of
       Inl e \<Rightarrow> (Inl e, w\<lparr>rt_ticks := Suc (rt_ticks w)\<rparr>)
     | Inr db \<Rightarrow> (row_to_request T (saved_row (rt_clock w (rt_ticks w)) r row),
         w\<lparr>rt_ticks := Suc (rt_ticks w), sw_db := db\<rparr>))"
  using assms by (simp add: isql_save_def bnd_isql_row read_attempts_def Let_def)
    (simp add: liftS_def bnd_def now_def gets_def sq_def commit_db_def saved_row_def split: sum.split)

lemma isql_save_kept:
  assumes T: "request_table_laws T" and lazy: "rt_lazy T = None"
    and row: "rt_get T (sw_db w) (ir_id r) = Some row" "row_matches row r"
    and n: "map at_number (ir_attempts r) = [1..<Suc n]"
  shows "case isql_save T r w of
      (Inl e, w') \<Rightarrow> sw_db w' = sw_db w
    | (Inr x, w') \<Rightarrow> x = r\<lparr>ir_plan := None, ir_created_at := rw_created_at row, ir_updated_at := rt_clock w (rt_ticks w)\<rparr> \<and>
        isql_get T (ir_id r) w' = (Inr x, w')"
proof (cases "rt_update T (saved_row (rt_clock w (rt_ticks w)) r row) (record_installed T r (sw_db w)) (sw_db w)")
  case (Inl e)
  then show ?thesis by (simp add: isql_save_run [OF lazy row(1)])
next
  case (Inr db)
  obtain k where "rw_attempts row = take k (ir_attempts r)" using row(2) by (auto simp: row_matches_def)
  with merged_all [OF n] have m: "sort_key at_number (merged_attempts (rw_attempts row) (ir_attempts r)) = ir_attempts r"
    by simp
  have match: "rw_id row = ir_id r" "rw_tool_id row = ir_tool_id r" "rw_target_id row = ir_target_id r"
    "rw_requested_by row = ir_requested_by r" using row(2) by (simp_all add: row_matches_def)
  have "row_to_request T (saved_row (rt_clock w (rt_ticks w)) r row) =
      Inr (r\<lparr>ir_plan := None, ir_created_at := rw_created_at row, ir_updated_at := rt_clock w (rt_ticks w)\<rparr>)"
    by (simp add: row_to_request_def saved_row_def read_attempts_def lazy rb_simps verification_roundtrip m match)
  moreover have "rt_get T db (ir_id r) = Some (saved_row (rt_clock w (rt_ticks w)) r row)"
    using request_table_lawsD(2) [OF T Inr] match(1) by (simp add: saved_row_def)
  ultimately show ?thesis using Inr
    by (simp add: isql_save_run [OF lazy row(1)] isql_get_def bnd_isql_row liftS_def)
qed

lemma isql_save_erases:
  assumes T: "request_table_laws T" and x: "fst (isql_get T i w) = Inr x"
    and y: "ir_id y = i" "ir_plan y = ir_plan x"
  shows "case isql_save T y w of
      (Inl e, w') \<Rightarrow> sw_db w' = sw_db w
    | (Inr z, w') \<Rightarrow> \<exists>row. rt_get T (sw_db w') i = Some row \<and> rw_plan row = PNone"
proof -
  have lazy: "rt_lazy T = None" and plan: "ir_plan y = None" using no_plan_get [OF x] y(2) by simp_all
  obtain row where row: "rt_get T (sw_db w) i = Some row"
    using x by (auto simp: isql_get_def bnd_isql_row split: option.splits)
  let ?row = "saved_row (rt_clock w (rt_ticks w)) y row"
  have id: "rw_id ?row = i" and none: "rw_plan ?row = PNone"
    using request_table_lawsD(3) [OF T row] plan by (simp_all add: saved_row_def plan_to_json_def)
  show ?thesis
  proof (cases "rt_update T ?row (record_installed T y (sw_db w)) (sw_db w)")
    case (Inl e)
    then show ?thesis using y(1) row by (simp add: isql_save_run [OF lazy])
  next
    case (Inr db)
    then have "isql_save T y w = (row_to_request T ?row, w\<lparr>rt_ticks := Suc (rt_ticks w), sw_db := db\<rparr>)"
      using y(1) row by (simp add: isql_save_run [OF lazy])
    moreover have "rt_get T db i = Some ?row" using request_table_lawsD(2) [OF T Inr] id by simp
    moreover obtain z where "row_to_request T ?row = Inr z"
      by (simp add: row_to_request_def saved_row_def read_attempts_def lazy verification_roundtrip rb_simps)
    ultimately show ?thesis using none by simp
  qed
qed

text \<open>
  C31.  What the database keeps of an installation request: all but its plan, and that only where the
  attempts of a row can be read.  A create that the database refuses raises and writes nothing, and it
  refuses a taken identifier, an unknown tool and an unknown target.  Where reading the attempts raises,
  as on the asynchronous session the program uses, a request that was accepted is stored, but creating it
  raises all the same, no lookup ever returns a request, and no save writes anything.  Where it does not,
  a request that is created, or saved with its attempts numbered from one and accepted, is returned and
  found again as it was, with the times of the database and without its plan; so a request that is read
  can never be started: whatever its state, starting it raises and changes nothing, and saving a request
  after it was read erases the plan from its row.
\<close>

theorem database_loses_plan:
  assumes T: "request_table_laws T"
  shows "(case rt_insert T (new_request_row (rt_now T (sw_db w)) r) (sw_db w) of
      Inl e \<Rightarrow> isql_create T r w = (Inl e, w)
    | Inr db \<Rightarrow> isql_create T r w = ((case rt_lazy T of Some e \<Rightarrow> Inl e
          | None \<Rightarrow> Inr (r\<lparr>ir_plan := None, ir_attempts := [],
              ir_created_at := rt_now T (sw_db w), ir_updated_at := rt_now T (sw_db w)\<rparr>)), w\<lparr>sw_db := db\<rparr>) \<and>
        isql_get T (ir_id r) (w\<lparr>sw_db := db\<rparr>) = isql_create T r w) \<and>
    (rt_get T (sw_db w) (ir_id r) \<noteq> None \<or> \<not> rt_tool T (sw_db w) (ir_tool_id r) \<or>
      (\<exists>t. ir_target_id r = Some t \<and> \<not> rt_target T (sw_db w) t) \<longrightarrow> (\<exists>e. isql_create T r w = (Inl e, w))) \<and>
    (rt_lazy T \<noteq> None \<longrightarrow> (\<exists>e. isql_get T i w = (Inl e, w)) \<and>
      (\<exists>e w'. isql_save T y w = (Inl e, w') \<and> sw_db w' = sw_db w)) \<and>
    (rt_lazy T = None \<longrightarrow> rt_get T (sw_db w) (ir_id r) = Some row \<longrightarrow> row_matches row r \<longrightarrow>
      map at_number (ir_attempts r) = [1..<Suc n] \<longrightarrow>
      (case isql_save T r w of
         (Inl e, w') \<Rightarrow> sw_db w' = sw_db w
       | (Inr z, w') \<Rightarrow> z = r\<lparr>ir_plan := None, ir_created_at := rw_created_at row,
             ir_updated_at := rt_clock w (rt_ticks w)\<rparr> \<and> isql_get T (ir_id r) w' = (Inr z, w'))) \<and>
    (fst (isql_get T i w) = Inr x \<longrightarrow>
      (map_of (in_requests m) i = Some x \<longrightarrow>
        (\<exists>code msg. start_installation i session_id ts m = (Inl (InstallationError code msg), m))) \<and>
      (ir_id y = i \<longrightarrow> ir_plan y = ir_plan x \<longrightarrow>
        (case isql_save T y w of
           (Inl e, w') \<Rightarrow> sw_db w' = sw_db w
         | (Inr z, w') \<Rightarrow> \<exists>row'. rt_get T (sw_db w') i = Some row' \<and> rw_plan row' = PNone)))"
proof (intro conjI impI)
  show "case rt_insert T (new_request_row (rt_now T (sw_db w)) r) (sw_db w) of
      Inl e \<Rightarrow> isql_create T r w = (Inl e, w)
    | Inr db \<Rightarrow> isql_create T r w = ((case rt_lazy T of Some e \<Rightarrow> Inl e
          | None \<Rightarrow> Inr (r\<lparr>ir_plan := None, ir_attempts := [],
              ir_created_at := rt_now T (sw_db w), ir_updated_at := rt_now T (sw_db w)\<rparr>)), w\<lparr>sw_db := db\<rparr>) \<and>
        isql_get T (ir_id r) (w\<lparr>sw_db := db\<rparr>) = isql_create T r w"
    using isql_create_stored [OF T, of w r] by (auto simp: isql_create_run read_new_row split: sum.split)
next
  assume "rt_get T (sw_db w) (ir_id r) \<noteq> None \<or> \<not> rt_tool T (sw_db w) (ir_tool_id r) \<or>
    (\<exists>t. ir_target_id r = Some t \<and> \<not> rt_target T (sw_db w) t)"
  then show "\<exists>e. isql_create T r w = (Inl e, w)" by (rule isql_create_refused [OF T])
next
  assume "rt_lazy T \<noteq> None"
  then show "\<exists>e. isql_get T i w = (Inl e, w)" "\<exists>e w'. isql_save T y w = (Inl e, w') \<and> sw_db w' = sw_db w"
    using isql_lazy by blast+
next
  assume "rt_lazy T = None" "rt_get T (sw_db w) (ir_id r) = Some row" "row_matches row r"
    "map at_number (ir_attempts r) = [1..<Suc n]"
  from isql_save_kept [OF T this] show "case isql_save T r w of
      (Inl e, w') \<Rightarrow> sw_db w' = sw_db w
    | (Inr z, w') \<Rightarrow> z = r\<lparr>ir_plan := None, ir_created_at := rw_created_at row,
        ir_updated_at := rt_clock w (rt_ticks w)\<rparr> \<and> isql_get T (ir_id r) w' = (Inr z, w')" .
next
  assume "fst (isql_get T i w) = Inr x" "map_of (in_requests m) i = Some x"
  then show "\<exists>code msg. start_installation i session_id ts m = (Inl (InstallationError code msg), m)"
    by (simp add: start_installation_def ir_get_def bnd_bnd raise_def no_plan_get)
next
  assume "fst (isql_get T i w) = Inr x" "ir_id y = i" "ir_plan y = ir_plan x"
  from isql_save_erases [OF T this] show "case isql_save T y w of
      (Inl e, w') \<Rightarrow> sw_db w' = sw_db w
    | (Inr z, w') \<Rightarrow> \<exists>row'. rt_get T (sw_db w') i = Some row' \<and> rw_plan row' = PNone" .
qed

section \<open>Sample tables\<close>

definition list_tool_table :: "(uuid \<times> tool_row) list tool_table" where
  "list_tool_table =
     (let get = (\<lambda>db i. case map_of db i of None \<Rightarrow> None | Some r \<Rightarrow> if tw_id r = i then Some r else None)
      in \<lparr>tt_get = get,
          tt_by_name = (\<lambda>db n. find (\<lambda>r. tw_name r = n) (dvalues db)),
          tt_add = (\<lambda>row db.
            if \<exists>r \<in> set (dvalues db). get db (tw_id r) = Some r \<and> (tw_id r = tw_id row \<or> tw_name r = tw_name row)
            then None else Some (AList.update (tw_id row) row db)),
          tt_put = (\<lambda>row db. AList.update (tw_id row) row db), tt_rows = dvalues, tt_now = (\<lambda>db. 0)\<rparr>)"

lemma list_tool_table_laws: "tool_table_laws list_tool_table"
proof -
  have get: "tt_get list_tool_table db j = Some r \<longleftrightarrow> map_of db j = Some r \<and> tw_id r = j" for db j r
    by (auto simp: list_tool_table_def Let_def split: option.splits)
  have upd: "tt_get list_tool_table (AList.update (tw_id row) row db) j =
      (if j = tw_id row then Some row else tt_get list_tool_table db j)" for row db j
    by (simp add: list_tool_table_def Let_def map_of_update)
  have add: "tt_add list_tool_table row db =
      (if \<exists>r \<in> set (dvalues db). tt_get list_tool_table db (tw_id r) = Some r \<and>
          (tw_id r = tw_id row \<or> tw_name r = tw_name row)
       then None else Some (AList.update (tw_id row) row db))" for row db
    by (simp add: list_tool_table_def Let_def)
  have put: "tt_put list_tool_table row db = AList.update (tw_id row) row db" for row db
    by (simp add: list_tool_table_def Let_def)
  have ex: "(\<exists>r \<in> set (dvalues db). tt_get list_tool_table db (tw_id r) = Some r \<and> (tw_id r = i \<or> tw_name r = n)) \<longleftrightarrow>
      (\<exists>j r. tt_get list_tool_table db j = Some r \<and> (j = i \<or> tw_name r = n))" for db i n
    unfolding get by (auto dest: map_of_values)
  show ?thesis unfolding tool_table_laws_def
  proof (intro conjI allI impI)
    fix row db db' j
    assume "tt_add list_tool_table row db = Some db'"
    then have "db' = AList.update (tw_id row) row db" by (simp add: add split: if_splits)
    then show "tt_get list_tool_table db' j = (if j = tw_id row then Some row else tt_get list_tool_table db j)"
      by (simp add: upd)
  qed (simp_all only: put upd add ex [symmetric], simp)
qed

text \<open>A table of requests with the one tool 100 and the one target 3, on a session that loads lazily or not.\<close>

definition list_request_table :: "exn option \<Rightarrow> (uuid \<times> request_row) list request_table" where
  "list_request_table lazy =
     (let get = (\<lambda>db i. case map_of db i of None \<Rightarrow> None | Some r \<Rightarrow> if rw_id r = i then Some r else None)
      in \<lparr>rt_get = get, rt_tool = (\<lambda>_ i. i = 100), rt_target = (\<lambda>_ i. i = 3),
          rt_insert = (\<lambda>row db.
            if get db (rw_id row) = None \<and> rw_tool_id row = 100 \<and>
              (case rw_target_id row of None \<Rightarrow> True | Some t \<Rightarrow> t = 3)
            then Inr (AList.update (rw_id row) row db) else Inl (DatabaseError ''integrity'')),
          rt_update = (\<lambda>row x db. Inr (AList.update (rw_id row) row db)), rt_lazy = lazy,
          rt_rows = dvalues, rt_installed = (\<lambda>db i. None), rt_now = (\<lambda>db. 0)\<rparr>)"

lemma list_request_table_laws: "request_table_laws (list_request_table lazy)"
  by (auto simp: request_table_laws_def list_request_table_def Let_def map_of_update split: option.splits if_splits)

abbreviation sample_sql_w :: "'db \<Rightarrow> 'db sql_w" where
  "sample_sql_w db \<equiv> \<lparr>rt_clock = int, rt_ticks = 0, rt_uuid = id, rt_uuids = 0, sw_db = db\<rparr>"

theorem sql_tools_refine_witness:
  "(\<exists>t. fst (tsql_create list_tool_table (sample_tool APPROVED) (sample_sql_w [])) = Inr t \<and>
     forgets t = forgets (sample_tool APPROVED)) \<and>
   tools_agree list_tool_table (snd (tool_create (sample_tool APPROVED) (sample_tools_w [])))
     (snd (tsql_create list_tool_table (sample_tool APPROVED) (sample_sql_w [])))"
proof -
  have a: "tools_agree list_tool_table (sample_tools_w []) (sample_sql_w [])"
    by (simp add: tools_agree_def list_tool_table_def sample_tools_w_def Let_def)
  have new: "map_of (tr_tools (sample_tools_w [])) (tl_id (sample_tool APPROVED)) = None"
    by (simp add: sample_tools_w_def)
  have ok: "report_ok (tl_verification (sample_tool APPROVED))"
    by (simp add: report_ok_def sample_tool_def empty_report_def datetime_range_def civil_epoch)
  have "tl_name (sample_tool APPROVED) = ''dig''" by (simp add: sample_tool_def)
  then have "fst (tool_create (sample_tool APPROVED) (sample_tools_w [])) = Inr (sample_tool APPROVED)"
    by (simp add: tool_create_def tool_get_by_name_def sample_tools_w_def ret_def dvalues_def)
  with sql_tools_refine [OF list_tool_table_laws a, of 0 None "sample_tool APPROVED" APPROVED empty_report] new ok
  show ?thesis by auto
qed

definition sample_row :: request_row where
  "sample_row = \<lparr>rw_id = 7, rw_tool_id = 100, rw_target_id = Some 3, rw_session_id = None, rw_requested_by = None,
     rw_state = IS_PREPARING, rw_plan = PDict [(''toolName'', PStr ''dig'')], rw_approved_by = Some ''ann'',
     rw_approved_at = Some 5, rw_rejection_reason = None, rw_verification = PNone, rw_error_message = None,
     rw_attempts = [], rw_created_at = 1, rw_updated_at = 5\<rparr>"

text \<open>
  An approved request that is read and cannot be started; and, on a session that does not load lazily, a
  new request that is stored while its creation raises.
\<close>

theorem database_loses_plan_witness:
  "(\<exists>x code msg. fst (isql_get (list_request_table None) 7 (sample_sql_w [(7, sample_row)])) = Inr x \<and>
     ir_state x = IS_PREPARING \<and> ir_approved_by x = Some ''ann'' \<and>
     fst (start_installation 7 5 sample_target ((sample_inst_w APPROVED)\<lparr>in_requests := [(7, x)]\<rparr>)) =
       Inl (InstallationError code msg)) \<and>
   (let r = new_request 8 100 sample_target None 0 0; T = list_request_table (Some (DatabaseError ''greenlet''))
    in isql_create T r (sample_sql_w []) =
         (Inl (DatabaseError ''greenlet''), sample_sql_w [(8, new_request_row 0 r)]))"
proof (rule conjI)
  let ?w = "sample_sql_w [(7, sample_row)]"
  obtain x where x: "fst (isql_get (list_request_table None) 7 ?w) = Inr x" "ir_state x = IS_PREPARING"
      "ir_approved_by x = Some ''ann''"
    by (simp add: isql_get_def bnd_isql_row list_request_table_def liftS_def sample_row_def row_to_request_def
        read_attempts_def verification_from_json_def rb_simps)
  have "map_of (in_requests ((sample_inst_w APPROVED)\<lparr>in_requests := [(7, x)]\<rparr>)) 7 = Some x" by simp
  then have "\<exists>code msg. start_installation 7 5 sample_target ((sample_inst_w APPROVED)\<lparr>in_requests := [(7, x)]\<rparr>) =
      (Inl (InstallationError code msg), (sample_inst_w APPROVED)\<lparr>in_requests := [(7, x)]\<rparr>)"
    using database_loses_plan [OF list_request_table_laws [of None], where w = ?w and i = 7 and x = x and
        m = "(sample_inst_w APPROVED)\<lparr>in_requests := [(7, x)]\<rparr>" and session_id = 5 and ts = sample_target] x(1)
    by blast
  then show "\<exists>x code msg. fst (isql_get (list_request_table None) 7 ?w) = Inr x \<and>
     ir_state x = IS_PREPARING \<and> ir_approved_by x = Some ''ann'' \<and>
     fst (start_installation 7 5 sample_target ((sample_inst_w APPROVED)\<lparr>in_requests := [(7, x)]\<rparr>)) =
       Inl (InstallationError code msg)" using x by auto
  let ?T = "list_request_table (Some (DatabaseError ''greenlet''))"
  let ?r = "new_request 8 100 sample_target None 0 0"
  have "rt_insert ?T (new_request_row (rt_now ?T []) ?r) [] = Inr [(8, new_request_row 0 ?r)]"
    "rt_lazy ?T = Some (DatabaseError ''greenlet'')"
    by (simp_all add: list_request_table_def Let_def new_request_row_def new_request_def sample_target_def)
  note h = this
  show "let r = ?r; T = ?T in isql_create T r (sample_sql_w []) =
      (Inl (DatabaseError ''greenlet''), sample_sql_w [(8, new_request_row 0 r)])"
    using database_loses_plan [OF list_request_table_laws [of "Some (DatabaseError ''greenlet'')"],
        where w = "sample_sql_w []" and r = ?r, THEN conjunct1]
    by (simp add: h Let_def)
qed

end
