(* ===== verification/Json.thy ===== *)
theory Json
  imports Pystd Uuid_Text
begin

text \<open>
  \<^verbatim>\<open>json.loads\<close> of the standard library: the tokens of a text, then a machine with a stack of open
  arrays and objects that reads one token at a time.  A text is either a value or rejected, which is all
  the callers look at.  Not modelled: the constants NaN, Infinity and -Infinity, which are no values
  here and are rejected, numbers beyond the range of a double, the limit on the digits of an integer, and
  the limit on the depth of the nesting.
\<close>

section \<open>Tokens\<close>

datatype json_token =
    Tok_LBrace | Tok_RBrace | Tok_LBrack | Tok_RBrack | Tok_Colon | Tok_Comma
  | Tok_Str string
  | Tok_Val pyval

definition json_space :: "char \<Rightarrow> bool" where
  "json_space c \<longleftrightarrow> byte c = 32 \<or> byte c = 9 \<or> byte c = 10 \<or> byte c = 13"

definition digit :: "char \<Rightarrow> bool" where
  "digit c \<longleftrightarrow> 48 \<le> byte c \<and> byte c \<le> 57"

definition digits_value :: "string \<Rightarrow> int" where
  "digits_value ds = foldl (\<lambda>n c. 10 * n + int (byte c - 48)) 0 ds"

text \<open>A character of a code point, as its bytes.\<close>

definition utf8_encode :: "nat \<Rightarrow> string" where
  "utf8_encode u =
     (if u < 128 then [char_of u]
      else if u < 2048 then [char_of (192 + u div 64), char_of (128 + u mod 64)]
      else if u < 65536 then
        [char_of (224 + u div 4096), char_of (128 + u div 64 mod 64), char_of (128 + u mod 64)]
      else [char_of (240 + u div 262144), char_of (128 + u div 4096 mod 64),
            char_of (128 + u div 64 mod 64), char_of (128 + u mod 64)])"

definition hex4 :: "string \<Rightarrow> nat option" where
  "hex4 s =
     (case s of
        a # b # c # d # _ \<Rightarrow>
          (case (hex_val a, hex_val b, hex_val c, hex_val d) of
             (Some w, Some x, Some y, Some z) \<Rightarrow> Some (4096 * w + 256 * x + 16 * y + z)
           | _ \<Rightarrow> None)
      | _ \<Rightarrow> None)"

definition simple_escape :: "char \<Rightarrow> char option" where
  "simple_escape e =
     (if e = CHR 0x22 \<or> e = CHR 0x5C \<or> e = CHR ''/'' then Some e
      else if e = CHR ''b'' then Some (char_of (8 :: nat)) else if e = CHR ''f'' then Some (char_of (12 :: nat))
      else if e = CHR ''n'' then Some (char_of (10 :: nat)) else if e = CHR ''r'' then Some (char_of (13 :: nat))
      else if e = CHR ''t'' then Some (char_of (9 :: nat)) else None)"

text \<open>One escape after its backslash: the characters it stands for and what follows it.\<close>

definition scan_escape :: "string \<Rightarrow> (string \<times> string) option" where
  "scan_escape s =
     (case s of
        [] \<Rightarrow> None
      | e # t \<Rightarrow>
          (case simple_escape e of
             Some d \<Rightarrow> Some ([d], t)
           | None \<Rightarrow>
               if e \<noteq> CHR ''u'' then None
               else (case hex4 t of
                  None \<Rightarrow> None
                | Some u \<Rightarrow>
                    let t1 = drop 4 t in
                    if 55296 \<le> u \<and> u < 56320 \<and> starts_with [CHR 0x5C, CHR ''u''] t1 then
                      (case hex4 (drop 2 t1) of
                         None \<Rightarrow> None
                       | Some v \<Rightarrow>
                           if 56320 \<le> v \<and> v < 57344
                           then Some (utf8_encode (65536 + 1024 * (u - 55296) + (v - 56320)), drop 6 t1)
                           else Some (utf8_encode u, t1))
                    else Some (utf8_encode u, t1))))"

lemma scan_escape_shorter: "scan_escape s = Some (cs, r) \<Longrightarrow> length r < length s"
  by (auto simp: scan_escape_def Let_def split: list.splits option.splits if_splits)

function scan_string :: "string \<Rightarrow> string \<Rightarrow> (string \<times> string) option" where
  "scan_string acc [] = None"
| "scan_string acc (c # s) =
     (if c = CHR 0x22 then Some (acc, s)
      else if byte c < 32 then None
      else if c \<noteq> CHR 0x5C then scan_string (acc @ [c]) s
      else case scan_escape s of None \<Rightarrow> None | Some (cs, r) \<Rightarrow> scan_string (acc @ cs) r)"
  by pat_completeness auto
termination
  by (relation "measure (\<lambda>(acc, s). length s)") (auto dest: scan_escape_shorter)

declare scan_string.simps(2) [simp del]

lemma scan_string_shorter: "scan_string acc s = Some (v, r) \<Longrightarrow> length r < length s"
proof (induction acc s rule: scan_string.induct)
  case (2 acc c s)
  then show ?case
    by (auto simp: scan_string.simps(2) split: if_splits option.splits dest: scan_escape_shorter)
      (metis less_SucI less_trans scan_escape_shorter)
qed simp

definition decimal :: "int \<Rightarrow> int \<Rightarrow> rat" where
  "decimal n e = (if n = 0 then 0 else to_double (of_int n * scale 10 e))"

text \<open>The parts of a number: the sign, the digits before the point, those after it, the exponent.\<close>

definition scan_int :: "string \<Rightarrow> string \<times> string" where
  "scan_int s =
     (let ds = takeWhile digit s; i = (if starts_with ''0'' ds then ''0'' else ds) in (i, drop (length i) s))"

definition scan_fraction :: "string \<Rightarrow> string \<times> string" where
  "scan_fraction s =
     (let f = (if starts_with ''.'' s then takeWhile digit (tl s) else [])
      in (f, if f = [] then s else drop (Suc (length f)) s))"

definition scan_exponent :: "string \<Rightarrow> int option \<times> string" where
  "scan_exponent s =
     (case s of
        [] \<Rightarrow> (None, s)
      | c # t \<Rightarrow>
          let u = (if starts_with ''+'' t \<or> starts_with ''-'' t then tl t else t);
              x = takeWhile digit u
          in if (c = CHR ''e'' \<or> c = CHR ''E'') \<and> x \<noteq> []
             then (Some ((if starts_with ''-'' t then - 1 else 1) * digits_value x), drop (length x) u)
             else (None, s))"

definition scan_number :: "string \<Rightarrow> (pyval \<times> string) option" where
  "scan_number s =
     (let neg = starts_with ''-'' s;
          sign = (if neg then - 1 else 1)
      in case scan_int (if neg then tl s else s) of (i, s1) \<Rightarrow>
         if i = [] then None
         else case scan_fraction s1 of (f, s2) \<Rightarrow>
           (case scan_exponent s2 of (e, s3) \<Rightarrow>
             if f = [] \<and> e = None then Some (PInt (sign * digits_value i), s3)
             else Some (PFloat (of_int sign * decimal (digits_value (i @ f))
                    ((case e of None \<Rightarrow> 0 | Some x \<Rightarrow> x) - int (length f))), s3)))"

lemma scan_int_shorter: "scan_int s = (i, r) \<Longrightarrow> i \<noteq> [] \<Longrightarrow> length r < length s"
  by (cases s) (auto simp: scan_int_def Let_def starts_with_def split: if_splits)

lemma scan_fraction_le: "scan_fraction s = (f, r) \<Longrightarrow> length r \<le> length s"
  by (auto simp: scan_fraction_def Let_def)

lemma scan_exponent_le: "scan_exponent s = (e, r) \<Longrightarrow> length r \<le> length s"
  by (cases s) (auto simp: scan_exponent_def Let_def split: if_splits)

lemma scan_number_shorter:
  assumes "scan_number s = Some (v, r)"
  shows "length r < length s"
proof -
  let ?t = "if starts_with ''-'' s then tl s else s"
  obtain i s1 where i: "scan_int ?t = (i, s1)" by (cases "scan_int ?t")
  obtain f s2 where f: "scan_fraction s1 = (f, s2)" by (cases "scan_fraction s1")
  obtain e s3 where e: "scan_exponent s2 = (e, s3)" by (cases "scan_exponent s2")
  have "i \<noteq> []" "r = s3" using assms i f e by (auto simp: scan_number_def Let_def split: if_splits)
  then have "length s1 < length ?t" "length r \<le> length s1"
    using scan_int_shorter [OF i] scan_fraction_le [OF f] scan_exponent_le [OF e] by simp_all
  then have "length r < length ?t" by linarith
  also have "\<dots> \<le> length s" by simp
  finally show ?thesis .
qed

definition json_words :: "(string \<times> pyval) list" where
  "json_words = [(''null'', PNone), (''true'', PBool True), (''false'', PBool False)]"

definition punctuation :: "char \<Rightarrow> json_token option" where
  "punctuation c = map_of [(CHR ''{'', Tok_LBrace), (CHR ''}'', Tok_RBrace), (CHR ''['', Tok_LBrack),
     (CHR '']'', Tok_RBrack), (CHR '':'', Tok_Colon), (CHR '','', Tok_Comma)] c"

function json_lex :: "string \<Rightarrow> json_token list option" where
  "json_lex [] = Some []"
| "json_lex (c # s) =
     (if json_space c then json_lex s
      else case punctuation c of
        Some t \<Rightarrow> map_option ((#) t) (json_lex s)
      | None \<Rightarrow>
          if c = CHR 0x22 then
            (case scan_string [] s of None \<Rightarrow> None
             | Some (v, r) \<Rightarrow> map_option ((#) (Tok_Str v)) (json_lex r))
          else case find (\<lambda>(k, _). starts_with k (c # s)) json_words of
            Some (k, v) \<Rightarrow> map_option ((#) (Tok_Val v)) (json_lex (drop (length k - 1) s))
          | None \<Rightarrow> (case scan_number (c # s) of None \<Rightarrow> None
              | Some (v, r) \<Rightarrow> map_option ((#) (Tok_Val v)) (json_lex r)))"
  by pat_completeness auto
termination
  by (relation "measure length") (auto dest: scan_string_shorter scan_number_shorter)

declare json_lex.simps(2) [simp del]

section \<open>Values\<close>

datatype json_frame =
    In_Array "pyval list"
  | In_Object "(string \<times> pyval) list"
  | In_Pair "(string \<times> pyval) list" string

datatype json_state =
    Want_Value "json_frame list"
  | Want_First "json_frame list"
  | Want_Key "json_frame list"
  | Want_Colon "json_frame list"
  | After_Value "json_frame list"
  | Json_Done pyval
  | Json_Failed

text \<open>A value is complete: it goes to the innermost open array or object.\<close>

fun json_value :: "pyval \<Rightarrow> json_frame list \<Rightarrow> json_state" where
  "json_value v [] = Json_Done v"
| "json_value v (In_Array vs # st) = After_Value (In_Array (vs @ [v]) # st)"
| "json_value v (In_Pair d k # st) = After_Value (In_Object (dset k v d) # st)"
| "json_value v (In_Object d # st) = Json_Failed"

fun json_step :: "json_token \<Rightarrow> json_state \<Rightarrow> json_state" where
  "json_step Tok_RBrack (Want_First (In_Array vs # st)) = json_value (PList vs) st"
| "json_step Tok_RBrace (Want_First (In_Object d # st)) = json_value (PDict d) st"
| "json_step (Tok_Str k) (Want_First (In_Object d # st)) = Want_Colon (In_Pair d k # st)"
| "json_step t (Want_First (In_Object d # st)) = Json_Failed"
| "json_step (Tok_Str k) (Want_Key (In_Object d # st)) = Want_Colon (In_Pair d k # st)"
| "json_step Tok_Colon (Want_Colon st) = Want_Value st"
| "json_step Tok_Comma (After_Value (In_Array vs # st)) = Want_Value (In_Array vs # st)"
| "json_step Tok_RBrack (After_Value (In_Array vs # st)) = json_value (PList vs) st"
| "json_step Tok_Comma (After_Value (In_Object d # st)) = Want_Key (In_Object d # st)"
| "json_step Tok_RBrace (After_Value (In_Object d # st)) = json_value (PDict d) st"
| "json_step Tok_LBrack (Want_Value st) = Want_First (In_Array [] # st)"
| "json_step Tok_LBrace (Want_Value st) = Want_First (In_Object [] # st)"
| "json_step (Tok_Str v) (Want_Value st) = json_value (PStr v) st"
| "json_step (Tok_Val v) (Want_Value st) = json_value v st"
| "json_step Tok_LBrack (Want_First st) = Want_First (In_Array [] # st)"
| "json_step Tok_LBrace (Want_First st) = Want_First (In_Object [] # st)"
| "json_step (Tok_Str v) (Want_First st) = json_value (PStr v) st"
| "json_step (Tok_Val v) (Want_First st) = json_value v st"
| "json_step t s = Json_Failed"

text \<open>\<^verbatim>\<open>json.loads(text)\<close>, None when it raises.\<close>

definition json_loads :: "string \<Rightarrow> pyval option" where
  "json_loads s =
     (case json_lex s of
        None \<Rightarrow> None
      | Some ts \<Rightarrow> (case fold json_step ts (Want_Value []) of Json_Done v \<Rightarrow> Some v | _ \<Rightarrow> None))"

end
