(* ===== verification/Providers.thy ===== *)
theory Providers
  imports Chat
begin

text \<open>
  The providers behind the chat: \<^verbatim>\<open>services/agent/providers/mock.py\<close> without the branch of
  \<^verbatim>\<open>generate_structured\<close> for chat answers, which nothing calls, \<^verbatim>\<open>gemini.py\<close>, \<^verbatim>\<open>factory.py\<close> with the
  check of \<^verbatim>\<open>app/core/config.py\<close>, and the assistant of \<^verbatim>\<open>orchestrator.py\<close>.  The client of the Gemini
  service is a parameter: what a call of it comes to, one answer for each call.
\<close>

section \<open>The mock provider\<close>

text \<open>The text before the last occurrence of a pattern.\<close>

fun before_last :: "string \<Rightarrow> string \<Rightarrow> string option" where
  "before_last pat [] = None"
| "before_last pat (c # s) =
     (case before_last pat s of
        Some r \<Rightarrow> Some (c # r)
      | None \<Rightarrow> if starts_with pat (c # s) then Some [] else None)"

text \<open>The group of the first match of \<^verbatim>\<open>```\n(.*)\n```\<close>, where the dot matches line ends too.\<close>

fun fenced_group :: "string \<Rightarrow> string option" where
  "fenced_group [] = None"
| "fenced_group (c # s) =
     (if starts_with (code_fence @ newline) (c # s) then
        (case before_last (newline @ code_fence) (drop 3 s) of
           Some g \<Rightarrow> Some g
         | None \<Rightarrow> fenced_group s)
      else fenced_group s)"

definition find_last_user_message :: "message list \<Rightarrow> string" where
  "find_last_user_message ms =
     (case find (\<lambda>m. mg_role m = ''user'') (rev ms) of
        None \<Rightarrow> []
      | Some m \<Rightarrow> (case fenced_group (mg_content m) of Some g \<Rightarrow> g | None \<Rightarrow> mg_content m))"

definition mock_complete :: "message list \<Rightarrow> ('m chat_w_scheme, completion) prog" where
  "mock_complete ms =
     sq (modify (\<lambda>w. w\<lparr>ch_calls := ch_calls w @ [ms]\<rparr>))
     (ret \<lparr>cm_text = ''[mock provider] Received: '' @ str_or (find_last_user_message ms) ''(empty message)'',
           cm_model = ''mock-1'', cm_provider = ''mock''\<rparr>)"

text \<open>\<^verbatim>\<open>int(text)\<close> in base ten, None when it raises.\<close>

fun groups :: "char \<Rightarrow> string \<Rightarrow> string list" where
  "groups c [] = [[]]"
| "groups c (d # s) = (if d = c then [] # groups c s else (d # hd (groups c s)) # tl (groups c s))"

definition int_of_text :: "string \<Rightarrow> int option" where
  "int_of_text text =
     (let s = strip text;
          body = (if starts_with ''-'' s \<or> starts_with ''+'' s then tl s else s);
          parts = groups CHR ''_'' body
      in if \<forall>p \<in> set parts. p \<noteq> [] \<and> list_all digit p
         then Some ((if starts_with ''-'' s then - 1 else 1) * digits_value (concat parts)) else None)"

text \<open>\<^verbatim>\<open>line.split("(")[1].split(" total")[0]\<close> as a number; 0 when that raises.\<close>

definition before_total :: "string \<Rightarrow> string" where
  "before_total s = (case find (\<lambda>n. starts_with '' total'' (drop n s)) [0..<length s] of
     None \<Rightarrow> s | Some n \<Rightarrow> take n s)"

definition completed_in_line :: "string \<Rightarrow> int" where
  "completed_in_line line =
     (case groups CHR ''('' line of
        _ # part # _ \<Rightarrow> (case int_of_text (before_total part) of Some n \<Rightarrow> n | None \<Rightarrow> 0)
      | _ \<Rightarrow> 0)"

definition completed_actions_in :: "string \<Rightarrow> int" where
  "completed_actions_in context = fold (\<lambda>line n.
     if starts_with ''Completed actions ('' (strip line) then completed_in_line line else n)
     (split_lines [] context) 0"

definition mock_decision :: "string \<Rightarrow> string \<Rightarrow> string \<Rightarrow> string \<Rightarrow> string list \<Rightarrow> string list \<Rightarrow> rat \<Rightarrow> pyval" where
  "mock_decision summary intent next_action action missing_info evidence confidence = PDict
     [(''reasoningSummary'', PStr summary), (''intent'', PStr intent), (''nextAction'', PStr next_action),
      (''actionType'', PStr action), (''requiresApproval'', PBool False),
      (''missingInformation'', p_strs missing_info), (''expectedEvidence'', p_strs evidence),
      (''verificationPlan'', PList []), (''confidence'', PFloat confidence)]"

definition generate_agent_decision :: "message list \<Rightarrow> pyval" where
  "generate_agent_decision ms =
     (let context = find_last_user_message ms
      in if \<not> str_in ''Authorization status: AUTHORIZED'' context then
           mock_decision ''Authorization is not yet confirmed for this target.'' ''CLARIFY''
             ''Ask the user to confirm authorization for the target.'' ''ASK_USER'' [''authorization''] [] (9 / 10)
         else if completed_actions_in context = 0 then
           mock_decision ''Starting with a read-only environment check.'' ''CONTINUE''
             ''Check the target environment before selecting a tool.'' ''CHECK_ENVIRONMENT'' []
             [''environment capabilities''] (7 / 10)
         else
           mock_decision ''Sufficient information gathered; concluding the task.'' ''COMPLETE''
             ''Summarize findings and complete the task.'' ''COMPLETE_TASK'' [] [] (6 / 10))"

section \<open>Gemini\<close>

text \<open>What a call of the client comes to.\<close>

datatype genai_result =
    G_Text "string option"
  | G_Timeout
  | G_API_Error "int option"
  | G_Network_Error
  | G_Raises exn

record genai_request =
  gr_model :: string
  gr_contents :: "(string \<times> string) list"
  gr_config :: "(string \<times> pyval) list"

record gemini_provider =
  gp_api_key :: string
  gp_model :: string
  gp_timeout_seconds :: rat
  gp_max_output_tokens :: "nat option"

record gem_w = chat_w +
  gm_answers :: "nat \<Rightarrow> genai_result"
  gm_requests :: "genai_request list"

definition new_gemini :: "string \<Rightarrow> string \<Rightarrow> rat \<Rightarrow> nat option \<Rightarrow> exn + gemini_provider" where
  "new_gemini api_key model timeout tokens =
     (if api_key = [] then
        Inl (AIProviderError AI_MISSING_API_KEY
          ''Gemini is selected as the AI provider but no API key is configured.'')
      else Inr \<lparr>gp_api_key = api_key, gp_model = model, gp_timeout_seconds = timeout,
        gp_max_output_tokens = tokens\<rparr>)"

definition classify_api_error :: "int option \<Rightarrow> ai_provider_error_code" where
  "classify_api_error code =
     (if code = Some 401 \<or> code = Some 403 then AI_INVALID_API_KEY
      else if code = Some 429 then AI_RATE_LIMITED
      else case code of Some n \<Rightarrow> if 500 \<le> n then AI_UNAVAILABLE else AI_INVALID_RESPONSE
        | None \<Rightarrow> AI_INVALID_RESPONSE)"

definition safe_message_for :: "ai_provider_error_code \<Rightarrow> string" where
  "safe_message_for code =
     (if code = AI_INVALID_API_KEY then ''The configured AI provider credentials were rejected.''
      else if code = AI_RATE_LIMITED then ''The AI provider is rate-limiting requests. Please try again shortly.''
      else if code = AI_UNAVAILABLE then ''The AI provider is temporarily unavailable.''
      else if code = AI_INVALID_RESPONSE then ''The AI provider returned an unexpected response.''
      else ''The AI provider request failed.'')"

text \<open>The system messages are joined; the others keep their order, an assistant's as the model's.\<close>

fun to_contents :: "string option \<Rightarrow> message list \<Rightarrow> string option \<times> (string \<times> string) list" where
  "to_contents system_prompt [] = (system_prompt, [])"
| "to_contents system_prompt (m # ms) =
     (if mg_role m = ''system'' then
        to_contents (Some (if truthy system_prompt then the system_prompt @ newline @ newline @ mg_content m
                           else mg_content m)) ms
      else case to_contents system_prompt ms of
        (p, cs) \<Rightarrow> (p, ((if mg_role m = ''assistant'' then ''model'' else ''user''), mg_content m) # cs))"

definition run_with_timeout :: "genai_result \<Rightarrow> exn + string option" where
  "run_with_timeout result =
     (case result of
        G_Text t \<Rightarrow> Inr t
      | G_Timeout \<Rightarrow> Inl (AIProviderError AI_TIMEOUT ''The AI provider took too long to respond.'')
      | G_API_Error code \<Rightarrow> let c = classify_api_error code in Inl (AIProviderError c (safe_message_for c))
      | G_Network_Error \<Rightarrow> Inl (AIProviderError AI_NETWORK_ERROR
          (''Could not reach the AI provider '' @ em_dash @ '' please try again.''))
      | G_Raises exc \<Rightarrow> Inl exc)"

definition tokens_config :: "nat option \<Rightarrow> (string \<times> pyval) list" where
  "tokens_config n = (case n of None \<Rightarrow> [] | Some k \<Rightarrow>
     if k = 0 then [] else [(''max_output_tokens'', PInt (int k))])"

definition generate_content ::
    "gemini_provider \<Rightarrow> message list \<Rightarrow> (string \<times> pyval) list \<Rightarrow> nat option \<Rightarrow>
     ('m gem_w_scheme, string option) prog" where
  "generate_content g ms extra tokens =
     (case to_contents None ms of (system_prompt, contents) \<Rightarrow>
       let request = \<lparr>gr_model = gp_model g, gr_contents = contents,
             gr_config = [(''temperature'', PFloat (1 / 5))] @ extra @
               (if truthy system_prompt then [(''system_instruction'', PStr (the system_prompt))] else []) @
               tokens_config tokens\<rparr>
       in bnd (gets (\<lambda>w. gm_answers w (length (gm_requests w)))) (\<lambda>answer.
          sq (modify (\<lambda>w. w\<lparr>gm_requests := gm_requests w @ [request]\<rparr>))
             (liftS (run_with_timeout answer))))"

definition gemini_complete :: "gemini_provider \<Rightarrow> message list \<Rightarrow> ('m gem_w_scheme, completion) prog" where
  "gemini_complete g ms =
     bnd (generate_content g ms [] (gp_max_output_tokens g)) (\<lambda>t.
     ret \<lparr>cm_text = ostr_or t [], cm_model = gp_model g, cm_provider = ''gemini''\<rparr>)"

text \<open>\<^verbatim>\<open>max_output_tokens or self._max_output_tokens\<close>.\<close>

definition tokens_or :: "nat option \<Rightarrow> nat option \<Rightarrow> nat option" where
  "tokens_or a b = (case a of Some k \<Rightarrow> if k = 0 then b else a | None \<Rightarrow> b)"

definition generate_structured ::
    "gemini_provider \<Rightarrow> message list \<Rightarrow> nat option \<Rightarrow> ('m gem_w_scheme, (string \<times> pyval) list) prog" where
  "generate_structured g ms tokens =
     bnd (generate_content g ms [(''response_mime_type'', PStr ''application/json'')]
            (tokens_or tokens (gp_max_output_tokens g))) (\<lambda>t.
     let cleaned = strip_fences (strip (ostr_or t []))
     in if cleaned = [] then
          raise (AIProviderError AI_INVALID_RESPONSE ''The AI provider returned an empty response.'')
        else case json_loads cleaned of
          None \<Rightarrow> raise (AIProviderError AI_INVALID_RESPONSE
            ''The AI provider returned a response that could not be parsed.'')
        | Some (PDict d) \<Rightarrow> ret d
        | Some v \<Rightarrow> raise (AIProviderError AI_INVALID_RESPONSE
            ''The AI provider returned an unexpected response shape.''))"

datatype provider_health_status = H_CONNECTED | H_NOT_CONFIGURED | H_CONFIGURATION_ERROR | H_UNAVAILABLE

record provider_health =
  ph_provider :: string
  ph_status :: provider_health_status
  ph_model :: "string option"
  ph_detail :: "string option"

definition gemini_health :: "gemini_provider \<Rightarrow> genai_result \<Rightarrow> exn + provider_health" where
  "gemini_health g result =
     (let report = (\<lambda>status detail. Inr \<lparr>ph_provider = ''gemini'', ph_status = status,
            ph_model = Some (gp_model g), ph_detail = detail\<rparr>)
      in case result of
        G_Text _ \<Rightarrow> report H_CONNECTED None
      | G_Timeout \<Rightarrow> report H_UNAVAILABLE (Some ''Timed out while checking Gemini connectivity.'')
      | G_API_Error code \<Rightarrow>
          if classify_api_error code = AI_INVALID_API_KEY
          then report H_CONFIGURATION_ERROR (Some ''Gemini rejected the configured API key.'')
          else report H_UNAVAILABLE (Some ''Gemini is temporarily unavailable.'')
      | G_Network_Error \<Rightarrow> report H_UNAVAILABLE (Some ''Could not reach Gemini.'')
      | G_Raises exc \<Rightarrow> Inl exc)"

section \<open>Configuration\<close>

definition ai_provider_allowed :: "string \<Rightarrow> string \<Rightarrow> bool" where
  "ai_provider_allowed environment name \<longleftrightarrow>
     name \<in> {''gemini'', ''mock''} \<and> \<not> (lower environment = ''production'' \<and> name = ''mock'')"

definition get_provider ::
    "string \<Rightarrow> string \<Rightarrow> string \<Rightarrow> rat \<Rightarrow> nat option \<Rightarrow>
     exn + (message list \<Rightarrow> ('m gem_w_scheme, completion) prog)" where
  "get_provider name api_key model timeout tokens =
     (if name = ''gemini'' then
        (case new_gemini api_key model timeout tokens of Inl e \<Rightarrow> Inl e | Inr g \<Rightarrow> Inr (gemini_complete g))
      else if name = ''mock'' then Inr mock_complete
      else Inl (AIProviderError AI_CONFIGURATION_ERROR (''Unknown AI provider: '' @ py_repr name)))"

section \<open>The assistant\<close>

definition ASSISTANT_PROMPT :: string where
  "ASSISTANT_PROMPT =
     ''You are the planning assistant for Cyber AI System, an authorized cybersecurity assessment '' @
     ''platform. You help the user clarify their authorized security objective and scope. You never '' @
     ''suggest or imply action against a target that has not been explicitly declared as authorized. '' @
     ''You do not output shell commands; you describe objectives and let the platform'' @ [CHR 0x27] @
     ''s own planner and policy engine decide what, if anything, may be executed.''"

definition assistant_reply ::
    "(message list \<Rightarrow> ('m chat_w_scheme, completion) prog) \<Rightarrow> message list \<Rightarrow> ('m chat_w_scheme, completion) prog" where
  "assistant_reply ask conversation = ask (\<lparr>mg_role = ''system'', mg_content = ASSISTANT_PROMPT\<rparr> # conversation)"

definition legacy_chat_route ::
    "exn + (message list \<Rightarrow> ('m chat_w_scheme, completion) prog) \<Rightarrow> message list \<Rightarrow> ('m chat_w_scheme, completion) prog" where
  "legacy_chat_route provider conversation =
     (case provider of
        Inl (AIProviderError code m) \<Rightarrow> raise (HTTPException 503 [] m)
      | Inl exc \<Rightarrow> raise exc
      | Inr ask \<Rightarrow> try_except (assistant_reply ask conversation) (\<lambda>exc. case exc of
          AIProviderError code m \<Rightarrow> raise (HTTPException 502 [] m)
        | _ \<Rightarrow> raise exc))"

end
