(* ===== verification/Terminal_Routes.thy ===== *)
theory Terminal_Routes
  imports Install_Lifecycle
begin

text \<open>
  \<^verbatim>\<open>apps/api/app/api/routes/terminal.py\<close> with \<^verbatim>\<open>app/schemas/terminal.py\<close>: the only way from the network
  to a process.  A client names a target and a reviewed kind of action; the route asks the policy engine
  and takes the command from its template.  \<open>targets\<close> is the table of targets in the database.
\<close>

section \<open>The errors of the engine\<close>

fun terminal_error_value :: "terminal_error_code \<Rightarrow> string" where
  "terminal_error_value TE_UNSUPPORTED_PLATFORM = ''unsupported_platform''"
| "terminal_error_value TE_INVALID_REQUEST = ''invalid_request''"
| "terminal_error_value TE_INVALID_WORKING_DIRECTORY = ''invalid_working_directory''"
| "terminal_error_value TE_SESSION_NOT_FOUND = ''session_not_found''"
| "terminal_error_value TE_SESSION_EXPIRED = ''session_expired''"
| "terminal_error_value TE_SESSION_NOT_READY = ''session_not_ready''"
| "terminal_error_value TE_AUTHORIZATION_REJECTED = ''authorization_rejected''"
| "terminal_error_value TE_PROCESS_CREATION_FAILED = ''process_creation_failed''"
| "terminal_error_value TE_PERMISSION_DENIED = ''permission_denied''"
| "terminal_error_value TE_TIMEOUT = ''timeout''"
| "terminal_error_value TE_TERMINATION_FAILED = ''termination_failed''"
| "terminal_error_value TE_OUTPUT_LIMIT_EXCEEDED = ''output_limit_exceeded''"

text \<open>An error of the engine becomes an HTTP error of the given status; others go on.\<close>

definition terminal_http :: "nat \<Rightarrow> ('w, 'a) prog \<Rightarrow> ('w, 'a) prog" where
  "terminal_http status m = try_except m (\<lambda>exc. case exc of
     TerminalEngineError code msg \<Rightarrow> raise (HTTPException status (terminal_error_value code) msg)
   | _ \<Rightarrow> raise exc)"

section \<open>Sessions\<close>

record session_response =
  sv_id :: uuid
  sv_platform :: platform_identifier
  sv_status :: session_status
  sv_created_at :: time
  sv_last_activity_at :: time
  sv_working_directory :: "string option"
  sv_task_id :: "string option"
  sv_shell :: "string option"

definition session_response_of :: "session \<Rightarrow> ('m term_w_scheme, session_response) prog" where
  "session_response_of s =
     bnd describe_adapter (\<lambda>(p, shell). ret
       \<lparr>sv_id = se_id s, sv_platform = se_platform s, sv_status = se_status s,
        sv_created_at = se_created_at s, sv_last_activity_at = se_last_activity_at s,
        sv_working_directory = se_working_directory s, sv_task_id = se_task_id s, sv_shell = shell\<rparr>)"

definition create_session_route ::
    "string option \<Rightarrow> string option \<Rightarrow> ('m term_w_scheme, session_response) prog" where
  "create_session_route task_id working_directory =
     bnd (terminal_http 400 (create_session task_id working_directory)) session_response_of"

definition get_session_route :: "uuid \<Rightarrow> ('m term_w_scheme, session_response) prog" where
  "get_session_route sid = bnd (terminal_http 404 (get_status sid)) session_response_of"

definition terminate_session_route :: "uuid \<Rightarrow> ('m term_w_scheme, session_response) prog" where
  "terminate_session_route sid = bnd (terminal_http 404 (close_session sid)) session_response_of"

section \<open>Results\<close>

record result_response =
  rv_command_id :: uuid
  rv_session_id :: uuid
  rv_status :: command_status
  rv_platform :: platform_identifier
  rv_started_at :: time
  rv_completed_at :: "time option"
  rv_duration :: "time option"
  rv_exit_code :: "int option"
  rv_stdout :: "string option"
  rv_stderr :: "string option"
  rv_stdout_truncated :: bool
  rv_stderr_truncated :: bool
  rv_error_message :: "string option"

definition result_response_of :: "command_result \<Rightarrow> result_response" where
  "result_response_of r =
     \<lparr>rv_command_id = cr_command_id r, rv_session_id = cr_session_id r, rv_status = cr_status r,
      rv_platform = cr_platform r, rv_started_at = cr_started_at r, rv_completed_at = cr_completed_at r,
      rv_duration = cr_duration r, rv_exit_code = cr_exit_code r, rv_stdout = cr_stdout r,
      rv_stderr = cr_stderr r, rv_stdout_truncated = cr_stdout_truncated r,
      rv_stderr_truncated = cr_stderr_truncated r, rv_error_message = cr_error_message r\<rparr>"

definition session_output_route :: "uuid \<Rightarrow> ('m term_w_scheme, result_response option) prog" where
  "session_output_route sid =
     bnd (get_status sid) (\<lambda>_. gets (\<lambda>w. map_option result_response_of (get_last_result sid w)))"

section \<open>Execution\<close>

record execute_request =
  xr_session_id :: uuid
  xr_task_id :: string
  xr_target_id :: uuid
  xr_action_type :: string
  xr_approved :: bool
  xr_timeout_seconds :: "int option"

definition route_request ::
    "execute_request \<Rightarrow> string list \<Rightarrow> policy_decision \<Rightarrow> uuid \<Rightarrow> command_request" where
  "route_request x command decision i =
     \<lparr>rq_session_id = xr_session_id x, rq_command = command, rq_authorization_context = decision,
      rq_task_id = Some (xr_task_id x), rq_id = i, rq_working_directory = None, rq_environment = [],
      rq_timeout_seconds = xr_timeout_seconds x, rq_approved_by_user = xr_approved x\<rparr>"

definition decide_action :: "execute_request \<Rightarrow> target_scope \<Rightarrow> risk_tier \<Rightarrow> ('m term_w_scheme, policy_decision) prog" where
  "decide_action x target tier =
     bnd uuid4 (\<lambda>i. bnd now (\<lambda>t. ret (policy_evaluate t
       \<lparr>ar_action_id = i, ar_action_type = xr_action_type x, ar_risk_tier = tier, ar_target = target\<rparr>)))"

definition run_decided :: "execute_request \<Rightarrow> policy_decision \<Rightarrow> ('m term_w_scheme, result_response) prog" where
  "run_decided x decision =
     (if pd_verdict decision = DENY then
        raise (HTTPException 403 ''policy_denied'' (join ''; '' (pd_reasons decision)))
      else if pd_verdict decision = REQUIRE_APPROVAL \<and> \<not> xr_approved x then
        raise (HTTPException 202 ''approval_required''
          ''This action requires explicit human approval before it can run.'')
      else bnd (gets os) (\<lambda>e. case resolve_command (os_python e) (xr_action_type x) of
          None \<Rightarrow> raise (HTTPException 500 ''no_command_template''
            ''No executable template is registered for this action.'')
        | Some command \<Rightarrow>
            bnd uuid4 (\<lambda>i.
            bnd (terminal_http 409 (execute (route_request x command decision i))) (\<lambda>result.
            ret (result_response_of result)))))"

definition execute_route ::
    "(uuid \<Rightarrow> target_scope option) \<Rightarrow> execute_request \<Rightarrow> ('m term_w_scheme, result_response) prog" where
  "execute_route targets x =
     (case targets (xr_target_id x) of
        None \<Rightarrow> raise (HTTPException 404 ''target_not_found'' ''The requested target does not exist.'')
      | Some target \<Rightarrow>
          (case map_of ACTION_RISK_TIERS (xr_action_type x) of
             None \<Rightarrow> raise (HTTPException 403 ''action_not_registered''
               (''Action type '' @ quoted (xr_action_type x) @ '' is not a reviewed, executable action.''))
           | Some tier \<Rightarrow> bnd (decide_action x target tier) (run_decided x)))"

section \<open>What a client can bring about\<close>

lemma execute_calls_prepared:
  "os_calls (snd (execute rq w)) = os_calls w \<or>
   (\<exists>a spec. os_calls (snd (execute rq w)) = os_calls w @ [call_of a (os w) spec] \<and>
      prepare (tm_config w) (os w) rq = Inr spec)"
proof (cases rule: begin_cases [of rq w])
  case (failed e w')
  then show ?thesis by (simp add: execute_def execute_body_def bnd_bnd bnd_eq calm_def env_kept_def)
next
  case (rejected r w')
  then show ?thesis
    by (simp add: execute_def execute_body_def bnd_bnd bnd_eq calm_def env_kept_def store_result_def ret_def)
next
  case (launched t w')
  obtain x w1 where run: "adapter_run (tk_adapter t) (tk_spec t) True (run_context_of (tk_request t)) w' = (x, w1)"
    by (cases "adapter_run (tk_adapter t) (tk_spec t) True (run_context_of (tk_request t)) w'")
  then have calls: "os_calls w1 = os_calls w @ [call_of (tk_adapter t) (os w) (tk_spec t)]"
    using adapter_run_calls [of "tk_adapter t" "tk_spec t" True "run_context_of (tk_request t)" w'] launched
    by (simp add: calm_def env_kept_def)
  obtain y w2 where fin: "execute_finish t x w1 = (y, w2)" by (cases "execute_finish t x w1")
  then have "os_calls w2 = os_calls w1" using execute_finish_leaves [OF fin] by (simp add: env_kept_def)
  then show ?thesis
    using launched run fin calls launched(3)
    by (cases y) (auto simp: execute_def execute_body_def bnd_bnd bnd_eq await_task_def store_result_def ret_def)
qed

text \<open>The process a client may start: the reviewed command of the interpreter of the server, in the workspace.\<close>

definition reviewed_call :: "terminal_config \<Rightarrow> os_env \<Rightarrow> spawn_call \<Rightarrow> bool" where
  "reviewed_call c e call \<longleftrightarrow>
     sc_argv call = diagnostics_echo_test (os_python e) \<and>
     sc_cwd call = Some (os_realpath e (tc_workspace_root c)) \<and>
     (\<forall>k v. map_of (sc_env call) k = Some v \<longrightarrow>
        k \<in> set (tc_env_allowlist c) \<and> map_of (os_environ e) k = Some v)"

lemma reviewed_call_prepared:
  assumes "prepare c e rq = Inr spec"
    and "rq_command rq = diagnostics_echo_test (os_python e)" and "rq_working_directory rq = None"
    and "rq_environment rq = []"
  shows "reviewed_call c e (call_of a e spec)"
proof -
  have "cs_argv spec = rq_command rq" "cs_working_dir spec = Some (os_realpath e (tc_workspace_root c))"
    using assms(1,3) by (auto simp: prepare_def validate_working_directory_def Let_def split: sum.splits)
  moreover have "k \<in> set (tc_env_allowlist c) \<and> map_of (os_environ e) k = Some v"
    if "map_of (sc_env (call_of a e spec)) k = Some v" for k v
    using prepare_safe [OF assms(1), of a] that assms(4) by (simp add: safe_call_def)
  ultimately show ?thesis using assms(2) by (simp add: reviewed_call_def call_of_def)
qed

lemma snd_terminal_http: "snd (bnd (terminal_http status m) (\<lambda>r. ret (f r)) w) = snd (m w)"
  by (auto simp: terminal_http_def bnd_def try_except_def raise_def ret_def
      split: prod.splits sum.splits exn.splits)

lemma run_decided_calls:
  "os_calls (snd (run_decided x d w)) = os_calls w \<or>
   (\<exists>call. os_calls (snd (run_decided x d w)) = os_calls w @ [call] \<and>
      reviewed_call (tm_config w) (os w) call \<and> pd_verdict d \<noteq> DENY \<and>
      xr_action_type x = ''diagnostics.echo_test'')"
proof (cases "pd_verdict d = DENY \<or> pd_verdict d = REQUIRE_APPROVAL \<and> \<not> xr_approved x \<or>
    resolve_command (os_python (os w)) (xr_action_type x) = None")
  case True
  then show ?thesis by (auto simp: run_decided_def raise_def)
next
  case False
  then obtain command where
    c: "resolve_command (os_python (os w)) (xr_action_type x) = Some command" by auto
  then have r: "xr_action_type x = ''diagnostics.echo_test''"
    "command = diagnostics_echo_test (os_python (os w))" by (auto simp: resolve_command_Some)
  let ?rq = "route_request x command d (rt_uuid w (rt_uuids w))"
  let ?w = "w\<lparr>rt_uuids := Suc (rt_uuids w)\<rparr>"
  have "run_decided x d w =
      bnd (terminal_http 409 (execute ?rq)) (\<lambda>result. ret (result_response_of result)) ?w"
    using False c by (auto simp: run_decided_def)
  then have snd: "snd (run_decided x d w) = snd (execute ?rq ?w)" by (simp add: snd_terminal_http)
  show ?thesis
    using execute_calls_prepared [of ?rq ?w] reviewed_call_prepared [of "tm_config w" "os w" ?rq] False r
    unfolding snd by (auto simp: route_request_def)
qed

definition may_run :: "(uuid \<Rightarrow> target_scope option) \<Rightarrow> execute_request \<Rightarrow> time \<Rightarrow> bool" where
  "may_run targets x t \<longleftrightarrow>
     (\<exists>target. targets (xr_target_id x) = Some target \<and> is_authorized_now t target) \<and>
     xr_action_type x = ''diagnostics.echo_test''"

text \<open>
  C2. The way from the network to a process: whatever a client sends and whatever the state of the
  engine, a request creates no process unless it names a target whose authorization is active and not
  expired at that moment and the one reviewed action with a template; then it creates one process, the
  template's command in the workspace, with allowed variables of the server's environment only.
\<close>

theorem terminal_route_safe:
  fixes w :: term_w
  assumes "execute_route targets x w = (r, w')"
  shows "os_calls w' = os_calls w \<or>
    (\<exists>call. os_calls w' = os_calls w @ [call] \<and> reviewed_call (tm_config w) (os w) call \<and>
       may_run targets x (rt_clock w (rt_ticks w)))"
proof (cases "targets (xr_target_id x) = None \<or> map_of ACTION_RISK_TIERS (xr_action_type x) = None")
  case True
  then show ?thesis using assms by (auto simp: execute_route_def raise_def split: option.splits)
next
  case False
  then obtain target tier where t: "targets (xr_target_id x) = Some target"
    "map_of ACTION_RISK_TIERS (xr_action_type x) = Some tier" by auto
  let ?d = "policy_evaluate (rt_clock w (rt_ticks w))
    \<lparr>ar_action_id = rt_uuid w (rt_uuids w), ar_action_type = xr_action_type x, ar_risk_tier = tier,
     ar_target = target\<rparr>"
  have "(r, w') = run_decided x ?d (w\<lparr>rt_uuids := Suc (rt_uuids w), rt_ticks := Suc (rt_ticks w)\<rparr>)"
    using assms t by (simp add: execute_route_def decide_action_def bnd_bnd)
  then show ?thesis
    using run_decided_calls [of x ?d "w\<lparr>rt_uuids := Suc (rt_uuids w), rt_ticks := Suc (rt_ticks w)\<rparr>"]
    using t policy_deny_iff [of "rt_clock w (rt_ticks w)"]
    by (auto simp: may_run_def prod_eq_iff)
qed

definition sample_execute :: execute_request where
  "sample_execute = \<lparr>xr_session_id = 5, xr_task_id = ''t'', xr_target_id = 7,
     xr_action_type = ''diagnostics.echo_test'', xr_approved = False, xr_timeout_seconds = None\<rparr>"

text \<open>An expired target: the route answers 403 and nothing has run.\<close>

lemma terminal_route_safe_witness:
  "os_calls (snd (execute_route (\<lambda>i. Some \<lparr>ts_id = i, ts_is_active = True, ts_expires_at = Some 0\<rparr>)
     sample_execute sample_engine)) = []"
  using terminal_route_safe [of "\<lambda>i. Some \<lparr>ts_id = i, ts_is_active = True, ts_expires_at = Some 0\<rparr>"
      sample_execute sample_engine, OF prod.collapse [symmetric]]
  by (simp add: may_run_def is_authorized_now_def sample_term_w_def)

end
