(* ===== verification/Install_Routes.thy ===== *)
theory Install_Routes
  imports Terminal_Routes
begin

text \<open>
  \<^verbatim>\<open>apps/api/app/api/routes/installation.py\<close> with \<^verbatim>\<open>app/schemas/installation.py\<close>: the requests the
  installation API serves, and what any sequence of them may bring about.  \<open>targets\<close> is the table of
  targets in the database.
\<close>

section \<open>Errors\<close>

fun installation_error_value :: "installation_error_code \<Rightarrow> string" where
  "installation_error_value IE_TOOL_NOT_APPROVED = ''tool_not_approved''"
| "installation_error_value IE_UNSUPPORTED_PLATFORM = ''unsupported_platform''"
| "installation_error_value IE_PACKAGE_MANAGER_UNAVAILABLE = ''package_manager_unavailable''"
| "installation_error_value IE_DEPENDENCY_UNRESOLVED = ''dependency_unresolved''"
| "installation_error_value IE_POLICY_DENIED = ''policy_denied''"
| "installation_error_value IE_APPROVAL_REQUIRED = ''approval_required''"
| "installation_error_value IE_INSTALLATION_NOT_FOUND = ''installation_not_found''"
| "installation_error_value IE_INVALID_STATE_TRANSITION = ''invalid_state_transition''"
| "installation_error_value IE_RETRY_LIMIT_EXCEEDED = ''retry_limit_exceeded''"
| "installation_error_value IE_VERIFICATION_FAILED = ''verification_failed''"

definition install_status_by_code :: "(string \<times> nat) list" where
  "install_status_by_code =
     [(''installation_not_found'', 404), (''tool_not_approved'', 403), (''unsupported_platform'', 400),
      (''package_manager_unavailable'', 400), (''policy_denied'', 403), (''approval_required'', 409),
      (''invalid_state_transition'', 409), (''retry_limit_exceeded'', 409)]"

definition install_http_error :: "exn \<Rightarrow> exn" where
  "install_http_error exc = (case exc of
     InstallationError code m \<Rightarrow> HTTPException
       (case map_of install_status_by_code (installation_error_value code) of None \<Rightarrow> 400 | Some n \<Rightarrow> n)
       (installation_error_value code) m
   | _ \<Rightarrow> exc)"

definition install_http :: "('w, 'a) prog \<Rightarrow> ('w, 'a) prog" where
  "install_http m = try_except m (\<lambda>exc. raise (install_http_error exc))"

section \<open>Responses\<close>

record step_response =
  ys_description :: string
  ys_package_manager :: package_manager
  ys_action_type :: string
  ys_package_name :: string
  ys_version :: "string option"

record plan_response =
  yp_tool_id :: uuid
  yp_tool_name :: string
  yp_platform :: string
  yp_architecture :: string
  yp_version :: "string option"
  yp_package_manager :: package_manager
  yp_dependencies :: "dependency_check list"
  yp_prerequisites :: "string list"
  yp_required_permissions :: "string list"
  yp_installation_steps :: "step_response list"
  yp_verification_steps :: "string list"
  yp_risk_level :: risk_tier
  yp_approval_required :: bool
  yp_estimated_changes :: "string list"
  yp_rollback_information :: string

record request_response =
  yr_id :: uuid
  yr_tool_id :: uuid
  yr_target_id :: "uuid option"
  yr_state :: installation_state
  yr_plan :: "plan_response option"
  yr_approved_by :: "string option"
  yr_approved_at :: "time option"
  yr_rejection_reason :: "string option"
  yr_attempts :: "installation_attempt list"
  yr_verification :: "installation_verification option"
  yr_error_message :: "string option"
  yr_created_at :: time
  yr_updated_at :: time

definition step_response_of :: "installation_step \<Rightarrow> step_response" where
  "step_response_of s =
     \<lparr>ys_description = st_description s, ys_package_manager = st_package_manager s,
      ys_action_type = st_action_type s, ys_package_name = st_package_name s, ys_version = st_version s\<rparr>"

definition plan_dict :: "installation_plan \<Rightarrow> plan_response" where
  "plan_dict p =
     \<lparr>yp_tool_id = pn_tool_id p, yp_tool_name = pn_tool_name p, yp_platform = pn_platform p,
      yp_architecture = pn_architecture p, yp_version = pn_version p,
      yp_package_manager = pn_package_manager p, yp_dependencies = pn_dependencies p,
      yp_prerequisites = pn_prerequisites p, yp_required_permissions = pn_required_permissions p,
      yp_installation_steps = map step_response_of (pn_installation_steps p),
      yp_verification_steps = pn_verification_steps p, yp_risk_level = pn_risk_level p,
      yp_approval_required = pn_approval_required p, yp_estimated_changes = pn_estimated_changes p,
      yp_rollback_information = pn_rollback_information p\<rparr>"

definition request_response_of :: "installation_request \<Rightarrow> request_response" where
  "request_response_of r =
     \<lparr>yr_id = ir_id r, yr_tool_id = ir_tool_id r, yr_target_id = ir_target_id r, yr_state = ir_state r,
      yr_plan = map_option plan_dict (ir_plan r), yr_approved_by = ir_approved_by r,
      yr_approved_at = ir_approved_at r, yr_rejection_reason = ir_rejection_reason r,
      yr_attempts = ir_attempts r, yr_verification = ir_verification r,
      yr_error_message = ir_error_message r, yr_created_at = ir_created_at r,
      yr_updated_at = ir_updated_at r\<rparr>"

record readiness_response =
  yd_ready :: bool
  yd_checks :: "readiness_check list"

section \<open>Routes\<close>

text \<open>The scope of a target of the table, or the error 404.\<close>

definition found_scope :: "(uuid \<Rightarrow> target_scope option) \<Rightarrow> uuid \<Rightarrow> ('w, target_scope) prog" where
  "found_scope targets i = (case targets i of
     None \<Rightarrow> raise (HTTPException 404 ''target_not_found'' ''The requested target does not exist.'')
   | Some scope \<Rightarrow> ret scope)"

definition answer_request ::
    "('m inst_w_scheme, installation_request) prog \<Rightarrow> ('m inst_w_scheme, request_response) prog" where
  "answer_request m = bnd (install_http m) (\<lambda>r. ret (request_response_of r))"

definition readiness_route ::
    "(uuid \<Rightarrow> target_scope option) \<Rightarrow> uuid \<Rightarrow> uuid \<Rightarrow> string \<Rightarrow> ('m inst_w_scheme, readiness_response) prog" where
  "readiness_route targets tool_id target_id platform =
     bnd (found_scope targets target_id) (\<lambda>scope.
     bnd (check_readiness tool_id scope platform) (\<lambda>report.
     ret \<lparr>yd_ready = ready report, yd_checks = rr_checks report\<rparr>))"

definition request_installation_route ::
    "(uuid \<Rightarrow> target_scope option) \<Rightarrow> uuid \<Rightarrow> uuid \<Rightarrow> string \<Rightarrow> string option \<Rightarrow>
     ('m inst_w_scheme, request_response) prog" where
  "request_installation_route targets tool_id target_id platform requested_by =
     bnd (found_scope targets target_id) (\<lambda>scope.
     bnd (request_installation tool_id scope platform requested_by) (\<lambda>r.
     ret (request_response_of r)))"

definition list_installed_route :: "('m inst_w_scheme, request_response list) prog" where
  "list_installed_route = gets (\<lambda>w. map request_response_of (list_installed w))"

definition list_installations_route :: "('m inst_w_scheme, request_response list) prog" where
  "list_installations_route = gets (\<lambda>w. map request_response_of (list_all_requests w))"

definition get_installation_route :: "uuid \<Rightarrow> ('m inst_w_scheme, request_response) prog" where
  "get_installation_route i = answer_request (ir_get i)"

definition approve_installation_route :: "uuid \<Rightarrow> string \<Rightarrow> ('m inst_w_scheme, request_response) prog" where
  "approve_installation_route i approved_by = answer_request (approve_request i approved_by)"

definition reject_installation_route :: "uuid \<Rightarrow> string \<Rightarrow> ('m inst_w_scheme, request_response) prog" where
  "reject_installation_route i reason = answer_request (reject_request i reason)"

definition start_installation_route ::
    "(uuid \<Rightarrow> target_scope option) \<Rightarrow> uuid \<Rightarrow> uuid \<Rightarrow> ('m inst_w_scheme, request_response) prog" where
  "start_installation_route targets i target_id =
     bnd (found_scope targets target_id) (\<lambda>scope.
     bnd (create_session (Some (''install-'' @ uuid_str i)) None) (\<lambda>s.
     answer_request (start_installation i (se_id s) scope)))"

definition cancel_installation_route :: "uuid \<Rightarrow> ('m inst_w_scheme, request_response) prog" where
  "cancel_installation_route i = answer_request (cancel_request i)"

section \<open>Serving requests\<close>

datatype install_api_request =
    Check_Readiness uuid uuid string
  | Request_Installation uuid uuid string "string option"
  | List_Installed
  | List_Installations
  | Get_Installation uuid
  | Approve_Installation uuid string
  | Reject_Installation uuid string
  | Start_Installation uuid uuid
  | Cancel_Installation uuid

fun serve_install :: "(uuid \<Rightarrow> target_scope option) \<Rightarrow> install_api_request \<Rightarrow> inst_w \<Rightarrow> inst_w" where
  "serve_install targets (Check_Readiness tool_id target_id platform) w =
     snd (readiness_route targets tool_id target_id platform w)"
| "serve_install targets (Request_Installation tool_id target_id platform requested_by) w =
     snd (request_installation_route targets tool_id target_id platform requested_by w)"
| "serve_install targets List_Installed w = snd (list_installed_route w)"
| "serve_install targets List_Installations w = snd (list_installations_route w)"
| "serve_install targets (Get_Installation i) w = snd (get_installation_route i w)"
| "serve_install targets (Approve_Installation i approved_by) w = snd (approve_installation_route i approved_by w)"
| "serve_install targets (Reject_Installation i reason) w = snd (reject_installation_route i reason w)"
| "serve_install targets (Start_Installation i target_id) w = snd (start_installation_route targets i target_id w)"
| "serve_install targets (Cancel_Installation i) w = snd (cancel_installation_route i w)"

text \<open>The identifier that a request for an installation draws is new.\<close>

definition fresh_install :: "install_api_request \<Rightarrow> inst_w \<Rightarrow> bool" where
  "fresh_install q w = (case q of Request_Installation _ _ _ _ \<Rightarrow> fresh_request w | _ \<Rightarrow> True)"

text \<open>A log of requests, each with the table of targets as it was then; between them other work may be done.\<close>

inductive install_api ::
    "inst_w \<Rightarrow> ((uuid \<Rightarrow> target_scope option) \<times> install_api_request) list \<Rightarrow> inst_w \<Rightarrow> bool" where
  nothing_yet: "install_api w [] w"
| one_served: "install_api w reqs w1 \<Longrightarrow> fresh_install q w1 \<Longrightarrow>
    install_api w (reqs @ [(targets, q)]) (serve_install targets q w1)"
| other_engine_work: "install_api w reqs w1 \<Longrightarrow> in_requests w2 = in_requests w1 \<Longrightarrow>
    in_config w2 = in_config w1 \<Longrightarrow> install_api w reqs w2"

lemma snd_answer_request: "snd (answer_request m w) = snd (m w)"
  by (auto simp: answer_request_def install_http_def bnd_def try_except_def raise_def ret_def
      split: prod.splits sum.splits)

definition session_only :: "inst_w \<Rightarrow> inst_w \<Rightarrow> bool" where
  "session_only w w' \<longleftrightarrow> os_calls w' = os_calls w \<and> in_requests w' = in_requests w \<and>
     in_config w' = in_config w"

interpretation so: step_rel session_only
  by unfold_locales (auto simp: session_only_def)

lemma session_only_prims:
  "keeps session_only now" "keeps session_only uuid4" "keeps session_only (audit_emit t sid cid tid d)"
  "keeps session_only (session_emit t se)" "keeps session_only (set_session i se)"
  "keeps session_only resolve_adapter" "keeps session_only (upd_session j f)"
  by (auto simp: keeps_def session_only_def now_def uuid4_def session_emit_def set_session_def
      resolve_adapter_def upd_session_def modify_def)

lemma create_session_only: "keeps session_only (create_session tid wd)"
  unfolding create_session_def sm_create_session_def reap_expired_def reap_one_def Let_def
  by (intro so.keeps_intros session_only_prims)

text \<open>A start at the API: with a scope of the table, it is a session and then a start of the service.\<close>

lemma start_route_cases:
  assumes "start_installation_route targets i target_id w = (x, w')"
  obtains (stopped) "session_only w w'"
  | (served) scope and s :: session and w1 y where "targets target_id = Some scope" "session_only w w1"
      "start_installation i (se_id s) scope w1 = (y, w')"
proof (cases "targets target_id")
  case None
  then show ?thesis using assms stopped
    by (simp add: start_installation_route_def found_scope_def so.R_refl)
next
  case (Some scope)
  obtain r w1 where c: "create_session (Some (''install-'' @ uuid_str i)) None w = (r, w1)"
    by (cases "create_session (Some (''install-'' @ uuid_str i)) None w")
  then have k: "session_only w w1" using create_session_only by (rule keepsD [rotated])
  show ?thesis
  proof (cases r)
    case (Inl e)
    then show ?thesis using assms Some c k stopped
      by (simp add: start_installation_route_def found_scope_def bnd_eq)
  next
    case (Inr s)
    then have "answer_request (start_installation i (se_id s) scope) w1 = (x, w')"
      using assms Some c by (simp add: start_installation_route_def found_scope_def bnd_eq)
    then have "w' = snd (start_installation i (se_id s) scope w1)"
      using snd_answer_request [of "start_installation i (se_id s) scope" w1] by simp
    then show ?thesis
      using served [OF Some k, of s "fst (start_installation i (se_id s) scope w1)"] by simp
  qed
qed

definition approvers_from :: "inst_w \<Rightarrow> inst_w \<Rightarrow> install_api_request \<Rightarrow> bool" where
  "approvers_from w w' q \<longleftrightarrow> (\<forall>i b. approver w' i = Some b \<longrightarrow>
     approver w i = Some b \<or> q = Approve_Installation i b)"

lemma approver_same: "in_requests w' = in_requests w \<Longrightarrow> approver w' = approver w"
  by (simp add: approver_def fun_eq_iff)

lemma approvers_same: "approver w' = approver w \<Longrightarrow> approvers_from w w' q"
  by (simp add: approvers_from_def)

text \<open>No operation but an approval puts a name on a request.\<close>

definition no_new_approver :: "inst_w \<Rightarrow> inst_w \<Rightarrow> bool" where
  "no_new_approver w w' \<longleftrightarrow> (\<forall>i b. approver w' i = Some b \<longrightarrow> approver w i = Some b)"

interpretation nna: step_rel no_new_approver
  by unfold_locales (auto simp: no_new_approver_def)

lemma no_new_approver_same: "in_requests w' = in_requests w \<Longrightarrow> no_new_approver w w'"
  by (simp add: no_new_approver_def approver_def)

lemma no_new_approver_prims:
  "keeps no_new_approver now" "keeps no_new_approver uuid4" "keeps no_new_approver (install_emit t r d)"
  by (auto simp: keeps_def now_def uuid4_def install_emit_def intro: no_new_approver_same)

lemma create_no_approver: "ir_approved_by r = None \<Longrightarrow> keeps no_new_approver (ir_create r)"
  by (auto simp: keeps_def no_new_approver_def approver_def ir_create_def modify_def map_of_update
      split: if_splits)

lemma check_readiness_no_approver: "keeps no_new_approver (check_readiness tool_id ts platform)"
  unfolding check_readiness_def by (intro nna.keeps_intros no_new_approver_prims)

lemma block_no_approver: "ir_approved_by r = None \<Longrightarrow> keeps no_new_approver (block_request r m)"
  unfolding block_request_def Let_def
  by (intro nna.keeps_intros no_new_approver_prims create_no_approver) simp

lemma settle_no_approver: "ir_approved_by r = None \<Longrightarrow> keeps no_new_approver (settle_request r plan d)"
  unfolding settle_request_def Let_def
  by (intro nna.keeps_intros no_new_approver_prims create_no_approver block_no_approver) simp_all

lemma build_plan_no_approver: "keeps no_new_approver (build_plan tool e platform)"
  unfolding build_plan_def by (intro nna.keeps_intros no_new_approver_prims)

lemma request_no_approver: "keeps no_new_approver (request_installation tool_id ts platform by)"
  unfolding request_installation_def Let_def
  by (intro nna.keeps_intros no_new_approver_prims check_readiness_no_approver block_no_approver
      settle_no_approver build_plan_no_approver) (simp_all add: new_request_def)

lemma reject_no_approver: "inst_ok w \<Longrightarrow> wp (reject_request i reason) (\<lambda>_. no_new_approver w) w"
  by (auto simp: reject_request_def wps wp_ir_get stored_request no_new_approver_def approver_def map_of_update
      split: option.split)

lemma cancel_no_approver: "inst_ok w \<Longrightarrow> wp (cancel_request i) (\<lambda>_. no_new_approver w) w"
  by (auto simp: cancel_request_def wps wp_ir_get stored_request terminate_def no_new_approver_def approver_def map_of_update
      split: option.split)

lemma approve_approver:
  "inst_ok w \<Longrightarrow> wp (approve_request i by) (\<lambda>_ w'. \<forall>j b. approver w' j = Some b \<longrightarrow>
     approver w j = Some b \<or> j = i \<and> b = by) w"
  by (auto simp: approve_request_def wps wp_ir_get stored_request approver_def map_of_update
      split: option.split)

text \<open>Every request the API serves is a run of calls of the service.\<close>

lemma served_inst_run:
  assumes "fresh_install q w" and "inst_ok w"
  shows "(\<exists>evs. inst_run w evs (serve_install targets q w)) \<and>
    approvers_from w (serve_install targets q w) q"
proof -
  have idle: ?thesis if "session_only w (serve_install targets q w)"
  proof -
    have "inst_step w Elsewhere (serve_install targets q w)"
      using that by (intro elsewhere) (auto simp: session_only_def)
    from inst_event [OF no_inst_event this] show ?thesis
      using that by (auto simp: session_only_def approver_def approvers_from_def)
  qed
  have one: ?thesis if "inst_step w e w'" "serve_install targets q w = w'" "approvers_from w w' q" for e w'
    using inst_event [OF no_inst_event that(1)] that(2,3) by auto
  have quiet: "no_new_approver w w' \<Longrightarrow> approvers_from w w' q" for w'
    by (simp add: no_new_approver_def approvers_from_def)
  show ?thesis
  proof (cases q)
    case (Check_Readiness tool_id target_id platform)
    have "keeps session_only (readiness_route targets tool_id target_id platform)"
      unfolding readiness_route_def found_scope_def check_readiness_def
      by (intro so.keeps_intros session_only_prims)
    then show ?thesis using Check_Readiness by (intro idle) (simp add: keepsD')
  next
    case (Request_Installation tool_id target_id platform by')
    show ?thesis
    proof (cases "targets target_id")
      case None
      then show ?thesis using Request_Installation
        by (intro idle) (simp add: request_installation_route_def found_scope_def so.R_refl)
    next
      case (Some scope)
      let ?m = "request_installation tool_id scope platform by'"
      have w': "serve_install targets q w = snd (?m w)"
        using Some Request_Installation
        by (auto simp: request_installation_route_def found_scope_def bnd_def ret_def
            split: prod.splits sum.splits)
      have "inst_step w (Requested tool_id scope platform by') (snd (?m w))"
        using assms(1) Request_Installation
        by (intro requests [of _ _ _ _ _ "fst (?m w)"]) (simp_all add: fresh_install_def)
      then show ?thesis using one w' quiet request_no_approver [THEN keepsD'] by blast
    qed
  next
    case (Approve_Installation i by')
    have "inst_step w (Approved i by') (snd (approve_request i by' w))"
      by (rule approves_it [of _ _ _ "fst (approve_request i by' w)"]) simp
    moreover have "approvers_from w (snd (approve_request i by' w)) q"
      using approve_approver [OF assms(2), of i by'] Approve_Installation
      by (auto simp: wp_def approvers_from_def)
    ultimately show ?thesis
      using Approve_Installation by (intro one) (simp_all add: approve_installation_route_def snd_answer_request)
  next
    case (Reject_Installation i reason)
    have "inst_step w (Rejected i reason) (snd (reject_request i reason w))"
      by (rule rejects [of _ _ _ "fst (reject_request i reason w)"]) simp
    moreover have "no_new_approver w (snd (reject_request i reason w))"
      using reject_no_approver [OF assms(2)] by (simp add: wp_def)
    ultimately show ?thesis
      using Reject_Installation quiet by (intro one) (simp_all add: reject_installation_route_def snd_answer_request)
  next
    case (Cancel_Installation i)
    have "inst_step w (Cancelled i) (snd (cancel_request i w))"
      by (rule cancels [of _ _ "fst (cancel_request i w)"]) simp
    moreover have "no_new_approver w (snd (cancel_request i w))"
      using cancel_no_approver [OF assms(2)] by (simp add: wp_def)
    ultimately show ?thesis
      using Cancel_Installation quiet by (intro one) (simp_all add: cancel_installation_route_def snd_answer_request)
  next
    case (Start_Installation i target_id)
    have run: "start_installation_route targets i target_id w =
        (fst (start_installation_route targets i target_id w), serve_install targets q w)"
      using Start_Installation by simp
    from run show ?thesis
    proof (cases rule: start_route_cases)
      case stopped
      then show ?thesis by (rule idle)
    next
      case (served scope s w1 y)
      have k: "in_requests w1 = in_requests w" "in_config w1 = in_config w"
        using served(2) by (auto simp: session_only_def)
      have "inst_ok w1" using assms(2) k by (simp add: inst_ok_def)
      from start_installation_good [THEN wpD, OF this served(3)]
      have "approver (serve_install targets q w) = approver w"
        using approver_same [OF k(1)] by (simp add: started_def)
      moreover have "inst_run w ([] @ [Elsewhere] @ [Started i (se_id s) scope]) (serve_install targets q w)"
        using inst_event [OF inst_event [OF no_inst_event elsewhere [OF k]] starts [OF served(3)]] by simp
      ultimately show ?thesis by (auto simp: approvers_same)
    qed
  next
    case List_Installed
    then show ?thesis by (intro idle) (simp add: list_installed_route_def gets_def so.R_refl)
  next
    case List_Installations
    then show ?thesis by (intro idle) (simp add: list_installations_route_def gets_def so.R_refl)
  next
    case (Get_Installation i)
    have "snd (ir_get i w) = w" by (auto simp: ir_get_def raise_def ret_def split: option.splits)
    then show ?thesis using Get_Installation
      by (intro idle) (simp add: get_installation_route_def snd_answer_request so.R_refl)
  qed
qed

lemma inst_run_append:
  assumes "inst_run w1 evs' w2" and "inst_run w evs w1"
  shows "inst_run w (evs @ evs') w2"
  using assms
proof (induction rule: inst_run.induct)
  case (inst_event w1 evs' w2 e w3)
  from inst_run.inst_event [OF inst_event.IH [OF inst_event.prems] inst_event.hyps(2)] show ?case by simp
qed simp

lemma install_api_run:
  assumes "install_api w0 reqs w" and "in_requests w0 = []"
  shows "(\<exists>evs. inst_run w0 evs w) \<and>
    (\<forall>i b. approver w i = Some b \<longrightarrow> (\<exists>targets. (targets, Approve_Installation i b) \<in> set reqs))"
  using assms
proof (induction rule: install_api.induct)
  case (nothing_yet w)
  then show ?case using no_inst_event by (auto simp: approver_def)
next
  case (one_served w reqs w1 q targets)
  then obtain evs where 1: "inst_run w evs w1"
    "\<And>i b. approver w1 i = Some b \<Longrightarrow> \<exists>targets. (targets, Approve_Installation i b) \<in> set reqs"
    by blast
  have "inst_ok w1" using inst_run_good [OF 1(1)] one_served.prems inst_ok_empty by (simp add: inst_good_def)
  from served_inst_run [OF one_served.hyps(2) this]
  obtain evs' where 2: "inst_run w1 evs' (serve_install targets q w1)"
    "approvers_from w1 (serve_install targets q w1) q" by blast
  show ?case using inst_run_append [OF 2(1) 1(1)] 1(2) 2(2) by (fastforce simp: approvers_from_def)
next
  case (other_engine_work w reqs w1 w2)
  then obtain evs where 1: "inst_run w evs w1"
    "\<And>i b. approver w1 i = Some b \<Longrightarrow> \<exists>targets. (targets, Approve_Installation i b) \<in> set reqs"
    by blast
  show ?case
    using inst_event [OF 1(1) elsewhere [OF other_engine_work.hyps(2,3)]] 1(2)
      approver_same [OF other_engine_work.hyps(2)] by auto
qed

text \<open>
  C5. The installation API: after any sequence of requests, in any order and from any clients, a request
  to start an installation creates processes only if the table holds the target it names and the
  installation was prepared, with a plan of low risk or one that an earlier request of this API
  approved, under the name on record; and then at most one for each allowed attempt and one to verify.
\<close>

theorem install_api_safe:
  assumes "install_api w0 reqs w" and "in_requests w0 = []"
    and "start_installation_route targets i target_id w = (x, w')"
  shows "length (os_calls w') \<le> length (os_calls w) + ic_max_install_attempts (in_config w0) + 1 \<and>
    (os_calls w' = os_calls w \<or>
     (\<exists>r plan. targets target_id \<noteq> None \<and> map_of (in_requests w) i = Some r \<and>
        ir_state r = IS_PREPARING \<and> ir_plan r = Some plan \<and>
        (pn_risk_level plan = Risk_LOW \<or>
         (\<exists>t b. ir_approved_by r = Some b \<and> (t, Approve_Installation i b) \<in> set reqs))))"
  using assms(3)
proof (cases rule: start_route_cases)
  case stopped
  then show ?thesis by (simp add: session_only_def)
next
  case (served scope s w1 y)
  obtain evs where evs: "inst_run w0 evs w"
    "\<And>i b. approver w i = Some b \<Longrightarrow> \<exists>t. (t, Approve_Installation i b) \<in> set reqs"
    using install_api_run [OF assms(1,2)] by blast
  have k: "in_requests w1 = in_requests w" "in_config w1 = in_config w" "os_calls w1 = os_calls w"
    using served(2) by (auto simp: session_only_def)
  have "inst_good w0 w" using inst_run_good [OF evs(1)] assms(2) inst_ok_empty by blast
  then have "inst_ok w1" "in_config w = in_config w0" using k by (auto simp: inst_good_def inst_ok_def)
  with start_installation_good [THEN wpD, OF _ served(3)]
  have st: "started i w1 w'" by blast
  have len: "length (os_calls w') \<le> length (os_calls w) + ic_max_install_attempts (in_config w0) + 1"
    using st k \<open>in_config w = in_config w0\<close> by (simp add: started_def)
  show ?thesis
  proof (cases "os_calls w' = os_calls w")
    case False
    then obtain r plan where r: "map_of (in_requests w) i = Some r" "ir_state r = IS_PREPARING"
      "ir_plan r = Some plan" "low_or_approved plan r" using st k by (auto simp: started_def)
    have "\<exists>t b. ir_approved_by r = Some b \<and> (t, Approve_Installation i b) \<in> set reqs"
      if "pn_risk_level plan \<noteq> Risk_LOW"
    proof -
      obtain b where b: "ir_approved_by r = Some b" using r(4) \<open>_ \<noteq> Risk_LOW\<close> by (auto simp: low_or_approved_def)
      then have "approver w i = Some b" using r(1) by (simp add: approver_def)
      then show ?thesis using evs(2) b by blast
    qed
    then show ?thesis using len r served(1) by auto
  qed (simp add: len)
qed

text \<open>A request of a tool of low risk, served and then started.\<close>

lemma request_served: "snd (request_installation_route targets tool_id target_id platform by w) =
  (case targets target_id of None \<Rightarrow> w | Some scope \<Rightarrow> snd (request_installation tool_id scope platform by w))"
  by (auto simp: request_installation_route_def found_scope_def bnd_def ret_def raise_def
      split: prod.splits sum.splits option.splits)

lemma sample_served:
  "install_api (sample_inst_w APPROVED) [(\<lambda>_. Some sample_target, Request_Installation 100 3 ''LINUX'' None)]
     (snd (sample_request_of APPROVED))"
proof -
  have "fresh_install (Request_Installation 100 3 ''LINUX'' None) (sample_inst_w APPROVED)"
    by (simp add: fresh_install_def fresh_request_def sample_inst_w_def)
  from one_served [OF nothing_yet this, of "\<lambda>_. Some sample_target"]
  show ?thesis by (simp add: request_served)
qed

lemma install_api_safe_witness:
  "length (os_calls (snd (start_installation_route (\<lambda>_. Some sample_target) 200 3
      (snd (sample_request_of APPROVED))))) \<le>
   length (os_calls (snd (sample_request_of APPROVED))) + ic_max_install_attempts (in_config (sample_inst_w APPROVED)) + 1"
  using install_api_safe [OF sample_served sample_inst_empty prod.collapse [symmetric]] by blast

end
