(* ===== verification/Agent_Routes.thy ===== *)
theory Agent_Routes
  imports Agent_Lifecycle
begin

text \<open>
  \<^verbatim>\<open>apps/api/app/api/routes/agent.py\<close> with \<^verbatim>\<open>app/schemas/agent.py\<close>: every request the agent's API serves,
  and what any sequence of them may bring about.  \<open>targets\<close> is the table of targets in the database.
\<close>

section \<open>Errors\<close>

fun agent_error_value :: "agent_error_code \<Rightarrow> string" where
  "agent_error_value AE_TASK_NOT_FOUND = ''task_not_found''"
| "agent_error_value AE_INVALID_STATE_TRANSITION = ''invalid_state_transition''"
| "agent_error_value AE_APPROVAL_REQUIRED = ''approval_required''"
| "agent_error_value AE_NOT_WAITING_FOR_APPROVAL = ''not_waiting_for_approval''"
| "agent_error_value AE_BUDGET_EXCEEDED = ''budget_exceeded''"
| "agent_error_value AE_AUTHORIZATION_REQUIRED = ''authorization_required''"
| "agent_error_value AE_OUT_OF_SCOPE = ''out_of_scope''"
| "agent_error_value AE_INVALID_DECISION = ''invalid_decision''"
| "agent_error_value AE_CONCURRENT_TASK_LIMIT = ''concurrent_task_limit''"
| "agent_error_value AE_CANCELLED = ''cancelled''"

definition agent_status_by_code :: "(string \<times> nat) list" where
  "agent_status_by_code =
     [(''task_not_found'', 404), (''invalid_state_transition'', 409), (''approval_required'', 409),
      (''not_waiting_for_approval'', 409), (''budget_exceeded'', 409), (''authorization_required'', 403),
      (''out_of_scope'', 403), (''invalid_decision'', 422), (''concurrent_task_limit'', 429)]"

definition agent_http_error :: "exn \<Rightarrow> exn" where
  "agent_http_error exc = (case exc of
     AgentOrchestratorError code m \<Rightarrow> HTTPException
       (case map_of agent_status_by_code (agent_error_value code) of None \<Rightarrow> 400 | Some n \<Rightarrow> n)
       (agent_error_value code) m
   | _ \<Rightarrow> exc)"

definition agent_http :: "('w, 'a) prog \<Rightarrow> ('w, 'a) prog" where
  "agent_http m = try_except m (\<lambda>exc. raise (agent_http_error exc))"

section \<open>Responses\<close>

record action_response =
  xa_id :: uuid
  xa_action_type :: action_type
  xa_tool :: "string option"
  xa_capability :: "string option"
  xa_requires_approval :: bool
  xa_approval_state :: approval_state
  xa_result_summary :: "string option"
  xa_error_category :: "string option"
  xa_confidence :: rat

record evidence_response =
  xe_id :: uuid
  xe_kind :: evidence_kind
  xe_summary :: string

record task_response =
  xt_id :: uuid
  xt_objective :: string
  xt_target :: "string option"
  xt_target_type :: "string option"
  xt_authorization_status :: string
  xt_phase :: agent_phase
  xt_actions :: "action_response list"
  xt_observations :: "evidence_response list"
  xt_findings :: "evidence_response list"
  xt_errors :: "string list"
  xt_selected_tools :: "string list"
  xt_confidence :: rat
  xt_unknowns :: "string list"
  xt_clarification_question :: "string option"
  xt_pending_action_id :: "uuid option"
  xt_budget :: "(string \<times> pyval) list"
  xt_created_at :: time
  xt_updated_at :: time

definition action_response_of :: "agent_action \<Rightarrow> action_response" where
  "action_response_of a =
     \<lparr>xa_id = aa_id a, xa_action_type = aa_action_type a, xa_tool = aa_tool a,
      xa_capability = aa_capability a, xa_requires_approval = aa_requires_approval a,
      xa_approval_state = aa_approval_state a, xa_result_summary = aa_result_summary a,
      xa_error_category = aa_error_category a, xa_confidence = aa_confidence a\<rparr>"

definition evidence_response_of :: "evidence \<Rightarrow> evidence_response" where
  "evidence_response_of e = \<lparr>xe_id = evd_id e, xe_kind = evd_kind e, xe_summary = evd_summary e\<rparr>"

definition task_response_of :: "agent_task \<Rightarrow> (string \<times> pyval) list \<Rightarrow> task_response" where
  "task_response_of s budget =
     \<lparr>xt_id = ag_id s, xt_objective = ag_objective s, xt_target = ag_target s,
      xt_target_type = ag_target_type s, xt_authorization_status = ag_authorization_status s,
      xt_phase = ag_phase s, xt_actions = map action_response_of (ag_actions s),
      xt_observations = map evidence_response_of (ag_observations s),
      xt_findings = map evidence_response_of (ag_findings s), xt_errors = map ae_message (ag_errors s),
      xt_selected_tools = ag_selected_tools s, xt_confidence = ag_confidence s,
      xt_unknowns = ag_unknowns s, xt_clarification_question = ag_clarification_question s,
      xt_pending_action_id = ag_pending_action_id s, xt_budget = budget,
      xt_created_at = ag_created_at s, xt_updated_at = ag_updated_at s\<rparr>"

definition answer_task :: "('m agent_w_scheme, agent_task) prog \<Rightarrow> ('m agent_w_scheme, task_response) prog" where
  "answer_task m = bnd (agent_http m) (\<lambda>s. gets (\<lambda>w. task_response_of s (budget_status (aw_budget w) s)))"

record event_response =
  xv_id :: uuid
  xv_event_type :: string
  xv_data :: "(string \<times> pyval) list"
  xv_created_at :: time

section \<open>Routes\<close>

record create_request =
  cq_objective :: string
  cq_user_request :: string
  cq_target :: "string option"
  cq_target_type :: "string option"
  cq_target_id :: "uuid option"
  cq_authorization_status :: string
  cq_scope :: "string list"

definition scope_of :: "(uuid \<Rightarrow> target_scope option) \<Rightarrow> uuid option \<Rightarrow> target_scope option" where
  "scope_of targets target_id = (case target_id of None \<Rightarrow> None | Some i \<Rightarrow> targets i)"

definition request_authorization ::
    "(uuid \<Rightarrow> target_scope option) \<Rightarrow> create_request \<Rightarrow> ('m runtime_scheme, string) prog" where
  "request_authorization targets q =
     (case scope_of targets (cq_target_id q) of
        None \<Rightarrow> ret (cq_authorization_status q)
      | Some scope \<Rightarrow> bnd now (\<lambda>t. ret (if is_authorized_now t scope then ''AUTHORIZED'' else ''NOT_AUTHORIZED'')))"

definition create_task_route ::
    "(uuid \<Rightarrow> target_scope option) \<Rightarrow> create_request \<Rightarrow> ('m agent_w_scheme, task_response) prog" where
  "create_task_route targets q =
     bnd (request_authorization targets q) (\<lambda>authorization.
     answer_task (create_task (cq_objective q) (cq_user_request q) (cq_target q) (cq_target_type q)
       (cq_target_id q) authorization (cq_scope q)))"

definition get_task_route :: "uuid \<Rightarrow> ('m agent_w_scheme, task_response) prog" where
  "get_task_route i = answer_task (task_get i)"

definition list_tasks_route :: "('m agent_w_scheme, task_response list) prog" where
  "list_tasks_route = gets (\<lambda>w. map (\<lambda>s. task_response_of s (budget_status (aw_budget w) s)) (list_tasks w))"

definition step_task_route ::
    "(uuid \<Rightarrow> target_scope option) \<Rightarrow> uuid \<Rightarrow> uuid option \<Rightarrow> string \<Rightarrow> ('m agent_w_scheme, task_response) prog" where
  "step_task_route targets i target_id platform =
     answer_task (agent_step i (scope_of targets target_id) platform)"

definition pause_task_route :: "uuid \<Rightarrow> ('m agent_w_scheme, task_response) prog" where
  "pause_task_route i = answer_task (pause_task i)"

definition resume_task_route :: "uuid \<Rightarrow> ('m agent_w_scheme, task_response) prog" where
  "resume_task_route i = answer_task (resume_task i)"

definition cancel_task_route :: "uuid \<Rightarrow> ('m agent_w_scheme, task_response) prog" where
  "cancel_task_route i = answer_task (cancel_task i)"

definition approve_task_route :: "uuid \<Rightarrow> string \<Rightarrow> ('m agent_w_scheme, task_response) prog" where
  "approve_task_route i approved_by = answer_task (approve_action i approved_by)"

definition reject_task_route :: "uuid \<Rightarrow> string \<Rightarrow> ('m agent_w_scheme, task_response) prog" where
  "reject_task_route i reason = answer_task (reject_action i reason)"

definition clarify_task_route :: "uuid \<Rightarrow> string \<Rightarrow> ('m agent_w_scheme, task_response) prog" where
  "clarify_task_route i answer = answer_task (provide_clarification i answer)"

definition task_events_route :: "uuid \<Rightarrow> ('m agent_w_scheme, event_response list) prog" where
  "task_events_route i = gets (\<lambda>w. map (\<lambda>e. \<lparr>xv_id = ge_id e, xv_event_type = ge_event_type e,
     xv_data = ge_data e, xv_created_at = ge_created_at e\<rparr>) (events_for i w))"

section \<open>Serving requests\<close>

datatype agent_request =
    Create_Task create_request
  | Get_Task uuid
  | List_Tasks
  | Step_Task uuid "uuid option" string
  | Pause_Task uuid
  | Resume_Task uuid
  | Cancel_Task uuid
  | Approve_Action uuid string
  | Reject_Action uuid string
  | Clarify_Task uuid string
  | Task_Events uuid

definition after :: "('w \<Rightarrow> ('e + 'a) \<times> 'w) \<Rightarrow> 'w \<Rightarrow> 'w" where
  "after m w = snd (m w)"

fun serve :: "(uuid \<Rightarrow> target_scope option) \<Rightarrow> agent_request \<Rightarrow> agent_w \<Rightarrow> agent_w" where
  "serve targets (Create_Task q) = after (create_task_route targets q)"
| "serve targets (Get_Task i) = after (get_task_route i)"
| "serve targets List_Tasks = after list_tasks_route"
| "serve targets (Step_Task i target_id platform) = after (step_task_route targets i target_id platform)"
| "serve targets (Pause_Task i) = after (pause_task_route i)"
| "serve targets (Resume_Task i) = after (resume_task_route i)"
| "serve targets (Cancel_Task i) = after (cancel_task_route i)"
| "serve targets (Approve_Action i approved_by) = after (approve_task_route i approved_by)"
| "serve targets (Reject_Action i reason) = after (reject_task_route i reason)"
| "serve targets (Clarify_Task i answer) = after (clarify_task_route i answer)"
| "serve targets (Task_Events i) = after (task_events_route i)"

text \<open>The identifiers that serving a request may draw are new.\<close>

definition fresh_for :: "agent_request \<Rightarrow> agent_w \<Rightarrow> bool" where
  "fresh_for q w = (case q of
     Create_Task _ \<Rightarrow> map_of (aw_tasks w) (rt_uuid w (rt_uuids w)) = None
   | Step_Task i _ _ \<Rightarrow> (\<forall>s. map_of (aw_tasks w) i = Some s \<longrightarrow> fresh_action s w)
   | _ \<Rightarrow> True)"

text \<open>A log of requests, each with the table of targets as it was then; between them other work may be done.\<close>

inductive api_run :: "agent_w \<Rightarrow> ((uuid \<Rightarrow> target_scope option) \<times> agent_request) list \<Rightarrow> agent_w \<Rightarrow> bool" where
  no_request: "api_run w [] w"
| one_request: "api_run w reqs w1 \<Longrightarrow> fresh_for q w1 \<Longrightarrow> api_run w (reqs @ [(targets, q)]) (serve targets q w1)"
| meanwhile: "api_run w reqs w1 \<Longrightarrow> agent_kept w1 w2 \<Longrightarrow> api_run w reqs w2"

lemma after_answer: "after (answer_task m) w = after m w"
  by (auto simp: after_def answer_task_def agent_http_def bnd_def try_except_def raise_def gets_def
      split: prod.splits sum.splits)

lemma run_after: "m w = (fst (m w), after m w)"
  by (simp add: after_def)

lemma answered:
  "after (get_task_route i) w = w" "after list_tasks_route w = w" "after (task_events_route i) w = w"
  unfolding get_task_route_def after_answer
  by (auto simp: after_def task_get_def list_tasks_route_def task_events_route_def gets_def bnd_def
      raise_def ret_def split: option.splits)

lemma request_authorization_kept:
  "after (bnd (request_authorization targets q) f) w =
     (case scope_of targets (cq_target_id q) of
        None \<Rightarrow> after (f (cq_authorization_status q)) w
      | Some scope \<Rightarrow> after (f (if is_authorized_now (rt_clock w (rt_ticks w)) scope then ''AUTHORIZED''
          else ''NOT_AUTHORIZED'')) (w\<lparr>rt_ticks := Suc (rt_ticks w)\<rparr>))"
  by (simp add: request_authorization_def after_def bnd_bnd split: option.split)

text \<open>Every request is a run of calls of the orchestrator.\<close>

lemma served_run:
  assumes "fresh_for q w"
  shows "\<exists>evs. task_run w evs (serve targets q w) \<and>
    (\<forall>i by. Action_Approved i by \<in> set evs \<longrightarrow> evs = [Action_Approved i by] \<and> q = Approve_Action i by)"
proof -
  have one: ?thesis if "task_event_step w e (serve targets q w)"
      and "\<And>i by. e = Action_Approved i by \<Longrightarrow> q = Approve_Action i by" for e
    using task_event [OF no_task_event that(1)] that(2) by auto
  have idle: ?thesis if "serve targets q w = w"
    using no_task_event [of w] that by auto
  show ?thesis
  proof (cases q)
    case (Create_Task c)
    let ?w = "w\<lparr>rt_ticks := Suc (rt_ticks w)\<rparr>"
    have tick: "task_event_step w Other_Work ?w"
      by (rule other_work) (simp add: agent_kept_def)
    have step: "task_event_step w1 Task_Created (after (answer_task (create_task (cq_objective c) (cq_user_request c)
        (cq_target c) (cq_target_type c) (cq_target_id c) au (cq_scope c))) w1)"
      if "map_of (aw_tasks w1) (rt_uuid w1 (rt_uuids w1)) = None" for au w1
      unfolding after_answer using that run_after by (rule created)
    have f: "map_of (aw_tasks w) (rt_uuid w (rt_uuids w)) = None"
      using assms Create_Task by (simp add: fresh_for_def)
    show ?thesis
    proof (cases "scope_of targets (cq_target_id c)")
      case None
      then show ?thesis using step [OF f] Create_Task
        by (intro one [of Task_Created])
          (simp_all add: create_task_route_def request_authorization_kept)
    next
      case (Some scope)
      have "task_run w ([] @ [Other_Work]) ?w" using no_task_event tick by (rule task_event)
      from task_event [OF this step] f Some Create_Task
      have "task_run w ([Other_Work] @ [Task_Created]) (serve targets q w)"
        by (simp add: create_task_route_def request_authorization_kept)
      then show ?thesis by (intro exI [of _ "[Other_Work] @ [Task_Created]"]) (simp add:)
    qed
  next
    case (Step_Task i target_id platform)
    then have "fresh_action s w" if "map_of (aw_tasks w) i = Some s" for s
      using assms that by (simp add: fresh_for_def)
    then have "task_event_step w (Task_Stepped i (scope_of targets target_id) platform)
        (after (agent_step i (scope_of targets target_id) platform) w)"
      using run_after by (rule stepping)
    then show ?thesis using Step_Task
      by (intro one [of "Task_Stepped i (scope_of targets target_id) platform"])
        (auto simp: step_task_route_def after_answer)
  next
    case (Pause_Task i)
    have "task_event_step w (Task_Paused i) (after (pause_task i) w)"
      using run_after by (rule paused)
    then show ?thesis using Pause_Task
      by (intro one [of "Task_Paused i"]) (auto simp: pause_task_route_def after_answer)
  next
    case (Resume_Task i)
    have "task_event_step w (Task_Resumed i) (after (resume_task i) w)"
      using run_after by (rule resumed)
    then show ?thesis using Resume_Task
      by (intro one [of "Task_Resumed i"]) (auto simp: resume_task_route_def after_answer)
  next
    case (Cancel_Task i)
    have "task_event_step w (Task_Cancelled i) (after (cancel_task i) w)"
      using run_after by (rule cancelled)
    then show ?thesis using Cancel_Task
      by (intro one [of "Task_Cancelled i"]) (auto simp: cancel_task_route_def after_answer)
  next
    case (Approve_Action i b)
    have "task_event_step w (Action_Approved i b) (after (approve_action i b) w)"
      using run_after by (rule approved)
    then show ?thesis using Approve_Action
      by (intro one [of "Action_Approved i b"]) (auto simp: approve_task_route_def after_answer)
  next
    case (Reject_Action i reason)
    have "task_event_step w (Action_Rejected i reason) (after (reject_action i reason) w)"
      using run_after by (rule rejected)
    then show ?thesis using Reject_Action
      by (intro one [of "Action_Rejected i reason"]) (auto simp: reject_task_route_def after_answer)
  next
    case (Clarify_Task i answer)
    have "task_event_step w (Task_Clarified i answer) (after (provide_clarification i answer) w)"
      using run_after by (rule clarified)
    then show ?thesis using Clarify_Task
      by (intro one [of "Task_Clarified i answer"]) (auto simp: clarify_task_route_def after_answer)
  qed (rule idle; simp add: answered)+
qed

lemma task_run_append:
  assumes "task_run w1 evs' w2" and "task_run w evs w1"
  shows "task_run w (evs @ evs') w2"
  using assms
proof (induction rule: task_run.induct)
  case (task_event w1 evs' w2 e w3)
  from task_run.task_event [OF task_event.IH [OF task_event.prems] task_event.hyps(2)] show ?case by simp
qed simp

lemma api_run_task_run: "api_run w0 reqs w \<Longrightarrow> \<exists>evs. task_run w0 evs w"
proof (induction rule: api_run.induct)
  case (no_request w)
  then show ?case using no_task_event by blast
next
  case (one_request w reqs w1 q targets)
  then show ?case using served_run [OF one_request.hyps(2)] task_run_append by blast
next
  case (meanwhile w reqs w1 w2)
  then show ?case using task_event other_work by blast
qed

text \<open>What a request adds to the approvals on record: at most the action its task waits for, when it asks for that.\<close>

inductive_cases no_events: "task_run w [] w'"

lemma served_approvals:
  assumes "fresh_for q w" and "agents_ok w" and "was_approved (serve targets q w) i p"
  shows "was_approved w i p \<or> (\<exists>by. q = Approve_Action i by \<and> awaits w i p)"
proof -
  obtain evs where evs: "task_run w evs (serve targets q w)"
    "\<And>i by. Action_Approved i by \<in> set evs \<Longrightarrow> evs = [Action_Approved i by] \<and> q = Approve_Action i by"
    using served_run [OF assms(1)] by blast
  from task_run_good [OF evs(1) assms(2)] assms(3)
  consider "was_approved w i p" | "approval_traced w evs (serve targets q w) i p" by blast
  then show ?thesis
  proof cases
    case 2
    then obtain evs1 b evs2 w1 where t: "evs = evs1 @ Action_Approved i b # evs2" "task_run w evs1 w1" "awaits w1 i p"
      by (auto simp: approval_traced_def)
    then have "evs = [Action_Approved i b]" "q = Approve_Action i b" using evs(2) [of i b] by auto
    moreover have "evs1 = []" using t(1) calculation(1) by (cases evs1) auto
    ultimately show ?thesis using t(2,3) by (auto elim: no_events)
  qed simp
qed

text \<open>Where an approval on record comes from: a request to approve, made while the task waited for that action.\<close>

definition approval_requested ::
    "agent_w \<Rightarrow> ((uuid \<Rightarrow> target_scope option) \<times> agent_request) list \<Rightarrow> agent_w \<Rightarrow> uuid \<Rightarrow> uuid \<Rightarrow> bool" where
  "approval_requested w0 reqs w i p \<longleftrightarrow> (\<exists>reqs1 t by reqs2 w1.
     reqs = reqs1 @ (t, Approve_Action i by) # reqs2 \<and> api_run w0 reqs1 w1 \<and> awaits w1 i p \<and>
     api_run w1 ((t, Approve_Action i by) # reqs2) w)"

lemma requested_later:
  assumes "approval_requested w0 reqs w i p" and "\<And>w1 rs. api_run w1 rs w \<Longrightarrow> api_run w1 (rs @ qs) w'"
  shows "approval_requested w0 (reqs @ qs) w' i p"
proof -
  obtain reqs1 t b reqs2 w1 where r: "reqs = reqs1 @ (t, Approve_Action i b) # reqs2" "api_run w0 reqs1 w1"
    "awaits w1 i p" "api_run w1 ((t, Approve_Action i b) # reqs2) w"
    using assms(1) by (auto simp: approval_requested_def)
  have "api_run w1 ((t, Approve_Action i b) # (reqs2 @ qs)) w'" using assms(2) [OF r(4)] by simp
  then show ?thesis using r(1-3) unfolding approval_requested_def by (metis append.assoc append_Cons)
qed

lemma api_run_approvals:
  assumes "api_run w0 reqs w" and "agents_ok w0" and "was_approved w i p"
  shows "was_approved w0 i p \<or> approval_requested w0 reqs w i p"
  using assms
proof (induction rule: api_run.induct)
  case (no_request w)
  then show ?case by simp
next
  case (one_request w reqs w1 q targets)
  have more: "api_run w2 (rs @ [(targets, q)]) (serve targets q w1)" if "api_run w2 rs w1" for w2 rs
    using that one_request.hyps(2) by (rule api_run.one_request)
  have "agents_ok w1"
    using api_run_task_run [OF one_request.hyps(1)] task_run_good one_request.prems(1)
    by (auto simp: agent_good_def)
  from served_approvals [OF one_request.hyps(2) this one_request.prems(2)]
  show ?case
  proof (elim disjE exE conjE)
    assume "was_approved w1 i p"
    then have "was_approved w i p \<or> approval_requested w reqs w1 i p"
      using one_request.IH one_request.prems(1) by blast
    then show ?case using requested_later [OF _ more] by blast
  next
    fix b assume q: "q = Approve_Action i b" and p: "awaits w1 i p"
    have "api_run w1 ([] @ [(targets, q)]) (serve targets q w1)" by (rule more [OF api_run.no_request])
    then show ?case using one_request.hyps(1) p q unfolding approval_requested_def by fastforce
  qed
next
  case (meanwhile w reqs w1 w2)
  have "was_approved w1 i p" using meanwhile.hyps(2) meanwhile.prems(2) by (simp add: agent_kept_def was_approved_def)
  then have "was_approved w i p \<or> approval_requested w reqs w1 i p" using meanwhile.IH meanwhile.prems(1) by blast
  moreover have "api_run w3 (rs @ []) w2" if "api_run w3 rs w1" for w3 rs
    using api_run.meanwhile [OF that meanwhile.hyps(2)] by simp
  ultimately show ?case using requested_later [of w reqs w1 i p "[]" w2] by auto
qed

text \<open>
  C3. The agent's API: after any sequence of requests, in any order and from any clients, one served after
  the other, a request to
  step a task either creates no process, or it names a target that the table holds and the very action
  the step takes up, the pending one or the one it records, is aimed at the target of the task if it names
  one.  That action only collects information, or it is a diagnostic or an installation; then the task is
  AUTHORIZED, the action is the one that was pending, it is APPROVED, and an earlier request approved it
  while the task waited for the approval of that very action.  Collecting information asks for no approval.
\<close>

theorem agent_api_safe:
  assumes "api_run w0 reqs w" and "aw_tasks w0 = []"
    and "step_task_route targets i target_id platform w = (x, w')"
  shows "os_calls w' = os_calls w \<or>
    (\<exists>j scope s s' k a. target_id = Some j \<and> targets j = Some scope \<and>
       map_of (aw_tasks w) i = Some s \<and> map_of (aw_tasks w') i = Some s' \<and>
       took_up s s' k \<and> a = ag_actions s' ! k \<and> in_scope s' a \<and>
       (aa_action_type a = COLLECT_INFORMATION \<or>
        aa_action_type a \<in> {RUN_DIAGNOSTIC, INSTALL_TOOL} \<and> ag_authorization_status s' = ''AUTHORIZED'' \<and>
          resumed s k \<and> aa_approval_state a = Appr_APPROVED \<and> approval_requested w0 reqs w i (aa_id a)))"
proof -
  obtain evs where evs: "task_run w0 evs w" using api_run_task_run [OF assms(1)] by blast
  have w': "w' = after (agent_step i (scope_of targets target_id) platform) w"
    using assms(3) after_answer [of _ w] unfolding step_task_route_def after_def by (metis snd_conv)
  have step: "agent_step i (scope_of targets target_id) platform w =
      (fst (agent_step i (scope_of targets target_id) platform w), w')"
    unfolding w' by (rule run_after)
  have ok: "agents_ok w0" using assms(2) by (rule agents_ok_empty)
  have "agents_ok w" using task_run_good [OF evs ok] by (simp add: agent_good_def)
  show ?thesis
    using step_runs [OF evs assms(2) step]
  proof (elim disjE exE conjE)
    fix s s'
    assume s: "map_of (aw_tasks w) i = Some s" "map_of (aw_tasks w') i = Some s'"
      and r: "rightly_ran (scope_of targets target_id) s s'"
    from r obtain k a where k: "took_up s s' k" "a = ag_actions s' ! k" "scope_of targets target_id \<noteq> None" "in_scope s' a"
      "aa_action_type a = COLLECT_INFORMATION \<or>
       aa_action_type a \<in> {RUN_DIAGNOSTIC, INSTALL_TOOL} \<and> ag_authorization_status s' = ''AUTHORIZED'' \<and>
         resumed s k \<and> aa_approval_state a = Appr_APPROVED \<and> aa_id a \<in> approved_ids s"
      by (rule rightly_ran_cases)
    obtain j scope where j: "target_id = Some j" "targets j = Some scope"
      using k(3) by (auto simp: scope_of_def split: option.splits)
    have "approval_requested w0 reqs w i p" if "p \<in> approved_ids s" for p
      using api_run_approvals [OF assms(1) ok, of i p] that s(1) assms(2) by (simp add: was_approved_def)
    then show ?thesis using j s k(1,2,4,5) by blast
  qed simp
qed

text \<open>What a new task is created as, when it is.\<close>

lemma create_task_status:
  "wp (create_task objective user_request target target_type target_id authorization scope)
     (\<lambda>r w'. case r of Inl e \<Rightarrow> True | Inr s \<Rightarrow> ag_authorization_status s = authorization \<and>
        ag_phase s = (if authorization = ''AUTHORIZED'' then Ph_PLANNING else Ph_WAITING_FOR_AUTHORIZATION))
     (w :: agent_w)"
  by (simp add: create_task_def task_create_def wps Let_def new_task_def)

lemma answer_task_Inr:
  "answer_task m w = (Inr resp, w') \<Longrightarrow>
     \<exists>s. m w = (Inr s, w') \<and> resp = task_response_of s (budget_status (aw_budget w') s)"
  by (auto simp: answer_task_def agent_http_def bnd_def try_except_def raise_def gets_def
      split: prod.splits sum.splits)

text \<open>
  C32. Where a task's authorization comes from: a task created for a target of the table is AUTHORIZED
  exactly when that target is active and not expired at the moment of the request, whatever the client
  claims; for any other request the task has the status the client claims.  It starts planning exactly
  when it is AUTHORIZED.
\<close>

theorem created_authorization:
  fixes w :: agent_w
  assumes "create_task_route targets q w = (Inr resp, w')"
  shows "xt_authorization_status resp =
      (case scope_of targets (cq_target_id q) of
         None \<Rightarrow> cq_authorization_status q
       | Some scope \<Rightarrow>
           if is_authorized_now (rt_clock w (rt_ticks w)) scope then ''AUTHORIZED'' else ''NOT_AUTHORIZED'') \<and>
    xt_phase resp =
      (if xt_authorization_status resp = ''AUTHORIZED'' then Ph_PLANNING else Ph_WAITING_FOR_AUTHORIZATION)"
proof -
  let ?c = "\<lambda>au. create_task (cq_objective q) (cq_user_request q) (cq_target q) (cq_target_type q)
    (cq_target_id q) au (cq_scope q)"
  have made: "xt_authorization_status resp = au \<and> xt_phase resp =
      (if au = ''AUTHORIZED'' then Ph_PLANNING else Ph_WAITING_FOR_AUTHORIZATION)"
    if a: "answer_task (?c au) w1 = (Inr resp, w')" for au w1
  proof -
    obtain s where s: "?c au w1 = (Inr s, w')" "resp = task_response_of s (budget_status (aw_budget w') s)"
      using answer_task_Inr [OF a] by blast
    show ?thesis using wpD [OF create_task_status s(1)] s(2) by (simp add: task_response_of_def)
  qed
  show ?thesis
  proof (cases "scope_of targets (cq_target_id q)")
    case None
    then show ?thesis using assms made [of "cq_authorization_status q" w]
      by (simp add: create_task_route_def request_authorization_def)
  next
    case (Some scope)
    then show ?thesis using assms made by (simp add: create_task_route_def request_authorization_def bnd_bnd)
  qed
qed

section \<open>A sample request\<close>

definition sample_create :: create_request where
  "sample_create = \<lparr>cq_objective = ''Check'', cq_user_request = ''Check it'', cq_target = Some ''host'',
     cq_target_type = None, cq_target_id = None, cq_authorization_status = ''AUTHORIZED'', cq_scope = []\<rparr>"

lemma sample_route:
  "create_task_route targets sample_create = answer_task (create_task ''Check'' ''Check it'' (Some ''host'')
     None None ''AUTHORIZED'' [])"
  by (simp add: create_task_route_def request_authorization_def sample_create_def scope_of_def fun_eq_iff)

lemma sample_api: "api_run (sample_agent_w t) [(\<lambda>_. None, Create_Task sample_create)] (sample_created t)"
proof -
  have "fresh_for (Create_Task sample_create) (sample_agent_w t)"
    by (simp add: fresh_for_def sample_agent_empty)
  from one_request [OF no_request this, of "\<lambda>_. None"]
  show ?thesis by (simp add: sample_route after_answer) (simp add: after_def)
qed

theorem agent_api_safe_witness:
  "os_calls (snd (step_task_route (\<lambda>_. None) 200 (Some 3) ''LINUX'' (sample_created RUN_DIAGNOSTIC))) =
   os_calls (sample_created RUN_DIAGNOSTIC)"
  using agent_api_safe [OF sample_api sample_agent_empty(1) prod.collapse [symmetric],
      where targets = "\<lambda>_. None" and i = 200 and target_id = "Some 3" and platform = "''LINUX''"] by auto

text \<open>Without a target, the status is the one the client claims.\<close>

theorem created_authorization_witness:
  "\<exists>resp. fst (create_task_route (\<lambda>_. None) sample_create (sample_agent_w RUN_DIAGNOSTIC)) = Inr resp \<and>
     xt_authorization_status resp = ''AUTHORIZED'' \<and> xt_phase resp = Ph_PLANNING"
proof -
  obtain r w' where run: "create_task_route (\<lambda>_. None) sample_create (sample_agent_w RUN_DIAGNOSTIC) = (r, w')"
    by (cases "create_task_route (\<lambda>_. None) sample_create (sample_agent_w RUN_DIAGNOSTIC)")
  have "wp (create_task ''Check'' ''Check it'' (Some ''host'') None None ''AUTHORIZED'' [])
      (\<lambda>x w'. \<exists>s. x = Inr s) (sample_agent_w RUN_DIAGNOSTIC)"
    by (simp add: create_task_def task_create_def wps Let_def count_active_def dvalues_def new_task_def
        sample_agent_w_def sample_inst_w_def inst_w.extend_def default_budget_def truthy_def)
  then have "\<exists>resp. r = Inr resp"
    using run unfolding sample_route wp_def
    by (auto simp: answer_task_def agent_http_def bnd_def try_except_def gets_def split: prod.splits)
  then obtain resp where "r = Inr resp" by blast
  with created_authorization [of "\<lambda>_. None" sample_create "sample_agent_w RUN_DIAGNOSTIC" resp w'] run
  show ?thesis by (simp add: sample_create_def scope_of_def)
qed

end
