(* ===== verification/Memory.thy ===== *)
theory Memory
  imports Terminal
begin

text \<open>
  \<^verbatim>\<open>services/agent_orchestrator/memory.py\<close>: the long-term store of preferences, which refuses what looks
  like a secret.
\<close>

section \<open>The patterns\<close>

definition MEMORY_SECRET_KEY_PATTERN :: rx where
  "MEMORY_SECRET_KEY_PATTERN =
     RAlt (lits [''secret'', ''token'', ''password'', ''passwd''])
       (RAlt (RSeq (RLit ''api'') (RSeq rx_opt_sep (RLit ''key'')))
         (RAlt (RSeq (RLit ''private'') (RSeq rx_opt_sep (RLit ''key'')))
           (RAlt (lits [''credential'', ''cookie'']) (RSeq (RLit ''_key'') REnd))))"

definition char_range :: "char \<Rightarrow> char \<Rightarrow> char \<Rightarrow> bool" where
  "char_range a b c \<longleftrightarrow> byte a \<le> byte c \<and> byte c \<le> byte b"

definition upper_digit :: "char \<Rightarrow> bool" where
  "upper_digit c \<longleftrightarrow> char_range CHR ''0'' CHR ''9'' c \<or> char_range CHR ''A'' CHR ''Z'' c"

definition alpha_digit :: "char \<Rightarrow> bool" where
  "alpha_digit c \<longleftrightarrow> upper_digit c \<or> char_range CHR ''a'' CHR ''z'' c"

definition SECRET_VALUE_PATTERN :: rx where
  "SECRET_VALUE_PATTERN =
     RAlt (RSeq (RLit ''AKIA'') (RMany 16 (Some 16) upper_digit))
       (RAlt (RSeq (RLit ''ghp_'') (RMany 36 (Some 36) alpha_digit))
         (RAlt (RSeq (RLit ''sk-'') (RMany 20 None alpha_digit))
           (RSeq (RLit ''-----BEGIN '')
             (RSeq (RMany 0 None (\<lambda>c. char_range CHR ''A'' CHR ''Z'' c \<or> c = CHR '' ''))
               (RLit ''PRIVATE KEY-----'')))))"

definition memory_secret_key :: "string \<Rightarrow> bool" where
  "memory_secret_key k \<longleftrightarrow> re_found MEMORY_SECRET_KEY_PATTERN (lower k)"

definition secret_value :: "string \<Rightarrow> bool" where
  "secret_value v \<longleftrightarrow> re_found SECRET_VALUE_PATTERN v"

definition reject_if_secret_shaped :: "string \<Rightarrow> string \<Rightarrow> exn + unit" where
  "reject_if_secret_shaped key v =
     (if memory_secret_key key then
        Inl (MemoryRejectedError (''Refusing to store secret-shaped key '' @ quoted key @ '' in agent memory.''))
      else if secret_value v then
        Inl (MemoryRejectedError ''Refusing to store a secret-shaped value in agent memory.'')
      else Inr ())"

section \<open>The store\<close>

type_synonym memory_store = "((string \<times> string) \<times> string) list"

definition memory_get :: "string \<Rightarrow> string \<Rightarrow> memory_store \<Rightarrow> string option" where
  "memory_get project_id key d = map_of d (project_id, key)"

definition memory_set :: "string \<Rightarrow> string \<Rightarrow> string \<Rightarrow> memory_store \<Rightarrow> (exn + unit) \<times> memory_store" where
  "memory_set project_id key v =
     bnd (liftS (reject_if_secret_shaped key v)) (\<lambda>_. modify (\<lambda>d. dset (project_id, key) v d))"

definition memory_keys :: "string \<Rightarrow> memory_store \<Rightarrow> string list" where
  "memory_keys project_id d = map (snd \<circ> fst) (filter (\<lambda>kv. fst (fst kv) = project_id) d)"

section \<open>No secrets\<close>

text \<open>The writes one after another, whatever becomes of each.\<close>

fun memory_writes :: "(string \<times> string \<times> string) list \<Rightarrow> memory_store \<Rightarrow> memory_store" where
  "memory_writes [] d = d"
| "memory_writes ((p, k, v) # ws) d = memory_writes ws (snd (memory_set p k v d))"

definition clean_store :: "memory_store \<Rightarrow> bool" where
  "clean_store d \<longleftrightarrow> wf_dict d \<and> (\<forall>((p, k), v) \<in> set d. \<not> memory_secret_key k \<and> \<not> secret_value v)"

lemma memory_set_cases:
  "memory_set p k v d =
     (if memory_secret_key k \<or> secret_value v
      then (Inl (case reject_if_secret_shaped k v of Inl e \<Rightarrow> e), d) else (Inr (), dset (p, k) v d))"
  by (simp add: memory_set_def reject_if_secret_shaped_def modify_def bnd_def liftS_def)

lemma set_update_subset: "set (dset k v d) \<subseteq> insert (k, v) (set d)"
  by (induction d) auto

lemma clean_set: "clean_store d \<Longrightarrow> clean_store (snd (memory_set p k v d))"
  using set_update_subset [of "(p, k)" v d]
  by (auto simp: memory_set_cases clean_store_def wf_dict_update)

lemma clean_writes: "clean_store d \<Longrightarrow> clean_store (memory_writes ws d)"
  by (induction ws d rule: memory_writes.induct) (simp_all add: clean_set)

text \<open>Every name the terminal keeps from a process is refused here, and those of cookies besides.\<close>

lemma memory_secret_key_iff: "memory_secret_key k \<longleftrightarrow> secret_key k \<or> str_in ''cookie'' (lower k)"
  by (auto simp: memory_secret_key_def secret_key_def MEMORY_SECRET_KEY_PATTERN_def SECRET_KEY_PATTERN_def
      re_found_RAlt re_found_lits re_found_RLit)

lemma wf_Nil_store: "clean_store []"
  by (simp add: clean_store_def)

text \<open>
  C27. The memory of the agent: after any writes, whatever they asked for, what the store returns has
  neither a name that the terminal would keep from a process, nor one of a cookie, nor a value of the
  shape of a secret; a write of such a name or value is refused and changes nothing, and any other write
  is what the next read of its key returns, and of no other.
\<close>

theorem memory_safe:
  "(memory_get p k (memory_writes ws []) = Some v \<longrightarrow>
      \<not> secret_key k \<and> \<not> str_in ''cookie'' (lower k) \<and> \<not> secret_value v) \<and>
   (secret_key k \<or> str_in ''cookie'' (lower k) \<or> secret_value v \<longrightarrow>
      (\<exists>m. memory_set p k v d = (Inl (MemoryRejectedError m), d))) \<and>
   (\<not> secret_key k \<and> \<not> str_in ''cookie'' (lower k) \<and> \<not> secret_value v \<longrightarrow>
      fst (memory_set p k v d) = Inr () \<and>
      memory_get p' k' (snd (memory_set p k v d)) =
        (if p' = p \<and> k' = k then Some v else memory_get p' k' d))"
proof (intro conjI impI)
  assume "memory_get p k (memory_writes ws []) = Some v"
  then have "((p, k), v) \<in> set (memory_writes ws [])" by (auto simp: memory_get_def dest: map_of_SomeD)
  then have "\<not> memory_secret_key k \<and> \<not> secret_value v"
    using clean_writes [OF wf_Nil_store, of ws] by (auto simp: clean_store_def)
  then show "\<not> secret_key k" "\<not> str_in ''cookie'' (lower k)" "\<not> secret_value v"
    by (auto simp: memory_secret_key_iff)
next
  assume "secret_key k \<or> str_in ''cookie'' (lower k) \<or> secret_value v"
  then show "\<exists>m. memory_set p k v d = (Inl (MemoryRejectedError m), d)"
    unfolding memory_set_cases by (auto simp: memory_secret_key_iff reject_if_secret_shaped_def)
next
  assume "\<not> secret_key k \<and> \<not> str_in ''cookie'' (lower k) \<and> \<not> secret_value v"
  then show "fst (memory_set p k v d) = Inr ()"
    "memory_get p' k' (snd (memory_set p k v d)) = (if p' = p \<and> k' = k then Some v else memory_get p' k' d)"
    by (auto simp: memory_set_cases memory_secret_key_iff memory_get_def map_of_update)
qed

lemma memory_safe_witness:
  "memory_get ''p'' ''format'' (snd (memory_set ''p'' ''format'' ''pdf'' [])) = Some ''pdf'' \<and>
   (\<exists>m. memory_set ''p'' ''API_KEY'' ''x'' [] = (Inl (MemoryRejectedError m), []))"
proof -
  have "\<not> memory_secret_key ''format''" by code_simp
  then have f: "\<not> secret_key ''format''" "\<not> str_in ''cookie'' (lower ''format'')"
    by (simp_all add: memory_secret_key_iff)
  have "secret_key ''API_KEY''" by code_simp
  moreover have "\<not> secret_value ''pdf''" by code_simp
  ultimately show ?thesis
    using memory_safe [of "''p''" "''format''" "[]" "''pdf''" "[]" "''p''" "''format''"] f
      memory_safe [of "''p''" "''API_KEY''" "[]" "''x''" "[]"] by simp
qed

end
