(* ===== verification/Voice.thy ===== *)
theory Voice
  imports Errors Runtime
begin

text \<open>
  \<^verbatim>\<open>services/agent_orchestrator/voice.py\<close>: the state of a voice session.  The providers of speech are
  parameters: what a chunk of audio is heard as, and what a text sounds like.
\<close>

section \<open>Sessions\<close>

datatype voice_state =
  V_LISTENING | V_THINKING | V_EXECUTING | V_SPEAKING | V_INTERRUPTED | V_ERROR | V_IDLE

record transcription =
  tx_text :: string
  tx_confidence :: rat
  tx_is_final :: bool

record voice_session =
  vo_id :: uuid
  vo_task_id :: "uuid option"
  vo_state :: voice_state
  vo_last_transcript :: "string option"
  vo_created_at :: time
  vo_updated_at :: time

record voice_w = runtime +
  vw_sessions :: "(uuid \<times> voice_session) list"
  vw_hears :: "string \<Rightarrow> transcription"
  vw_speaks :: "string \<Rightarrow> string"

definition null_hears :: "string \<Rightarrow> transcription" where
  "null_hears audio_chunk = \<lparr>tx_text = [], tx_confidence = 0, tx_is_final = True\<rparr>"

definition null_speaks :: "string \<Rightarrow> string" where
  "null_speaks text = []"

definition put_voice :: "voice_session \<Rightarrow> ('m voice_w_scheme, unit) prog" where
  "put_voice s = modify (\<lambda>w. w\<lparr>vw_sessions := dset (vo_id s) s (vw_sessions w)\<rparr>)"

definition start_listening :: "uuid option \<Rightarrow> ('m voice_w_scheme, voice_session) prog" where
  "start_listening task_id =
     bnd uuid4 (\<lambda>i. bnd now (\<lambda>created. bnd now (\<lambda>updated.
     let s = \<lparr>vo_id = i, vo_task_id = task_id, vo_state = V_LISTENING, vo_last_transcript = None,
           vo_created_at = created, vo_updated_at = updated\<rparr>
     in sq (put_voice s) (ret s))))"

definition require_voice :: "uuid \<Rightarrow> ('m voice_w_scheme, voice_session) prog" where
  "require_voice sid =
     bnd (gets (\<lambda>w. map_of (vw_sessions w) sid)) (\<lambda>found. case found of
       None \<Rightarrow> raise (KeyError (''Voice session '' @ uuid_str sid @ '' does not exist.''))
     | Some s \<Rightarrow> ret s)"

definition set_voice_state :: "voice_state \<Rightarrow> uuid \<Rightarrow> ('m voice_w_scheme, voice_session) prog" where
  "set_voice_state st sid =
     bnd (require_voice sid) (\<lambda>s. bnd now (\<lambda>t.
     let s' = s\<lparr>vo_state := st, vo_updated_at := t\<rparr> in sq (put_voice s') (ret s')))"

definition stop_listening :: "uuid \<Rightarrow> ('m voice_w_scheme, voice_session) prog" where
  "stop_listening = set_voice_state V_THINKING"

definition mark_executing :: "uuid \<Rightarrow> ('m voice_w_scheme, voice_session) prog" where
  "mark_executing = set_voice_state V_EXECUTING"

definition mark_speaking :: "uuid \<Rightarrow> ('m voice_w_scheme, voice_session) prog" where
  "mark_speaking = set_voice_state V_SPEAKING"

definition interrupt_voice :: "uuid \<Rightarrow> ('m voice_w_scheme, voice_session) prog" where
  "interrupt_voice = set_voice_state V_INTERRUPTED"

definition cancel_voice :: "uuid \<Rightarrow> ('m voice_w_scheme, voice_session) prog" where
  "cancel_voice = set_voice_state V_IDLE"

definition mark_error :: "uuid \<Rightarrow> ('m voice_w_scheme, voice_session) prog" where
  "mark_error = set_voice_state V_ERROR"

definition transcribe :: "uuid \<Rightarrow> string \<Rightarrow> ('m voice_w_scheme, transcription) prog" where
  "transcribe sid audio_chunk =
     bnd (require_voice sid) (\<lambda>s. bnd (gets (\<lambda>w. vw_hears w audio_chunk)) (\<lambda>result. bnd now (\<lambda>t.
     sq (put_voice (s\<lparr>vo_last_transcript := Some (tx_text result), vo_updated_at := t\<rparr>)) (ret result))))"

definition speak :: "uuid \<Rightarrow> string \<Rightarrow> ('m voice_w_scheme, string) prog" where
  "speak sid text = bnd (mark_speaking sid) (\<lambda>_. gets (\<lambda>w. vw_speaks w text))"

section \<open>Against the calls\<close>

datatype voice_call =
    Stop_Listening | Mark_Executing | Mark_Speaking | Interrupt | Cancel_Voice | Mark_Error
  | Transcribe string
  | Speak string

text \<open>One call on a session; what it returns is not looked at.\<close>

definition forget :: "('w, 'a) prog \<Rightarrow> ('w, unit) prog" where
  "forget m = bnd m (\<lambda>_. ret ())"

fun voice_do :: "voice_call \<Rightarrow> uuid \<Rightarrow> ('m voice_w_scheme, unit) prog" where
  "voice_do Stop_Listening sid = forget (stop_listening sid)"
| "voice_do Mark_Executing sid = forget (mark_executing sid)"
| "voice_do Mark_Speaking sid = forget (mark_speaking sid)"
| "voice_do Interrupt sid = forget (interrupt_voice sid)"
| "voice_do Cancel_Voice sid = forget (cancel_voice sid)"
| "voice_do Mark_Error sid = forget (mark_error sid)"
| "voice_do (Transcribe audio) sid = forget (transcribe sid audio)"
| "voice_do (Speak text) sid = forget (speak sid text)"

fun voice_calls :: "(uuid \<times> voice_call) list \<Rightarrow> 'm voice_w_scheme \<Rightarrow> 'm voice_w_scheme" where
  "voice_calls [] w = w"
| "voice_calls ((sid, c) # cs) w = voice_calls cs (snd (voice_do c sid w))"

text \<open>The abstract machine of one session: its state and what was last heard.\<close>

fun next_state :: "(string \<Rightarrow> transcription) \<Rightarrow> voice_call \<Rightarrow> voice_state \<times> string option \<Rightarrow> voice_state \<times> string option" where
  "next_state hears Stop_Listening (st, heard) = (V_THINKING, heard)"
| "next_state hears Mark_Executing (st, heard) = (V_EXECUTING, heard)"
| "next_state hears Mark_Speaking (st, heard) = (V_SPEAKING, heard)"
| "next_state hears Interrupt (st, heard) = (V_INTERRUPTED, heard)"
| "next_state hears Cancel_Voice (st, heard) = (V_IDLE, heard)"
| "next_state hears Mark_Error (st, heard) = (V_ERROR, heard)"
| "next_state hears (Transcribe audio) (st, heard) = (st, Some (tx_text (hears audio)))"
| "next_state hears (Speak text) (st, heard) = (V_SPEAKING, heard)"

definition voice_view :: "voice_session \<Rightarrow> voice_state \<times> string option" where
  "voice_view s = (vo_state s, vo_last_transcript s)"

definition voice_of :: "uuid \<Rightarrow> 'm voice_w_scheme \<Rightarrow> (voice_state \<times> string option) option" where
  "voice_of sid w = map_option voice_view (map_of (vw_sessions w) sid)"

definition calls_on :: "uuid \<Rightarrow> (uuid \<times> voice_call) list \<Rightarrow> voice_call list" where
  "calls_on sid cs = map snd (filter (\<lambda>c. fst c = sid) cs)"

definition voice_wf :: "'m voice_w_scheme \<Rightarrow> bool" where
  "voice_wf w \<longleftrightarrow> (\<forall>i s. map_of (vw_sessions w) i = Some s \<longrightarrow> vo_id s = i)"

lemma fst_forget [simp]: "fst (forget m w) = map_sum id (\<lambda>_. ()) (fst (m w))"
  by (simp add: forget_def bnd_def ret_def split: prod.splits sum.splits)

lemma snd_forget [simp]: "snd (forget m w) = snd (m w)"
  by (simp add: forget_def bnd_def ret_def split: prod.splits sum.splits)

lemma require_voice_none: "map_of (vw_sessions w) sid = None \<Longrightarrow>
    bnd (require_voice sid) f w = (Inl (KeyError (''Voice session '' @ uuid_str sid @ '' does not exist.'')), w)"
  by (simp add: require_voice_def bnd_bnd)

lemma require_voice_some: "map_of (vw_sessions w) sid = Some s \<Longrightarrow> bnd (require_voice sid) f w = f s w"
  by (simp add: require_voice_def bnd_bnd)

lemmas voice_ops = stop_listening_def mark_executing_def mark_speaking_def interrupt_voice_def
  cancel_voice_def mark_error_def set_voice_state_def transcribe_def speak_def put_voice_def Let_def

lemma voice_do_none:
  assumes "map_of (vw_sessions w) sid = None"
  shows "voice_do c sid w = (Inl (KeyError (''Voice session '' @ uuid_str sid @ '' does not exist.'')), w)"
  by (cases c) (simp_all add: forget_def voice_ops bnd_bnd require_voice_none [OF assms])

lemma set_voice_state_some:
  assumes "map_of (vw_sessions w) sid = Some s"
  shows "set_voice_state st sid w =
    (let s' = s\<lparr>vo_state := st, vo_updated_at := rt_clock w (rt_ticks w)\<rparr>
     in (Inr s', w\<lparr>rt_ticks := Suc (rt_ticks w), vw_sessions := dset (vo_id s) s' (vw_sessions w)\<rparr>))"
  by (simp add: set_voice_state_def require_voice_some [OF assms] put_voice_def Let_def ret_def)

lemma transcribe_some:
  assumes "map_of (vw_sessions w) sid = Some s"
  shows "transcribe sid audio w =
    (let s' = s\<lparr>vo_last_transcript := Some (tx_text (vw_hears w audio)),
       vo_updated_at := rt_clock w (rt_ticks w)\<rparr>
     in (Inr (vw_hears w audio),
       w\<lparr>rt_ticks := Suc (rt_ticks w), vw_sessions := dset (vo_id s) s' (vw_sessions w)\<rparr>))"
  by (simp add: transcribe_def require_voice_some [OF assms] put_voice_def Let_def ret_def)

lemma speak_some:
  assumes "map_of (vw_sessions w) sid = Some s"
  shows "speak sid text w =
    (let s' = s\<lparr>vo_state := V_SPEAKING, vo_updated_at := rt_clock w (rt_ticks w)\<rparr>
     in (Inr (vw_speaks w text),
       w\<lparr>rt_ticks := Suc (rt_ticks w), vw_sessions := dset (vo_id s) s' (vw_sessions w)\<rparr>))"
  by (simp add: speak_def mark_speaking_def bnd_def set_voice_state_some [OF assms] Let_def gets_def)

lemma voice_do_some:
  assumes "map_of (vw_sessions w) sid = Some s" and "voice_wf w"
  shows "fst (voice_do c sid w) = Inr () \<and>
    (\<exists>s'. vw_sessions (snd (voice_do c sid w)) = dset sid s' (vw_sessions w) \<and> vo_id s' = sid \<and>
      voice_view s' = next_state (vw_hears w) c (voice_view s)) \<and>
    vw_hears (snd (voice_do c sid w)) = vw_hears w"
proof -
  have "vo_id s = sid" using assms by (simp add: voice_wf_def)
  then show ?thesis
    by (cases c) (auto simp: stop_listening_def mark_executing_def mark_speaking_def interrupt_voice_def
        cancel_voice_def mark_error_def set_voice_state_some [OF assms(1)] transcribe_some [OF assms(1)]
        speak_some [OF assms(1)] voice_view_def Let_def)
qed

lemma voice_do_step:
  assumes "voice_wf w"
  shows "voice_wf (snd (voice_do c sid w)) \<and> vw_hears (snd (voice_do c sid w)) = vw_hears w \<and>
    voice_of j (snd (voice_do c sid w)) =
      (if j = sid then map_option (next_state (vw_hears w) c) (voice_of j w) else voice_of j w)"
proof (cases "map_of (vw_sessions w) sid")
  case None
  then show ?thesis using assms by (auto simp: voice_do_none voice_of_def)
next
  case (Some s)
  from voice_do_some [OF Some assms, of c] obtain s' where
    s': "vw_sessions (snd (voice_do c sid w)) = dset sid s' (vw_sessions w)" "vo_id s' = sid"
      "voice_view s' = next_state (vw_hears w) c (voice_view s)"
      "vw_hears (snd (voice_do c sid w)) = vw_hears w" by blast
  then show ?thesis using assms Some by (auto simp: voice_wf_def voice_of_def map_of_update)
qed

text \<open>
  C26. Voice sessions refine their state machine: after any calls on any sessions, each session is in the
  state, and remembers the transcript, that the abstract machine reaches on the calls of that session
  alone; and a call on a session that does not exist is an error that changes nothing.
\<close>

theorem voice_refines:
  assumes "voice_wf w"
  shows "voice_of sid (voice_calls cs w) =
      map_option (fold (next_state (vw_hears w)) (calls_on sid cs)) (voice_of sid w) \<and>
    (voice_of sid w = None \<longrightarrow>
       (\<exists>m. voice_do c sid w = (Inl (KeyError m), w)))"
proof
  show "voice_of sid (voice_calls cs w) =
      map_option (fold (next_state (vw_hears w)) (calls_on sid cs)) (voice_of sid w)"
    using assms
  proof (induction cs arbitrary: w)
    case Nil
    then show ?case by (simp add: calls_on_def option.map_ident)
  next
    case (Cons x cs)
    obtain i c where x: "x = (i, c)" by (cases x)
    note step = voice_do_step [OF Cons.prems, of c i]
    show ?case
      using Cons.IH [of "snd (voice_do c i w)"] step [of sid] x
      by (simp add: calls_on_def option.map_comp comp_def)
  qed
  show "voice_of sid w = None \<longrightarrow> (\<exists>m. voice_do c sid w = (Inl (KeyError m), w))"
    using voice_do_none by (auto simp: voice_of_def)
qed

definition sample_voice :: voice_w where
  "sample_voice = snd (start_listening None \<lparr>rt_clock = (\<lambda>n. int n), rt_ticks = 0, rt_uuid = (\<lambda>n. 7 + n),
     rt_uuids = 0, vw_sessions = [], vw_hears = null_hears, vw_speaks = null_speaks\<rparr>)"

lemma sample_voice_facts:
  "voice_wf sample_voice" "voice_of 7 sample_voice = Some (V_LISTENING, None)" "vw_hears sample_voice = null_hears"
  by (simp_all add: sample_voice_def start_listening_def put_voice_def Let_def ret_def voice_wf_def voice_of_def
      voice_view_def)

lemma voice_refines_witness:
  "voice_of 7 (voice_calls [(7, Transcribe ''audio''), (7, Stop_Listening), (8, Mark_Error)] sample_voice) =
     Some (V_THINKING, Some [])"
  by (simp only: voice_refines [OF sample_voice_facts(1), THEN conjunct1] sample_voice_facts)
    (simp add: calls_on_def null_hears_def)

end
