(* ===== verification/Recovery.thy ===== *)
theory Recovery
  imports Process
begin

text \<open>
  \<^verbatim>\<open>services/terminal/recovery/classifier.py\<close>: the class of an error, from signatures in what a command wrote.
\<close>

datatype error_class =
    MISSING_DEPENDENCY | WRONG_VERSION | MISSING_EXECUTABLE | EC_PERMISSION_DENIED | PLATFORM_MISMATCH
  | INSTALL_FAILURE | EC_TIMEOUT | EC_UNKNOWN

record classified_error =
  ce_error_class :: error_class
  ce_confidence :: rat
  ce_evidence :: string

definition SIGNATURES :: "(error_class \<times> string list) list" where
  "SIGNATURES =
     [(MISSING_EXECUTABLE, [''command not found'', ''no such file or directory'', ''not recognized as'']),
      (EC_PERMISSION_DENIED, [''permission denied'', ''access is denied'']),
      (MISSING_DEPENDENCY, [''modulenotfounderror'', ''no module named'', ''cannot find package'']),
      (EC_TIMEOUT, [''execution timed out''])]"

definition error_text :: "execution_result \<Rightarrow> string" where
  "error_text r = lower (ostr_or (er_stderr r) [] @ newline @ ostr_or (er_stdout r) [])"

fun first_signature :: "string \<Rightarrow> (error_class \<times> string list) list \<Rightarrow> classified_error" where
  "first_signature haystack [] = \<lparr>ce_error_class = EC_UNKNOWN, ce_confidence = 0, ce_evidence = []\<rparr>"
| "first_signature haystack ((c, needles) # sigs) =
     (case find (\<lambda>needle. str_in needle haystack) needles of
        Some needle \<Rightarrow> \<lparr>ce_error_class = c, ce_confidence = 7 / 10, ce_evidence = needle\<rparr>
      | None \<Rightarrow> first_signature haystack sigs)"

definition classify_result :: "execution_result \<Rightarrow> classified_error" where
  "classify_result r = first_signature (error_text r) SIGNATURES"

lemma first_signature_cases:
  "(\<exists>needles. (ce_error_class (first_signature h sigs), needles) \<in> set sigs \<and>
      ce_evidence (first_signature h sigs) \<in> set needles \<and> str_in (ce_evidence (first_signature h sigs)) h) \<or>
   ce_error_class (first_signature h sigs) = EC_UNKNOWN \<and> ce_confidence (first_signature h sigs) = 0 \<and>
     (\<forall>(c, needles) \<in> set sigs. \<forall>n \<in> set needles. \<not> str_in n h)"
proof (induction sigs)
  case (Cons s sigs)
  obtain c needles where s: "s = (c, needles)" by (cases s)
  show ?case
  proof (cases "find (\<lambda>needle. str_in needle h) needles")
    case None
    then have "\<forall>n \<in> set needles. \<not> str_in n h" by (simp add: find_None_iff)
    then show ?thesis using Cons s None by auto
  next
    case (Some n)
    then have "n \<in> set needles" "str_in n h" by (auto simp: find_Some_iff)
    then show ?thesis using Some s by auto
  qed
qed simp

text \<open>
  A class other than unknown is backed by one of its signatures in what the command wrote, in any case;
  an unknown error shows none of any class.
\<close>

theorem classify_result_sound:
  "(ce_error_class (classify_result r) \<noteq> EC_UNKNOWN \<longrightarrow>
     (\<exists>needles. (ce_error_class (classify_result r), needles) \<in> set SIGNATURES \<and>
        ce_evidence (classify_result r) \<in> set needles \<and> str_in (ce_evidence (classify_result r)) (error_text r))) \<and>
   (ce_error_class (classify_result r) = EC_UNKNOWN \<longrightarrow>
     (\<forall>(c, needles) \<in> set SIGNATURES. \<forall>n \<in> set needles. \<not> str_in n (error_text r)))"
proof -
  have "\<not> (\<exists>needles. (EC_UNKNOWN, needles) \<in> set SIGNATURES)" by (simp add: SIGNATURES_def)
  then show ?thesis
    using first_signature_cases [of "error_text r" SIGNATURES] unfolding classify_result_def by (elim disjE) auto
qed

end
