(* ===== verification/Spec2Isabelle.thy ===== *)
theory Spec2Isabelle
  imports Connector_Lifecycle Registry_Storage Chat_Lifecycle Install_Routes Agent_Routes Memory Voice
    Recovery
begin

text \<open>
  A verification library for the services of Cyber AI System, an assistant that plans and runs
  authorized security work.  The program is written in Python; the models are translated from
  \<^verbatim>\<open>services/\<close>, \<^verbatim>\<open>apps/api/app/\<close> and \<^verbatim>\<open>apps/termux_connector/\<close> under \<^verbatim>\<open>src/\<close>.

  The parts and how they interact.  A client talks to the routes of the API.  The terminal routes ask
  the policy engine about a target and a reviewed kind of action and give a command from the templates to
  the terminal engine, which gates it again, runs it through an adapter of the platform, and audits it.
  The tool registry holds what may be installed: tools are discovered, registered, verified and
  approved.  The installation service plans and runs their installation through the terminal engine.
  The agent orchestrator advances a task one action at a time: it asks the provider for a decision,
  gates it, waits for approvals, and acts through the installation service and the terminal engine; the
  self-healing engine diagnoses failures for it.  The Termux connection runs commands on a phone: a device
  is paired and authenticated, the connection manager sends it commands and collects the answers, and
  the connector on the phone runs them.  The chat turns a message of the user into a validated plan.  The
  registries of tools, installations and tasks also exist over a database.

  The representation (Prelude, Effects, Errors, Runtime, Pystd, Regex, Uuid_Text, Iso_Time, Json).  A text
  is its UTF-8 encoding as a list of characters; dictionaries are association lists in insertion order;
  unbounded integers are integers; a float is an exact rational, rounded to the nearest double where the
  program prints or parses it; a time is an integer of microseconds.  A handler is a function from a
  state to an exception or a value, with the state at that point; the exceptions of every package are
  values of one type.  The clock, the fresh identifiers, the operating system, the network, the providers
  of the model and the database tables are parameters or oracles in the state: what a process does, what a
  provider answers on its n-th call, what the clock shows at its n-th reading.  \<open>wp\<close> is the weakest
  precondition of a handler, total over exceptions; the locale \<open>step_rel\<close> is the contract of a relation
  kept by handlers, and each component interprets it on the relations its proofs rest on; the locale
  \<open>keyed_store\<close> is the contract of a dictionary.  Pystd, Iso_Time, Uuid_Text and Json model what is used of
  the standard library: formatting of floats, \<^verbatim>\<open>isoformat\<close> and \<^verbatim>\<open>fromisoformat\<close>, \<^verbatim>\<open>UUID\<close>,
  \<^verbatim>\<open>json.loads\<close>.

  The terminal (\<^verbatim>\<open>services/terminal\<close>, \<^verbatim>\<open>services/policy\<close>).  Policy: the verdict of the policy engine.
  Templates: the only source of argument vectors.  Terminal: platforms, requests, results, the checks of
  arguments, directories and environments.  Process: reading output under a cap, terminating a process
  group, with a table of the processes of the system to say what survives, and the adapters of Linux, macOS, Windows and the phone over one template.  Sessions: the session
  manager.  Engine: \<open>execute\<close>, cut at the await of the adapter, so that Engine_Steps can interleave the
  pieces of any number of requests in a step relation; its invariant says that every process was
  allowed by a decision and, where needed, a person, and is what the request, the configuration and the
  host permit.  Recovery: the classifier of errors.  Terminal_Routes: the routes; the only way from a
  client to a process.

  Tools (\<^verbatim>\<open>services/tools\<close>).  Tools: records, trust, the verification pipeline, the eligibility gate.
  Tool_Discovery: the curated provider, throttled and cached discovery, proposals.  Tool_Lifecycle: the
  registry, its routes, and the invariant over every sequence of them.

  Installation (\<^verbatim>\<open>services/installation\<close>).  Installation: environments, plans, readiness, verification.
  Install_Service: the operations of the service.  Install_Lifecycle: every reachable request, the bound on
  processes of a start, that no operation begins on a finished request.  Install_Routes: the routes and what any sequence of
  requests of any clients may bring about.

  The agent (\<^verbatim>\<open>services/agent_orchestrator\<close>, \<^verbatim>\<open>services/self_healing\<close>).  Healing: diagnosis, planning,
  the history of attempts.  Agent_Core: tasks, decisions, budgets, the gate, prompts.  Agent: every
  operation of the orchestrator and every action.  Agent_Lifecycle: what every run of the operations keeps:
  budgets, final states, approvals before execution, and that steps come to rest.  Agent_Routes: the
  same for the routes.  Memory and Voice: the long-term store and the voice sessions.

  The phone (\<^verbatim>\<open>services/termux\<close>, \<^verbatim>\<open>apps/api/app/ws/termux_gateway.py\<close>, \<^verbatim>\<open>apps/termux_connector\<close>).
  Pairing: devices, codes, tokens, and the abstract specification they refine.  Termux: the connection
  manager as a state machine over messages.  Termux_Lifecycle: isolation of devices, revocation, the
  bounds of output, and that an answer reaches its command.  Connector: the program on the phone.
  Connector_Lifecycle: what it refuses, and a command end to end, from the server to the phone and back.

  Storage (\<^verbatim>\<open>apps/api/app/db\<close>).  Agent_Store: a task as a JSON snapshot and back.  Agent_Storage: the
  database registry of tasks refines the one in memory or refuses.  Registry_Store and Registry_Storage: the same for
  tools, and what the registry of installations loses.

  The chat (\<^verbatim>\<open>services/agent\<close>, \<^verbatim>\<open>apps/api/app/api/routes/chat.py\<close>).  Chat: the context, the prompts, the
  retries, the pipeline, the route.  Providers: the mock, Gemini, the factory.  Chat_Lifecycle: retries
  against a reference, bounds of what is sent, the text of the user stays in its block, how a turn ends,
  and that the mock provider can answer no chat.

  What the lemmas show.  For each component an invariant that every operation keeps, over every sequence
  of operations (\<open>engine_run\<close>, \<open>inst_run\<close>, \<open>task_run\<close>, \<open>api_run\<close>, \<open>install_api\<close>
  and the runs of devices and connections); the functional result of the operations on each branch, errors
  included; refinement of an abstract specification where the component has one; round trips for
  what is stored; bounds on output, history, retries, attempts and actions; and the end of the loops.

  Bounds and fuel.  No definition runs on fuel: every loop is a recursion with a measure.  Reading a pipe
  recurses on what the process writes, retries on the attempts left, parsing on the text, the agent's
  caller on the list of steps it makes; an agent makes at most two steps more than its budget of actions
  before it rests.

  Assumptions.  The terminal engine and the connector on the phone are cut at their awaits, and what runs
  between two of them is one step.  An operation of the agent, of the installation service or of a registry
  is one step from its beginning to its end; what may go wrong when two of them overlap on one task or
  request is shown beside the theorems that speak of their ends (\<open>suspended_step_overwrites\<close>,
  \<open>suspended_start_overwrites\<close>).  Fresh identifiers are new where a theorem says so.
  Case folding, white space and digits are those of ASCII.  JSON has no NaN or infinities, no numbers
  beyond a double and no limit of depth or digits.  Creating a process is not torn by a cancellation.
  The database may refuse what is committed, and of the tables of tasks and of requests the laws say only
  what an accepted row implies: a new key, known references, and that it is found.  Whether reading a
  relationship that is not loaded raises, as it does on an asynchronous session, is a parameter.  A row of
  the database comes back as it was written, and JSON columns hold plain data; a snapshot field of
  another type than the program writes is a type error.  \<^verbatim>\<open>fromisoformat\<close> is modelled on what
  \<^verbatim>\<open>isoformat\<close> writes.  The library that validates data against a schema, the client of Gemini, SHA-256,
  the random secrets, the sockets, \<^verbatim>\<open>realpath\<close> and the search for executables are parameters.  The table of
  targets is a function from identifiers to scopes, which may differ for each request.

  Not modelled.  The wiring of the application (\<^verbatim>\<open>app/main.py\<close>, \<^verbatim>\<open>app/core\<close> apart from the check of
  the provider, \<^verbatim>\<open>api/router.py\<close>), its logging and its tables as such (\<^verbatim>\<open>db/models.py\<close>, \<^verbatim>\<open>db/session.py\<close>,
  the migrations) only configure libraries; the routes of targets and of health only read or insert rows.
  The broadcast hub \<^verbatim>\<open>ws/gateway.py\<close> is sockets.  \<^verbatim>\<open>services/research\<close> and \<^verbatim>\<open>services/reporting\<close> are
  stubs; the first imports names that do not exist.  Streaming of the providers, the chat branch of the
  mock provider and the schema texts for Gemini have no caller.  The responses of the tool routes and the
  parsing of requests are the framework's.  The web client, the Android client and the tests are not in
  scope.
\<close>

end
